(* ===== verification/Js_Prelude.thy ===== *)
theory Js_Prelude
  imports Complex_Main
begin

section \<open>The JavaScript values and string operations the sources use\<close>

text \<open>
  Shared vocabulary of the development.  Strings are lists of 8-bit characters: a JavaScript
  string is a list of UTF-16 code units, and every string the three source files measure,
  slice or search is made of code units below 256.  Numbers that the sources compute with are
  exact rationals (no rounding is modelled), counters and indices are \<open>nat\<close> or \<open>int\<close>.

  A thrown exception is a value of \<open>js_error\<close>.  A method that changes a state record and may
  throw is an action \<open>'s \<Rightarrow> js_error option \<times> 's\<close>: the state it returns next to an exception is
  the state the exception leaves behind, as in the source, where a handler that throws half-way
  keeps what it has already written.
\<close>

named_theorems js_simps

subsection \<open>Exceptions and actions\<close>

datatype js_error =
    TypeError string
  | PlainError string

fun error_message :: "js_error \<Rightarrow> string" where
  "error_message (TypeError m) = m"
| "error_message (PlainError m) = m"

type_synonym 's act = "'s \<Rightarrow> js_error option \<times> 's"

text \<open>Statements run in order and stop at the first exception.\<close>

fun do_all :: "'s act list \<Rightarrow> 's act" where
  "do_all [] s = (None, s)"
| "do_all (a # as) s = (case a s of (None, s') \<Rightarrow> do_all as s' | (Some e, s') \<Rightarrow> (Some e, s'))"

definition pure_act :: "('s \<Rightarrow> 's) \<Rightarrow> 's act" where
  "pure_act f s = (None, f s)"

definition when_act :: "bool \<Rightarrow> 's act \<Rightarrow> 's act" where
  "when_act b a s = (if b then a s else (None, s))"

lemma pure_act_apply [simp]: "pure_act f s = (None, f s)"
  by (simp add: pure_act_def)

lemma when_act_simps [simp]: "when_act True a = a" "when_act False a = pure_act id"
  by (simp_all add: when_act_def pure_act_def fun_eq_iff)

lemma act_case_id [simp]:
  "(case r of (None, s) \<Rightarrow> (None, s) | (Some e, s) \<Rightarrow> (Some e, s)) = r"
  by (simp split: prod.split option.split)

lemma do_all_append:
  "do_all (as @ bs) s =
     (case do_all as s of (None, s') \<Rightarrow> do_all bs s' | (Some e, s') \<Rightarrow> (Some e, s'))"
  by (induction as arbitrary: s) (auto split: prod.splits option.splits)

lemma do_all_single [simp]: "do_all [a] s = a s"
  by (simp split: prod.split option.split)

lemma do_all_Cons2 [simp]:
  "do_all (a # b # as) s =
     (case a s of (None, s') \<Rightarrow> do_all (b # as) s' | (Some e, s') \<Rightarrow> (Some e, s'))"
  by simp

text \<open>
  The proof rules for a handler: an action \<open>keeps\<close> a property when it throws nothing from a
  state with the property and leaves the property; a sequence of such actions does too.
\<close>

definition keeps :: "('s \<Rightarrow> bool) \<Rightarrow> 's act \<Rightarrow> bool" where
  "keeps P a \<longleftrightarrow> (\<forall>s. P s \<longrightarrow> fst (a s) = None \<and> P (snd (a s)))"

lemma keepsI: "(\<And>s. P s \<Longrightarrow> \<exists>s'. a s = (None, s') \<and> P s') \<Longrightarrow> keeps P a"
  by (fastforce simp: keeps_def)

lemma keepsD: "keeps P a \<Longrightarrow> P s \<Longrightarrow> fst (a s) = None \<and> P (snd (a s))"
  by (simp add: keeps_def)

lemma keepsE:
  assumes "keeps P a" "P s"
  obtains s' where "a s = (None, s')" "P s'"
  using keepsD [OF assms] by (cases "a s") auto

lemma keeps_pureI: "(\<And>s. P s \<Longrightarrow> P (f s)) \<Longrightarrow> keeps P (pure_act f)"
  by (simp add: keeps_def)

lemma keeps_do_all: "list_all (keeps P) as \<Longrightarrow> keeps P (do_all as)"
proof (induction as)
  case Nil
  then show ?case by (simp add: keeps_def)
next
  case (Cons a as)
  then have a: "keeps P a" and as: "keeps P (do_all as)" by simp_all
  show ?case
  proof (rule keepsI)
    fix s assume "P s"
    then obtain s' where "a s = (None, s')" "P s'" using keepsE [OF a] by blast
    moreover obtain s'' where "do_all as s' = (None, s'')" "P s''" using keepsE [OF as \<open>P s'\<close>] by blast
    ultimately show "\<exists>s'. do_all (a # as) s = (None, s') \<and> P s'" by simp
  qed
qed

text \<open>The same when an action may throw: what a state that was left behind still has.\<close>

definition saves :: "('s \<Rightarrow> bool) \<Rightarrow> 's act \<Rightarrow> bool" where
  "saves P a \<longleftrightarrow> (\<forall>s. P s \<longrightarrow> P (snd (a s)))"

lemma savesI: "(\<And>s. P s \<Longrightarrow> P (snd (a s))) \<Longrightarrow> saves P a"
  by (simp add: saves_def)

lemma savesD: "saves P a \<Longrightarrow> P s \<Longrightarrow> P (snd (a s))"
  by (simp add: saves_def)

lemma saves_pureI: "(\<And>s. P s \<Longrightarrow> P (f s)) \<Longrightarrow> saves P (pure_act f)"
  by (simp add: saves_def)

lemma saves_when: "saves P a \<Longrightarrow> saves P (when_act b a)"
  by (simp add: saves_def when_act_def)

lemma saves_do_all: "list_all (saves P) as \<Longrightarrow> saves P (do_all as)"
proof (induction as)
  case (Cons a as)
  then have a: "saves P a" and as: "saves P (do_all as)" by simp_all
  show ?case
  proof (rule savesI)
    fix s assume "P s"
    then have "P (snd (a s))" using savesD [OF a] by blast
    then show "P (snd (do_all (a # as) s))"
      using savesD [OF as] by (cases "a s"; cases "fst (a s)") auto
  qed
qed (simp add: saves_def)

declare do_all.simps(2) [simp del]

subsection \<open>Truthiness and optional properties\<close>

text \<open>A missing property and the empty string are both falsy.\<close>

fun truthy :: "string option \<Rightarrow> bool" where
  "truthy (Some s) = (s \<noteq> [])"
| "truthy None = False"

text \<open>\<open>a || b\<close> on optional strings.\<close>

definition or_else :: "string option \<Rightarrow> string option \<Rightarrow> string option" where
  "or_else a b = (if truthy a then a else b)"

lemma truthy_iff: "truthy x \<longleftrightarrow> (\<exists>s. x = Some s \<and> s \<noteq> [])"
  by (cases x) auto

subsection \<open>Characters\<close>

definition code :: "char \<Rightarrow> nat" where
  "code c = of_char c"

text \<open>The characters of \<open>\s\<close> below 256: tab to carriage return, space, no-break space.\<close>

definition is_space :: "char \<Rightarrow> bool" where
  "is_space c \<longleftrightarrow> (9 \<le> code c \<and> code c \<le> 13) \<or> code c = 32 \<or> code c = 160"

text \<open>\<open>toLowerCase\<close> below 256: ASCII capitals and the Latin-1 capitals (215 is the times sign).\<close>

definition lower_char :: "char \<Rightarrow> char" where
  "lower_char c =
     (if (65 \<le> code c \<and> code c \<le> 90) \<or> (192 \<le> code c \<and> code c \<le> 222 \<and> code c \<noteq> 215)
      then char_of (code c + 32) else c)"

definition js_lower :: "string \<Rightarrow> string" where
  "js_lower = map lower_char"

lemma code_less: "code c < 256"
  by (simp add: code_def)

lemma code_char_of [simp]: "n < 256 \<Longrightarrow> code (char_of n) = n"
  by (simp add: code_def)

lemma code_inject: "code c = code d \<longleftrightarrow> c = d"
  by (simp add: code_def)

lemma lower_char_idem [simp]: "lower_char (lower_char c) = lower_char c"
proof -
  consider "65 \<le> code c" "code c \<le> 90"
    | "192 \<le> code c" "code c \<le> 222" "code c \<noteq> 215"
    | "lower_char c = c"
    unfolding lower_char_def by fastforce
  then show ?thesis
    by cases (simp_all add: lower_char_def)
qed

lemma js_lower_idem [simp]: "js_lower (js_lower s) = js_lower s"
  by (simp add: js_lower_def)

lemma js_lower_append [simp]: "js_lower (s @ t) = js_lower s @ js_lower t"
  by (simp add: js_lower_def)

subsection \<open>Decimal text of a counter\<close>

fun nat_str :: "nat \<Rightarrow> string" where
  "nat_str n = (if n < 10 then [char_of (48 + n)]
     else nat_str (n div 10) @ [char_of (48 + n mod 10)])"

declare nat_str.simps [simp del]

definition int_str :: "int \<Rightarrow> string" where
  "int_str i = (if i < 0 then ''-'' @ nat_str (nat (- i)) else nat_str (nat i))"

text \<open>Reading the digits back.\<close>

definition digit_val :: "char \<Rightarrow> nat" where
  "digit_val c = code c - 48"

definition read_nat :: "string \<Rightarrow> nat" where
  "read_nat = foldl (\<lambda>n c. 10 * n + digit_val c) 0"

lemma read_nat_snoc: "read_nat (s @ [c]) = 10 * read_nat s + digit_val c"
  by (simp add: read_nat_def)

lemma digit_val_digit: "(k::nat) < 10 \<Longrightarrow> digit_val (char_of (48 + k)) = k"
  by (simp add: digit_val_def)

lemma read_nat_str: "read_nat (nat_str n) = n"
proof (induction n rule: nat_str.induct)
  case (1 n)
  show ?case
  proof (cases "n < 10")
    case True
    then show ?thesis
      using read_nat_snoc [of "[]"] by (simp add: nat_str.simps digit_val_digit read_nat_def)
  next
    case False
    then have "nat_str n = nat_str (n div 10) @ [char_of (48 + n mod 10)]"
      by (subst nat_str.simps) simp
    then show ?thesis
      using 1 False by (simp add: read_nat_snoc digit_val_digit)
  qed
qed

lemma nat_str_inject [simp]: "nat_str m = nat_str n \<longleftrightarrow> m = n"
  by (metis read_nat_str)

lemma nat_str_nonempty [simp]: "nat_str n \<noteq> []"
  by (subst nat_str.simps) simp

lemma digit_code: "(k::nat) < 10 \<Longrightarrow> 48 \<le> code (char_of (48 + k)) \<and> code (char_of (48 + k)) \<le> 57"
  by simp

lemma nat_str_digits: "c \<in> set (nat_str n) \<Longrightarrow> 48 \<le> code c \<and> code c \<le> 57"
proof (induction n rule: nat_str.induct)
  case (1 n)
  show ?case
  proof (cases "n < 10")
    case True
    with 1 show ?thesis
      by (subst (asm) (2) nat_str.simps) (simp add: digit_code)
  next
    case False
    with 1 show ?thesis
      by (subst (asm) (2) nat_str.simps) (auto simp: digit_code)
  qed
qed

end
