(* ===== verification/Event_Machine.thy ===== *)
theory Event_Machine
  imports Js_Prelude
begin

section \<open>Machines driven by events\<close>

text \<open>
  The pages of this program are state records changed by listeners.  This theory states once what
  every such machine shares: running a list of events, the events that may happen in a state, and
  the locale \<open>event_machine\<close> of an invariant that every allowed listener keeps without throwing.
  \<open>event_system\<close> adds the states a machine starts in.  The walkthrough player interprets the
  locale three times (soundness, a stuck view, autoplay); the console, whose listeners may throw,
  interprets \<open>event_keeper\<close>.
\<close>

fun run_all :: "('e \<Rightarrow> 's act) \<Rightarrow> 'e list \<Rightarrow> 's \<Rightarrow> 's" where
  "run_all h [] s = s"
| "run_all h (e # es) s = run_all h es (snd (h e s))"

text \<open>Events in order, each allowed when it happens; and the exceptions the listeners threw.\<close>

fun all_allowed :: "('e \<Rightarrow> 's \<Rightarrow> bool) \<Rightarrow> ('e \<Rightarrow> 's act) \<Rightarrow> 'e list \<Rightarrow> 's \<Rightarrow> bool" where
  "all_allowed al h [] s = True"
| "all_allowed al h (e # es) s = (al e s \<and> all_allowed al h es (snd (h e s)))"

fun thrown :: "('e \<Rightarrow> 's act) \<Rightarrow> 'e list \<Rightarrow> 's \<Rightarrow> js_error list" where
  "thrown h [] s = []"
| "thrown h (e # es) s = (case h e s of (None, t) \<Rightarrow> thrown h es t | (Some x, t) \<Rightarrow> x # thrown h es t)"

lemma run_all_append: "run_all h (es @ fs) s = run_all h fs (run_all h es s)"
  by (induction es arbitrary: s) simp_all

lemma all_allowed_append:
  "all_allowed al h (es @ fs) s \<longleftrightarrow> all_allowed al h es s \<and> all_allowed al h fs (run_all h es s)"
  by (induction es arbitrary: s) simp_all

lemma all_allowed_const: "all_allowed (\<lambda>e s. P e) h es s \<longleftrightarrow> (\<forall>e \<in> set es. P e)"
  by (induction es arbitrary: s) simp_all

lemma all_allowed_conj:
  "all_allowed (\<lambda>e s. al e s \<and> P e) h es s \<longleftrightarrow> all_allowed al h es s \<and> (\<forall>e \<in> set es. P e)"
  by (induction es arbitrary: s) auto

text \<open>
  The weaker contract of listeners that may throw: what they leave behind still has the invariant.
\<close>

locale event_keeper =
  fixes handle :: "'e \<Rightarrow> 's act"
    and allowed :: "'e \<Rightarrow> 's \<Rightarrow> bool"
    and inv :: "'s \<Rightarrow> bool"
  assumes handle_saves: "inv s \<Longrightarrow> allowed e s \<Longrightarrow> inv (snd (handle e s))"
begin

lemma run_saves: "inv s \<Longrightarrow> all_allowed allowed handle es s \<Longrightarrow> inv (run_all handle es s)"
  by (induction es arbitrary: s) (auto intro: handle_saves)

end

locale event_machine =
  fixes handle :: "'e \<Rightarrow> 's act"
    and allowed :: "'e \<Rightarrow> 's \<Rightarrow> bool"
    and inv :: "'s \<Rightarrow> bool"
  assumes handle_keeps: "inv s \<Longrightarrow> allowed e s \<Longrightarrow> fst (handle e s) = None \<and> inv (snd (handle e s))"
begin

lemma handle_inv: "inv s \<Longrightarrow> allowed e s \<Longrightarrow> inv (snd (handle e s))"
  using handle_keeps by blast

lemma handle_quiet: "inv s \<Longrightarrow> allowed e s \<Longrightarrow> \<exists>t. handle e s = (None, t) \<and> inv t"
  using handle_keeps [of s e] by (cases "handle e s") simp

lemma run_quiet: "inv s \<Longrightarrow> all_allowed allowed handle es s \<Longrightarrow> thrown handle es s = []"
proof (induction es arbitrary: s)
  case (Cons e es)
  then obtain t where "handle e s = (None, t)" "inv t" using handle_quiet [of s e] by auto
  with Cons show ?case by simp
qed simp

end

sublocale event_machine \<subseteq> event_keeper
  by unfold_locales (rule handle_inv)

context event_machine
begin

lemmas run_keeps = run_saves

end

locale event_system = event_machine +
  fixes start :: "'s \<Rightarrow> bool"
  assumes start_inv: "start s \<Longrightarrow> inv s"
begin

lemma started_keeps: "start s \<Longrightarrow> all_allowed allowed handle es s \<Longrightarrow> inv (run_all handle es s)"
  using run_keeps start_inv by blast

lemma started_quiet: "start s \<Longrightarrow> all_allowed allowed handle es s \<Longrightarrow> thrown handle es s = []"
  using run_quiet start_inv by blast

end

end
