(* ===== verification/Scene_Types.thy ===== *)
theory Scene_Types
  imports Event_Machine
begin

section \<open>Walkthrough definitions\<close>

text \<open>
  The object literals of \<open>kb-src/scenes-data.js\<close> as the engine reads them: a scene has actors on
  a platform and steps; a step has moves; a move is one message that flies between two actors or
  a local action of one.  A property that a literal leaves out is \<open>None\<close>.  The vocabulary of
  kinds and effects is the comment at the head of \<open>scenes-data.js\<close>, kept as strings because the
  engine compares strings.
\<close>

record actor =
  a_id :: string
  a_kind :: string
  a_label :: string
  a_sub :: "string option"
  a_x :: rat
  a_z :: rat
  a_anchorY :: "rat option"
  a_labelY :: "rat option"
  a_color :: "nat option"
  a_scale :: "rat option"

record move =
  m_from :: "string option"
  m_to :: "string option"
  m_label :: "string option"
  m_sub :: "string option"
  m_kind :: "string option"
  m_effect :: "string option"
  m_dilly :: "string option"
  m_local :: bool
  m_dur :: "rat option"

record step =
  s_phase :: "string option"
  s_title :: string
  s_body :: "string option"
  s_payload :: "string option"
  s_moves :: "move list option"
  s_effect :: "string option"
  s_dilly :: "string option"
  s_actor :: "string option"

record camera =
  cam_theta :: rat
  cam_phi :: rat
  cam_radius :: rat

record scene =
  d_id :: string
  d_title :: string
  d_dilly :: "string option"
  d_chainAt :: "string option"
  d_chainOffset :: "(rat \<times> rat) option"
  d_platformRadius :: "rat option"
  d_camera :: "camera option"
  d_actors :: "actor list"
  d_steps :: "step list"

subsection \<open>Literals\<close>

text \<open>The properties every actor, move and step literal of the data file writes.\<close>

definition act :: "string \<Rightarrow> string \<Rightarrow> string \<Rightarrow> rat \<Rightarrow> rat \<Rightarrow> actor" where
  "act i k l x z = \<lparr>a_id = i, a_kind = k, a_label = l, a_sub = None, a_x = x, a_z = z,
     a_anchorY = None, a_labelY = None, a_color = None, a_scale = None\<rparr>"

definition mv :: "string \<Rightarrow> string \<Rightarrow> string \<Rightarrow> move" where
  "mv f t l = \<lparr>m_from = Some f, m_to = Some t, m_label = Some l, m_sub = None, m_kind = None,
     m_effect = None, m_dilly = None, m_local = False, m_dur = None\<rparr>"

definition stp :: "string \<Rightarrow> string \<Rightarrow> string \<Rightarrow> string \<Rightarrow> move list \<Rightarrow> step" where
  "stp ph t b p ms = \<lparr>s_phase = Some ph, s_title = t, s_body = Some b, s_payload = Some p,
     s_moves = Some ms, s_effect = None, s_dilly = None, s_actor = None\<rparr>"

lemma act_sel [simp]:
  "a_id (act i k l x z) = i" "a_kind (act i k l x z) = k"
  by (simp_all add: act_def)

lemma mv_sel [simp]:
  "m_from (mv f t l) = Some f" "m_to (mv f t l) = Some t" "m_label (mv f t l) = Some l"
  "m_sub (mv f t l) = None" "m_kind (mv f t l) = None" "m_effect (mv f t l) = None"
  "m_dilly (mv f t l) = None" "m_local (mv f t l) = False" "m_dur (mv f t l) = None"
  by (simp_all add: mv_def)

lemma stp_sel [simp]:
  "s_phase (stp ph t b p ms) = Some ph" "s_title (stp ph t b p ms) = t"
  "s_body (stp ph t b p ms) = Some b" "s_payload (stp ph t b p ms) = Some p"
  "s_moves (stp ph t b p ms) = Some ms" "s_effect (stp ph t b p ms) = None"
  "s_dilly (stp ph t b p ms) = None" "s_actor (stp ph t b p ms) = None"
  by (simp_all add: stp_def)

subsection \<open>Reading a definition\<close>

text \<open>\<open>step.moves || []\<close>, and an effect that is the string \<open>store\<close>.\<close>

definition moves_of :: "step \<Rightarrow> move list" where
  "moves_of s = (case s_moves s of None \<Rightarrow> [] | Some ms \<Rightarrow> ms)"

definition is_store :: "string option \<Rightarrow> bool" where
  "is_store e \<longleftrightarrow> e = Some ''store''"

text \<open>
  A list of moves flows when no message directly follows another message: between two messages
  there is a local action.
\<close>

fun flows :: "move list \<Rightarrow> bool" where
  "flows [] = True"
| "flows [m] = True"
| "flows (m # n # ms) = ((m_local m \<or> m_local n) \<and> flows (n # ms))"

lemma flows_snoc: "flows (ms @ [m]) \<longleftrightarrow> flows ms \<and> (ms = [] \<or> m_local (last ms) \<or> m_local m)"
  by (induction ms rule: flows.induct) auto

text \<open>The effects that draw a ring around the receiving actor.\<close>

definition ring_effect :: "string option \<Rightarrow> bool" where
  "ring_effect e \<longleftrightarrow> e \<in> Some ` {''check'', ''sign'', ''hsm'', ''reject'', ''burn'', ''unlock''}"

lemma ring_not_store: "ring_effect e \<Longrightarrow> \<not> is_store e"
  by (auto simp: ring_effect_def is_store_def)

definition actor_ids :: "scene \<Rightarrow> string set" where
  "actor_ids sc = set (map a_id (d_actors sc))"

end
