(* ===== verification/Scene_Engine.thy ===== *)
theory Scene_Engine
  imports Scene_Types
begin

section \<open>The walkthrough engine\<close>

text \<open>
  The class \<open>SceneView\<close> of \<open>kb-src/scenes-engine.js\<close>.  The state record \<open>view\<close> holds the fields of
  the object that decide behaviour: the step, the queue of moves still to fly, the packets in the
  air, the effects, the audit chain, the glow of each actor, the orbit camera and the text panel.
  What only positions or colours three.js objects (geometry, materials, textures, the Bezier curve
  of a packet, light) is a picture of this state: \<open>Scene_Set\<close> gives it as functions of the view.  \<open>REDUCED\<close>, the reduced-motion setting of the
  browser, is the argument \<open>rd\<close>.
\<close>

subsection \<open>State\<close>

datatype fx_kind = Line | Ring | Spark

record fx =
  fx_kind :: fx_kind
  fx_color :: nat
  fx_life :: rat

record packet =
  p_group :: nat
  p_move :: move
  p_t :: rat
  p_dur :: rat

record block =
  b_gold :: bool
  b_y :: rat
  b_drop :: "rat option"

record actor_state =
  as_def :: actor
  as_model :: string
  as_glow :: rat

record panel =
  u_eyebrow :: string
  u_title :: string
  u_body :: string
  u_hidden :: bool
  u_code :: string
  u_count :: string
  u_buttons :: "(bool \<times> bool \<times> bool) list"

record view =
  v_def :: scene
  stepIndex :: int
  playing :: bool
  speed :: rat
  packets :: "packet list"
  effects :: "fx list"
  chain :: "block list"
  queue :: "move list"
  running :: bool
  currentLocal :: bool
  waitLocal :: "rat option"
  readTime :: "rat option"
  pendingMood :: "string option"
  mood :: "string option"
  actors :: "string \<Rightarrow> actor_state option"
  groups :: "nat list"
  next_group :: nat
  ui :: panel
  play_label :: string
  orbit_theta :: rat
  orbit_phi :: rat
  orbit_radius :: rat
  userMoved :: bool
  drag :: "(rat \<times> rat) option"
  visible :: bool
  last_time :: rat

subsection \<open>Tables\<close>

definition colors :: "string \<Rightarrow> nat option" where
  "colors = map_of [
     (''teal'', 0x0f766e), (''tealBright'', 0x2dd4bf), (''gold'', 0xf2b233), (''ink'', 0x10201e),
     (''graphite'', 0x2a3634), (''slate'', 0x5b6b69), (''paper'', 0xe9efed), (''violet'', 0x7c5cff),
     (''red'', 0xe5484d), (''green'', 0x22c55e), (''blue'', 0x3b82f6),
     (''request'', 0x14b8a6), (''response'', 0xf2b233), (''secret'', 0x8b5cf6),
     (''reject'', 0xe5484d), (''local'', 0x3b82f6)]"

text \<open>\<open>COLORS[kind] || COLORS.request\<close>, with \<open>kind = m.kind || "request"\<close>.\<close>

definition move_color :: "move \<Rightarrow> nat" where
  "move_color m =
     (case colors (if truthy (m_kind m) then the (m_kind m) else ''request'') of
        Some c \<Rightarrow> c | None \<Rightarrow> 0x14b8a6)"

definition model_kinds :: "string list" where
  "model_kinds = [''laptop'', ''server'', ''gateway'', ''shield'', ''ca'', ''hsm'', ''db'', ''atm'',
     ''router'', ''cloud'', ''globe'', ''person'', ''bell'', ''chart'', ''radar'', ''terminal'', ''k8s'']"

text \<open>\<open>MODELS[a.kind] || MODELS.server\<close>.\<close>

definition model_of :: "string \<Rightarrow> string" where
  "model_of k = (if k \<in> set model_kinds then k else ''server'')"

text \<open>The file a mood of the mascot is loaded from.\<close>

definition dilly_file :: "string option \<Rightarrow> string" where
  "dilly_file m =
     (let key = (if truthy m then the m else ''happy'')
      in if key = ''happy'' then ''dilly.svg'' else ''dilly-'' @ key @ ''.svg'')"

subsection \<open>Actors\<close>

definition actor_at :: "view \<Rightarrow> string option \<Rightarrow> actor_state option" where
  "actor_at v i = actors v (case i of None \<Rightarrow> ''undefined'' | Some s \<Rightarrow> s)"

definition pulse :: "string option \<Rightarrow> view \<Rightarrow> view" where
  "pulse i v = (case actor_at v i of None \<Rightarrow> v
     | Some a \<Rightarrow> v\<lparr>actors := (actors v)(case i of None \<Rightarrow> ''undefined'' | Some s \<Rightarrow> s := Some (a\<lparr>as_glow := 1\<rparr>))\<rparr>)"

text \<open>The loop over \<open>def.actors\<close> in \<open>buildScene\<close>: a later actor with the same id replaces the first.\<close>

fun build_actors :: "actor list \<Rightarrow> (string \<Rightarrow> actor_state option) \<Rightarrow> string \<Rightarrow> actor_state option" where
  "build_actors [] m = m"
| "build_actors (a # as) m =
     build_actors as (m(a_id a \<mapsto> \<lparr>as_def = a, as_model = model_of (a_kind a), as_glow = 0\<rparr>))"

subsection \<open>The audit chain\<close>

definition block_y :: "nat \<Rightarrow> rat" where
  "block_y i = 0.14 + of_nat i * 0.27"

definition addBlock :: "bool \<Rightarrow> bool \<Rightarrow> view \<Rightarrow> view" where
  "addBlock rd animate v =
     (let i = length (chain v); y = block_y i;
          b = (if animate \<and> \<not> rd then \<lparr>b_gold = odd i, b_y = y + 1.5, b_drop = Some y\<rparr>
               else \<lparr>b_gold = odd i, b_y = y, b_drop = None\<rparr>)
      in v\<lparr>chain := chain v @ [b]\<rparr>)"

fun addBlocks :: "bool \<Rightarrow> nat \<Rightarrow> view \<Rightarrow> view" where
  "addBlocks rd 0 v = v"
| "addBlocks rd (Suc k) v = addBlocks rd k (addBlock rd False v)"

definition setChain :: "bool \<Rightarrow> nat \<Rightarrow> view \<Rightarrow> view" where
  "setChain rd n v =
     (let v1 = v\<lparr>chain := take n (chain v)\<rparr>
      in addBlocks rd (n - length (chain v1)) v1)"

subsection \<open>Steps\<close>

definition steps_of :: "view \<Rightarrow> step list" where
  "steps_of v = d_steps (v_def v)"

text \<open>\<open>this.def.steps[i]\<close>, \<open>undefined\<close> out of range.\<close>

definition step_at :: "view \<Rightarrow> int \<Rightarrow> step option" where
  "step_at v i = (if 0 \<le> i \<and> i < int (length (steps_of v)) then Some (steps_of v ! nat i) else None)"

definition undefined_error :: "string \<Rightarrow> js_error" where
  "undefined_error prop = TypeError (''Cannot read properties of undefined (reading '' @ [CHR 0x27] @ prop @ [CHR 0x27] @ '')'')"

definition step_blocks :: "step \<Rightarrow> nat" where
  "step_blocks s = length (filter (\<lambda>m. is_store (m_effect m)) (moves_of s))
     + (if is_store (s_effect s) then 1 else 0)"

definition move_mood :: "string option \<Rightarrow> move \<Rightarrow> string option" where
  "move_mood d m = (if truthy (m_dilly m) then m_dilly m else d)"

definition own_mood :: "string option \<Rightarrow> step \<Rightarrow> string option" where
  "own_mood d s = (if truthy (s_dilly s) then s_dilly s else d)"

definition step_mood :: "string option \<Rightarrow> step \<Rightarrow> string option" where
  "step_mood d s = foldl move_mood (own_mood d s) (moves_of s)"

text \<open>
  \<open>settle(index)\<close>: the chain and the mood a step starts from.  The first loop reads
  \<open>def.steps[i].moves\<close> for every \<open>i < index\<close> and throws past the end; the last lines read
  \<open>def.steps[index].dilly\<close>.
\<close>

definition settle :: "bool \<Rightarrow> int \<Rightarrow> view act" where
  "settle rd index v =
     (if index > int (length (steps_of v)) then (Some (undefined_error ''moves''), v)
      else
        let before = take (nat index) (steps_of v);
            v1 = setChain rd (sum_list (map step_blocks before)) v
        in case step_at v index of
             None \<Rightarrow> (Some (undefined_error ''dilly''), v1)
           | Some s \<Rightarrow> (None, v1\<lparr>pendingMood := own_mood (foldl step_mood (Some ''happy'') before) s\<rparr>))"

definition reading_time :: "step \<Rightarrow> rat" where
  "reading_time s =
     (let chars = of_nat (length (case s_body s of None \<Rightarrow> [] | Some b \<Rightarrow> b))
                + of_nat (length (case s_payload s of None \<Rightarrow> [] | Some p \<Rightarrow> p)) * 0.35
      in min 9 (2.6 + chars * 0.018))"

subsection \<open>Effects\<close>

definition burst :: "bool \<Rightarrow> nat \<Rightarrow> view \<Rightarrow> view" where
  "burst rd c v = v\<lparr>effects := effects v @
     replicate (if rd then 0 else 16) \<lparr>fx_kind = Spark, fx_color = c, fx_life = 1\<rparr>\<rparr>"

definition ring_color :: "string \<Rightarrow> nat" where
  "ring_color e =
     (if e = ''reject'' \<or> e = ''burn'' then 0xe5484d
      else if e = ''sign'' \<or> e = ''hsm'' then 0xf2b233
      else if e = ''unlock'' then 0x8b5cf6 else 0x22c55e)"

definition draw_ring :: "bool \<Rightarrow> string \<Rightarrow> actor_state option \<Rightarrow> view act" where
  "draw_ring rd e target v =
     (case target of
        None \<Rightarrow> (Some (undefined_error ''anchor''), v)
      | Some _ \<Rightarrow>
          let v1 = v\<lparr>effects := effects v @ [\<lparr>fx_kind = Ring, fx_color = ring_color e, fx_life = 1.2\<rparr>]\<rparr>;
              v2 = (if e = ''burn'' then burst rd 0xe5484d v1 else v1)
          in (None, if e = ''sign'' \<or> e = ''hsm'' then burst rd 0xf2b233 v2 else v2))"

definition applyEffect :: "bool \<Rightarrow> move \<Rightarrow> bool \<Rightarrow> view act" where
  "applyEffect rd m arrived v =
     (let v1 = (if truthy (m_dilly m) then v\<lparr>pendingMood := m_dilly m\<rparr> else v)
      in if \<not> truthy (m_effect m) then (None, v1)
         else
           let target = actor_at v1 (or_else (m_to m) (m_from m))
           in do_all
                [pure_act (\<lambda>w. if is_store (m_effect m) then pulse (m_to m) (addBlock rd True w) else w),
                 when_act (ring_effect (m_effect m)) (draw_ring rd (the (m_effect m)) target),
                 pure_act (\<lambda>w. case target of
                     Some a \<Rightarrow> if arrived then pulse (Some (a_id (as_def a))) w else w
                   | None \<Rightarrow> w)] v1)"

subsection \<open>Moves\<close>

text \<open>\<open>spawnPacket\<close> when both actors are known: a new envelope, and the dashed line of its path.\<close>

definition move_dur :: "bool \<Rightarrow> move \<Rightarrow> rat" where
  "move_dur rd m = (if rd then 0.01 else case m_dur m of None \<Rightarrow> 1.5 | Some x \<Rightarrow> if x = 0 then 1.5 else x)"

definition new_packet :: "bool \<Rightarrow> nat \<Rightarrow> move \<Rightarrow> packet" where
  "new_packet rd g m = \<lparr>p_group = g, p_move = m, p_t = 0, p_dur = move_dur rd m\<rparr>"

definition launch :: "bool \<Rightarrow> move \<Rightarrow> view \<Rightarrow> view" where
  "launch rd m v =
     (let g = next_group v
      in v\<lparr>effects := effects v @ [\<lparr>fx_kind = Line, fx_color = move_color m, fx_life = 999\<rparr>],
           groups := groups v @ [g], next_group := Suc g,
           packets := packets v @ [new_packet rd g m]\<rparr>)"

function (sequential) startNextMove :: "bool \<Rightarrow> view act"
  and spawnPacket :: "bool \<Rightarrow> move \<Rightarrow> view act" where
  "startNextMove rd v =
     (case queue v of
        [] \<Rightarrow>
          (case step_at v (stepIndex v) of
             None \<Rightarrow> (Some (undefined_error ''body''), v\<lparr>running := False\<rparr>)
           | Some s \<Rightarrow> (None, v\<lparr>running := False, readTime := Some (reading_time s)\<rparr>))
      | m # ms \<Rightarrow>
          if m_local m then
            do_all [pure_act (pulse (m_from m)), applyEffect rd m True,
                    pure_act (\<lambda>w. w\<lparr>waitLocal := Some 0.9, currentLocal := True\<rparr>)] (v\<lparr>queue := ms\<rparr>)
          else
            (case spawnPacket rd m (v\<lparr>queue := ms, currentLocal := False\<rparr>) of
               (None, w) \<Rightarrow> (None, pulse (m_from m) w)
             | (Some e, w) \<Rightarrow> (Some e, w)))"
| "spawnPacket rd m v =
     (if actor_at v (m_from m) = None \<or> actor_at v (m_to m) = None then startNextMove rd v
      else (None, launch rd m v))"
  by pat_completeness auto
termination
  by (relation "measure (case_sum (\<lambda>(rd, v). 2 * length (queue v)) (\<lambda>(rd, m, v). 2 * length (queue v) + 1))")
    auto

declare startNextMove.simps [simp del] spawnPacket.simps [simp del]

subsection \<open>Going to a step\<close>

definition clearPackets :: "view \<Rightarrow> view" where
  "clearPackets v = v\<lparr>groups := filter (\<lambda>g. g \<notin> p_group ` set (packets v)) (groups v),
     packets := [], effects := []\<rparr>"

definition show_step :: "int \<Rightarrow> step \<Rightarrow> view \<Rightarrow> view" where
  "show_step index s v =
     (let n = int_str (int (length (steps_of v))); k = int_str (index + 1)
      in v\<lparr>ui := \<lparr>
           u_eyebrow = (if truthy (s_phase s) then the (s_phase s) @ '' '' @ [CHR 0xB7] @ '' '' else [])
             @ ''Step '' @ k @ '' of '' @ n,
           u_title = s_title s,
           u_body = (case s_body s of None \<Rightarrow> [] | Some b \<Rightarrow> b),
           u_hidden = (\<not> truthy (s_payload s)),
           u_code = (case s_payload s of None \<Rightarrow> [] | Some p \<Rightarrow> p),
           u_count = k @ '' / '' @ n,
           u_buttons = map (\<lambda>i. (int i = index, int i < index, int i = index)) [0..<length (steps_of v)]\<rparr>\<rparr>)"

definition effect_move :: "step \<Rightarrow> move" where
  "effect_move s = \<lparr>m_from = s_actor s, m_to = s_actor s, m_label = None, m_sub = None, m_kind = None,
     m_effect = s_effect s, m_dilly = None, m_local = False, m_dur = None\<rparr>"

definition enter_step :: "bool \<Rightarrow> int \<Rightarrow> step \<Rightarrow> view act" where
  "enter_step rd index s =
     do_all [pure_act (show_step index s),
             pure_act (\<lambda>w. w\<lparr>queue := moves_of s, running := True\<rparr>),
             startNextMove rd,
             when_act (moves_of s = [] \<and> truthy (s_effect s)) (applyEffect rd (effect_move s) True),
             pure_act (if truthy (s_actor s) then pulse (s_actor s) else id)]"

definition goTo :: "bool \<Rightarrow> int \<Rightarrow> view act" where
  "goTo rd index =
     do_all [pure_act clearPackets,
             pure_act (\<lambda>w. w\<lparr>stepIndex := index\<rparr>),
             settle rd index,
             (\<lambda>w. case step_at w index of
                None \<Rightarrow> (Some (undefined_error ''phase''), w)
              | Some s \<Rightarrow> enter_step rd index s w)]"

end
