(* ===== verification/Scene_Player.thy ===== *)
theory Scene_Player
  imports Scene_Engine
begin

section \<open>Playing a walkthrough: controls, the animation frame, mounting\<close>

text \<open>
  The entry points of a \<open>SceneView\<close> (\<open>kb-src/scenes-engine.js\<close>): the constructor, the listeners
  \<open>bindEvents\<close> installs, the animation frame \<open>loop\<close>, and the registry \<open>CertadilloScenes\<close> that
  mounts a view.  An event is a value of \<open>event\<close> and \<open>handle\<close> is its listener.
\<close>

subsection \<open>Play, pause\<close>

definition pause :: "view \<Rightarrow> view" where
  "pause v = v\<lparr>playing := False, play_label := ''Play''\<rparr>"

definition last_index :: "view \<Rightarrow> int" where
  "last_index v = int (length (steps_of v)) - 1"

definition play :: "bool \<Rightarrow> view act" where
  "play rd v =
     (let v1 = v\<lparr>playing := True, play_label := ''Pause''\<rparr>
      in if running v1 then (None, v1)
         else if stepIndex v1 \<ge> last_index v1 then goTo rd 0 v1
         else goTo rd (stepIndex v1 + 1) v1)"

definition togglePlay :: "bool \<Rightarrow> view act" where
  "togglePlay rd v = (if playing v then (None, pause v) else play rd v)"

definition next_step :: "bool \<Rightarrow> view act" where
  "next_step rd v = goTo rd (min (stepIndex v + 1) (last_index v)) v"

definition prev_step :: "bool \<Rightarrow> view act" where
  "prev_step rd v = goTo rd (max (stepIndex v - 1) 0) v"

subsection \<open>The animation frame\<close>

text \<open>
  The callback of \<open>this.packets.filter(...)\<close> over the packets that were in the air when the
  frame began.  A packet that arrives applies its effect, leaves the stage and starts the next
  move; \<open>startNextMove\<close> pushes the packet of that move onto the list being filtered, which
  \<open>filter\<close> neither visits nor returns.  The middle component is the list \<open>filter\<close> returns or,
  after an exception, the packets that were visited, whose times have advanced.
\<close>

definition arrive :: "bool \<Rightarrow> packet \<Rightarrow> view act" where
  "arrive rd p =
     do_all [applyEffect rd (p_move p) True,
             pure_act (\<lambda>w. if m_kind (p_move p) = Some ''reject'' then burst rd 0xe5484d w else w),
             pure_act (\<lambda>w. w\<lparr>groups := filter (\<lambda>g. g \<noteq> p_group p) (groups w)\<rparr>),
             startNextMove rd]"

fun filter_packets ::
    "bool \<Rightarrow> rat \<Rightarrow> packet list \<Rightarrow> view \<Rightarrow> js_error option \<times> packet list \<times> view" where
  "filter_packets rd sdt [] v = (None, [], v)"
| "filter_packets rd sdt (p # ps) v =
     (let p' = p\<lparr>p_t := p_t p + sdt / p_dur p\<rparr>
      in if 1 \<le> min 1 (p_t p') then
           (case arrive rd p' v of
              (None, w) \<Rightarrow>
                (case filter_packets rd sdt ps w of
                   (None, ks, x) \<Rightarrow> (None, ks, x)
                 | (Some e, ks, x) \<Rightarrow> (Some e, p' # ks, x))
            | (Some e, w) \<Rightarrow> (Some e, [p'], w))
         else
           (case filter_packets rd sdt ps v of (e, ks, w) \<Rightarrow> (e, p' # ks, w)))"

text \<open>\<open>this.packets = this.packets.filter(...)\<close>: the assignment replaces the list that was pushed to.\<close>

definition step_packets :: "bool \<Rightarrow> rat \<Rightarrow> view act" where
  "step_packets rd sdt v =
     (case filter_packets rd sdt (packets v) v of
        (None, ks, w) \<Rightarrow> (None, w\<lparr>packets := ks\<rparr>)
      | (Some e, ks, w) \<Rightarrow> (Some e, w\<lparr>packets := ks @ drop (length ks) (packets w)\<rparr>))"

definition step_local :: "bool \<Rightarrow> rat \<Rightarrow> view act" where
  "step_local rd sdt v =
     (case waitLocal v of
        None \<Rightarrow> (None, v)
      | Some w \<Rightarrow>
          if \<not> currentLocal v then (None, v)
          else if w - sdt \<le> 0 then startNextMove rd (v\<lparr>waitLocal := None, currentLocal := False\<rparr>)
          else (None, v\<lparr>waitLocal := Some (w - sdt)\<rparr>))"

definition step_camera :: "bool \<Rightarrow> rat \<Rightarrow> view \<Rightarrow> view" where
  "step_camera rd dt v =
     (if \<not> userMoved v \<and> \<not> rd then v\<lparr>orbit_theta := orbit_theta v + dt * 0.03\<rparr> else v)"

definition step_glow :: "rat \<Rightarrow> view \<Rightarrow> view" where
  "step_glow dt v = v\<lparr>actors := (\<lambda>i. map_option (\<lambda>a. a\<lparr>as_glow := max 0 (as_glow a - dt * 0.7)\<rparr>) (actors v i))\<rparr>"

definition step_effects :: "rat \<Rightarrow> view \<Rightarrow> view" where
  "step_effects dt v = v\<lparr>effects := filter (\<lambda>f. 0 < fx_life f)
     (map (\<lambda>f. f\<lparr>fx_life := fx_life f - dt\<rparr>) (effects v))\<rparr>"

definition fall :: "rat \<Rightarrow> block \<Rightarrow> block" where
  "fall dt b = (case b_drop b of None \<Rightarrow> b
     | Some d \<Rightarrow> let y = max d (b_y b - dt * 4) in b\<lparr>b_y := y, b_drop := (if y = d then None else Some d)\<rparr>)"

definition step_chain :: "rat \<Rightarrow> view \<Rightarrow> view" where
  "step_chain dt v = v\<lparr>chain := map (fall dt) (chain v)\<rparr>"

definition step_dilly :: "view \<Rightarrow> view" where
  "step_dilly v = (if truthy (d_dilly (v_def v)) \<and> truthy (pendingMood v) \<and> pendingMood v \<noteq> mood v
     then v\<lparr>mood := pendingMood v\<rparr> else v)"

text \<open>Autoplay; a reading time that was never set is \<open>NaN\<close> after the subtraction and never due.\<close>

definition step_autoplay :: "bool \<Rightarrow> rat \<Rightarrow> view act" where
  "step_autoplay rd sdt v =
     (if playing v \<and> \<not> running v \<and> packets v = [] then
        (case readTime v of
           None \<Rightarrow> (None, v)
         | Some r \<Rightarrow>
             let v1 = v\<lparr>readTime := Some (r - sdt)\<rparr>
             in if r - sdt \<le> 0 then
                  (if stepIndex v1 < last_index v1 then goTo rd (stepIndex v1 + 1) v1 else (None, pause v1))
                else (None, v1))
      else (None, v))"

definition frame_dt :: "rat \<Rightarrow> view \<Rightarrow> rat" where
  "frame_dt now v = min 0.05 ((now - last_time v) / 1000)"

definition frame :: "bool \<Rightarrow> bool \<Rightarrow> rat \<Rightarrow> view act" where
  "frame rd hidden now v =
     (let dt = frame_dt now v; v1 = v\<lparr>last_time := now\<rparr>
      in if \<not> visible v1 \<or> hidden then (None, v1)
         else
           let sdt = dt * speed v1
           in do_all
                [pure_act (step_camera rd dt), pure_act (step_glow dt),
                 step_packets rd sdt, step_local rd sdt,
                 pure_act (step_effects dt), pure_act (step_chain dt), pure_act step_dilly,
                 step_autoplay rd sdt] v1)"

subsection \<open>Events\<close>

datatype event =
    Click_play
  | Click_next
  | Click_prev
  | Click_restart
  | Click_step nat
  | Set_speed rat
  | Zoom_in
  | Zoom_out
  | Pointer_down rat rat
  | Pointer_move rat rat
  | Pointer_up
  | Double_click
  | Arrow_right
  | Arrow_left
  | Visibility bool
  | Frame bool rat

definition zoom :: "rat \<Rightarrow> view \<Rightarrow> view" where
  "zoom f v = v\<lparr>orbit_radius := max 8 (min 30 (orbit_radius v * f))\<rparr>"

definition drag_to :: "rat \<Rightarrow> rat \<Rightarrow> view \<Rightarrow> view" where
  "drag_to x y v = (case drag v of None \<Rightarrow> v
     | Some (x0, y0) \<Rightarrow> v\<lparr>orbit_theta := orbit_theta v - (x - x0) * 0.006,
         orbit_phi := max 0.35 (min 1.45 (orbit_phi v - (y - y0) * 0.005)), drag := Some (x, y)\<rparr>)"

definition default_camera :: camera where
  "default_camera = \<lparr>cam_theta = 0, cam_phi = 1.02, cam_radius = 17\<rparr>"

definition home_camera :: "scene \<Rightarrow> camera" where
  "home_camera sc = (case d_camera sc of None \<Rightarrow> default_camera | Some c \<Rightarrow> c)"

definition go_home :: "view \<Rightarrow> view" where
  "go_home v = (let c = home_camera (v_def v)
     in v\<lparr>orbit_theta := cam_theta c, orbit_phi := cam_phi c, orbit_radius := cam_radius c, userMoved := False\<rparr>)"

fun handle :: "bool \<Rightarrow> event \<Rightarrow> view act" where
  "handle rd Click_play v = togglePlay rd v"
| "handle rd Click_next v = do_all [pure_act pause, next_step rd] v"
| "handle rd Click_prev v = do_all [pure_act pause, prev_step rd] v"
| "handle rd Click_restart v = do_all [goTo rd 0, play rd] v"
| "handle rd (Click_step i) v = do_all [pure_act pause, goTo rd (int i)] v"
| "handle rd (Set_speed x) v = (None, v\<lparr>speed := x\<rparr>)"
| "handle rd Zoom_in v = (None, zoom 0.86 v)"
| "handle rd Zoom_out v = (None, zoom 1.16 v)"
| "handle rd (Pointer_down x y) v = (None, v\<lparr>drag := Some (x, y), userMoved := True\<rparr>)"
| "handle rd (Pointer_move x y) v = (None, drag_to x y v)"
| "handle rd Pointer_up v = (None, v\<lparr>drag := None\<rparr>)"
| "handle rd Double_click v = (None, go_home v)"
| "handle rd Arrow_right v = next_step rd v"
| "handle rd Arrow_left v = prev_step rd v"
| "handle rd (Visibility b) v = (None, v\<lparr>visible := b\<rparr>)"
| "handle rd (Frame hidden now) v = frame rd hidden now v"

text \<open>
  What the page can send: a click on a step button names one of the buttons \<open>buildDom\<close> made, the
  speed menu has three entries.
\<close>

definition speed_choices :: "rat list" where
  "speed_choices = [0.6, 1, 1.6]"

fun enabled :: "event \<Rightarrow> view \<Rightarrow> bool" where
  "enabled (Click_step i) v = (i < length (steps_of v))"
| "enabled (Set_speed x) v = List.member speed_choices x"
| "enabled _ v = True"

subsection \<open>Construction and mounting\<close>

definition empty_panel :: panel where
  "empty_panel = \<lparr>u_eyebrow = [], u_title = [], u_body = [], u_hidden = False, u_code = [],
     u_count = [], u_buttons = []\<rparr>"

text \<open>The fields the constructor and \<open>buildDom\<close> set before the first \<open>goTo\<close>.\<close>

definition fresh_view :: "scene \<Rightarrow> view" where
  "fresh_view sc =
     \<lparr>v_def = sc, stepIndex = -1, playing = False, speed = 1, packets = [], effects = [], chain = [],
      queue = [], running = False, currentLocal = False, waitLocal = None, readTime = None,
      pendingMood = None, mood = None, actors = Map.empty, groups = [], next_group = 0,
      ui = empty_panel, play_label = ''Play'',
      orbit_theta = cam_theta (home_camera sc), orbit_phi = cam_phi (home_camera sc),
      orbit_radius = cam_radius (home_camera sc),
      userMoved = False, drag = None, visible = False, last_time = 0\<rparr>"

definition require_actor :: "string option \<Rightarrow> view act" where
  "require_actor i v =
     (if truthy i \<and> actor_at v i = None then (Some (undefined_error ''def''), v) else (None, v))"

definition buildScene :: "view act" where
  "buildScene v = do_all
     [pure_act (\<lambda>w. w\<lparr>actors := build_actors (d_actors (v_def w)) Map.empty\<rparr>),
      require_actor (d_dilly (v_def v)),
      require_actor (d_chainAt (v_def v))] v"

definition construct :: "bool \<Rightarrow> scene \<Rightarrow> rat \<Rightarrow> js_error option \<times> view" where
  "construct rd sc now = do_all
     [buildScene, goTo rd 0, pure_act (\<lambda>w. w\<lparr>visible := True, last_time := now\<rparr>)] (fresh_view sc)"

type_synonym registry = "string \<Rightarrow> scene option"

definition register :: "scene \<Rightarrow> registry \<Rightarrow> registry" where
  "register sc defs = defs(d_id sc \<mapsto> sc)"

definition no_view_text :: "js_error \<Rightarrow> string" where
  "no_view_text e = ''This browser could not start the 3D view ('' @ error_message e
     @ ''). The steps are described in the text below.''"

text \<open>
  \<open>mount(container, id)\<close>: the view, if one was made, and the text that replaces the container.
  \<open>three\<close> says whether three.js is loaded; \<open>gl\<close> is the exception its renderer throws, if any.
\<close>

definition mount :: "bool \<Rightarrow> js_error option \<Rightarrow> bool \<Rightarrow> registry \<Rightarrow> string \<Rightarrow> rat \<Rightarrow> view option \<times> string option" where
  "mount three gl rd defs i now =
     (if \<not> three then (None, Some ''3D view needs WebGL and three.js.'')
      else case defs i of
        None \<Rightarrow> (None, None)
      | Some sc \<Rightarrow>
          (case gl of
             Some e \<Rightarrow> (None, Some (no_view_text e))
           | None \<Rightarrow>
               (case construct rd sc now of
                  (None, v) \<Rightarrow> (Some v, None)
                | (Some e, v) \<Rightarrow> (None, Some (no_view_text e)))))"

subsection \<open>Runs\<close>

text \<open>The views a scene can reach: a mounted view, then any number of enabled events.\<close>

inductive reach :: "bool \<Rightarrow> scene \<Rightarrow> view \<Rightarrow> bool" for rd sc where
  mounted: "construct rd sc now = (None, v) \<Longrightarrow> reach rd sc v"
| event: "reach rd sc v \<Longrightarrow> enabled e v \<Longrightarrow> handle rd e v = (r, w) \<Longrightarrow> reach rd sc w"

inductive_cases reachE: "reach rd sc v"

text \<open>A list of events in order.\<close>

definition run_events :: "bool \<Rightarrow> event list \<Rightarrow> view \<Rightarrow> view" where
  "run_events rd = run_all (handle rd)"

definition all_enabled :: "bool \<Rightarrow> event list \<Rightarrow> view \<Rightarrow> bool" where
  "all_enabled rd = all_allowed enabled (handle rd)"

lemma run_events_simps [simp]:
  "run_events rd [] v = v" "run_events rd (e # es) v = run_events rd es (snd (handle rd e v))"
  by (simp_all add: run_events_def)

lemma all_enabled_simps [simp]:
  "all_enabled rd [] v" "all_enabled rd (e # es) v = (enabled e v \<and> all_enabled rd es (snd (handle rd e v)))"
  by (simp_all add: all_enabled_def)

lemma reach_run: "reach rd sc v \<Longrightarrow> all_enabled rd es v \<Longrightarrow> reach rd sc (run_events rd es v)"
proof (induction es arbitrary: v)
  case (Cons e es)
  then have "reach rd sc (snd (handle rd e v))"
    by (cases "handle rd e v") (auto intro: reach.event)
  with Cons show ?case by simp
qed simp

end
