(* ===== verification/Scene_Invariants.thy ===== *)
theory Scene_Invariants
  imports Scene_Player
begin

section \<open>Well-formed scenes and the invariant of a view\<close>

text \<open>
  \<open>wf_scene\<close> is what the engine needs of a scene literal: every move names two actors of the
  scene, the mascot and the chain stand at actors, there is a step, the camera is within the
  limits of the zoom and the tilt.  For such a scene the mutators have closed forms (no
  exception, and the list of fields each one writes), from which \<open>view_ok\<close> follows for every
  reachable view.
\<close>

subsection \<open>Well-formedness\<close>

definition id_ok :: "string list \<Rightarrow> string option \<Rightarrow> bool" where
  "id_ok ids i \<longleftrightarrow> (case i of None \<Rightarrow> False | Some s \<Rightarrow> s \<noteq> [] \<and> List.member ids s)"

definition move_ok :: "string list \<Rightarrow> move \<Rightarrow> bool" where
  "move_ok ids m \<longleftrightarrow> id_ok ids (m_from m) \<and> id_ok ids (m_to m)
     \<and> (case m_dur m of None \<Rightarrow> True | Some d \<Rightarrow> 0 < d)"

definition step_ok :: "string list \<Rightarrow> step \<Rightarrow> bool" where
  "step_ok ids s \<longleftrightarrow> list_all (move_ok ids) (moves_of s) \<and> \<not> truthy (s_effect s)"

definition camera_ok :: "camera \<Rightarrow> bool" where
  "camera_ok c \<longleftrightarrow> 8 \<le> cam_radius c \<and> cam_radius c \<le> 30 \<and> 0.35 \<le> cam_phi c \<and> cam_phi c \<le> 1.45"

definition scene_ids :: "scene \<Rightarrow> string list" where
  "scene_ids sc = map a_id (d_actors sc)"

definition wf_scene :: "scene \<Rightarrow> bool" where
  "wf_scene sc \<longleftrightarrow>
     d_steps sc \<noteq> [] \<and> list_all (step_ok (scene_ids sc)) (d_steps sc)
     \<and> (truthy (d_dilly sc) \<longrightarrow> id_ok (scene_ids sc) (d_dilly sc))
     \<and> (truthy (d_chainAt sc) \<longrightarrow> id_ok (scene_ids sc) (d_chainAt sc))
     \<and> camera_ok (home_camera sc)"

lemma move_dur_pos: "move_ok ids m \<Longrightarrow> 0 < move_dur rd m"
  by (auto simp: move_ok_def move_dur_def split: option.splits)

lemma id_okE: "id_ok ids i \<Longrightarrow> (\<And>s. i = Some s \<Longrightarrow> s \<noteq> [] \<Longrightarrow> s \<in> set ids \<Longrightarrow> P) \<Longrightarrow> P"
  by (auto simp: id_ok_def split: option.splits)

lemma wf_step_ok: "wf_scene sc \<Longrightarrow> s \<in> set (d_steps sc) \<Longrightarrow> step_ok (scene_ids sc) s"
  by (simp add: wf_scene_def list_all_iff)

text \<open>The rewriting that checks a scene literal, and the first of its steps that does not flow.\<close>

lemmas scene_check = wf_scene_def scene_ids_def step_ok_def move_ok_def id_ok_def moves_of_def
  camera_ok_def home_camera_def

definition first_break :: "scene \<Rightarrow> nat" where
  "first_break sc = length (takeWhile (\<lambda>s. flows (moves_of s)) (d_steps sc))"

lemma first_break_step:
  assumes "first_break sc < length (d_steps sc)"
  shows "\<not> flows (moves_of (d_steps sc ! first_break sc))"
    and "i < first_break sc \<Longrightarrow> flows (moves_of (d_steps sc ! i))"
proof -
  show "\<not> flows (moves_of (d_steps sc ! first_break sc))"
    using nth_length_takeWhile [of "\<lambda>s. flows (moves_of s)" "d_steps sc"] assms by (simp add: first_break_def)
  show "flows (moves_of (d_steps sc ! i))" if "i < first_break sc"
    using set_takeWhileD [of "takeWhile (\<lambda>s. flows (moves_of s)) (d_steps sc) ! i"] that
      takeWhile_nth [of i "\<lambda>s. flows (moves_of s)" "d_steps sc"] nth_mem
    by (metis (no_types, lifting) first_break_def set_takeWhileD)
qed

subsection \<open>Actors\<close>

definition same_actors :: "(string \<Rightarrow> actor_state option) \<Rightarrow> (string \<Rightarrow> actor_state option) \<Rightarrow> bool" where
  "same_actors A B \<longleftrightarrow> (\<forall>i. map_option as_def (A i) = map_option as_def (B i))"

text \<open>The table holds exactly the actors of the scene, each under its own id.\<close>

definition actors_ok :: "scene \<Rightarrow> (string \<Rightarrow> actor_state option) \<Rightarrow> bool" where
  "actors_ok sc A \<longleftrightarrow> (\<forall>i. (A i \<noteq> None) = (i \<in> set (scene_ids sc)))
     \<and> (\<forall>i a. A i = Some a \<longrightarrow> a_id (as_def a) = i)"

lemma same_actors_refl [simp]: "same_actors A A"
  by (simp add: same_actors_def)

lemma same_actors_trans: "same_actors A B \<Longrightarrow> same_actors B C \<Longrightarrow> same_actors A C"
  by (simp add: same_actors_def)

lemma actors_ok_same:
  assumes "same_actors A B" "actors_ok sc B"
  shows "actors_ok sc A"
proof -
  have eq: "map_option as_def (A i) = map_option as_def (B i)" for i
    using assms(1) by (simp add: same_actors_def)
  have "(A i \<noteq> None) = (B i \<noteq> None)" for i
    using eq [of i] by (cases "A i"; cases "B i") auto
  moreover have "a_id (as_def a) = i" if "A i = Some a" for i a
    using eq [of i] that assms(2) by (cases "B i") (auto simp: actors_ok_def)
  ultimately show ?thesis
    using assms(2) by (auto simp: actors_ok_def)
qed

lemma build_actors_dom:
  "(build_actors as m i \<noteq> None) = (m i \<noteq> None \<or> i \<in> set (map a_id as))"
  by (induction as arbitrary: m) auto

lemma build_actors_def_id:
  assumes "\<forall>i a. m i = Some a \<longrightarrow> a_id (as_def a) = i"
  shows "build_actors as m i = Some a \<Longrightarrow> a_id (as_def a) = i"
  using assms by (induction as arbitrary: m) (auto split: if_splits)

lemma build_actors_ok: "actors_ok sc (build_actors (d_actors sc) Map.empty)"
  using build_actors_dom [of "d_actors sc" Map.empty] build_actors_def_id [of Map.empty "d_actors sc"]
  by (auto simp: actors_ok_def scene_ids_def)

lemma actor_at_ok:
  "actors_ok sc (actors v) \<Longrightarrow> id_ok (scene_ids sc) i \<Longrightarrow> \<exists>a. actor_at v i = Some a"
  by (erule id_okE) (auto simp: actor_at_def actors_ok_def)

lemma pulse_form: "\<exists>A. pulse i v = v\<lparr>actors := A\<rparr> \<and> same_actors A (actors v)"
proof (cases "actor_at v i")
  case None
  then show ?thesis
    by (intro exI [of _ "actors v"]) (simp add: pulse_def)
next
  case (Some a)
  define k where "k = (case i of None \<Rightarrow> ''undefined'' | Some s \<Rightarrow> s)"
  have "same_actors ((actors v)(k := Some (a\<lparr>as_glow := 1\<rparr>))) (actors v)"
    using Some by (simp add: same_actors_def actor_at_def k_def)
  then show ?thesis
    using Some by (intro exI [of _ "(actors v)(k := Some (a\<lparr>as_glow := 1\<rparr>))"]) (simp add: pulse_def k_def)
qed

lemma pulse_sel [simp]:
  "v_def (pulse i v) = v_def v" "stepIndex (pulse i v) = stepIndex v" "queue (pulse i v) = queue v"
  "packets (pulse i v) = packets v" "chain (pulse i v) = chain v" "running (pulse i v) = running v"
  "currentLocal (pulse i v) = currentLocal v" "waitLocal (pulse i v) = waitLocal v"
  "readTime (pulse i v) = readTime v" "pendingMood (pulse i v) = pendingMood v"
  "groups (pulse i v) = groups v" "next_group (pulse i v) = next_group v" "ui (pulse i v) = ui v"
  "playing (pulse i v) = playing v" "speed (pulse i v) = speed v" "effects (pulse i v) = effects v"
  using pulse_form [of i v] by auto

lemma same_actors_pulse [simp]: "same_actors (actors (pulse i v)) (actors v)"
  using pulse_form [of i v] by auto

subsection \<open>The audit chain\<close>

text \<open>Block number \<open>i\<close> of the stack: its colour, and its height above its place.\<close>

definition block_ok :: "nat \<Rightarrow> block \<Rightarrow> bool" where
  "block_ok i b \<longleftrightarrow> b_gold b = odd i
     \<and> (case b_drop b of None \<Rightarrow> b_y b = block_y i | Some d \<Rightarrow> d = block_y i \<and> d \<le> b_y b)"

definition chain_ok :: "block list \<Rightarrow> bool" where
  "chain_ok bs \<longleftrightarrow> (\<forall>i < length bs. block_ok i (bs ! i))"

lemma chain_ok_Nil [simp]: "chain_ok []"
  by (simp add: chain_ok_def)

lemma chain_ok_take: "chain_ok bs \<Longrightarrow> chain_ok (take n bs)"
  by (simp add: chain_ok_def)

lemma chain_ok_snoc: "chain_ok (bs @ [b]) \<longleftrightarrow> chain_ok bs \<and> block_ok (length bs) b"
  by (auto simp: chain_ok_def nth_append less_Suc_eq)

lemma addBlock_form:
  "\<exists>b. addBlock rd an v = v\<lparr>chain := chain v @ [b]\<rparr> \<and> block_ok (length (chain v)) b"
  by (auto simp: addBlock_def Let_def block_ok_def)

lemma addBlocks_form:
  "\<exists>bs. addBlocks rd k v = v\<lparr>chain := chain v @ bs\<rparr> \<and> length bs = k
     \<and> (chain_ok (chain v) \<longrightarrow> chain_ok (chain v @ bs))"
proof (induction k arbitrary: v)
  case 0
  then show ?case by (intro exI [of _ "[]"]) simp
next
  case (Suc k)
  obtain b where b: "addBlock rd False v = v\<lparr>chain := chain v @ [b]\<rparr>" "block_ok (length (chain v)) b"
    using addBlock_form by blast
  obtain bs where bs: "addBlocks rd k (v\<lparr>chain := chain v @ [b]\<rparr>) =
      v\<lparr>chain := chain v @ [b] @ bs\<rparr>" "length bs = k"
      "chain_ok (chain v @ [b]) \<longrightarrow> chain_ok (chain v @ [b] @ bs)"
    using Suc [of "v\<lparr>chain := chain v @ [b]\<rparr>"] by auto
  show ?case
    using b bs by (intro exI [of _ "b # bs"]) (auto simp: chain_ok_snoc)
qed

text \<open>\<open>setChain\<close> leaves exactly \<open>n\<close> blocks, each in its place or falling to it.\<close>

lemma setChain_form:
  "\<exists>bs. setChain rd n v = v\<lparr>chain := bs\<rparr> \<and> length bs = n \<and> (chain_ok (chain v) \<longrightarrow> chain_ok bs)"
proof -
  let ?v1 = "v\<lparr>chain := take n (chain v)\<rparr>"
  obtain bs where "addBlocks rd (n - length (chain ?v1)) ?v1 = ?v1\<lparr>chain := chain ?v1 @ bs\<rparr>"
      "length bs = n - length (chain ?v1)" "chain_ok (chain ?v1) \<longrightarrow> chain_ok (chain ?v1 @ bs)"
    using addBlocks_form by blast
  then show ?thesis
    by (intro exI [of _ "take n (chain v) @ bs"]) (auto simp: setChain_def Let_def chain_ok_take)
qed

lemma addBlocks_blocks:
  "addBlocks rd k v = v\<lparr>chain := chain v @ map (\<lambda>i. \<lparr>b_gold = odd i, b_y = block_y i, b_drop = None\<rparr>)
     [length (chain v)..<length (chain v) + k]\<rparr>"
proof (induction k arbitrary: v)
  case (Suc k)
  have "[length (chain v)..<length (chain v) + Suc k] = length (chain v) # [Suc (length (chain v))..<Suc (length (chain v)) + k]"
    by (simp add: upt_conv_Cons)
  then show ?case
    using Suc [of "addBlock rd False v"] by (simp add: addBlock_def Let_def)
qed simp

lemma setChain_blocks:
  "setChain rd n v = v\<lparr>chain := take n (chain v) @
     map (\<lambda>i. \<lparr>b_gold = odd i, b_y = 0.14 + of_nat i * 0.27, b_drop = None\<rparr>) [length (chain v)..<n]\<rparr>"
  by (cases "n \<le> length (chain v)") (simp_all add: setChain_def Let_def addBlocks_blocks block_y_def)

lemma fall_ok: "block_ok i b \<Longrightarrow> block_ok i (fall dt b)"
  by (auto simp: block_ok_def fall_def Let_def split: option.splits)

lemma step_chain_ok: "chain_ok (chain v) \<Longrightarrow> chain_ok (chain (step_chain dt v))"
  by (auto simp: chain_ok_def step_chain_def fall_ok)

subsection \<open>Closed forms of the mutators\<close>

lemma settle_form:
  assumes "step_at v index = Some s"
  shows "\<exists>bs. settle rd index v = (None, v\<lparr>chain := bs,
           pendingMood := own_mood (foldl step_mood (Some ''happy'') (take (nat index) (steps_of v))) s\<rparr>)
         \<and> length bs = sum_list (map step_blocks (take (nat index) (steps_of v)))
         \<and> (chain_ok (chain v) \<longrightarrow> chain_ok bs)"
proof -
  let ?n = "sum_list (map step_blocks (take (nat index) (steps_of v)))"
  obtain bs where bs: "setChain rd ?n v = v\<lparr>chain := bs\<rparr>" "length bs = ?n"
      "chain_ok (chain v) \<longrightarrow> chain_ok bs"
    using setChain_form by blast
  have "\<not> index > int (length (steps_of v))"
    using assms by (auto simp: step_at_def split: if_splits)
  then have "settle rd index v = (None, v\<lparr>chain := bs,
      pendingMood := own_mood (foldl step_mood (Some ''happy'') (take (nat index) (steps_of v))) s\<rparr>)"
    using assms by (simp add: settle_def Let_def bs)
  with bs show ?thesis by blast
qed

lemma draw_ring_form:
  "\<exists>F. draw_ring rd e (Some a) v = (None, v\<lparr>effects := F\<rparr>)"
  by (auto simp: draw_ring_def Let_def burst_def)

definition stores :: "move list \<Rightarrow> nat" where
  "stores ms = length (filter (\<lambda>m. is_store (m_effect m)) ms)"

lemma stores_simps [simp]:
  "stores [] = 0" "stores (ms @ ns) = stores ms + stores ns"
  "stores (m # ms) = (if is_store (m_effect m) then 1 else 0) + stores ms"
  by (simp_all add: stores_def)

text \<open>
  A delivered move: it never throws; it writes the mood, the chain, the effects and the glow; it
  adds one block exactly when its effect is \<open>store\<close>.
\<close>

lemma applyEffect_form:
  assumes "actors_ok sc (actors v)" "move_ok (scene_ids sc) m"
  shows "\<exists>A F bs. applyEffect rd m True v =
           (None, v\<lparr>pendingMood := move_mood (pendingMood v) m, chain := chain v @ bs, effects := F, actors := A\<rparr>)
         \<and> same_actors A (actors v) \<and> length bs = stores [m]
         \<and> (chain_ok (chain v) \<longrightarrow> chain_ok (chain v @ bs))"
proof -
  let ?v1 = "v\<lparr>pendingMood := move_mood (pendingMood v) m\<rparr>"
  have v1: "(if truthy (m_dilly m) then v\<lparr>pendingMood := m_dilly m\<rparr> else v) = ?v1"
    by (simp add: move_mood_def)
  show ?thesis
  proof (cases "truthy (m_effect m)")
    case False
    then have "\<not> is_store (m_effect m)" by (auto simp: is_store_def)
    moreover have "applyEffect rd m True v = (None, ?v1)"
      using False by (auto simp: applyEffect_def v1 move_mood_def)
    ultimately show ?thesis
      by (intro exI [of _ "actors v"] exI [of _ "effects v"] exI [of _ "[]"]) simp
  next
    case True
    have "or_else (m_to m) (m_from m) = m_to m"
      using assms(2) by (auto simp: move_ok_def or_else_def elim!: id_okE)
    moreover obtain a where a: "actor_at v (m_to m) = Some a"
      using actor_at_ok [OF assms(1)] assms(2) by (auto simp: move_ok_def)
    ultimately have target: "actor_at ?v1 (or_else (m_to m) (m_from m)) = Some a"
      by (simp add: actor_at_def)
    define w where "w = (if is_store (m_effect m) then pulse (m_to m) (addBlock rd True ?v1) else ?v1)"
    obtain bs where w: "\<exists>A. w = ?v1\<lparr>chain := chain v @ bs, actors := A\<rparr> \<and> same_actors A (actors v)"
        "length bs = stores [m]" "chain_ok (chain v) \<longrightarrow> chain_ok (chain v @ bs)"
    proof (cases "is_store (m_effect m)")
      case True
      obtain b where b: "addBlock rd True ?v1 = ?v1\<lparr>chain := chain ?v1 @ [b]\<rparr>" "block_ok (length (chain ?v1)) b"
        using addBlock_form by blast
      define u where "u = ?v1\<lparr>chain := chain ?v1 @ [b]\<rparr>"
      obtain A where A: "pulse (m_to m) u = u\<lparr>actors := A\<rparr>" "same_actors A (actors u)"
        using pulse_form by blast
      have "w = u\<lparr>actors := A\<rparr>"
        using True b A by (simp add: w_def u_def)
      moreover have "same_actors A (actors v)"
        using A(2) by (simp add: u_def)
      ultimately have "\<exists>A. w = ?v1\<lparr>chain := chain v @ [b], actors := A\<rparr> \<and> same_actors A (actors v)"
        by (intro exI [of _ A]) (simp add: u_def)
      then show ?thesis
        using that [of "[b]"] True b(2) by (simp add: chain_ok_snoc)
    next
      case False
      then have "\<exists>A. w = ?v1\<lparr>chain := chain v @ [], actors := A\<rparr> \<and> same_actors A (actors v)"
        by (intro exI [of _ "actors v"]) (simp add: w_def)
      then show ?thesis
        using that [of "[]"] False by simp
    qed
    then obtain A where A: "w = ?v1\<lparr>chain := chain v @ bs, actors := A\<rparr>" "same_actors A (actors v)"
      by blast
    obtain F where F: "when_act (ring_effect (m_effect m)) (draw_ring rd (the (m_effect m)) (Some a)) w
        = (None, w\<lparr>effects := F\<rparr>)"
    proof (cases "ring_effect (m_effect m)")
      case True
      then show ?thesis
        using draw_ring_form [of rd "the (m_effect m)" a w] that by auto
    next
      case False
      then show ?thesis
        using that [of "effects w"] by (simp add: pure_act_def)
    qed
    define u where "u = w\<lparr>effects := F\<rparr>"
    obtain B where B: "pulse (Some (a_id (as_def a))) u = u\<lparr>actors := B\<rparr>" "same_actors B (actors u)"
      using pulse_form by blast
    have "applyEffect rd m True v = (None, u\<lparr>actors := B\<rparr>)"
      using True target F B(1)
      by (simp add: applyEffect_def v1 Let_def w_def [symmetric] u_def [symmetric] pure_act_def)
    moreover have "u\<lparr>actors := B\<rparr> = v\<lparr>pendingMood := move_mood (pendingMood v) m, chain := chain v @ bs,
        effects := F, actors := B\<rparr>"
      using A(1) by (simp add: u_def)
    moreover have "same_actors B (actors v)"
      using same_actors_trans [OF B(2)] A by (simp add: u_def)
    ultimately show ?thesis
      using w(2,3) by (intro exI [of _ B] exI [of _ F] exI [of _ bs]) simp
  qed
qed

end
