(* ===== verification/Scene_Safety.thy ===== *)
theory Scene_Safety
  imports Scene_Invariants
begin

section \<open>The invariant of every reachable view\<close>

text \<open>
  \<open>startNextMove\<close>, the arrival of a packet and \<open>goTo\<close> in closed form, and the invariant
  \<open>view_ok\<close>: indices in range, at most one packet in the air, the script of the current step split
  into what has been delivered, what is in the air or lost, and what is still queued, the audit
  chain and the mood that belong to the delivered part, the camera within its limits.
\<close>

subsection \<open>What the next move does\<close>

definition core_ok :: "scene \<Rightarrow> view \<Rightarrow> bool" where
  "core_ok sc v \<longleftrightarrow> v_def v = sc \<and> wf_scene sc \<and> actors_ok sc (actors v)
     \<and> list_all (move_ok (scene_ids sc)) (queue v) \<and> chain_ok (chain v)
     \<and> 0 \<le> stepIndex v \<and> stepIndex v < int (length (d_steps sc))"

definition current :: "view \<Rightarrow> step" where
  "current v = steps_of v ! nat (stepIndex v)"

lemma core_step_at: "core_ok sc v \<Longrightarrow> step_at v (stepIndex v) = Some (current v)"
  by (auto simp: core_ok_def step_at_def current_def steps_of_def)

lemma current_in: "core_ok sc v \<Longrightarrow> current v \<in> set (d_steps sc)"
  by (auto simp: core_ok_def current_def steps_of_def)

lemma start_nil:
  assumes "core_ok sc v" "queue v = []"
  shows "startNextMove rd v = (None, v\<lparr>running := False, readTime := Some (reading_time (current v))\<rparr>)"
  using assms(2) core_step_at [OF assms(1)] by (simp add: startNextMove.simps)

lemma start_local:
  assumes "core_ok sc v" "queue v = m # ms" "m_local m"
  shows "\<exists>A F bs. startNextMove rd v =
           (None, v\<lparr>queue := ms, pendingMood := move_mood (pendingMood v) m, chain := chain v @ bs,
              effects := F, actors := A, waitLocal := Some 0.9, currentLocal := True\<rparr>)
         \<and> same_actors A (actors v) \<and> length bs = stores [m] \<and> chain_ok (chain v @ bs)"
proof -
  define u where "u = v\<lparr>queue := ms\<rparr>"
  obtain P where P: "pulse (m_from m) u = u\<lparr>actors := P\<rparr>" "same_actors P (actors u)"
    using pulse_form by blast
  have P': "same_actors P (actors v)"
    using P(2) by (simp add: u_def)
  have "actors_ok sc (actors (u\<lparr>actors := P\<rparr>))"
    using actors_ok_same [OF P'] assms(1) by (simp add: core_ok_def)
  moreover have "move_ok (scene_ids sc) m"
    using assms(1,2) by (simp add: core_ok_def)
  ultimately obtain A F bs where e: "applyEffect rd m True (u\<lparr>actors := P\<rparr>) =
      (None, u\<lparr>actors := P, pendingMood := move_mood (pendingMood (u\<lparr>actors := P\<rparr>)) m,
         chain := chain (u\<lparr>actors := P\<rparr>) @ bs, effects := F, actors := A\<rparr>)"
      "same_actors A (actors (u\<lparr>actors := P\<rparr>))" "length bs = stores [m]"
      "chain_ok (chain (u\<lparr>actors := P\<rparr>)) \<longrightarrow> chain_ok (chain (u\<lparr>actors := P\<rparr>) @ bs)"
    using applyEffect_form by blast
  have "same_actors A (actors v)"
    using e(2) same_actors_trans [OF _ P'] by simp
  moreover have "chain_ok (chain v @ bs)"
    using e(4) assms(1) by (simp add: core_ok_def u_def)
  moreover have "startNextMove rd v = (None, v\<lparr>queue := ms, pendingMood := move_mood (pendingMood v) m,
      chain := chain v @ bs, effects := F, actors := A, waitLocal := Some 0.9, currentLocal := True\<rparr>)"
    using assms(2,3) P(1) e(1) by (simp add: startNextMove.simps u_def [symmetric] pure_act_def)
      (simp add: u_def)
  ultimately show ?thesis using e(3) by blast
qed

lemma new_packet_sel [simp]:
  "p_group (new_packet rd g m) = g" "p_move (new_packet rd g m) = m" "p_t (new_packet rd g m) = 0"
  "p_dur (new_packet rd g m) = move_dur rd m"
  by (simp_all add: new_packet_def)

lemma start_packet:
  assumes "core_ok sc v" "queue v = m # ms" "\<not> m_local m"
  shows "\<exists>A F. startNextMove rd v =
           (None, v\<lparr>queue := ms, currentLocal := False, effects := F, groups := groups v @ [next_group v],
              next_group := Suc (next_group v), packets := packets v @ [new_packet rd (next_group v) m], actors := A\<rparr>)
         \<and> same_actors A (actors v)"
proof -
  define u where "u = v\<lparr>queue := ms, currentLocal := False\<rparr>"
  define w where "w = launch rd m u"
  have ids: "id_ok (scene_ids sc) (m_from m)" "id_ok (scene_ids sc) (m_to m)"
    using assms(1,2) by (auto simp: core_ok_def move_ok_def)
  have "actors_ok sc (actors u)"
    using assms(1) by (simp add: core_ok_def u_def)
  then have "actor_at u (m_from m) \<noteq> None" "actor_at u (m_to m) \<noteq> None"
    using actor_at_ok [of sc u] ids by auto
  then have spawn: "spawnPacket rd m u = (None, w)"
    by (auto simp: spawnPacket.simps w_def)
  obtain A where A: "pulse (m_from m) w = w\<lparr>actors := A\<rparr>" "same_actors A (actors w)"
    using pulse_form by blast
  have "startNextMove rd v = (None, w\<lparr>actors := A\<rparr>)"
    using assms(2,3) spawn A(1) by (simp add: startNextMove.simps u_def [symmetric])
  moreover have "same_actors A (actors v)"
    using A(2) by (simp add: w_def launch_def u_def Let_def)
  ultimately show ?thesis
    unfolding w_def launch_def u_def Let_def by fastforce
qed

subsection \<open>The script of a step\<close>

definition base_blocks :: "view \<Rightarrow> nat" where
  "base_blocks v = sum_list (map step_blocks (take (nat (stepIndex v)) (steps_of v)))"

definition base_mood :: "view \<Rightarrow> string option" where
  "base_mood v = own_mood (foldl step_mood (Some ''happy'') (take (nat (stepIndex v)) (steps_of v))) (current v)"

text \<open>
  The moves of the current step are \<open>dn\<close> (delivered), \<open>rest\<close> (begun and not delivered) and the
  queue; the audit chain and the mood are those of the delivered moves on top of what the step
  started from.
\<close>

definition script :: "view \<Rightarrow> move list \<Rightarrow> move list \<Rightarrow> bool" where
  "script v dn rest \<longleftrightarrow> moves_of (current v) = dn @ rest @ queue v
     \<and> length (chain v) = base_blocks v + stores dn
     \<and> pendingMood v = foldl move_mood (base_mood v) dn"

text \<open>The fields that only the user's controls and the clock write, and the text panel.\<close>

definition kept :: "view \<Rightarrow> view \<Rightarrow> bool" where
  "kept v w \<longleftrightarrow> v_def w = v_def v \<and> stepIndex w = stepIndex v \<and> ui w = ui v \<and> playing w = playing v
     \<and> speed w = speed v \<and> play_label w = play_label v \<and> orbit_theta w = orbit_theta v
     \<and> orbit_phi w = orbit_phi v \<and> orbit_radius w = orbit_radius v \<and> userMoved w = userMoved v
     \<and> drag w = drag v \<and> visible w = visible v \<and> last_time w = last_time v"

lemma kept_refl [simp]: "kept v v"
  by (simp add: kept_def)

lemma kept_trans: "kept u v \<Longrightarrow> kept v w \<Longrightarrow> kept u w"
  by (simp add: kept_def)

lemma kept_current: "kept v w \<Longrightarrow> current w = current v"
  by (simp add: kept_def current_def steps_of_def)

lemma kept_base: "kept v w \<Longrightarrow> base_blocks w = base_blocks v" "kept v w \<Longrightarrow> base_mood w = base_mood v"
  by (simp_all add: kept_def base_blocks_def base_mood_def current_def steps_of_def)

datatype phase = Reading | Waiting | Flying packet

text \<open>The three outcomes of \<open>startNextMove\<close>: nothing left, a local move, a packet.\<close>

fun phase_of :: "phase \<Rightarrow> packet list \<Rightarrow> view \<Rightarrow> bool" where
  "phase_of Reading ps w = (\<not> running w \<and> packets w = ps \<and> queue w = [] \<and> readTime w = Some (reading_time (current w)))"
| "phase_of Waiting ps w = (running w \<and> packets w = ps \<and> currentLocal w \<and> waitLocal w = Some 0.9)"
| "phase_of (Flying p) ps w = (running w \<and> packets w = ps @ [p] \<and> \<not> currentLocal w
     \<and> p_t p = 0 \<and> 0 < p_dur p \<and> \<not> m_local (p_move p))"

fun air_of :: "phase \<Rightarrow> move list" where
  "air_of (Flying p) = [p_move p]"
| "air_of _ = []"

text \<open>What the step delivered: a local move counts as delivered when it starts.\<close>

fun grown :: "phase \<Rightarrow> move list \<Rightarrow> move list \<Rightarrow> bool" where
  "grown Waiting dn dn' = (\<exists>m. m_local m \<and> dn' = dn @ [m])"
| "grown _ dn dn' = (dn' = dn)"

lemma start_script:
  assumes "core_ok sc v" "script v dn []" "queue v \<noteq> [] \<longrightarrow> running v" "currentLocal v \<longrightarrow> waitLocal v \<noteq> None"
  shows "\<exists>w dn' ph. startNextMove rd v = (None, w) \<and> core_ok sc w \<and> kept v w
     \<and> phase_of ph (packets v) w \<and> script w dn' (air_of ph) \<and> grown ph dn dn'
     \<and> (currentLocal w \<longrightarrow> waitLocal w \<noteq> None)"
proof (cases "queue v")
  case Nil
  let ?w = "v\<lparr>running := False, readTime := Some (reading_time (current v))\<rparr>"
  have k: "kept v ?w" by (simp add: kept_def)
  have "script ?w dn (air_of Reading)"
    using assms(2) kept_base [OF k] kept_current [OF k] by (simp add: script_def)
  moreover have "phase_of Reading (packets v) ?w"
    using Nil kept_current [OF k] by simp
  moreover have "core_ok sc ?w"
    using assms(1) by (simp add: core_ok_def)
  ultimately show ?thesis
    using start_nil [OF assms(1) Nil] k assms(4)
    by (intro exI [of _ ?w] exI [of _ dn] exI [of _ Reading]) simp
next
  case (Cons m ms)
  show ?thesis
  proof (cases "m_local m")
    case True
    obtain A F bs where e: "startNextMove rd v =
        (None, v\<lparr>queue := ms, pendingMood := move_mood (pendingMood v) m, chain := chain v @ bs,
           effects := F, actors := A, waitLocal := Some 0.9, currentLocal := True\<rparr>)" (is "_ = (None, ?w)")
        "same_actors A (actors v)" "length bs = stores [m]" "chain_ok (chain v @ bs)"
      using start_local [OF assms(1) Cons True] by blast
    have k: "kept v ?w" by (simp add: kept_def)
    have "script ?w (dn @ [m]) (air_of Waiting)"
      using assms(2) kept_base [OF k] kept_current [OF k] Cons e(3) by (simp add: script_def)
    moreover have "core_ok sc ?w"
      using assms(1) Cons e(4) actors_ok_same [OF e(2)] by (simp add: core_ok_def)
    ultimately show ?thesis
      using e(1) k assms(3) Cons True by (intro exI [of _ ?w] exI [of _ "dn @ [m]"] exI [of _ Waiting]) simp
  next
    case False
    obtain A F where e: "startNextMove rd v =
        (None, v\<lparr>queue := ms, currentLocal := False, effects := F, groups := groups v @ [next_group v],
              next_group := Suc (next_group v), packets := packets v @ [new_packet rd (next_group v) m], actors := A\<rparr>)"
        (is "_ = (None, ?w)") "same_actors A (actors v)"
      using start_packet [OF assms(1) Cons False] by blast
    let ?p = "new_packet rd (next_group v) m"
    have k: "kept v ?w" by (simp add: kept_def)
    have m: "move_ok (scene_ids sc) m"
      using assms(1) Cons by (simp add: core_ok_def)
    have "script ?w dn (air_of (Flying ?p))"
      using assms(2) kept_base [OF k] kept_current [OF k] Cons by (simp add: script_def)
    moreover have "core_ok sc ?w"
      using assms(1) Cons actors_ok_same [OF e(2)] by (simp add: core_ok_def)
    moreover have "phase_of (Flying ?p) (packets v) ?w"
      using assms(3) Cons False move_dur_pos [OF m] by simp
    ultimately show ?thesis
      using e(1) k by (intro exI [of _ ?w] exI [of _ dn] exI [of _ "Flying ?p"]) simp
  qed
qed

subsection \<open>The invariant\<close>

definition stuck :: "view \<Rightarrow> bool" where
  "stuck v \<longleftrightarrow> running v \<and> packets v = [] \<and> \<not> currentLocal v"

definition air :: "view \<Rightarrow> move list" where
  "air v = map p_move (packets v)"

text \<open>
  Where the step stands: one message lost, or what has begun is what is in the air, and the part
  so far flows.
\<close>

definition progress_ok :: "view \<Rightarrow> move list \<Rightarrow> move list \<Rightarrow> bool" where
  "progress_ok v dn rest \<longleftrightarrow>
     (if stuck v then length rest = 1
      else rest = air v \<and> flows (dn @ rest) \<and> (running v \<and> currentLocal v \<longrightarrow> dn \<noteq> [] \<and> m_local (last dn)))"

definition packet_ok :: "scene \<Rightarrow> packet \<Rightarrow> bool" where
  "packet_ok sc p \<longleftrightarrow> 0 < p_dur p \<and> move_ok (scene_ids sc) (p_move p) \<and> \<not> m_local (p_move p)"

definition playback_ok :: "scene \<Rightarrow> view \<Rightarrow> bool" where
  "playback_ok sc v \<longleftrightarrow> core_ok sc v
     \<and> (\<exists>dn rest. script v dn rest \<and> progress_ok v dn rest)
     \<and> length (packets v) \<le> 1 \<and> (packets v \<noteq> [] \<longrightarrow> running v \<and> \<not> currentLocal v)
     \<and> list_all (packet_ok sc) (packets v)
     \<and> (currentLocal v \<longrightarrow> waitLocal v \<noteq> None)
     \<and> (\<not> running v \<longrightarrow> queue v = [] \<and> readTime v \<noteq> None)"

definition controls_ok :: "view \<Rightarrow> bool" where
  "controls_ok v \<longleftrightarrow> 8 \<le> orbit_radius v \<and> orbit_radius v \<le> 30 \<and> 0.35 \<le> orbit_phi v \<and> orbit_phi v \<le> 1.45
     \<and> speed v \<in> set speed_choices \<and> (play_label v = (if playing v then ''Pause'' else ''Play''))"

definition panel_ok :: "view \<Rightarrow> bool" where
  "panel_ok v \<longleftrightarrow> ui v = ui (show_step (stepIndex v) (current v) v)"

definition view_ok :: "scene \<Rightarrow> view \<Rightarrow> bool" where
  "view_ok sc v \<longleftrightarrow> playback_ok sc v \<and> controls_ok v \<and> panel_ok v"

lemma show_step_ui: "steps_of v = steps_of w \<Longrightarrow> ui (show_step i s v) = ui (show_step i s w)"
  by (simp add: show_step_def Let_def)

lemma kept_ok: "kept v w \<Longrightarrow> controls_ok w = controls_ok v" "kept v w \<Longrightarrow> panel_ok w = panel_ok v"
proof -
  assume k: "kept v w"
  then show "controls_ok w = controls_ok v"
    by (simp add: controls_ok_def kept_def)
  have "steps_of w = steps_of v" "stepIndex w = stepIndex v" "ui w = ui v"
    using k by (simp_all add: steps_of_def kept_def)
  then show "panel_ok w = panel_ok v"
    using kept_current [OF k] show_step_ui [of w v] by (simp add: panel_ok_def)
qed

lemma core_moves_ok: "core_ok sc v \<Longrightarrow> list_all (move_ok (scene_ids sc)) (moves_of (current v))"
  using wf_step_ok [OF _ current_in] by (auto simp: core_ok_def step_ok_def)

lemma script_air_ok:
  assumes "core_ok sc v" "script v dn rest"
  shows "list_all (move_ok (scene_ids sc)) rest"
  using core_moves_ok [OF assms(1)] assms(2) by (simp add: script_def)

text \<open>After \<open>startNextMove\<close> with nothing in the air, the packet it launched is the only one.\<close>

lemma playback_fresh:
  assumes "core_ok sc w" "phase_of ph [] w" "script w dn' (air_of ph)" "currentLocal w \<longrightarrow> waitLocal w \<noteq> None"
    and "grown ph dn dn'" "flows dn" "dn = [] \<or> m_local (last dn) \<or> ph = Reading"
  shows "playback_ok sc w \<and> \<not> stuck w"
proof -
  have ns: "\<not> stuck w" and air: "air w = air_of ph"
    using assms(2) by (cases ph; simp add: stuck_def air_def)+
  have "progress_ok w dn' (air_of ph)"
    using assms(2,5-7) ns air by (cases ph) (auto simp: progress_ok_def flows_snoc)
  then show ?thesis
    using assms(1-4) ns script_air_ok [OF assms(1,3)]
    by (cases ph) (auto simp: playback_ok_def packet_ok_def)
qed

text \<open>
  After \<open>startNextMove\<close> inside the \<open>filter\<close> callback, once the assignment has dropped what was
  pushed: a packet that was launched is gone, and the view is stuck.
\<close>

lemma playback_filtered:
  assumes "core_ok sc w" "phase_of ph ps w" "script w dn' (air_of ph)" "currentLocal w \<longrightarrow> waitLocal w \<noteq> None"
    and "grown ph dn dn'" "flows dn"
  shows "playback_ok sc (w\<lparr>packets := []\<rparr>)"
    and "stuck (w\<lparr>packets := []\<rparr>) \<longleftrightarrow> (\<exists>p. ph = Flying p)"
proof -
  let ?u = "w\<lparr>packets := []\<rparr>"
  have k: "kept w ?u" by (simp add: kept_def)
  have s: "script ?u dn' (air_of ph)"
    using assms(3) kept_current [OF k] kept_base [OF k] by (simp add: script_def)
  have c: "core_ok sc ?u"
    using assms(1) by (simp add: core_ok_def)
  show st: "stuck ?u \<longleftrightarrow> (\<exists>p. ph = Flying p)"
    using assms(2) by (cases ph) (auto simp: stuck_def)
  have "progress_ok ?u dn' (air_of ph)"
    using assms(2,5,6) st by (cases ph) (auto simp: progress_ok_def flows_snoc air_def)
  then show "playback_ok sc ?u"
    using assms(2,4) c s by (cases ph) (auto simp: playback_ok_def)
qed

subsection \<open>Going to a step keeps the invariant\<close>

definition static_ok :: "scene \<Rightarrow> view \<Rightarrow> bool" where
  "static_ok sc v \<longleftrightarrow> v_def v = sc \<and> wf_scene sc \<and> actors_ok sc (actors v) \<and> chain_ok (chain v)
     \<and> (currentLocal v \<longrightarrow> waitLocal v \<noteq> None)"

definition moved :: "view \<Rightarrow> view \<Rightarrow> bool" where
  "moved v w \<longleftrightarrow> v_def w = v_def v \<and> playing w = playing v
     \<and> speed w = speed v \<and> play_label w = play_label v \<and> orbit_theta w = orbit_theta v
     \<and> orbit_phi w = orbit_phi v \<and> orbit_radius w = orbit_radius v \<and> userMoved w = userMoved v
     \<and> drag w = drag v \<and> visible w = visible v \<and> last_time w = last_time v"

lemma moved_controls: "moved v w \<Longrightarrow> controls_ok w = controls_ok v"
  by (simp add: controls_ok_def moved_def)

text \<open>The state \<open>goTo\<close> hands to \<open>startNextMove\<close>.\<close>

lemma goTo_entry:
  assumes "static_ok sc v" "0 \<le> i" "i < int (length (d_steps sc))"
  shows "\<exists>u. goTo rd i v = do_all [startNextMove rd, when_act (moves_of (current u) = [] \<and> truthy (s_effect (current u)))
             (applyEffect rd (effect_move (current u)) True),
             pure_act (if truthy (s_actor (current u)) then pulse (s_actor (current u)) else id)] u
     \<and> core_ok sc u \<and> moved v u \<and> stepIndex u = i \<and> running u \<and> packets u = []
     \<and> queue u = moves_of (current u) \<and> script u [] [] \<and> panel_ok u
     \<and> (currentLocal u \<longrightarrow> waitLocal u \<noteq> None)"
proof -
  define v1 where "v1 = (clearPackets v)\<lparr>stepIndex := i\<rparr>"
  have v1: "steps_of v1 = d_steps sc" "chain v1 = chain v" "actors v1 = actors v" "packets v1 = []"
    using assms(1) by (auto simp: v1_def clearPackets_def steps_of_def static_ok_def)
  obtain s where s: "step_at v1 i = Some s" "s = d_steps sc ! nat i"
    using assms(2,3) by (simp add: step_at_def v1)
  obtain bs where bs: "settle rd i v1 = (None, v1\<lparr>chain := bs,
      pendingMood := own_mood (foldl step_mood (Some ''happy'') (take (nat i) (steps_of v1))) s\<rparr>)"
      (is "_ = (None, ?v2)")
      "length bs = sum_list (map step_blocks (take (nat i) (steps_of v1)))"
      "chain_ok (chain v1) \<longrightarrow> chain_ok bs"
    using settle_form [OF s(1)] by blast
  define v2 where "v2 = ?v2"
  define u where "u = (show_step i s v2)\<lparr>queue := moves_of s, running := True\<rparr>"
  have sel: "v_def u = v_def v" "stepIndex u = i" "chain u = bs" "actors u = actors v" "packets u = []"
      "steps_of u = d_steps sc" "queue u = moves_of s" "running u"
    using v1 assms(1)
    by (auto simp: u_def v2_def show_step_def Let_def v1_def clearPackets_def steps_of_def static_ok_def)
  have cur: "current u = s"
    using sel s(2) by (simp add: current_def)
  have "steps_of v2 = steps_of v1"
    by (simp add: v2_def steps_of_def)
  then have "step_at v2 i = step_at v1 i"
    by (simp add: step_at_def)
  then have "step_at v2 i = Some s"
    using s(1) by simp
  then have goto: "goTo rd i v = do_all [startNextMove rd, when_act (moves_of s = [] \<and> truthy (s_effect s))
             (applyEffect rd (effect_move s) True),
             pure_act (if truthy (s_actor s) then pulse (s_actor s) else id)] u"
    using bs(1) by (simp add: goTo_def v1_def [symmetric] v2_def [symmetric] enter_step_def u_def pure_act_def)
  have "s \<in> set (d_steps sc)"
    using s(2) assms(2,3) by simp
  then have "list_all (move_ok (scene_ids sc)) (moves_of s)"
    using assms(1) wf_step_ok by (auto simp: static_ok_def step_ok_def)
  then have core: "core_ok sc u"
    using assms bs(3) v1 sel by (auto simp: core_ok_def static_ok_def)
  have "pendingMood u = own_mood (foldl step_mood (Some ''happy'') (take (nat i) (d_steps sc))) s"
    using v1 by (simp add: u_def v2_def show_step_def Let_def)
  then have scr: "script u [] []"
    using sel cur bs(2) v1(1) by (simp add: script_def base_blocks_def base_mood_def)
  have "ui u = ui (show_step i s v2)" "steps_of v2 = steps_of u"
    by (simp_all add: u_def show_step_def steps_of_def Let_def)
  then have pan: "panel_ok u"
    using sel cur show_step_ui [of v2 u] by (simp add: panel_ok_def)
  have "moved v u" "currentLocal u \<longrightarrow> waitLocal u \<noteq> None"
    using assms(1)
    by (auto simp: moved_def u_def v2_def v1_def show_step_def Let_def clearPackets_def static_ok_def)
  then show ?thesis
    using core sel scr pan by (intro exI [of _ u], unfold cur) (intro conjI goto, simp_all)
qed

lemma kept_pulse: "kept v w \<Longrightarrow> kept v (pulse i w)"
proof -
  assume k: "kept v w"
  obtain A where "pulse i w = w\<lparr>actors := A\<rparr>" using pulse_form by blast
  with k show ?thesis by (simp add: kept_def)
qed

lemma core_pulse: "core_ok sc v \<Longrightarrow> core_ok sc (pulse i v)"
  using actors_ok_same [OF same_actors_pulse] by (simp add: core_ok_def)

lemma script_pulse: "script (pulse i v) dn rest = script v dn rest"
  by (simp add: script_def current_def base_blocks_def base_mood_def steps_of_def)

lemma phase_pulse: "phase_of ph ps (pulse i w) = phase_of ph ps w"
  by (cases ph) (auto simp: current_def steps_of_def)

lemma moved_kept: "moved u v \<Longrightarrow> kept v w \<Longrightarrow> moved u w"
  by (simp add: moved_def kept_def)

text \<open>
  For every step of the scene, \<open>goTo\<close> throws nothing, leaves a sound view that is not stuck, and has
  begun the first move of the step and no other.
\<close>

definition just_entered :: "view \<Rightarrow> bool" where
  "just_entered w \<longleftrightarrow> (\<exists>ph dn. phase_of ph [] w \<and> script w dn (air_of ph) \<and> grown ph [] dn)"

lemma goTo_ok:
  assumes "static_ok sc v" "0 \<le> i" "i < int (length (d_steps sc))"
  shows "\<exists>w. goTo rd i v = (None, w) \<and> playback_ok sc w \<and> \<not> stuck w \<and> moved v w \<and> stepIndex w = i \<and> panel_ok w
     \<and> just_entered w"
proof -
  obtain u where u: "goTo rd i v = do_all [startNextMove rd,
             when_act (moves_of (current u) = [] \<and> truthy (s_effect (current u)))
             (applyEffect rd (effect_move (current u)) True),
             pure_act (if truthy (s_actor (current u)) then pulse (s_actor (current u)) else id)] u"
     "core_ok sc u" "moved v u" "stepIndex u = i" "running u" "packets u = []"
     "script u [] []" "panel_ok u" "currentLocal u \<longrightarrow> waitLocal u \<noteq> None"
    using goTo_entry [OF assms] by blast
  obtain w dn ph where w: "startNextMove rd u = (None, w)" "core_ok sc w" "kept u w"
      "phase_of ph [] w" "script w dn (air_of ph)" "currentLocal w \<longrightarrow> waitLocal w \<noteq> None" "grown ph [] dn"
    using start_script [OF u(2) u(7) _ u(9), of rd] u(5) unfolding u(6) by blast
  have no_effect: "\<not> truthy (s_effect (current u))"
    using wf_step_ok [OF _ current_in [OF u(2)]] u(2) by (simp add: core_ok_def step_ok_def)
  define i' where "i' = s_actor (current u)"
  define x where "x = (if truthy i' then pulse i' w else w)"
  have go: "goTo rd i v = (None, x)"
    using u(1) w(1) no_effect by (simp add: x_def i'_def pure_act_def)
  have x: "core_ok sc x" "phase_of ph [] x" "script x dn (air_of ph)" "kept u x"
      "currentLocal x \<longrightarrow> waitLocal x \<noteq> None"
    using w core_pulse phase_pulse script_pulse kept_pulse by (auto simp: x_def)
  have "playback_ok sc x \<and> \<not> stuck x"
    using playback_fresh [OF x(1,2,3,5) w(7)] by simp
  moreover have "panel_ok x" "stepIndex x = i" "moved v x"
    using kept_ok(2) [OF x(4)] u(3,4,8) x(4) moved_kept by (auto simp: kept_def)
  moreover have "just_entered x"
    unfolding just_entered_def using x(2,3) w(7) by blast
  ultimately show ?thesis using go by blast
qed

lemma core_static: "core_ok sc v \<Longrightarrow> currentLocal v \<longrightarrow> waitLocal v \<noteq> None \<Longrightarrow> static_ok sc v"
  by (simp add: core_ok_def static_ok_def)

lemma view_static: "view_ok sc v \<Longrightarrow> static_ok sc v"
  by (rule core_static) (auto simp: view_ok_def playback_ok_def)

lemma goTo_view_ok:
  assumes "static_ok sc v" "controls_ok v" "0 \<le> i" "i < int (length (d_steps sc))"
  shows "\<exists>w. goTo rd i v = (None, w) \<and> view_ok sc w \<and> \<not> stuck w \<and> moved v w \<and> stepIndex w = i \<and> just_entered w"
  using goTo_ok [OF assms(1,3,4), of rd] moved_controls assms(2) by (auto simp: view_ok_def)

end
