(* ===== verification/Scene_Frames.thy ===== *)
theory Scene_Frames
  imports Scene_Safety
begin

section \<open>Frames and events keep the invariant\<close>

text \<open>
  Every listener and the animation frame take a sound view to a sound view and throw nothing.
  What a frame writes besides the playback (camera angle, glow, effects, falling blocks, the
  mascot) leaves the playback as it is, which \<open>same_playback\<close> captures once.
\<close>

subsection \<open>Updates that do not touch the playback\<close>

definition same_playback :: "view \<Rightarrow> view \<Rightarrow> bool" where
  "same_playback v w \<longleftrightarrow> v_def w = v_def v \<and> stepIndex w = stepIndex v \<and> queue w = queue v
     \<and> packets w = packets v \<and> running w = running v \<and> currentLocal w = currentLocal v
     \<and> (waitLocal w = None) = (waitLocal v = None) \<and> (readTime w = None) = (readTime v = None)
     \<and> pendingMood w = pendingMood v \<and> length (chain w) = length (chain v)
     \<and> (chain_ok (chain v) \<longrightarrow> chain_ok (chain w)) \<and> same_actors (actors w) (actors v) \<and> ui w = ui v"

lemma same_playback_refl [simp]: "same_playback v v"
  by (simp add: same_playback_def)

lemma same_playback_trans: "same_playback u v \<Longrightarrow> same_playback v w \<Longrightarrow> same_playback u w"
proof -
  assume a: "same_playback u v" and b: "same_playback v w"
  then have "same_actors (actors w) (actors u)"
    using same_actors_trans [of "actors w" "actors v" "actors u"] by (simp add: same_playback_def)
  then show ?thesis
    using a b by (simp add: same_playback_def)
qed

lemma same_playback_ok:
  assumes "same_playback v w"
  shows "playback_ok sc v \<Longrightarrow> playback_ok sc w" "stuck w = stuck v" "panel_ok w = panel_ok v"
proof -
  have eq: "v_def w = v_def v" "stepIndex w = stepIndex v" "queue w = queue v" "packets w = packets v"
      "running w = running v" "currentLocal w = currentLocal v"
      "(waitLocal w = None) = (waitLocal v = None)" "(readTime w = None) = (readTime v = None)"
      "pendingMood w = pendingMood v" "length (chain w) = length (chain v)"
      "chain_ok (chain v) \<longrightarrow> chain_ok (chain w)" "same_actors (actors w) (actors v)" "ui w = ui v"
    using assms by (simp_all add: same_playback_def)
  have cur: "current w = current v" "steps_of w = steps_of v"
    using eq by (simp_all add: current_def steps_of_def)
  have scr: "script w dn rest = script v dn rest" for dn rest
    using eq cur by (simp add: script_def base_blocks_def base_mood_def)
  show st: "stuck w = stuck v"
    using eq by (simp add: stuck_def)
  show "panel_ok w = panel_ok v"
    using eq cur show_step_ui [of w v] by (simp add: panel_ok_def)
  assume p: "playback_ok sc v"
  have "core_ok sc w"
    using p eq actors_ok_same [OF eq(12)] by (auto simp: playback_ok_def core_ok_def)
  moreover have "progress_ok w dn rest = progress_ok v dn rest" for dn rest
    using eq st by (simp add: progress_ok_def air_def)
  ultimately show "playback_ok sc w"
    using p eq scr by (simp add: playback_ok_def)
qed

lemma same_camera [simp]: "same_playback v (step_camera rd dt v)"
  by (simp add: step_camera_def same_playback_def)

lemma same_glow [simp]: "same_playback v (step_glow dt v)"
  by (simp add: step_glow_def same_playback_def same_actors_def option.map_comp comp_def)

lemma same_effects [simp]: "same_playback v (step_effects dt v)"
  by (simp add: step_effects_def same_playback_def)

lemma same_chain [simp]: "same_playback v (step_chain dt v)"
  using step_chain_ok [of v dt] by (simp add: step_chain_def same_playback_def)

lemma same_dilly [simp]: "same_playback v (step_dilly v)"
  by (simp add: step_dilly_def same_playback_def)

text \<open>The controls a frame leaves alone.\<close>

lemma frame_updates_controls [simp]:
  "controls_ok (step_camera rd dt v) = controls_ok v" "controls_ok (step_glow dt v) = controls_ok v"
  "controls_ok (step_effects dt v) = controls_ok v" "controls_ok (step_chain dt v) = controls_ok v"
  "controls_ok (step_dilly v) = controls_ok v" "controls_ok (v\<lparr>last_time := t\<rparr>) = controls_ok v"
  by (simp_all add: controls_ok_def step_camera_def step_glow_def step_effects_def step_chain_def step_dilly_def)

lemma same_view_ok: "same_playback v w \<Longrightarrow> controls_ok w = controls_ok v \<Longrightarrow> view_ok sc v \<Longrightarrow> view_ok sc w"
  using same_playback_ok by (auto simp: view_ok_def)

subsection \<open>The arrival of a packet\<close>

lemma arrive_ok:
  assumes v: "playback_ok sc v" and p: "packets v = [p]" and q: "p_move q = p_move p"
  shows "\<exists>w ph dn dn'. arrive rd q v = (None, w) \<and> core_ok sc w \<and> kept v w
     \<and> phase_of ph [p] w \<and> script w dn' (air_of ph) \<and> (currentLocal w \<longrightarrow> waitLocal w \<noteq> None)
     \<and> grown ph dn dn' \<and> flows dn \<and> moves_of (current v) = dn @ queue v
     \<and> (\<exists>d0. dn = d0 @ [p_move p])"
proof -
  have core: "core_ok sc v" and run: "running v" "\<not> currentLocal v" and ns: "\<not> stuck v"
    using v p by (auto simp: playback_ok_def stuck_def)
  then obtain dn where dn: "script v dn [p_move p]" "flows (dn @ [p_move p])"
    using v p by (auto simp: playback_ok_def progress_ok_def air_def)
  have m: "move_ok (scene_ids sc) (p_move q)"
    using v p q by (simp add: playback_ok_def packet_ok_def)
  have act: "actors_ok sc (actors v)"
    using core by (simp add: core_ok_def)
  obtain A F bs where e: "applyEffect rd (p_move q) True v = (None,
        v\<lparr>pendingMood := move_mood (pendingMood v) (p_move q), chain := chain v @ bs, effects := F, actors := A\<rparr>)"
        "same_actors A (actors v)" "length bs = stores [p_move q]" "chain_ok (chain v) \<longrightarrow> chain_ok (chain v @ bs)"
    using applyEffect_form [OF act m] by blast
  define u0 where "u0 = v\<lparr>pendingMood := move_mood (pendingMood v) (p_move q), chain := chain v @ bs,
      effects := F, actors := A\<rparr>"
  define u1 where "u1 = (if m_kind (p_move q) = Some ''reject'' then burst rd 0xe5484d u0 else u0)"
  define u where "u = u1\<lparr>groups := filter (\<lambda>g. g \<noteq> p_group q) (groups u1)\<rparr>"
  have arr: "arrive rd q v = startNextMove rd u"
    using e(1) by (simp add: arrive_def u_def u1_def u0_def pure_act_def)
  have u: "v_def u = v_def v" "stepIndex u = stepIndex v" "queue u = queue v" "chain u = chain v @ bs"
      "actors u = A" "pendingMood u = move_mood (pendingMood v) (p_move q)" "running u = running v"
      "currentLocal u = currentLocal v" "waitLocal u = waitLocal v" "packets u = packets v"
    by (simp_all add: u_def u1_def u0_def burst_def)
  have k: "kept v u"
    by (simp add: kept_def u_def u1_def u0_def burst_def)
  have "core_ok sc u"
    using core e(4) actors_ok_same [OF e(2)] by (simp add: core_ok_def u)
  moreover have "script u (dn @ [p_move p]) []"
    using dn(1) e(3) q kept_current [OF k] kept_base [OF k] by (simp add: script_def u)
  moreover have "running u" "currentLocal u \<longrightarrow> waitLocal u \<noteq> None" "packets u = [p]"
    using run p by (simp_all add: u)
  ultimately obtain w dn' ph where "startNextMove rd u = (None, w)" "core_ok sc w" "kept u w"
      "phase_of ph [p] w" "script w dn' (air_of ph)" "currentLocal w \<longrightarrow> waitLocal w \<noteq> None"
      "grown ph (dn @ [p_move p]) dn'"
    using start_script [of sc u "dn @ [p_move p]" rd] by auto
  moreover have "moves_of (current v) = (dn @ [p_move p]) @ queue v"
    using dn(1) by (simp add: script_def)
  ultimately show ?thesis
    using arr kept_trans [OF k] dn(2) by auto
qed

lemma kept_packets: "kept v w \<Longrightarrow> kept v (w\<lparr>packets := ps\<rparr>)"
  by (simp add: kept_def)

lemma kept_view_ok: "kept v w \<Longrightarrow> view_ok sc v \<Longrightarrow> playback_ok sc w \<Longrightarrow> view_ok sc w"
  using kept_ok by (simp add: view_ok_def)

subsection \<open>The packets of a frame\<close>

definition advanced_packet :: "rat \<Rightarrow> packet \<Rightarrow> packet" where
  "advanced_packet sdt p = p\<lparr>p_t := p_t p + sdt / p_dur p\<rparr>"

lemma advanced_sel [simp]:
  "p_move (advanced_packet sdt p) = p_move p" "p_group (advanced_packet sdt p) = p_group p"
  "p_dur (advanced_packet sdt p) = p_dur p" "p_t (advanced_packet sdt p) = p_t p + sdt / p_dur p"
  by (simp_all add: advanced_packet_def)

lemma step_packets_nil: "packets v = [] \<Longrightarrow> step_packets rd sdt v = (None, v)"
  by (simp add: step_packets_def)

lemma step_packets_flying:
  assumes "packets v = [p]" "p_t (advanced_packet sdt p) < 1"
  shows "step_packets rd sdt v = (None, v\<lparr>packets := [advanced_packet sdt p]\<rparr>)"
  using assms by (simp add: step_packets_def advanced_packet_def Let_def)

lemma step_packets_arrived:
  assumes "packets v = [p]" "1 \<le> p_t (advanced_packet sdt p)" "arrive rd (advanced_packet sdt p) v = (None, w)"
  shows "step_packets rd sdt v = (None, w\<lparr>packets := []\<rparr>)"
  using assms by (simp add: step_packets_def advanced_packet_def Let_def)

lemma packets_cases:
  assumes "playback_ok sc v"
  obtains "packets v = []" | p where "packets v = [p]"
  using assms by (cases "packets v") (auto simp: playback_ok_def)

lemma step_packets_ok:
  assumes v: "view_ok sc v"
  shows "\<exists>w. step_packets rd sdt v = (None, w) \<and> view_ok sc w \<and> kept v w"
proof -
  have pb: "playback_ok sc v" using v by (simp add: view_ok_def)
  then show ?thesis
  proof (cases rule: packets_cases)
    case 1
    then show ?thesis using v step_packets_nil by auto
  next
    case (2 p)
    let ?q = "advanced_packet sdt p"
    show ?thesis
    proof (cases "1 \<le> p_t ?q")
      case True
      have "p_move ?q = p_move p" by simp
      then obtain w ph dn dn' where w: "arrive rd ?q v = (None, w)" "core_ok sc w" "kept v w" "phase_of ph [p] w"
          "script w dn' (air_of ph)" "currentLocal w \<longrightarrow> waitLocal w \<noteq> None" "grown ph dn dn'" "flows dn"
        using arrive_ok [OF pb 2] by blast
      have "playback_ok sc (w\<lparr>packets := []\<rparr>)"
        using playback_filtered(1) [OF w(2,4-8)] .
      then show ?thesis
        using step_packets_arrived [OF 2 True w(1)] kept_view_ok [OF kept_packets [OF w(3)] v]
          kept_packets [OF w(3)] by blast
    next
      case False
      let ?w = "v\<lparr>packets := [?q]\<rparr>"
      have k: "kept v ?w" by (simp add: kept_def)
      have scr: "script ?w dn rest = script v dn rest" for dn rest
        using kept_current [OF k] kept_base [OF k] by (simp add: script_def)
      have "progress_ok ?w dn rest = progress_ok v dn rest" for dn rest
        using 2 by (simp add: progress_ok_def stuck_def air_def)
      then have "playback_ok sc ?w"
        using pb 2 scr by (simp add: playback_ok_def core_ok_def packet_ok_def)
      then show ?thesis
        using step_packets_flying [OF 2] False kept_view_ok [OF k v] k by auto
    qed
  qed
qed

subsection \<open>The local wait and autoplay\<close>

lemma start_resting:
  assumes "startNextMove rd u = (None, w)" "queue u = []" "phase_of ph ps w"
  shows "ph = Reading"
proof -
  have "\<not> running w"
    using assms(1,2) by (auto simp: startNextMove.simps split: option.splits)
  then show ?thesis
    using assms(3) by (cases ph) auto
qed

lemma step_local_due:
  assumes "waitLocal v = Some x" "currentLocal v" "x - sdt \<le> 0"
  shows "step_local rd sdt v = startNextMove rd (v\<lparr>waitLocal := None, currentLocal := False\<rparr>)"
  using assms by (simp add: step_local_def)

lemma step_local_ok:
  assumes v: "view_ok sc v"
  shows "\<exists>w. step_local rd sdt v = (None, w) \<and> view_ok sc w \<and> kept v w"
proof -
  have pb: "playback_ok sc v" using v by (simp add: view_ok_def)
  show ?thesis
  proof (cases "waitLocal v = None \<or> \<not> currentLocal v")
    case True
    then show ?thesis using v by (auto simp: step_local_def split: option.splits)
  next
    case False
    then obtain x where x: "waitLocal v = Some x" "currentLocal v" by auto
    show ?thesis
    proof (cases "x - sdt \<le> 0")
      case True
      let ?u = "v\<lparr>waitLocal := None, currentLocal := False\<rparr>"
      have k: "kept v ?u" by (simp add: kept_def)
      have ps: "packets v = []" using pb x by (auto simp: playback_ok_def)
      have "\<not> stuck v" using x by (simp add: stuck_def)
      then obtain dn where dn: "script v dn []" "flows dn" "running v \<longrightarrow> m_local (last dn)"
        using pb ps x(2) by (auto simp: playback_ok_def progress_ok_def air_def)
      then have "script ?u dn []"
        using kept_current [OF k] kept_base [OF k] by (simp add: script_def)
      moreover have "core_ok sc ?u" "queue ?u \<noteq> [] \<longrightarrow> running ?u" "currentLocal ?u \<longrightarrow> waitLocal ?u \<noteq> None"
        using pb by (auto simp: playback_ok_def core_ok_def)
      ultimately obtain w dn' ph where w: "startNextMove rd ?u = (None, w)" "core_ok sc w" "kept ?u w"
          "phase_of ph (packets ?u) w" "script w dn' (air_of ph)" "currentLocal w \<longrightarrow> waitLocal w \<noteq> None"
          "grown ph dn dn'"
        using start_script by blast
      have "phase_of ph [] w"
        using w(4) ps by simp
      moreover have "m_local (last dn) \<or> ph = Reading"
        using dn(3) start_resting [OF w(1) _ w(4)] pb by (auto simp: playback_ok_def)
      ultimately have "playback_ok sc w"
        using playback_fresh w(2,5,6,7) dn(2) by blast
      then show ?thesis
        using step_local_due [OF x True] w(1) kept_view_ok [OF kept_trans [OF k w(3)] v] kept_trans [OF k w(3)]
        by auto
    next
      case False
      let ?w = "v\<lparr>waitLocal := Some (x - sdt)\<rparr>"
      have "same_playback v ?w" "controls_ok ?w = controls_ok v" "kept v ?w"
        using x by (simp_all add: same_playback_def controls_ok_def kept_def)
      then show ?thesis
        using x False same_view_ok v by (auto simp: step_local_def)
    qed
  qed
qed

lemma pause_ok: "view_ok sc v \<Longrightarrow> view_ok sc (pause v)"
  using same_playback_ok [of v "pause v"]
  by (simp add: view_ok_def pause_def same_playback_def controls_ok_def)

lemma step_range: "view_ok sc v \<Longrightarrow> 0 \<le> stepIndex v \<and> stepIndex v \<le> last_index v"
  "view_ok sc v \<Longrightarrow> last_index v = int (length (d_steps sc)) - 1"
  by (auto simp: view_ok_def playback_ok_def core_ok_def last_index_def steps_of_def)

lemma goTo_from:
  assumes "view_ok sc v" "0 \<le> i" "i \<le> last_index v"
  shows "\<exists>w. goTo rd i v = (None, w) \<and> view_ok sc w \<and> \<not> stuck w \<and> moved v w \<and> stepIndex w = i \<and> just_entered w"
  using goTo_view_ok [OF view_static [OF assms(1)], of i rd] assms step_range(2) [OF assms(1)]
  by (auto simp: view_ok_def)

lemma step_autoplay_ok:
  assumes v: "view_ok sc v"
  shows "\<exists>w. step_autoplay rd sdt v = (None, w) \<and> view_ok sc w"
proof (cases "playing v \<and> \<not> running v \<and> packets v = []")
  case False
  then show ?thesis using v by (auto simp: step_autoplay_def)
next
  case True
  then obtain r where r: "readTime v = Some r"
    using v by (auto simp: view_ok_def playback_ok_def)
  let ?u = "v\<lparr>readTime := Some (r - sdt)\<rparr>"
  have "same_playback v ?u" "controls_ok ?u = controls_ok v"
    using r by (simp_all add: same_playback_def controls_ok_def)
  then have u: "view_ok sc ?u"
    using same_view_ok v by blast
  have "\<exists>w. goTo rd (stepIndex ?u + 1) ?u = (None, w) \<and> view_ok sc w" if "stepIndex ?u < last_index ?u"
  proof -
    have "0 \<le> stepIndex ?u + 1" "stepIndex ?u + 1 \<le> last_index ?u"
      using that step_range(1) [OF u] by linarith+
    then show ?thesis
      using goTo_from [OF u] by blast
  qed
  then show ?thesis
    using True r u pause_ok [OF u] by (simp add: step_autoplay_def Let_def del: split_paired_Ex)
qed

subsection \<open>Frames and events\<close>

lemma same_step_view_ok:
  assumes "view_ok sc v"
  shows "view_ok sc (step_camera rd dt v)" "view_ok sc (step_glow dt v)"
    "view_ok sc (step_effects dt v)" "view_ok sc (step_chain dt v)" "view_ok sc (step_dilly v)"
  by (rule same_view_ok [OF _ _ assms]; simp)+

lemma clock_view_ok: "view_ok sc v \<Longrightarrow> view_ok sc (v\<lparr>last_time := t\<rparr>)"
  by (rule same_view_ok [of v]) (simp_all add: same_playback_def controls_ok_def)

lemma keeps_frame_parts:
  "keeps (view_ok sc) (pure_act (step_camera rd dt))" "keeps (view_ok sc) (pure_act (step_glow dt))"
  "keeps (view_ok sc) (step_packets rd sdt)" "keeps (view_ok sc) (step_local rd sdt)"
  "keeps (view_ok sc) (pure_act (step_effects dt))" "keeps (view_ok sc) (pure_act (step_chain dt))"
  "keeps (view_ok sc) (pure_act step_dilly)" "keeps (view_ok sc) (step_autoplay rd sdt)"
proof -
  show "keeps (view_ok sc) (step_packets rd sdt)"
    by (rule keepsI) (use step_packets_ok in blast)
  show "keeps (view_ok sc) (step_local rd sdt)"
    by (rule keepsI) (use step_local_ok in blast)
  show "keeps (view_ok sc) (step_autoplay rd sdt)"
    by (rule keepsI) (use step_autoplay_ok in blast)
qed (rule keeps_pureI, erule same_step_view_ok)+

definition frame_body :: "bool \<Rightarrow> rat \<Rightarrow> rat \<Rightarrow> view act" where
  "frame_body rd dt sdt = do_all
     [pure_act (step_camera rd dt), pure_act (step_glow dt),
      step_packets rd sdt, step_local rd sdt,
      pure_act (step_effects dt), pure_act (step_chain dt), pure_act step_dilly,
      step_autoplay rd sdt]"

lemma frame_eq:
  "frame rd hidden now v =
     (if \<not> visible v \<or> hidden then (None, v\<lparr>last_time := now\<rparr>)
      else frame_body rd (frame_dt now v) (frame_dt now v * speed v) (v\<lparr>last_time := now\<rparr>))"
  unfolding frame_def frame_body_def Let_def by simp

lemma keeps_frame_body: "keeps (view_ok sc) (frame_body rd dt sdt)"
  unfolding frame_body_def by (rule keeps_do_all) (simp only: list.pred_inject keeps_frame_parts simp_thms)

lemma frame_ok: "keeps (view_ok sc) (frame rd hidden now)"
proof (rule keepsI)
  fix v assume "view_ok sc v"
  then have u: "view_ok sc (v\<lparr>last_time := now\<rparr>)" by (rule clock_view_ok)
  show "\<exists>w. frame rd hidden now v = (None, w) \<and> view_ok sc w"
    unfolding frame_eq using u keepsE [OF keeps_frame_body u] by (simp split: if_split) blast
qed

lemma flag_view_ok: "view_ok sc v \<Longrightarrow> view_ok sc (v\<lparr>playing := True, play_label := ''Pause''\<rparr>)"
  using same_playback_ok [of v "v\<lparr>playing := True, play_label := ''Pause''\<rparr>"]
  by (simp add: view_ok_def same_playback_def controls_ok_def)

lemma last_index_nonneg: "view_ok sc v \<Longrightarrow> 0 \<le> last_index v"
  using step_range(1) by fastforce

lemma goTo_act:
  assumes "view_ok sc v" "0 \<le> i" "i \<le> last_index v"
  shows "\<exists>w. goTo rd i v = (None, w) \<and> view_ok sc w"
  using goTo_from [OF assms] by blast

lemma play_ok: "keeps (view_ok sc) (play rd)"
proof (rule keepsI)
  fix v assume "view_ok sc v"
  let ?u = "v\<lparr>playing := True, play_label := ''Pause''\<rparr>"
  have u: "view_ok sc ?u" using flag_view_ok [OF \<open>view_ok sc v\<close>] .
  have "\<exists>w. goTo rd (stepIndex ?u + 1) ?u = (None, w) \<and> view_ok sc w" if "stepIndex ?u < last_index ?u"
    by (rule goTo_act [OF u]) (use that step_range(1) [OF u] in linarith)+
  moreover have "\<exists>w. goTo rd 0 ?u = (None, w) \<and> view_ok sc w"
    by (rule goTo_act [OF u]) (use last_index_nonneg [OF u] in simp_all)
  ultimately show "\<exists>w. play rd v = (None, w) \<and> view_ok sc w"
    using u by (simp add: play_def Let_def)
qed

lemma next_ok: "keeps (view_ok sc) (next_step rd)"
  unfolding next_step_def
  by (rule keepsI, rule goTo_act) (use step_range(1) last_index_nonneg in fastforce)+

lemma prev_ok: "keeps (view_ok sc) (prev_step rd)"
  unfolding prev_step_def
  by (rule keepsI, rule goTo_act) (use step_range(1) last_index_nonneg in fastforce)+

text \<open>Updates of the controls alone.\<close>

lemma control_view_ok:
  assumes "view_ok sc v" "same_playback v w" "controls_ok w"
  shows "view_ok sc w"
  using assms same_playback_ok [OF assms(2)] by (simp add: view_ok_def)

lemma zoom_ok:
  assumes "view_ok sc v"
  shows "view_ok sc (zoom f v)"
  by (rule control_view_ok [OF assms])
    (use assms in \<open>auto simp: zoom_def same_playback_def controls_ok_def view_ok_def\<close>)

lemma drag_ok:
  assumes "view_ok sc v"
  shows "view_ok sc (drag_to x y v)"
  by (rule control_view_ok [OF assms])
    (use assms in \<open>auto simp: drag_to_def same_playback_def controls_ok_def view_ok_def max_def min_def split: option.splits\<close>)

lemma home_ok:
  assumes "view_ok sc v"
  shows "view_ok sc (go_home v)"
  by (rule control_view_ok [OF assms])
    (use assms in \<open>auto simp: go_home_def Let_def same_playback_def controls_ok_def view_ok_def
      playback_ok_def core_ok_def wf_scene_def camera_ok_def\<close>)

lemma small_update_ok:
  assumes "view_ok sc v"
  shows "view_ok sc (v\<lparr>drag := d\<rparr>)" "view_ok sc (v\<lparr>drag := d, userMoved := b\<rparr>)" "view_ok sc (v\<lparr>visible := b\<rparr>)"
    "x \<in> set speed_choices \<Longrightarrow> view_ok sc (v\<lparr>speed := x\<rparr>)"
proof -
  have c: "controls_ok v" using assms by (simp add: view_ok_def)
  show "view_ok sc (v\<lparr>drag := d\<rparr>)" "view_ok sc (v\<lparr>drag := d, userMoved := b\<rparr>)" "view_ok sc (v\<lparr>visible := b\<rparr>)"
    using c by (intro control_view_ok [OF assms]; simp add: same_playback_def controls_ok_def)+
  show "view_ok sc (v\<lparr>speed := x\<rparr>)" if "x \<in> set speed_choices"
    using c that by (intro control_view_ok [OF assms]; simp add: same_playback_def controls_ok_def)
qed

lemma keeps_pause: "keeps (view_ok sc) (pure_act pause)"
  by (rule keeps_pureI) (rule pause_ok)

lemma keeps_restart: "keeps (view_ok sc) (do_all [goTo rd 0, play rd])"
proof -
  have "keeps (view_ok sc) (goTo rd 0)"
    by (rule keepsI, rule goTo_act) (use last_index_nonneg in simp_all)
  then show ?thesis
    using play_ok by (intro keeps_do_all) simp
qed

lemma keeps_next_prev:
  "keeps (view_ok sc) (do_all [pure_act pause, next_step rd])"
  "keeps (view_ok sc) (do_all [pure_act pause, prev_step rd])"
  using keeps_pause next_ok prev_ok by (simp_all only: list.pred_inject simp_thms keeps_do_all)

lemma click_step_ok:
  assumes "view_ok sc v" "i < length (steps_of v)"
  shows "\<exists>w. goTo rd (int i) (pause v) = (None, w) \<and> view_ok sc w"
  by (rule goTo_act [OF pause_ok [OF assms(1)]])
    (use assms(2) in \<open>simp_all add: last_index_def pause_def steps_of_def\<close>)

text \<open>No listener throws, and every listener keeps the invariant.\<close>

lemma handle_ok:
  assumes "view_ok sc v" "enabled e v"
  shows "fst (handle rd e v) = None \<and> view_ok sc (snd (handle rd e v))"
proof (cases e)
  case Click_play
  then show ?thesis
    using keepsD [OF play_ok assms(1)] pause_ok [OF assms(1)] by (simp add: togglePlay_def)
next
  case Click_next
  then show ?thesis using keepsD [OF keeps_next_prev(1) assms(1)] by (simp only: handle.simps)
next
  case Click_prev
  then show ?thesis using keepsD [OF keeps_next_prev(2) assms(1)] by (simp only: handle.simps)
next
  case Click_restart
  then show ?thesis using keepsD [OF keeps_restart assms(1)] by (simp only: handle.simps)
next
  case (Click_step i)
  then show ?thesis using click_step_ok [OF assms(1), of i rd] assms(2) by auto
next
  case (Frame hidden now)
  then show ?thesis using keepsD [OF frame_ok assms(1)] by simp
qed (use assms keepsD [OF next_ok assms(1)] keepsD [OF prev_ok assms(1)]
    in \<open>simp_all add: zoom_ok drag_ok home_ok small_update_ok\<close>)

subsection \<open>Reachable views\<close>

lemma fresh_static: "wf_scene sc \<Longrightarrow> actors_ok sc A \<Longrightarrow> static_ok sc (fresh_view sc\<lparr>actors := A\<rparr>)"
  by (simp add: static_ok_def fresh_view_def)

lemma require_ok:
  "actors_ok sc (actors v) \<Longrightarrow> (truthy i \<longrightarrow> id_ok (scene_ids sc) i) \<Longrightarrow> require_actor i v = (None, v)"
  using actor_at_ok [of sc v i] by (auto simp: require_actor_def)

lemma construct_ok:
  assumes "wf_scene sc"
  shows "\<exists>v. construct rd sc now = (None, v) \<and> view_ok sc v \<and> stepIndex v = 0 \<and> \<not> stuck v"
proof -
  let ?u = "fresh_view sc\<lparr>actors := build_actors (d_actors sc) Map.empty\<rparr>"
  have s: "static_ok sc ?u" using fresh_static [OF assms build_actors_ok] .
  have len: "(0::int) < int (length (d_steps sc))"
    using assms by (simp add: wf_scene_def)
  have c: "controls_ok ?u"
    using assms by (simp add: controls_ok_def fresh_view_def speed_choices_def wf_scene_def camera_ok_def)
  have "d_dilly (v_def (fresh_view sc)) = d_dilly sc" "d_chainAt (v_def (fresh_view sc)) = d_chainAt sc"
    by (simp_all add: fresh_view_def)
  then have b: "buildScene (fresh_view sc) = (None, ?u)"
    using assms require_ok [of sc ?u] build_actors_ok
    by (simp add: buildScene_def wf_scene_def pure_act_def) (simp add: fresh_view_def)
  obtain w where w: "goTo rd 0 ?u = (None, w)" "view_ok sc w" "\<not> stuck w" "stepIndex w = 0"
    using goTo_view_ok [OF s c _ len, of rd] by auto
  let ?v = "w\<lparr>visible := True, last_time := now\<rparr>"
  have "same_playback w ?v" "controls_ok ?v = controls_ok w"
    by (simp_all add: same_playback_def controls_ok_def)
  then have "view_ok sc ?v" "stuck ?v = stuck w"
    using same_view_ok w(2) same_playback_ok(2) by blast+
  then show ?thesis
    using b w by (simp add: construct_def pure_act_def)
qed

lemma reach_ok: "reach rd sc v \<Longrightarrow> wf_scene sc \<Longrightarrow> view_ok sc v"
proof (induction rule: reach.induct)
  case (mounted now v)
  then show ?case using construct_ok [of sc rd now] by auto
next
  case (event v e r w)
  then show ?case using handle_ok [of sc v e rd] by simp
qed

text \<open>The walkthrough player is an event machine: mounted views, enabled events, \<open>view_ok\<close>.\<close>

interpretation player: event_system "handle rd" enabled "view_ok sc"
    "\<lambda>v. wf_scene sc \<and> (\<exists>now. construct rd sc now = (None, v))" for rd sc
proof unfold_locales
  show "fst (handle rd e v) = None \<and> view_ok sc (snd (handle rd e v))"
    if "view_ok sc v" "enabled e v" for e v
    using handle_ok [OF that] .
  show "view_ok sc v" if "wf_scene sc \<and> (\<exists>now. construct rd sc now = (None, v))" for v
    using that reach_ok reach.mounted by blast
qed

end
