(* ===== verification/Navigation.thy ===== *)
theory Navigation
  imports Scene_Frames
begin

section \<open>Going to a step\<close>

text \<open>
  \<open>goTo\<close> computes the chain and the mood of a step from the scene alone, so a view that was
  navigated forgets how it got there.  The definitions \<open>settled_blocks\<close> and \<open>settled_mood\<close> are the
  specification: the blocks stored and the mood reached by all steps before a step.
\<close>

definition settled_blocks :: "scene \<Rightarrow> nat \<Rightarrow> nat" where
  "settled_blocks sc n = sum_list (map step_blocks (take n (d_steps sc)))"

definition settled_mood :: "scene \<Rightarrow> nat \<Rightarrow> string option" where
  "settled_mood sc n = foldl step_mood (Some ''happy'') (take n (d_steps sc))"

text \<open>What has happened right after entering a step: the first move, when it is a local action.\<close>

definition entry_done :: "step \<Rightarrow> move list" where
  "entry_done s = takeWhile m_local (take 1 (moves_of s))"

definition entered_at :: "scene \<Rightarrow> nat \<Rightarrow> view \<Rightarrow> bool" where
  "entered_at sc n w \<longleftrightarrow>
     (let s = d_steps sc ! n; ms = moves_of s in
       stepIndex w = int n \<and> queue w = drop 1 ms \<and> running w = (ms \<noteq> [])
     \<and> map p_move (packets w) = filter (\<lambda>m. \<not> m_local m) (take 1 ms)
     \<and> length (chain w) = settled_blocks sc n + stores (entry_done s)
     \<and> pendingMood w = foldl move_mood (own_mood (settled_mood sc n) s) (entry_done s))"

lemma just_entered_moves:
  assumes "just_entered w"
  shows "queue w = drop 1 (moves_of (current w))" "running w = (moves_of (current w) \<noteq> [])"
    "map p_move (packets w) = filter (\<lambda>m. \<not> m_local m) (take 1 (moves_of (current w)))"
    "script w (entry_done (current w)) (map p_move (packets w))"
proof -
  obtain ph dn where w: "phase_of ph [] w" "script w dn (air_of ph)" "grown ph [] dn"
    using assms unfolding just_entered_def by blast
  have mv: "moves_of (current w) = dn @ air_of ph @ queue w"
    using w(2) by (simp add: script_def)
  have e: "dn = entry_done (current w)" "air_of ph = map p_move (packets w)"
    using w mv by (cases ph; auto simp: entry_done_def)+
  show "queue w = drop 1 (moves_of (current w))" "running w = (moves_of (current w) \<noteq> [])"
      "map p_move (packets w) = filter (\<lambda>m. \<not> m_local m) (take 1 (moves_of (current w)))"
    using w mv by (cases ph; auto)+
  show "script w (entry_done (current w)) (map p_move (packets w))"
    using w(2) e by simp
qed

lemma entered_atI:
  assumes "view_ok sc w" "just_entered w" "stepIndex w = int n"
  shows "entered_at sc n w"
proof -
  have st: "steps_of w = d_steps sc"
    using assms(1) by (simp add: view_ok_def playback_ok_def core_ok_def steps_of_def)
  then have cur: "current w = d_steps sc ! n"
    using assms(3) by (simp add: current_def)
  have base: "base_blocks w = settled_blocks sc n" "base_mood w = own_mood (settled_mood sc n) (current w)"
    using assms(3) st by (simp_all add: base_blocks_def base_mood_def settled_blocks_def settled_mood_def)
  have "length (chain w) = settled_blocks sc n + stores (entry_done (current w))"
      "pendingMood w = foldl move_mood (own_mood (settled_mood sc n) (current w)) (entry_done (current w))"
    using just_entered_moves(4) [OF assms(2)] unfolding script_def base by blast+
  then show ?thesis
    using just_entered_moves(1-3) [OF assms(2)] assms(3) by (simp add: entered_at_def Let_def cur)
qed

lemma goTo_entered:
  assumes "view_ok sc v" "n < length (d_steps sc)"
  shows "\<exists>w. goTo rd (int n) v = (None, w) \<and> view_ok sc w \<and> \<not> stuck w \<and> moved v w \<and> entered_at sc n w"
proof -
  have "int n \<le> last_index v"
    using step_range(2) [OF assms(1)] assms(2) by simp
  then obtain w where "goTo rd (int n) v = (None, w)" "view_ok sc w" "\<not> stuck w" "moved v w"
      "stepIndex w = int n" "just_entered w"
    using goTo_from [OF assms(1), of "int n" rd] by auto
  then show ?thesis using entered_atI by blast
qed

lemma view_panel:
  assumes "view_ok sc v" "stepIndex v = int n"
  shows "ui v = ui (show_step (int n) (d_steps sc ! n) (fresh_view sc))"
proof -
  have st: "steps_of v = steps_of (fresh_view sc)"
    using assms(1) by (simp add: view_ok_def playback_ok_def core_ok_def steps_of_def fresh_view_def)
  then have "current v = d_steps sc ! n"
    using assms(2) by (simp add: current_def) (simp add: steps_of_def fresh_view_def)
  then show ?thesis
    using assms show_step_ui [OF st] by (simp add: view_ok_def panel_ok_def)
qed

end
