(* ===== verification/Playback.thy ===== *)
theory Playback
  imports Navigation
begin

section \<open>What playing a step does\<close>

text \<open>
  Three facts about playback.  A step whose moves were all delivered leaves the audit chain and the
  mood that \<open>settle\<close> computes for the next step.  A message that would start when another message
  arrives is lost, and the view is then stuck until the user navigates.  So autoplay never passes
  a step in which one message directly follows another.
\<close>

subsection \<open>At rest: the animation agrees with \<open>settle\<close>\<close>

lemma step_blocks_ok: "step_ok ids s \<Longrightarrow> step_blocks s = stores (moves_of s)"
  by (auto simp: step_ok_def step_blocks_def stores_def is_store_def)

lemma take_Suc_current:
  "core_ok sc v \<Longrightarrow> take (Suc (nat (stepIndex v))) (d_steps sc) = take (nat (stepIndex v)) (d_steps sc) @ [current v]"
  by (auto simp: core_ok_def current_def steps_of_def take_Suc_conv_app_nth)

lemma at_rest_flows:
  assumes "playback_ok sc v" "\<not> running v"
  shows "script v (moves_of (current v)) []" "flows (moves_of (current v))"
proof -
  have ns: "\<not> stuck v" and q: "queue v = []" and ps: "packets v = []"
    using assms by (auto simp: playback_ok_def stuck_def)
  obtain dn where dn: "script v dn []" "flows dn"
    using assms(1) ns ps by (auto simp: playback_ok_def progress_ok_def air_def)
  then have "dn = moves_of (current v)"
    using q by (simp add: script_def)
  then show "script v (moves_of (current v)) []" "flows (moves_of (current v))"
    using dn by simp_all
qed

lemma at_rest_settled:
  assumes "playback_ok sc v" "\<not> running v"
  shows "length (chain v) = settled_blocks sc (Suc (nat (stepIndex v)))"
    and "pendingMood v = settled_mood sc (Suc (nat (stepIndex v)))"
proof -
  have core: "core_ok sc v" using assms(1) by (simp add: playback_ok_def)
  have scr: "script v (moves_of (current v)) []" using at_rest_flows(1) [OF assms] .
  have steps: "steps_of v = d_steps sc" using core by (simp add: core_ok_def steps_of_def)
  have "step_ok (scene_ids sc) (current v)"
    using wf_step_ok [OF _ current_in [OF core]] core by (simp add: core_ok_def)
  then show "length (chain v) = settled_blocks sc (Suc (nat (stepIndex v)))"
    using scr step_blocks_ok take_Suc_current [OF core] steps
    by (simp add: script_def base_blocks_def settled_blocks_def)
  show "pendingMood v = settled_mood sc (Suc (nat (stepIndex v)))"
    using scr take_Suc_current [OF core] steps
    by (simp add: script_def base_mood_def settled_mood_def step_mood_def)
qed

subsection \<open>Stuck views\<close>

text \<open>The events that go to a step.  The others cannot free a stuck view.\<close>

fun navigates :: "event \<Rightarrow> bool" where
  "navigates Click_next = True"
| "navigates Click_prev = True"
| "navigates Click_restart = True"
| "navigates (Click_step i) = True"
| "navigates Arrow_right = True"
| "navigates Arrow_left = True"
| "navigates _ = False"

text \<open>What a stuck view keeps: the step, the undelivered moves, the chain and the mood.\<close>

definition frozen :: "view \<Rightarrow> view \<Rightarrow> bool" where
  "frozen v w \<longleftrightarrow> stuck w \<and> v_def w = v_def v \<and> stepIndex w = stepIndex v \<and> queue w = queue v
     \<and> length (chain w) = length (chain v) \<and> pendingMood w = pendingMood v \<and> ui w = ui v"

lemma frozen_refl: "stuck v \<Longrightarrow> frozen v v"
  by (simp add: frozen_def)

lemma frozen_trans: "frozen u v \<Longrightarrow> frozen v w \<Longrightarrow> frozen u w"
  by (simp add: frozen_def)

lemma same_frozen: "same_playback v w \<Longrightarrow> stuck v \<Longrightarrow> frozen v w"
  by (simp add: frozen_def same_playback_def stuck_def)

lemma stuck_packets: "stuck v \<Longrightarrow> step_packets rd sdt v = (None, v)"
  by (simp add: stuck_def step_packets_nil)

lemma stuck_local: "stuck v \<Longrightarrow> step_local rd sdt v = (None, v)"
  by (simp add: stuck_def step_local_def split: option.split)

lemma stuck_autoplay: "stuck v \<Longrightarrow> step_autoplay rd sdt v = (None, v)"
  by (simp add: stuck_def step_autoplay_def)

text \<open>Every part of a frame leaves a stuck view frozen.\<close>

lemma keeps_frozen_same:
  assumes "\<And>s. same_playback s (f s)"
  shows "keeps (frozen v) (pure_act f)"
proof (rule keeps_pureI)
  fix s assume s: "frozen v s"
  then have "frozen s (f s)"
    using same_frozen [OF assms] by (simp add: frozen_def)
  with s show "frozen v (f s)" by (rule frozen_trans)
qed

lemma keeps_frozen_frame:
  "keeps (frozen v) (step_packets rd sdt)" "keeps (frozen v) (step_local rd sdt)"
  "keeps (frozen v) (step_autoplay rd sdt)"
  by (simp_all add: keeps_def frozen_def stuck_packets stuck_local stuck_autoplay)

lemma keeps_frozen_body: "keeps (frozen v) (frame_body rd dt sdt)"
  unfolding frame_body_def
  by (rule keeps_do_all) (simp add: keeps_frozen_frame keeps_frozen_same)

lemma frame_frozen:
  assumes "stuck v"
  shows "fst (frame rd hidden now v) = None \<and> frozen v (snd (frame rd hidden now v))"
proof -
  have f: "frozen v (v\<lparr>last_time := now\<rparr>)"
    using assms by (simp add: frozen_def stuck_def)
  show ?thesis
    unfolding frame_eq using keepsD [OF keeps_frozen_body f] f by (simp split: if_split)
qed

lemma passive_frozen:
  assumes "stuck v" "\<not> navigates e"
  shows "fst (handle rd e v) = None \<and> frozen v (snd (handle rd e v))"
  using assms
proof (cases e)
  case (Frame hidden now)
  then show ?thesis using frame_frozen [OF assms(1)] by simp
qed (auto simp: frozen_def stuck_def togglePlay_def pause_def play_def Let_def zoom_def drag_to_def
    go_home_def split: option.splits)

text \<open>A stuck view is a machine of its own under the events that do not navigate.\<close>

interpretation stuck_view: event_machine "handle rd" "\<lambda>e w. \<not> navigates e" "frozen v" for rd v
  by unfold_locales (metis frozen_def frozen_trans passive_frozen)

lemma passive_run_frozen:
  assumes "stuck v" "\<forall>e \<in> set es. \<not> navigates e"
  shows "frozen v (run_events rd es v)"
  using stuck_view.run_keeps [OF frozen_refl [OF assms(1)]] assms(2)
  by (simp add: run_events_def all_allowed_const)

subsection \<open>A message that starts when another arrives is lost\<close>

lemma arrival_loses:
  assumes pb: "playback_ok sc v" and p: "packets v = [p]" and due: "1 \<le> p_t p + sdt / p_dur p"
    and q: "queue v = m # ms" "\<not> m_local m"
  shows "\<exists>w. step_packets rd sdt v = (None, w) \<and> stuck w \<and> kept v w \<and> queue w = ms"
proof -
  let ?q = "advanced_packet sdt p"
  obtain w ph dn dn' where w: "arrive rd ?q v = (None, w)" "core_ok sc w" "kept v w" "phase_of ph [p] w"
      "script w dn' (air_of ph)" "currentLocal w \<longrightarrow> waitLocal w \<noteq> None" "grown ph dn dn'" "flows dn"
      "moves_of (current v) = dn @ queue v"
    using arrive_ok [OF pb p, of ?q rd] by auto
  have eq: "dn' @ air_of ph @ queue w = dn @ m # ms"
    using w(5,9) q kept_current [OF w(3)] by (simp add: script_def)
  then obtain p' where ph: "ph = Flying p'"
    using w(4,7) q(2) by (cases ph) auto
  then have "queue w = ms" using eq w(7) by simp
  moreover have "stuck (w\<lparr>packets := []\<rparr>)"
    using playback_filtered(2) [OF w(2,4-8)] ph by simp
  moreover have "step_packets rd sdt v = (None, w\<lparr>packets := []\<rparr>)"
    using step_packets_arrived [OF p _ w(1)] due by simp
  ultimately show ?thesis
    using kept_packets [OF w(3)] by auto
qed

lemma frame_loses:
  assumes v: "view_ok sc v" and vis: "visible v" and p: "packets v = [p]"
    and due: "1 \<le> p_t p + frame_dt now v * speed v / p_dur p"
    and q: "queue v = m # ms" "\<not> m_local m"
  shows "\<exists>w. frame rd False now v = (None, w) \<and> stuck w \<and> stepIndex w = stepIndex v \<and> queue w = ms"
proof -
  let ?dt = "frame_dt now v" and ?sdt = "frame_dt now v * speed v"
  define u where "u = step_glow ?dt (step_camera rd ?dt (v\<lparr>last_time := now\<rparr>))"
  have u: "view_ok sc u"
    unfolding u_def by (intro same_step_view_ok clock_view_ok v)
  have su: "packets u = packets v" "queue u = queue v" "stepIndex u = stepIndex v"
    by (simp_all add: u_def step_glow_def step_camera_def)
  have pu: "playback_ok sc u" using u by (simp add: view_ok_def)
  obtain w where w: "step_packets rd ?sdt u = (None, w)" "stuck w" "kept u w" "queue w = ms"
    using arrival_loses [OF pu, of p ?sdt m ms rd] su p q due by auto
  let ?rest = "[step_local rd ?sdt, pure_act (step_effects ?dt), pure_act (step_chain ?dt),
     pure_act step_dilly, step_autoplay rd ?sdt]"
  have "keeps (frozen w) (do_all ?rest)"
    by (rule keeps_do_all) (simp add: keeps_frozen_frame keeps_frozen_same)
  from keepsE [OF this frozen_refl [OF w(2)]]
  obtain x where x: "do_all ?rest w = (None, x)" "frozen w x" .
  have "frame_body rd ?dt ?sdt (v\<lparr>last_time := now\<rparr>) = do_all ?rest w"
    by (simp only: frame_body_def do_all.simps pure_act_apply prod.case option.case w(1) [unfolded u_def])
  then have "frame rd False now v = do_all ?rest w"
    unfolding frame_eq using vis by simp
  then show ?thesis
    using x w(3,4) su by (auto simp: frozen_def kept_def)
qed

subsection \<open>Autoplay stops at the first step that does not flow\<close>

definition upto_step :: "scene \<Rightarrow> nat \<Rightarrow> view \<Rightarrow> bool" where
  "upto_step sc k v \<longleftrightarrow> view_ok sc v \<and> stepIndex v \<le> int k"

text \<open>A view at rest is not at a step that does not flow, so its successor is still within \<open>k\<close>.\<close>

lemma rest_successor:
  assumes "upto_step sc k v" "\<not> running v" "k < length (d_steps sc)" "\<not> flows (moves_of (d_steps sc ! k))"
  shows "stepIndex v + 1 \<le> int k"
proof -
  have pb: "playback_ok sc v" using assms(1) by (simp add: upto_step_def view_ok_def)
  have "flows (moves_of (current v))" using at_rest_flows(2) [OF pb assms(2)] .
  moreover have "current v = d_steps sc ! nat (stepIndex v)"
    using pb by (simp add: current_def steps_of_def playback_ok_def core_ok_def)
  ultimately have "nat (stepIndex v) \<noteq> k" using assms(4) by auto
  moreover have "0 \<le> stepIndex v" "stepIndex v \<le> int k"
    using assms(1) step_range(1) by (auto simp: upto_step_def)
  ultimately show ?thesis by linarith
qed

lemma goTo_upto:
  assumes "view_ok sc v" "0 \<le> i" "i \<le> last_index v" "i \<le> int k"
  shows "\<exists>w. goTo rd i v = (None, w) \<and> upto_step sc k w"
  using goTo_from [OF assms(1-3), of rd] assms(4) by (auto simp: upto_step_def)

lemma kept_upto: "upto_step sc k v \<Longrightarrow> view_ok sc w \<Longrightarrow> stepIndex w = stepIndex v \<Longrightarrow> upto_step sc k w"
  by (simp add: upto_step_def)

lemma autoplay_upto:
  assumes k: "k < length (d_steps sc)" "\<not> flows (moves_of (d_steps sc ! k))"
  shows "keeps (upto_step sc k) (step_autoplay rd sdt)"
proof (rule keepsI)
  fix v assume v: "upto_step sc k v"
  have vo: "view_ok sc v" using v by (simp add: upto_step_def)
  show "\<exists>w. step_autoplay rd sdt v = (None, w) \<and> upto_step sc k w"
  proof (cases "playing v \<and> \<not> running v \<and> packets v = []")
    case False
    then show ?thesis using v by (auto simp: step_autoplay_def)
  next
    case True
    then obtain r where r: "readTime v = Some r"
      using vo by (auto simp: view_ok_def playback_ok_def)
    let ?u = "v\<lparr>readTime := Some (r - sdt)\<rparr>"
    have "same_playback v ?u" "controls_ok ?u = controls_ok v"
      using r by (simp_all add: same_playback_def controls_ok_def)
    then have uo: "view_ok sc ?u" using same_view_ok vo by blast
    have u: "upto_step sc k ?u" using kept_upto [OF v uo] by simp
    have "\<exists>w. goTo rd (stepIndex ?u + 1) ?u = (None, w) \<and> upto_step sc k w" if "stepIndex ?u < last_index ?u"
      by (rule goTo_upto [OF uo])
        (use that step_range(1) [OF uo] rest_successor [OF u _ k] True in linarith, use that in linarith,
         use rest_successor [OF u _ k] True in simp)
    moreover have "upto_step sc k (pause ?u)"
      using kept_upto [OF u pause_ok [OF uo]] by (simp add: pause_def)
    ultimately show ?thesis
      using True r u by (simp add: step_autoplay_def Let_def del: split_paired_Ex)
  qed
qed

lemma keeps_upto_same:
  assumes "\<And>s. view_ok sc s \<Longrightarrow> view_ok sc (f s)" "\<And>s. stepIndex (f s) = stepIndex s"
  shows "keeps (upto_step sc k) (pure_act f)"
  by (rule keeps_pureI) (use assms in \<open>auto simp: upto_step_def\<close>)

lemma frame_parts_step [simp]:
  "stepIndex (step_camera rd dt v) = stepIndex v" "stepIndex (step_glow dt v) = stepIndex v"
  "stepIndex (step_effects dt v) = stepIndex v" "stepIndex (step_chain dt v) = stepIndex v"
  "stepIndex (step_dilly v) = stepIndex v"
  by (simp_all add: step_camera_def step_glow_def step_effects_def step_chain_def step_dilly_def)

lemma packets_local_upto:
  "keeps (upto_step sc k) (step_packets rd sdt)" "keeps (upto_step sc k) (step_local rd sdt)"
proof -
  show "keeps (upto_step sc k) (step_packets rd sdt)"
    by (rule keepsI, frule kept_upto) (use step_packets_ok in \<open>fastforce simp: upto_step_def kept_def\<close>)+
  show "keeps (upto_step sc k) (step_local rd sdt)"
    by (rule keepsI, frule kept_upto) (use step_local_ok in \<open>fastforce simp: upto_step_def kept_def\<close>)+
qed

lemma frame_upto:
  assumes k: "k < length (d_steps sc)" "\<not> flows (moves_of (d_steps sc ! k))"
  shows "keeps (upto_step sc k) (frame rd hidden now)"
proof (rule keepsI)
  fix v assume v: "upto_step sc k v"
  let ?u = "v\<lparr>last_time := now\<rparr>"
  have u: "upto_step sc k ?u"
    using v clock_view_ok by (simp add: upto_step_def)
  have b: "keeps (upto_step sc k) (frame_body rd dt sdt)" for dt sdt
    unfolding frame_body_def
    by (rule keeps_do_all) (simp add: packets_local_upto autoplay_upto [OF k] keeps_upto_same same_step_view_ok)
  then have "\<exists>w. frame_body rd dt sdt ?u = (None, w) \<and> upto_step sc k w" for dt sdt
    using keepsE [OF b u] by metis
  then show "\<exists>w. frame rd hidden now v = (None, w) \<and> upto_step sc k w"
    unfolding frame_eq using u by (simp split: if_split)
qed

lemma play_upto:
  assumes k: "k < length (d_steps sc)" "\<not> flows (moves_of (d_steps sc ! k))"
  shows "keeps (upto_step sc k) (play rd)"
proof (rule keepsI)
  fix v assume v: "upto_step sc k v"
  let ?u = "v\<lparr>playing := True, play_label := ''Pause''\<rparr>"
  have uo: "view_ok sc ?u" using v flag_view_ok by (simp add: upto_step_def)
  have u: "upto_step sc k ?u" using kept_upto [OF v uo] by simp
  have "\<exists>w. goTo rd (stepIndex ?u + 1) ?u = (None, w) \<and> upto_step sc k w"
    if "stepIndex ?u < last_index ?u" "\<not> running ?u"
    by (rule goTo_upto [OF uo]) (use that step_range(1) [OF uo] rest_successor [OF u _ k] in linarith)+
  moreover have "\<exists>w. goTo rd 0 ?u = (None, w) \<and> upto_step sc k w"
    by (rule goTo_upto [OF uo]) (use last_index_nonneg [OF uo] in simp_all)
  ultimately show "\<exists>w. play rd v = (None, w) \<and> upto_step sc k w"
    using u by (simp add: play_def Let_def)
qed

lemma passive_upto:
  assumes k: "k < length (d_steps sc)" "\<not> flows (moves_of (d_steps sc ! k))"
    and v: "upto_step sc k v" and e: "enabled e v" "\<not> navigates e"
  shows "upto_step sc k (snd (handle rd e v))"
proof -
  have vo: "view_ok sc v" using v by (simp add: upto_step_def)
  have ok: "view_ok sc (snd (handle rd e v))" using handle_ok [OF vo e(1)] by blast
  show ?thesis
  proof (cases e)
    case Click_play
    then show ?thesis
      using keepsD [OF play_upto [OF k] v] ok kept_upto [OF v] by (auto simp: togglePlay_def pause_def)
  next
    case (Frame hidden now)
    then show ?thesis using keepsD [OF frame_upto [OF k] v] by simp
  qed (use e ok in \<open>auto intro!: kept_upto [OF v] simp: zoom_def drag_to_def go_home_def Let_def split: option.split\<close>)
qed

definition before_break :: "scene \<Rightarrow> nat \<Rightarrow> view \<Rightarrow> bool" where
  "before_break sc k v \<longleftrightarrow> upto_step sc k v \<and> k < length (d_steps sc) \<and> \<not> flows (moves_of (d_steps sc ! k))"

interpretation autoplay: event_machine "handle rd" "\<lambda>e w. enabled e w \<and> \<not> navigates e" "before_break sc k" for rd sc k
  by unfold_locales (use handle_ok passive_upto in \<open>auto simp: before_break_def upto_step_def\<close>)

lemma passive_run_upto:
  assumes "k < length (d_steps sc)" "\<not> flows (moves_of (d_steps sc ! k))"
    and "upto_step sc k v" "all_enabled rd es v" "\<forall>e \<in> set es. \<not> navigates e"
  shows "upto_step sc k (run_events rd es v)"
  using autoplay.run_keeps [of sc k v rd es] assms
  by (simp add: before_break_def run_events_def all_enabled_def all_allowed_conj)

end
