(* ===== verification/Stage.thy ===== *)
theory Stage
  imports Playback
begin

section \<open>Envelopes on the stage\<close>

text \<open>
  \<open>launch\<close> adds an envelope to the stage and to \<open>packets\<close>; \<open>arrive\<close> and \<open>clearPackets\<close> take an envelope
  off the stage only while it is still in \<open>packets\<close>.  An envelope that was dropped from \<open>packets\<close> is a
  ghost: no event can take it off the stage any more.
\<close>

definition ghost :: "nat \<Rightarrow> view \<Rightarrow> bool" where
  "ghost g v \<longleftrightarrow> g \<in> set (groups v) \<and> g < next_group v \<and> g \<notin> p_group ` set (packets v)"

definition same_stage :: "view \<Rightarrow> view \<Rightarrow> bool" where
  "same_stage v w \<longleftrightarrow> groups w = groups v \<and> next_group w = next_group v \<and> packets w = packets v"

definition launched :: "view \<Rightarrow> view \<Rightarrow> bool" where
  "launched v w \<longleftrightarrow> groups w = groups v @ [next_group v] \<and> next_group w = Suc (next_group v)
     \<and> (\<exists>p. p_group p = next_group v \<and> packets w = packets v @ [p])"

lemma ghost_same: "same_stage v w \<Longrightarrow> ghost g w = ghost g v"
  by (simp add: same_stage_def ghost_def)

lemma ghost_launched: "launched v w \<Longrightarrow> ghost g v \<Longrightarrow> ghost g w"
  by (auto simp: launched_def ghost_def)

lemma same_stage_refl [simp]: "same_stage v v"
  by (simp add: same_stage_def)

lemma same_stage_trans: "same_stage u v \<Longrightarrow> same_stage v w \<Longrightarrow> same_stage u w"
  by (simp add: same_stage_def)

subsection \<open>Operations that do not touch the stage\<close>

lemma stage_pulse [simp]: "same_stage v (pulse i v)"
  by (simp add: same_stage_def)

lemma stage_do_all: "list_all (\<lambda>a. \<forall>s. same_stage s (snd (a s))) as \<Longrightarrow> same_stage v (snd (do_all as v))"
  using savesD [OF saves_do_all [of "same_stage v" as] same_stage_refl] same_stage_trans
  by (fastforce simp: list_all_iff saves_def)

lemma stage_addBlock [simp]: "same_stage v (addBlock rd b v)"
  by (simp add: addBlock_def same_stage_def Let_def)

lemma stage_draw_ring [simp]: "same_stage v (snd (draw_ring rd e t v))"
  by (simp add: draw_ring_def Let_def burst_def same_stage_def split: option.split)

lemma stage_when [simp]: "(\<And>s. same_stage s (snd (a s))) \<Longrightarrow> same_stage v (snd (when_act b a v))"
  by (simp add: when_act_def)

lemma stage_applyEffect [simp]: "same_stage v (snd (applyEffect rd m b v))"
proof -
  let ?v1 = "if truthy (m_dilly m) then v\<lparr>pendingMood := m_dilly m\<rparr> else v"
  have v1: "same_stage v ?v1" by (simp add: same_stage_def)
  have "same_stage ?v1 (snd (applyEffect rd m b v))"
    unfolding applyEffect_def Let_def
    by (auto simp del: do_all_Cons2 intro!: stage_do_all same_stage_trans [OF stage_addBlock stage_pulse]
        split: option.split)
  with v1 show ?thesis by (rule same_stage_trans)
qed

subsection \<open>Starting a move\<close>

lemma launched_same: "same_stage u v \<Longrightarrow> launched v w \<Longrightarrow> launched u w"
  by (simp add: same_stage_def launched_def)

lemma launched_after: "launched v w \<Longrightarrow> same_stage w x \<Longrightarrow> launched v x"
  by (simp add: same_stage_def launched_def)

text \<open>\<open>startNextMove\<close> leaves the stage alone or launches one envelope.\<close>

lemma start_stage:
  "same_stage v (snd (startNextMove rd v)) \<or> launched v (snd (startNextMove rd v))"
  "same_stage v (snd (spawnPacket rd m v)) \<or> launched v (snd (spawnPacket rd m v))"
proof (induction rd v and rd m v rule: startNextMove_spawnPacket.induct)
  case (1 rd v)
  show ?case
  proof (cases "queue v")
    case Nil
    then show ?thesis
      by (auto simp: startNextMove.simps same_stage_def split: option.split)
  next
    case (Cons m ms)
    show ?thesis
    proof (cases "m_local m")
      case True
      have "same_stage (v\<lparr>queue := ms\<rparr>) (snd (startNextMove rd v))"
        unfolding startNextMove.simps [of rd v] Cons list.case if_P [OF True]
        by (rule stage_do_all) (simp, simp add: same_stage_def)
      then show ?thesis by (simp add: same_stage_def)
    next
      case False
      let ?u = "v\<lparr>queue := ms, currentLocal := False\<rparr>"
      have s: "same_stage v ?u" by (simp add: same_stage_def)
      have p: "same_stage (snd (spawnPacket rd m ?u)) (snd (startNextMove rd v))"
        using Cons False by (simp add: startNextMove.simps split: prod.split option.split)
      show ?thesis
        using 1(1) [OF Cons False] s p same_stage_trans launched_same launched_after by blast
    qed
  qed
next
  case (2 rd m v)
  then show ?case
    by (auto simp: spawnPacket.simps launch_def Let_def launched_def new_packet_def)
qed

lemma ghost_start: "ghost g v \<Longrightarrow> ghost g (snd (startNextMove rd v))"
  using start_stage(1) ghost_same ghost_launched by blast

subsection \<open>A ghost stays\<close>

lemma saves_ghost_same: "(\<And>s. same_stage s (snd (a s))) \<Longrightarrow> saves (ghost g) a"
  unfolding saves_def using ghost_same by blast

lemma saves_ghost_start: "saves (ghost g) (startNextMove rd)"
  by (rule savesI) (rule ghost_start)

lemma ghost_arrive:
  assumes "p_group p \<noteq> g"
  shows "saves (ghost g) (arrive rd p)"
proof -
  have "saves (ghost g) (pure_act (\<lambda>w. w\<lparr>groups := filter (\<lambda>h. h \<noteq> p_group p) (groups w)\<rparr>))"
    using assms by (intro saves_pureI) (auto simp: ghost_def)
  moreover have "saves (ghost g) (pure_act (\<lambda>w. if m_kind (p_move p) = Some ''reject'' then burst rd 0xe5484d w else w))"
    by (rule saves_ghost_same) (simp add: same_stage_def burst_def)
  ultimately show ?thesis
    unfolding arrive_def by (intro saves_do_all) (simp add: saves_ghost_start saves_ghost_same)
qed

lemma ghost_filter:
  "filter_packets rd sdt ps v = (e, ks, w) \<Longrightarrow> g \<notin> p_group ` set ps \<Longrightarrow> ghost g v
     \<Longrightarrow> ghost g w \<and> g \<notin> p_group ` set ks"
proof (induction ps arbitrary: v e ks w)
  case (Cons p ps)
  let ?p = "p\<lparr>p_t := p_t p + sdt / p_dur p\<rparr>"
  show ?case
  proof (cases "1 \<le> min 1 (p_t ?p)")
    case True
    have a: "ghost g (snd (arrive rd ?p v))"
      using savesD [OF ghost_arrive] Cons.prems by auto
    show ?thesis
    proof (cases "arrive rd ?p v")
      case (Pair x u)
      show ?thesis
      proof (cases x)
        case None
        obtain e' k' w' where f: "filter_packets rd sdt ps u = (e', k', w')" by (cases "filter_packets rd sdt ps u")
        have "ghost g w' \<and> g \<notin> p_group ` set k'"
          using Cons.IH [OF f] Cons.prems a Pair by simp
        then show ?thesis
          using Cons.prems True Pair None f by (cases e') (auto simp: Let_def)
      next
        case (Some err)
        then show ?thesis
          using Cons.prems a True Pair by (auto simp: Let_def)
      qed
    qed
  next
    case False
    obtain e' k' w' where f: "filter_packets rd sdt ps v = (e', k', w')" by (cases "filter_packets rd sdt ps v")
    then show ?thesis
      using Cons.IH [OF f] Cons.prems False by (auto simp: Let_def)
  qed
qed simp

lemma ghost_packets: "saves (ghost g) (step_packets rd sdt)"
proof (rule savesI)
  fix v assume g: "ghost g v"
  obtain e ks w where f: "filter_packets rd sdt (packets v) v = (e, ks, w)"
    by (cases "filter_packets rd sdt (packets v) v")
  have "ghost g w \<and> g \<notin> p_group ` set ks"
    using ghost_filter [OF f _ g] g by (simp add: ghost_def)
  then show "ghost g (snd (step_packets rd sdt v))"
    using f by (cases e) (auto simp: step_packets_def ghost_def dest: in_set_dropD)
qed

lemma ghost_goTo: "saves (ghost g) (goTo rd i)"
proof -
  have clear: "saves (ghost g) (pure_act clearPackets)"
    by (rule saves_pureI) (auto simp: ghost_def clearPackets_def)
  have settle: "same_stage s (snd (settle rd i s))" for s
    using setChain_form [of rd "sum_list (map step_blocks (take (nat i) (steps_of s)))" s]
    by (auto simp: settle_def Let_def same_stage_def split: option.split)
  have enter: "saves (ghost g) (enter_step rd i st)" for st
    unfolding enter_step_def
    by (intro saves_do_all)
      (auto intro!: saves_ghost_start saves_ghost_same simp: same_stage_def show_step_def Let_def
        stage_when [unfolded same_stage_def] stage_applyEffect [unfolded same_stage_def])
  have "saves (ghost g) (\<lambda>w. case step_at w i of None \<Rightarrow> (Some (undefined_error ''phase''), w)
      | Some st \<Rightarrow> enter_step rd i st w)"
    using savesD [OF enter] by (auto intro!: savesI split: option.split)
  moreover have "saves (ghost g) (pure_act (\<lambda>w. w\<lparr>stepIndex := i\<rparr>))"
    by (rule saves_ghost_same) (simp add: same_stage_def)
  ultimately show ?thesis
    unfolding goTo_def using clear by (intro saves_do_all) (simp add: saves_ghost_same settle)
qed

text \<open>Updates of other fields.\<close>

lemma stage_parts [simp]:
  "same_stage v (step_camera rd dt v)" "same_stage v (step_glow dt v)" "same_stage v (step_effects dt v)"
  "same_stage v (step_chain dt v)" "same_stage v (step_dilly v)" "same_stage v (pause v)"
  "same_stage v (zoom f v)" "same_stage v (drag_to x y v)" "same_stage v (go_home v)"
  by (auto simp: same_stage_def step_camera_def step_glow_def step_effects_def step_chain_def step_dilly_def
      pause_def zoom_def drag_to_def go_home_def Let_def split: option.split)

lemma saves_ghost_pure: "(\<And>s. same_stage s (f s)) \<Longrightarrow> saves (ghost g) (pure_act f)"
  by (rule saves_ghost_same) simp

lemma ghost_local: "saves (ghost g) (step_local rd sdt)"
proof (rule savesI)
  fix v assume g: "ghost g v"
  have "ghost g (snd (startNextMove rd (v\<lparr>waitLocal := None, currentLocal := False\<rparr>)))"
    using ghost_start [of g "v\<lparr>waitLocal := None, currentLocal := False\<rparr>"] g by (simp add: ghost_def)
  then show "ghost g (snd (step_local rd sdt v))"
    using g by (auto simp: step_local_def ghost_def split: option.split)
qed

lemma ghost_autoplay: "saves (ghost g) (step_autoplay rd sdt)"
proof (rule savesI)
  fix v assume g: "ghost g v"
  have "ghost g (v\<lparr>readTime := x\<rparr>)" for x
    using g by (simp add: ghost_def)
  then have "ghost g (snd (goTo rd j (v\<lparr>readTime := x\<rparr>)))" "ghost g (pause (v\<lparr>readTime := x\<rparr>))" for j x
    using savesD [OF ghost_goTo] by (simp_all add: ghost_def pause_def)
  then show "ghost g (snd (step_autoplay rd sdt v))"
    using g \<open>\<And>x. ghost g (v\<lparr>readTime := x\<rparr>)\<close> by (simp add: step_autoplay_def Let_def split: option.split)
qed

lemma ghost_frame_body: "saves (ghost g) (frame_body rd dt sdt)"
  unfolding frame_body_def
  by (rule saves_do_all) (simp add: ghost_packets ghost_local ghost_autoplay saves_ghost_pure)

lemma ghost_play: "saves (ghost g) (play rd)"
proof (rule savesI)
  fix v assume "ghost g v"
  then have "ghost g (v\<lparr>playing := True, play_label := ''Pause''\<rparr>)"
    by (simp add: ghost_def)
  then show "ghost g (snd (play rd v))"
    using savesD [OF ghost_goTo] by (simp add: play_def Let_def)
qed

lemma ghost_handle: "saves (ghost g) (handle rd e)"
proof (rule savesI)
  fix v assume g: "ghost g v"
  have p: "ghost g (pause v)" "ghost g (v\<lparr>last_time := t\<rparr>)" for t
    using g by (simp_all add: ghost_def pause_def)
  have "saves (ghost g) (do_all [goTo rd 0, play rd])"
    by (rule saves_do_all) (simp add: ghost_goTo ghost_play)
  from savesD [OF this g] show "ghost g (snd (handle rd e v))"
    using g p savesD [OF ghost_play g] savesD [OF ghost_goTo] savesD [OF ghost_frame_body]
    by (cases e) (simp_all add: togglePlay_def next_step_def prev_step_def frame_eq
        ghost_same [OF stage_parts(7)] ghost_same [OF stage_parts(8)] ghost_same [OF stage_parts(9)],
        simp_all add: ghost_def)
qed

lemma ghost_run: "ghost g v \<Longrightarrow> ghost g (run_events rd es v)"
  by (induction es arbitrary: v) (auto intro: savesD [OF ghost_handle])

subsection \<open>A lost message leaves a ghost\<close>

lemma arrive_last:
  assumes "arrive rd p v = (None, w)"
  shows "\<exists>u. next_group u = next_group v \<and> packets u = packets v \<and> startNextMove rd u = (None, w)"
proof -
  obtain e u1 where a: "applyEffect rd (p_move p) True v = (e, u1)"
    by (cases "applyEffect rd (p_move p) True v")
  then have e: "e = None" using assms by (cases e) (simp_all add: arrive_def)
  let ?u2 = "if m_kind (p_move p) = Some ''reject'' then burst rd 0xe5484d u1 else u1"
  let ?u = "?u2\<lparr>groups := filter (\<lambda>g. g \<noteq> p_group p) (groups ?u2)\<rparr>"
  have "startNextMove rd ?u = (None, w)"
    using assms a e by (simp add: arrive_def)
  moreover have "next_group ?u = next_group v" "packets ?u = packets v"
    using stage_applyEffect [of v rd "p_move p" True] a by (auto simp: same_stage_def burst_def)
  ultimately show ?thesis by blast
qed

lemma arrival_ghost:
  assumes pb: "playback_ok sc v" and p: "packets v = [p]" and due: "1 \<le> p_t p + sdt / p_dur p"
    and q: "queue v = m # ms" "\<not> m_local m"
  shows "ghost (next_group v) (snd (step_packets rd sdt v))"
proof -
  let ?q = "advanced_packet sdt p"
  obtain w ph dn dn' where w: "arrive rd ?q v = (None, w)" "core_ok sc w" "kept v w" "phase_of ph [p] w"
      "script w dn' (air_of ph)" "grown ph dn dn'" "moves_of (current v) = dn @ queue v"
    using arrive_ok [OF pb p, of ?q rd] by auto
  have "dn' @ air_of ph @ queue w = dn @ m # ms"
    using w(5,7) q kept_current [OF w(3)] by (simp add: script_def)
  then obtain p' where "ph = Flying p'"
    using w(4,6) q(2) by (cases ph) auto
  then have pw: "packets w = [p, p']" using w(4) by simp
  obtain u where u: "next_group u = next_group v" "packets u = packets v" "startNextMove rd u = (None, w)"
    using arrive_last [OF w(1)] by blast
  then have "launched u w"
    using start_stage(1) [of u rd] pw p by (auto simp: same_stage_def)
  then have "ghost (next_group v) (w\<lparr>packets := []\<rparr>)"
    using u(1) by (simp add: ghost_def launched_def)
  moreover have "step_packets rd sdt v = (None, w\<lparr>packets := []\<rparr>)"
    using step_packets_arrived [OF p _ w(1)] due by simp
  ultimately show ?thesis by simp
qed

lemma frame_leaves_ghost:
  assumes v: "view_ok sc v" and vis: "visible v" and p: "packets v = [p]"
    and due: "1 \<le> p_t p + frame_dt now v * speed v / p_dur p"
    and q: "queue v = m # ms" "\<not> m_local m"
  shows "ghost (next_group v) (snd (frame rd False now v))"
proof -
  let ?dt = "frame_dt now v" and ?sdt = "frame_dt now v * speed v"
  define u where "u = step_glow ?dt (step_camera rd ?dt (v\<lparr>last_time := now\<rparr>))"
  have u: "view_ok sc u"
    unfolding u_def by (intro same_step_view_ok clock_view_ok v)
  have su: "packets u = packets v" "queue u = queue v" "next_group u = next_group v"
    by (simp_all add: u_def step_glow_def step_camera_def)
  have pu: "playback_ok sc u" using u by (simp add: view_ok_def)
  obtain w where w: "step_packets rd ?sdt u = (None, w)"
    using arrival_loses [OF pu, of p ?sdt m ms rd] su p q due by auto
  have g: "ghost (next_group v) w"
    using arrival_ghost [OF pu, of p ?sdt m ms rd] su p q due w by simp
  let ?rest = "[step_local rd ?sdt, pure_act (step_effects ?dt), pure_act (step_chain ?dt),
     pure_act step_dilly, step_autoplay rd ?sdt]"
  have "frame_body rd ?dt ?sdt (v\<lparr>last_time := now\<rparr>) = do_all ?rest w"
    by (simp only: frame_body_def do_all.simps pure_act_apply prod.case option.case w [unfolded u_def])
  then have f: "frame rd False now v = do_all ?rest w"
    unfolding frame_eq using vis by simp
  have "saves (ghost (next_group v)) (do_all ?rest)"
    by (rule saves_do_all) (simp add: ghost_local ghost_autoplay saves_ghost_pure)
  from savesD [OF this g] show ?thesis
    unfolding f .
qed

end
