(* ===== verification/Playback_Progress.thy ===== *)
theory Playback_Progress
  imports Playback
begin

section \<open>A step that flows is played to its end\<close>

text \<open>
  The liveness half of playback.  For a step in which no message directly follows another, a paused
  and visible view delivers every move after a bounded number of frames.  \<open>time_left\<close> is the
  animation time still to run; \<open>rank\<close> adds one frame for every queued move, since a packet that
  arrives early in a frame starts its successor only then.
\<close>

definition move_time :: "bool \<Rightarrow> move \<Rightarrow> rat" where
  "move_time rd m = (if m_local m then 0.9 else move_dur rd m)"

definition now_time :: "view \<Rightarrow> rat" where
  "now_time v =
     (case packets v of
        p # _ \<Rightarrow> max 0 ((1 - p_t p) * p_dur p)
      | [] \<Rightarrow> (case waitLocal v of Some x \<Rightarrow> max 0 x | None \<Rightarrow> 0))"

definition time_left :: "bool \<Rightarrow> view \<Rightarrow> rat" where
  "time_left rd v = now_time v + sum_list (map (move_time rd) (queue v))"

definition rank :: "bool \<Rightarrow> rat \<Rightarrow> view \<Rightarrow> rat" where
  "rank rd d v = time_left rd v + d * of_nat (length (queue v))"

lemma now_time_nonneg: "0 \<le> now_time v"
  by (simp add: now_time_def split: list.split option.split)

lemma move_time_nonneg: "move_ok ids m \<Longrightarrow> 0 \<le> move_time rd m"
  using move_dur_pos [of ids m rd] by (simp add: move_time_def)

lemma rank_nonneg:
  assumes "core_ok sc v" "0 \<le> d"
  shows "0 \<le> rank rd d v"
proof -
  have "\<forall>m \<in> set (queue v). 0 \<le> move_time rd m"
    using assms(1) move_time_nonneg by (auto simp: core_ok_def list_all_iff)
  then have "0 \<le> sum_list (map (move_time rd) (queue v))"
    by (intro sum_list_nonneg) auto
  then show ?thesis
    using assms(2) now_time_nonneg [of v] by (simp add: rank_def time_left_def)
qed

subsection \<open>One frame\<close>

text \<open>Playing a step that flows: sound, not stuck, paused.\<close>

definition live :: "scene \<Rightarrow> view \<Rightarrow> bool" where
  "live sc v \<longleftrightarrow> view_ok sc v \<and> \<not> stuck v \<and> \<not> playing v \<and> flows (moves_of (current v))"

definition later :: "bool \<Rightarrow> rat \<Rightarrow> rat \<Rightarrow> view \<Rightarrow> view \<Rightarrow> bool" where
  "later rd d e v w \<longleftrightarrow> (running w \<longrightarrow> running v \<and> rank rd d w + e \<le> rank rd d v)"

lemma flows_append: "flows (xs @ m # n # ys) \<Longrightarrow> m_local m \<or> m_local n"
  by (induction xs rule: flows.induct) (auto simp: neq_Nil_conv)

lemma later_trans: "later rd d e u v \<Longrightarrow> later rd d f v w \<Longrightarrow> later rd d (e + f) u w"
  by (auto simp: later_def)

lemma later_zero: "rank rd d w = rank rd d v \<Longrightarrow> running w = running v \<Longrightarrow> later rd d 0 v w"
  by (simp add: later_def)

lemma rank_flying: "packets v = [p] \<Longrightarrow>
    rank rd d v = max 0 ((1 - p_t p) * p_dur p) + sum_list (map (move_time rd) (queue v)) + d * of_nat (length (queue v))"
  by (simp add: rank_def time_left_def now_time_def)

lemma rank_waiting: "packets v = [] \<Longrightarrow> waitLocal v = Some x \<Longrightarrow>
    rank rd d v = max 0 x + sum_list (map (move_time rd) (queue v)) + d * of_nat (length (queue v))"
  by (simp add: rank_def time_left_def now_time_def)

lemma laterI: "running v \<Longrightarrow> rank rd d w + e \<le> rank rd d v \<Longrightarrow> later rd d e v w"
  by (simp add: later_def)

text \<open>Taking a move from the queue and giving it its full time costs one \<open>d\<close>.\<close>

lemma rank_pop:
  assumes "queue v = m # ms"
  shows "sum_list (map (move_time rd) (queue v)) + d * of_nat (length (queue v))
    = move_time rd m + sum_list (map (move_time rd) ms) + d * of_nat (length ms) + (d::rat)"
  using assms by (simp add: algebra_simps)

lemma rank_started: "packets v = [] \<Longrightarrow> waitLocal v = Some 0.9 \<Longrightarrow> m_local m \<Longrightarrow>
    rank rd d v = move_time rd m + sum_list (map (move_time rd) (queue v)) + d * of_nat (length (queue v))"
  using rank_waiting [of v "0.9" rd d] by (simp add: move_time_def)

lemma flight_time:
  assumes "0 < D" "t + s / D < (1::rat)" "d \<le> s"
  shows "max 0 ((1 - (t + s / D)) * D) + d \<le> max 0 ((1 - t) * D)"
proof -
  have "0 < (1 - (t + s / D)) * D"
    using assms(1,2) by simp
  moreover have "(1 - (t + s / D)) * D = (1 - t) * D - s"
    using assms(1) by (simp add: field_simps)
  ultimately show ?thesis
    using assms(3) by linarith
qed

lemma packets_live:
  assumes v: "live sc v" and d: "0 \<le> d" "d \<le> sdt"
  shows "\<exists>w. step_packets rd sdt v = (None, w) \<and> live sc w
     \<and> (if packets v = [] then w = v else later rd d d v w) \<and> kept v w"
proof -
  have vo: "view_ok sc v" and pb: "playback_ok sc v" and fl: "flows (moves_of (current v))"
    using v by (simp_all add: live_def view_ok_def)
  show ?thesis using pb
  proof (cases rule: packets_cases)
    case 1
    then show ?thesis using v step_packets_nil by auto
  next
    case (2 p)
    obtain w where w: "step_packets rd sdt v = (None, w)" "view_ok sc w" "kept v w"
      using step_packets_ok [OF vo] by blast
    have run: "running v" using pb 2 by (simp add: playback_ok_def)
    have k: "playing w = playing v" "current w = current v"
      using w(3) kept_current [OF w(3)] by (simp_all add: kept_def)
    have "\<not> stuck w \<and> later rd d d v w"
    proof (cases "1 \<le> p_t (advanced_packet sdt p)")
      case False
      then have "w = v\<lparr>packets := [advanced_packet sdt p]\<rparr>"
        using step_packets_flying [OF 2] w(1) by auto
      moreover have "0 < p_dur p" using pb 2 by (simp add: playback_ok_def packet_ok_def)
      ultimately have "packets w = [advanced_packet sdt p]" "queue w = queue v"
          "max 0 ((1 - (p_t p + sdt / p_dur p)) * p_dur p) + d \<le> max 0 ((1 - p_t p) * p_dur p)"
        using False d(2) flight_time [of "p_dur p" "p_t p" sdt d] by simp_all
      then have "rank rd d w + d \<le> rank rd d v"
        using rank_flying [of v p rd d] rank_flying [of w "advanced_packet sdt p" rd d] 2 by simp
      then show ?thesis
        using \<open>packets w = _\<close> run by (simp add: stuck_def later_def)
    next
      case True
      obtain x ph dn dn' d0 where x: "arrive rd (advanced_packet sdt p) v = (None, x)" "core_ok sc x" "kept v x"
          "phase_of ph [p] x" "script x dn' (air_of ph)" "currentLocal x \<longrightarrow> waitLocal x \<noteq> None"
          "grown ph dn dn'" "flows dn" "moves_of (current v) = dn @ queue v" "dn = d0 @ [p_move p]"
        using arrive_ok [OF pb 2, of "advanced_packet sdt p" rd] by auto
      have wx: "w = x\<lparr>packets := []\<rparr>"
        using step_packets_arrived [OF 2 True x(1)] w(1) by simp
      have eq: "dn' @ air_of ph @ queue x = dn @ queue v"
        using x(5,9) kept_current [OF x(3)] by (simp add: script_def)
      have pl: "\<not> m_local (p_move p)" using pb 2 by (simp add: playback_ok_def packet_ok_def)
      have nf: "\<nexists>p'. ph = Flying p'"
      proof
        assume "\<exists>p'. ph = Flying p'"
        then obtain p' where p': "ph = Flying p'" ..
        have "dn' = dn" "air_of ph = [p_move p']" using x(7) p' by simp_all
        then have "queue v = p_move p' # queue x" using eq by simp
        moreover have "\<not> m_local (p_move p')" using x(4) p' by simp
        ultimately show False
          using fl x(9,10) pl flows_append [of d0 "p_move p" "p_move p'" "queue x"] by simp
      qed
      then have "\<not> stuck w"
        using playback_filtered(2) [OF x(2,4-8)] wx by simp
      moreover have "later rd d d v w"
      proof (cases "running w")
        case True
        then have ph: "ph = Waiting" using x(4) nf wx by (cases ph) auto
        then obtain m where m: "m_local m" "queue v = m # queue x" using x(7) eq by auto
        have f: "packets w = []" "waitLocal w = Some 0.9" "queue w = queue x"
          using x(4) ph wx by simp_all
        have "rank rd d w + d \<le> rank rd d v"
          using rank_flying [OF 2, of rd d] rank_started [OF f(1,2) m(1), of rd d] f(3)
            rank_pop [OF m(2), of rd d] by simp
        then show ?thesis using run by (rule laterI [rotated])
      qed (simp add: later_def)
      ultimately show ?thesis by simp
    qed
    then show ?thesis
      using w v k 2 by (auto simp: live_def)
  qed
qed

lemma start_dur:
  assumes "core_ok sc v" "startNextMove rd v = (None, w)" "phase_of (Flying p) (packets v) w"
  shows "p_dur p = move_dur rd (p_move p)"
proof (cases "queue v")
  case Nil
  then show ?thesis using start_nil [OF assms(1), of rd] assms(2,3) by simp
next
  case (Cons m ms)
  show ?thesis
  proof (cases "m_local m")
    case True
    obtain A F bs where "startNextMove rd v =
        (None, v\<lparr>queue := ms, pendingMood := move_mood (pendingMood v) m, chain := chain v @ bs,
           effects := F, actors := A, waitLocal := Some 0.9, currentLocal := True\<rparr>)"
      using start_local [OF assms(1) Cons True] by blast
    then show ?thesis using assms(2,3) by auto
  next
    case False
    obtain A F where "startNextMove rd v =
        (None, v\<lparr>queue := ms, currentLocal := False, effects := F, groups := groups v @ [next_group v],
              next_group := Suc (next_group v), packets := packets v @ [new_packet rd (next_group v) m], actors := A\<rparr>)"
      using start_packet [OF assms(1) Cons False] by blast
    then show ?thesis using assms(2,3) by auto
  qed
qed

lemma local_live:
  assumes v: "live sc v" and d: "0 \<le> d" "d \<le> sdt"
  shows "\<exists>w. step_local rd sdt v = (None, w) \<and> live sc w
     \<and> later rd d (if running v \<and> packets v = [] then d else 0) v w \<and> kept v w"
proof -
  have vo: "view_ok sc v" and pb: "playback_ok sc v" and fl: "flows (moves_of (current v))" and ns: "\<not> stuck v"
    using v by (simp_all add: live_def view_ok_def)
  obtain w where w: "step_local rd sdt v = (None, w)" "view_ok sc w" "kept v w"
    using step_local_ok [OF vo] by blast
  have k: "playing w = playing v" "current w = current v"
    using w(3) kept_current [OF w(3)] by (simp_all add: kept_def)
  have "\<not> stuck w \<and> later rd d (if running v \<and> packets v = [] then d else 0) v w"
  proof (cases "waitLocal v = None \<or> \<not> currentLocal v")
    case True
    then have "w = v" using w(1) by (auto simp: step_local_def split: option.splits)
    moreover have "\<not> (running v \<and> packets v = [])"
      using True ns pb by (auto simp: stuck_def playback_ok_def)
    ultimately show ?thesis using ns by (auto simp: later_zero)
  next
    case False
    then obtain x where x: "waitLocal v = Some x" "currentLocal v" by auto
    have ps: "packets v = []" using pb x by (auto simp: playback_ok_def)
    show ?thesis
    proof (cases "x - sdt \<le> 0")
      case False
      then have wv: "w = v\<lparr>waitLocal := Some (x - sdt)\<rparr>" using w(1) x by (simp add: step_local_def)
      then have "packets w = []" "waitLocal w = Some (x - sdt)" "queue w = queue v"
        using ps by simp_all
      then have "rank rd d w + d \<le> rank rd d v"
        using rank_waiting [OF ps x(1), of rd d] rank_waiting [of w "x - sdt" rd d] False d(2) by simp
      then show ?thesis
        using wv x(2) ps d(1) by (simp add: stuck_def later_def)
    next
      case True
      let ?u = "v\<lparr>waitLocal := None, currentLocal := False\<rparr>"
      have k: "kept v ?u" by (simp add: kept_def)
      obtain dn where "script v dn []"
        using pb ps ns by (auto simp: playback_ok_def progress_ok_def air_def)
      then have s: "script ?u dn []"
        using kept_current [OF k] kept_base [OF k] by (simp add: script_def)
      have c: "core_ok sc ?u" "queue ?u \<noteq> [] \<longrightarrow> running ?u" "currentLocal ?u \<longrightarrow> waitLocal ?u \<noteq> None"
        using pb by (auto simp: playback_ok_def core_ok_def)
      obtain y dn' ph where y: "startNextMove rd ?u = (None, y)" "core_ok sc y" "kept ?u y"
          "phase_of ph (packets ?u) y" "script y dn' (air_of ph)" "grown ph dn dn'"
        using start_script [OF c(1) s c(2,3), of rd] by blast
      have wy: "w = y" using step_local_due [OF x True] w(1) y(1) by simp
      moreover have "dn' @ air_of ph @ queue y = dn @ queue v"
        using y(5) s kept_current [OF y(3)] by (simp add: script_def)
      moreover have "p_dur p = move_dur rd (p_move p)" if "ph = Flying p" for p
        using start_dur [OF c(1) y(1)] y(4) that by simp
      moreover have "running v" if "queue v \<noteq> []" using pb that by (auto simp: playback_ok_def)
      ultimately have eq: "dn' @ air_of ph @ queue y = dn @ queue v"
          and dur: "\<And>p. ph = Flying p \<Longrightarrow> p_dur p = move_dur rd (p_move p)"
          and run: "queue v \<noteq> [] \<Longrightarrow> running v" by blast+
      have rv: "rank rd d v = max 0 x + (sum_list (map (move_time rd) (queue v)) + d * of_nat (length (queue v)))"
        using rank_waiting [OF ps x(1), of rd d] by simp
      show ?thesis
      proof (cases ph)
        case Reading
        then show ?thesis using y(4) wy by (simp add: stuck_def later_def)
      next
        case Waiting
        then obtain m where m: "m_local m" "queue v = m # queue y" using y(6) eq by auto
        have f: "packets w = []" "waitLocal w = Some 0.9" "queue w = queue y" "currentLocal w"
          using y(4) ps wy Waiting by simp_all
        have "rank rd d w + d \<le> rank rd d v"
          using rank_started [OF f(1,2) m(1), of rd d] f(3) rank_pop [OF m(2), of rd d] rv by simp
        then show ?thesis using f run m(2) d(1) by (simp add: stuck_def later_def)
      next
        case (Flying p)
        then have m: "queue v = p_move p # queue y" using y(6) eq by simp
        have f: "packets w = [p]" "p_t p = 0" "0 < p_dur p" "queue w = queue y" "\<not> m_local (p_move p)"
          using y(4) ps wy Flying by simp_all
        then have "max 0 ((1 - p_t p) * p_dur p) = move_time rd (p_move p)"
          using dur [OF Flying] by (simp add: move_time_def)
        then have "rank rd d w + d \<le> rank rd d v"
          using rank_flying [OF f(1), of rd d] rank_pop [OF m, of rd d] rv f(4) by simp
        then show ?thesis using f run m d(1) by (simp add: stuck_def later_def)
      qed
    qed
  qed
  then show ?thesis using w v k by (auto simp: live_def)
qed

text \<open>Parts of a frame that leave the rank alone.\<close>

lemma same_live:
  assumes "same_playback v w" "controls_ok w = controls_ok v" "playing w = playing v" "waitLocal w = waitLocal v"
    and "live sc v"
  shows "live sc w \<and> rank rd d w = rank rd d v \<and> running w = running v \<and> stepIndex w = stepIndex v"
proof -
  have eq: "v_def w = v_def v" "stepIndex w = stepIndex v" "packets w = packets v" "queue w = queue v" "running w = running v"
    using assms(1) by (simp_all add: same_playback_def)
  have "current w = current v" using eq by (simp add: current_def steps_of_def)
  moreover have "now_time w = now_time v"
    unfolding now_time_def eq assms(4) by (rule refl)
  ultimately show ?thesis
    using assms eq same_view_ok [OF assms(1,2)] same_playback_ok(2) [OF assms(1)]
    by (simp add: live_def rank_def time_left_def)
qed

lemma frame_part_fields [simp]:
  "playing (step_camera rd dt v) = playing v" "playing (step_glow dt v) = playing v"
  "playing (step_effects dt v) = playing v" "playing (step_chain dt v) = playing v" "playing (step_dilly v) = playing v"
  "waitLocal (step_camera rd dt v) = waitLocal v" "waitLocal (step_glow dt v) = waitLocal v"
  "waitLocal (step_effects dt v) = waitLocal v" "waitLocal (step_chain dt v) = waitLocal v"
  "waitLocal (step_dilly v) = waitLocal v"
  "visible (step_camera rd dt v) = visible v" "visible (step_glow dt v) = visible v"
  "visible (step_effects dt v) = visible v" "visible (step_chain dt v) = visible v" "visible (step_dilly v) = visible v"
  "speed (step_camera rd dt v) = speed v" "speed (step_glow dt v) = speed v"
  "speed (step_effects dt v) = speed v" "speed (step_chain dt v) = speed v" "speed (step_dilly v) = speed v"
  "last_time (step_camera rd dt v) = last_time v" "last_time (step_glow dt v) = last_time v"
  "last_time (step_effects dt v) = last_time v" "last_time (step_chain dt v) = last_time v"
  "last_time (step_dilly v) = last_time v"
  by (simp_all add: step_camera_def step_glow_def step_effects_def step_chain_def step_dilly_def)

text \<open>What one part of the frame may do to a view that plays a flowing step.\<close>

definition plays :: "bool \<Rightarrow> scene \<Rightarrow> rat \<Rightarrow> view \<Rightarrow> view \<Rightarrow> bool" where
  "plays rd sc d v w \<longleftrightarrow> live sc w \<and> later rd d 0 v w \<and> stepIndex w = stepIndex v
     \<and> visible w = visible v \<and> speed w = speed v \<and> last_time w = last_time v"

lemma plays_refl: "live sc v \<Longrightarrow> plays rd sc d v v"
  by (simp add: plays_def later_def)

lemma plays_trans: "plays rd sc d u v \<Longrightarrow> plays rd sc d v w \<Longrightarrow> plays rd sc d u w"
  using later_trans [of rd d 0 u v 0 w] by (simp add: plays_def)

lemma keeps_plays_same:
  assumes "\<And>s. same_playback s (f s)" "\<And>s. controls_ok (f s) = controls_ok s" "\<And>s. playing (f s) = playing s"
    "\<And>s. waitLocal (f s) = waitLocal s" "\<And>s. visible (f s) = visible s" "\<And>s. speed (f s) = speed s"
    "\<And>s. last_time (f s) = last_time s"
  shows "keeps (plays rd sc d v) (pure_act f)"
proof (rule keeps_pureI)
  fix s assume s: "plays rd sc d v s"
  then have "live sc s" by (simp add: plays_def)
  then have "plays rd sc d s (f s)"
    using same_live [OF assms(1-4)] assms(5-7) by (simp add: plays_def later_zero)
  with s show "plays rd sc d v (f s)" by (rule plays_trans)
qed

lemma live_autoplay: "live sc v \<Longrightarrow> step_autoplay rd sdt v = (None, v)"
  by (simp add: live_def step_autoplay_def)

lemma keeps_plays_autoplay: "keeps (plays rd sc d v) (step_autoplay rd sdt)"
  by (rule keepsI) (auto simp: plays_def live_autoplay)

lemma frame_live:
  assumes v: "live sc v" "visible v" and d: "0 \<le> d" "d \<le> frame_dt now v * speed v"
  shows "\<exists>w. frame rd False now v = (None, w) \<and> live sc w \<and> later rd d d v w \<and> stepIndex w = stepIndex v
     \<and> visible w \<and> speed w = speed v \<and> last_time w = now"
proof -
  let ?dt = "frame_dt now v" and ?sdt = "frame_dt now v * speed v" and ?v = "v\<lparr>last_time := now\<rparr>"
  have lv: "live sc ?v" "rank rd d ?v = rank rd d v"
    using same_live [of v ?v sc rd d] v(1) by (simp_all add: same_playback_def controls_ok_def)
  let ?pre = "[pure_act (step_camera rd ?dt), pure_act (step_glow ?dt)]"
  let ?post = "[pure_act (step_effects ?dt), pure_act (step_chain ?dt), pure_act step_dilly, step_autoplay rd ?sdt]"
  have "keeps (plays rd sc d ?v) (do_all ?pre)"
    by (rule keeps_do_all) (simp add: keeps_plays_same)
  from keepsE [OF this plays_refl [OF lv(1)]]
  obtain u where u: "do_all ?pre ?v = (None, u)" "plays rd sc d ?v u" .
  then have lu: "live sc u" by (simp add: plays_def)
  obtain x where x: "step_packets rd ?sdt u = (None, x)" "live sc x"
      "if packets u = [] then x = u else later rd d d u x" "kept u x"
    using packets_live [OF lu d] by blast
  obtain y where y: "step_local rd ?sdt x = (None, y)" "live sc y"
      "later rd d (if running x \<and> packets x = [] then d else 0) x y" "kept x y"
    using local_live [OF x(2) d] by blast
  have "keeps (plays rd sc d y) (do_all ?post)"
    by (rule keeps_do_all) (simp add: keeps_plays_same keeps_plays_autoplay)
  from keepsE [OF this plays_refl [OF y(2)]]
  obtain w where w: "do_all ?post y = (None, w)" "plays rd sc d y w" .
  have "frame_body rd ?dt ?sdt ?v = do_all (?pre @ [step_packets rd ?sdt, step_local rd ?sdt] @ ?post) ?v"
    by (simp add: frame_body_def)
  also have "\<dots> = (None, w)"
    using u(1) x(1) y(1) w(1) by (simp only: do_all_append prod.case option.case) (simp add: do_all.simps)
  finally have "frame rd False now v = (None, w)"
    unfolding frame_eq using v(2) by simp
  moreover have "later rd d d u y"
    using x(3) y(3) later_trans [of rd d d u x _ y] d(1) by (auto simp: later_def split: if_splits)
  ultimately show ?thesis
    using u(2) w(2) x(4) y(4) v(2) lv(2) by (auto simp: plays_def later_def kept_def)
qed

subsection \<open>Enough frames\<close>

text \<open>Frame times at least \<open>g\<close> milliseconds apart.\<close>

fun spaced :: "rat \<Rightarrow> rat \<Rightarrow> rat list \<Rightarrow> bool" where
  "spaced g t [] = True"
| "spaced g t (x # xs) = (t + g \<le> x \<and> spaced g x xs)"

definition least_advance :: "rat \<Rightarrow> rat" where
  "least_advance g = 0.6 * (g / 1000)"

lemma speed_bound: "view_ok sc v \<Longrightarrow> 0.6 \<le> speed v"
  by (auto simp: view_ok_def controls_ok_def speed_choices_def)

lemma advance_bound:
  assumes "view_ok sc v" "0 < g" "g \<le> 50" "last_time v + g \<le> now"
  shows "least_advance g \<le> frame_dt now v * speed v"
proof -
  have "g / 1000 \<le> frame_dt now v"
    using assms(3,4) by (simp add: frame_dt_def)
  then have "(g / 1000) * 0.6 \<le> frame_dt now v * speed v"
    using speed_bound [OF assms(1)] assms(2) by (intro mult_mono) auto
  then show ?thesis by (simp add: least_advance_def)
qed

lemma frames_finish:
  assumes "live sc v" "visible v" "0 < g" "g \<le> 50" "spaced g (last_time v) ts"
    and "running v \<longrightarrow> rank rd (least_advance g) v < least_advance g * of_nat (length ts)"
  shows "live sc (run_events rd (map (Frame False) ts) v) \<and> \<not> running (run_events rd (map (Frame False) ts) v)
     \<and> stepIndex (run_events rd (map (Frame False) ts) v) = stepIndex v"
  using assms
proof (induction ts arbitrary: v)
  case Nil
  have "core_ok sc v" using Nil.prems(1) by (simp add: live_def view_ok_def playback_ok_def)
  then have "0 \<le> rank rd (least_advance g) v"
    using Nil.prems(3) by (intro rank_nonneg) (simp_all add: least_advance_def)
  then show ?case using Nil.prems by auto
next
  case (Cons x xs)
  let ?d = "least_advance g"
  have d: "0 \<le> ?d" using Cons.prems(3) by (simp add: least_advance_def)
  have vo: "view_ok sc v" using Cons.prems(1) by (simp add: live_def)
  have "?d \<le> frame_dt x v * speed v"
    using advance_bound [OF vo Cons.prems(3,4)] Cons.prems(5) by simp
  then obtain w where w: "frame rd False x v = (None, w)" "live sc w" "later rd ?d ?d v w"
      "stepIndex w = stepIndex v" "visible w" "last_time w = x"
    using frame_live [OF Cons.prems(1,2) d] by blast
  have "running w \<longrightarrow> rank rd ?d w < ?d * of_nat (length xs)"
    using w(3) Cons.prems(6) by (auto simp: later_def algebra_simps)
  then have "live sc (run_events rd (map (Frame False) xs) w) \<and> \<not> running (run_events rd (map (Frame False) xs) w)
     \<and> stepIndex (run_events rd (map (Frame False) xs) w) = stepIndex w"
    using Cons.IH [OF w(2,5) Cons.prems(3,4)] Cons.prems(5) w(6) by simp
  then show ?case using w(1,4) by simp
qed

end
