(* ===== verification/Duo.thy ===== *)
theory Duo
  imports Stage Playback_Progress
begin

section \<open>A two-step scene, evaluated\<close>

text \<open>
  The smallest scene that shows both behaviours of playback: its first step is one message that
  stores a block, its second step is a request followed by its response.  The views below are
  computed by rewriting with the definitions of the engine, with reduced motion, so a message
  arrives in the first frame after it started.
\<close>

definition duo :: scene where
  "duo = \<lparr>d_id = ''duo'', d_title = ''Two steps'', d_dilly = Some ''a'', d_chainAt = Some ''b'',
     d_chainOffset = None, d_platformRadius = None, d_camera = None,
     d_actors = [act ''a'' ''laptop'' ''Client'' 0 0, act ''b'' ''db'' ''Server'' 4 0],
     d_steps =
       [stp ''One'' ''Record'' ''The client stores an event.'' ''INSERT''
          [(mv ''a'' ''b'' ''event'')\<lparr>m_effect := Some ''store''\<rparr>],
        stp ''Two'' ''Ask'' ''The client asks and the server answers.'' ''GET''
          [mv ''a'' ''b'' ''request'', (mv ''b'' ''a'' ''answer'')\<lparr>m_kind := Some ''response''\<rparr>]]\<rparr>"

lemma duo_wf: "wf_scene duo"
  by (simp add: duo_def scene_check default_camera_def)

lemmas evaluate = construct_def buildScene_def goTo_def enter_step_def startNextMove.simps spawnPacket.simps
  launch_def setChain_def settle_def clearPackets_def show_step_def step_at_def steps_of_def fresh_view_def
  home_camera_def default_camera_def require_actor_def actor_at_def pulse_def moves_of_def step_blocks_def
  own_mood_def new_packet_def move_dur_def move_color_def model_of_def model_kinds_def Let_def step_mood_def
  move_mood_def is_store_def colors_def addBlock_def nat_str.simps int_str_def do_all.simps

definition duo_0 :: view where "duo_0 = snd (construct True duo 0)"
definition duo_1 :: view where "duo_1 = snd (handle True (Frame False 50) duo_0)"
definition duo_2 :: view where "duo_2 = snd (handle True Click_next duo_0)"
definition duo_3 :: view where "duo_3 = snd (handle True (Frame False 50) duo_2)"

lemma duo_mounts: "construct True duo 0 = (None, duo_0)"
  by (simp add: evaluate duo_0_def duo_def)

lemma duo_reach: "reach True duo duo_0" "reach True duo duo_1" "reach True duo duo_2" "reach True duo duo_3"
proof -
  have r: "reach True duo (snd (handle True e v))" if "reach True duo v" "enabled e v" for e v
    using reach.event [OF that] by (cases "handle True e v") auto
  show 0: "reach True duo duo_0" using reach.mounted [OF duo_mounts] .
  show "reach True duo duo_1" "reach True duo duo_2"
    unfolding duo_1_def duo_2_def by (rule r [OF 0]; simp)+
  then show "reach True duo duo_3"
    unfolding duo_3_def by (intro r) simp_all
qed

lemma duo_0_eval:
  "running duo_0" "visible duo_0" "speed duo_0 = 1" "last_time duo_0 = 0" "queue duo_0 = []" "stepIndex duo_0 = 0"
  "playing duo_0 = False" "currentLocal duo_0 = False" "chain duo_0 = []" "next_group duo_0 = 1"
  "packets duo_0 = [\<lparr>p_group = 0, p_move = (mv ''a'' ''b'' ''event'')\<lparr>m_effect := Some ''store''\<rparr>, p_t = 0, p_dur = 0.01\<rparr>]"
  by (simp_all add: evaluate duo_0_def duo_def)

lemma duo_2_eval:
  "running duo_2" "visible duo_2" "speed duo_2 = 1" "last_time duo_2 = 0" "stepIndex duo_2 = 1"
  "queue duo_2 = [(mv ''b'' ''a'' ''answer'')\<lparr>m_kind := Some ''response''\<rparr>]"
  "packets duo_2 = [\<lparr>p_group = 1, p_move = mv ''a'' ''b'' ''request'', p_t = 0, p_dur = 0.01\<rparr>]"
  "next_group duo_2 = 2" "length (chain duo_2) = 1"
  by (simp_all add: evaluate duo_2_def duo_0_def duo_def next_step_def last_index_def pause_def)

lemmas evaluate_frame = evaluate frame_def step_camera_def step_glow_def step_packets_def arrive_def applyEffect_def
  step_local_def step_effects_def step_chain_def step_dilly_def step_autoplay_def frame_dt_def fall_def
  ring_effect_def or_else_def when_act_def reading_time_def

lemma duo_1_eval:
  "running duo_1 = False" "packets duo_1 = []" "length (chain duo_1) = 1" "stepIndex duo_1 = 0"
  by (simp_all add: evaluate_frame duo_1_def duo_0_def duo_def)

lemma duo_3_eval: "running duo_3" "packets duo_3 = []" "currentLocal duo_3 = False" "queue duo_3 = []" "stepIndex duo_3 = 1"
  by (simp_all add: evaluate_frame duo_3_def duo_2_def duo_0_def duo_def next_step_def last_index_def pause_def)

lemma duo_3_stuck: "stuck duo_3"
  by (simp add: stuck_def duo_3_eval)

text \<open>Autoplay switched on while the first message flies, and the frame in which it arrives.\<close>

definition duo_4 :: view where "duo_4 = snd (handle True (Frame False 50) (snd (handle True Click_play duo_0)))"

lemma duo_4_reach: "reach True duo duo_4"
proof -
  have r: "reach True duo (snd (handle True e v))" if "reach True duo v" "enabled e v" for e v
    using reach.event [OF that] by (cases "handle True e v") auto
  show ?thesis
    unfolding duo_4_def by (intro r duo_reach(1)) simp_all
qed

lemma duo_4_eval: "running duo_4 = False" "playing duo_4" "stepIndex duo_4 = 0" "readTime duo_4 = Some 3.0738"
  by (simp_all add: evaluate_frame duo_4_def duo_0_def duo_def togglePlay_def play_def pause_def)

end
