(* ===== verification/Walkthrough_Properties.thy ===== *)
theory Walkthrough_Properties
  imports Duo
begin

section \<open>What the walkthrough player promises\<close>

text \<open>
  The properties of \<open>kb-src/scenes-engine.js\<close>, each for every well-formed scene and every view it
  can reach, and each applied to the evaluated views of \<open>Duo\<close>.
\<close>

text \<open>C2: a well-formed scene always mounts, and no sequence of clicks, keys, drags, visibility
  changes and animation frames ever throws or leaves the invariant \<open>view_ok\<close>: the shown step exists,
  the panel shows it, the audit chain and the mood are those of the delivered moves, at most one
  message is in the air, camera and speed are within their limits.\<close>

theorem walkthrough_never_fails:
  assumes "wf_scene sc"
  shows "\<exists>v. construct rd sc now = (None, v)
    \<and> (\<forall>es. all_enabled rd es v \<longrightarrow> thrown (handle rd) es v = [] \<and> view_ok sc (run_events rd es v))"
proof -
  obtain v where v: "construct rd sc now = (None, v)"
    using construct_ok [OF assms] by blast
  then show ?thesis
    using assms player.started_quiet [of sc rd v] player.started_keeps [of sc rd v]
    unfolding all_enabled_def run_events_def by blast
qed

theorem walkthrough_never_fails_witness:
  "thrown (handle True) [Click_next, Frame False 50, Click_play, Arrow_left, Zoom_in] duo_0 = []"
  using walkthrough_never_fails [OF duo_wf, of True 0] duo_mounts duo_reach
  by (simp del: thrown.simps)

text \<open>C5: going to a step depends only on the step. Whatever happened before, the view then shows the
  step's panel, its audit chain and mood are those of the steps before it, its first move has begun
  (a local action is already applied, a message is in the air) and the other moves are queued.\<close>

theorem step_entry_forgets_history:
  assumes "wf_scene sc" "reach rd sc v" "n < length (d_steps sc)"
  shows "\<exists>w. goTo rd (int n) v = (None, w) \<and> entered_at sc n w \<and> \<not> stuck w
    \<and> ui w = ui (show_step (int n) (d_steps sc ! n) (fresh_view sc))"
proof -
  obtain w where w: "goTo rd (int n) v = (None, w)" "view_ok sc w" "\<not> stuck w" "entered_at sc n w"
    using goTo_entered [OF reach_ok [OF assms(2,1)] assms(3)] by blast
  moreover have "stepIndex w = int n"
    using w(4) by (simp add: entered_at_def Let_def)
  ultimately show ?thesis using view_panel [OF w(2)] by blast
qed

theorem step_entry_forgets_history_witness:
  "\<exists>w. goTo True (int 0) duo_3 = (None, w) \<and> entered_at duo 0 w"
  using step_entry_forgets_history [OF duo_wf duo_reach(4), of 0] by (auto simp: duo_def)



text \<open>C20: a message that would start when another message arrives is lost. In the frame in which a packet
  arrives and the next queued move is a message, that message leaves the queue, nothing is left in
  the air, and the step never comes to rest.\<close>

theorem consecutive_message_is_lost:
  assumes "wf_scene sc" "reach rd sc v" "visible v" "packets v = [p]"
    and "1 \<le> p_t p + frame_dt now v * speed v / p_dur p"
    and "queue v = m # ms" "\<not> m_local m"
  shows "\<exists>w. frame rd False now v = (None, w) \<and> stuck w \<and> queue w = ms \<and> stepIndex w = stepIndex v"
  using frame_loses [OF reach_ok [OF assms(2,1)] assms(3-7)] by blast

theorem consecutive_message_is_lost_witness:
  "\<exists>w. frame True False 50 duo_2 = (None, w) \<and> stuck w \<and> queue w = [] \<and> stepIndex w = 1"
  using consecutive_message_is_lost [OF duo_wf duo_reach(3) duo_2_eval(2,7), of 50] duo_2_eval
  by (simp add: frame_dt_def)

text \<open>C21: a stuck view stays stuck. Play, pause, speed, camera, visibility and any number of animation
  frames leave the step, the queue, the length of the chain, the mood and the panel as they are; only going to
  a step helps.\<close>

theorem stuck_until_navigation:
  assumes "stuck v" "\<forall>e \<in> set es. \<not> navigates e"
  shows "frozen v (run_events rd es v)"
  by (rule passive_run_frozen [OF assms])

theorem stuck_until_navigation_witness:
  "frozen duo_3 (run_events True [Click_play, Frame False 100, Set_speed 1.6, Frame False 150] duo_3)"
  using stuck_until_navigation [OF duo_3_stuck, of "[Click_play, Frame False 100, Set_speed 1.6, Frame False 150]" True]
  by simp

text \<open>C31: the envelope of a lost message stays on the stage for good. It is added in the frame that loses
  it and no event after that, navigation included, removes it.\<close>

theorem lost_envelope_stays:
  assumes "wf_scene sc" "reach rd sc v" "visible v" "packets v = [p]"
    and "1 \<le> p_t p + frame_dt now v * speed v / p_dur p"
    and "queue v = m # ms" "\<not> m_local m"
  shows "next_group v \<in> set (groups (run_events rd (Frame False now # es) v))"
  using ghost_run [OF frame_leaves_ghost [OF reach_ok [OF assms(2,1)] assms(3-7)]]
  by (simp add: ghost_def)

theorem lost_envelope_stays_witness:
  "2 \<in> set (groups (run_events True [Frame False 50, Click_prev, Click_restart] duo_2))"
  using lost_envelope_stays [OF duo_wf duo_reach(3) duo_2_eval(2,7), of 50 _ _ "[Click_prev, Click_restart]"]
    duo_2_eval by (simp add: frame_dt_def)

text \<open>C30: without navigation a walkthrough never passes a step in which one message directly follows
  another: from such a step or an earlier one, Play and the animation frames stay at it or before it.\<close>

theorem autoplay_stops_at_break:
  assumes "wf_scene sc" "construct rd sc now = (None, v)" "first_break sc < length (d_steps sc)"
    and "all_enabled rd es v" "\<forall>e \<in> set es. \<not> navigates e"
  shows "stepIndex (run_events rd es v) \<le> int (first_break sc)"
proof -
  have "upto_step sc (first_break sc) v"
    using construct_ok [OF assms(1), of rd now] assms(2) by (simp add: upto_step_def)
  then show ?thesis
    using passive_run_upto [OF assms(3) first_break_step(1) [OF assms(3)] _ assms(4,5)]
    by (simp add: upto_step_def)
qed

theorem autoplay_stops_at_break_witness:
  "stepIndex (run_events True [Click_play, Frame False 50, Frame False 100] duo_0) \<le> 1"
proof -
  have "first_break duo = 1" "length (d_steps duo) = 2"
    by (simp_all add: first_break_def duo_def moves_of_def)
  then show ?thesis
    using autoplay_stops_at_break [OF duo_wf duo_mounts, of "[Click_play, Frame False 50, Frame False 100]"]
    by simp
qed

text \<open>C16: a step in which no message directly follows another comes to rest. In a paused, visible view
  that plays such a step, frames at least \<open>g\<close> milliseconds apart (at most 50) deliver every move once
  there are enough of them for the animation time left plus one frame per queued move.\<close>

theorem flowing_step_comes_to_rest:
  assumes "wf_scene sc" "reach rd sc v" "visible v" "\<not> playing v" "\<not> stuck v" "flows (moves_of (current v))"
    and "0 < g" "g \<le> 50" "spaced g (last_time v) ts"
    and "rank rd (least_advance g) v < least_advance g * of_nat (length ts)"
  shows "\<not> running (run_events rd (map (Frame False) ts) v)
    \<and> stepIndex (run_events rd (map (Frame False) ts) v) = stepIndex v"
proof -
  have "live sc v"
    using reach_ok [OF assms(2,1)] assms(4-6) by (simp add: live_def)
  from frames_finish [OF this assms(3,7-9)] show ?thesis using assms(10) by blast
qed

theorem flowing_step_comes_to_rest_witness:
  "\<not> running (run_events True (map (Frame False) [50, 100]) duo_0)"
proof -
  have "flows (moves_of (current duo_0))"
    using reach_ok [OF duo_reach(1) duo_wf] duo_0_eval
    by (simp add: current_def view_ok_def playback_ok_def core_ok_def steps_of_def)
      (simp add: duo_def moves_of_def)
  moreover have "\<not> stuck duo_0" by (simp add: stuck_def duo_0_eval)
  ultimately show ?thesis
    using flowing_step_comes_to_rest [OF duo_wf duo_reach(1) duo_0_eval(2), of 50 "[50, 100]"] duo_0_eval
    by (simp add: rank_def time_left_def now_time_def least_advance_def)
qed

text \<open>C35: at most one message is in the air, only while a step runs and no local action waits; it flies
  between two actors of the scene and has a positive duration.\<close>

theorem one_message_in_the_air:
  assumes "wf_scene sc" "reach rd sc v"
  shows "length (packets v) \<le> 1 \<and> (packets v \<noteq> [] \<longrightarrow> running v \<and> \<not> currentLocal v)
    \<and> list_all (\<lambda>p. 0 < p_dur p \<and> actor_at v (m_from (p_move p)) \<noteq> None \<and> actor_at v (m_to (p_move p)) \<noteq> None)
        (packets v)"
proof -
  have pb: "playback_ok sc v" using reach_ok [OF assms(2,1)] by (simp add: view_ok_def)
  then have "actors_ok sc (actors v)" "list_all (packet_ok sc) (packets v)"
    by (simp_all add: playback_ok_def core_ok_def)
  then show ?thesis
    using pb actor_at_ok by (fastforce simp: playback_ok_def packet_ok_def move_ok_def list_all_iff)
qed

theorem one_message_in_the_air_witness: "length (packets duo_2) \<le> 1 \<and> running duo_2"
  using one_message_in_the_air [OF duo_wf duo_reach(3)] duo_2_eval(1) by blast

text \<open>C36: the text panel always shows the current step: its counter is the step's number over the
  number of steps, there is one button for each step, and exactly the button of the current step is
  lit.\<close>

theorem panel_shows_current_step:
  assumes "wf_scene sc" "reach rd sc v" "stepIndex v = int n"
  shows "n < length (d_steps sc)
    \<and> u_count (ui v) = nat_str (Suc n) @ '' / '' @ nat_str (length (d_steps sc))
    \<and> u_title (ui v) = s_title (d_steps sc ! n)
    \<and> map fst (u_buttons (ui v)) = map (\<lambda>i. i = n) [0..<length (d_steps sc)]"
proof -
  have v: "view_ok sc v" using reach_ok [OF assms(2,1)] .
  have len: "n < length (d_steps sc)"
    using step_range [OF v] assms(3) by simp
  have "steps_of (fresh_view sc) = d_steps sc"
    by (simp add: steps_of_def fresh_view_def)
  then show ?thesis
    using view_panel [OF v assms(3)] len
    by (simp add: show_step_def Let_def int_str_def nat_add_distrib)
qed

theorem panel_shows_current_step_witness: "u_count (ui duo_2) = ''2 / 2''"
  using panel_shows_current_step [OF duo_wf duo_reach(3), of 1] duo_2_eval(5)
  by (simp add: duo_def nat_str.simps char_of_def bit_Suc_0_iff)

text \<open>C37: Next, Previous and the arrow keys go to the neighbouring step, or re-enter the last or the
  first one; the buttons also stop autoplay.\<close>

theorem neighbours_are_clamped:
  assumes "wf_scene sc" "reach rd sc v"
  shows "stepIndex (snd (handle rd Click_next v)) = min (stepIndex v + 1) (int (length (d_steps sc)) - 1)
    \<and> stepIndex (snd (handle rd Click_prev v)) = max (stepIndex v - 1) 0
    \<and> stepIndex (snd (handle rd Arrow_right v)) = min (stepIndex v + 1) (int (length (d_steps sc)) - 1)
    \<and> stepIndex (snd (handle rd Arrow_left v)) = max (stepIndex v - 1) 0
    \<and> \<not> playing (snd (handle rd Click_next v)) \<and> \<not> playing (snd (handle rd Click_prev v))"
proof -
  have v: "view_ok sc v" using reach_ok [OF assms(2,1)] .
  have go: "stepIndex (snd (goTo rd i u)) = i \<and> playing (snd (goTo rd i u)) = playing u"
    if "view_ok sc u" "0 \<le> i" "i \<le> last_index u" for i u
    using goTo_from [OF that, of rd] by (auto simp: moved_def)
  have r: "0 \<le> stepIndex v" "stepIndex v \<le> last_index v" "last_index v = int (length (d_steps sc)) - 1"
    using step_range [OF v] by auto
  have p: "view_ok sc (pause v)" "stepIndex (pause v) = stepIndex v" "last_index (pause v) = last_index v" "\<not> playing (pause v)"
    using pause_ok [OF v] by (simp_all add: pause_def last_index_def steps_of_def)
  define j k where "j = min (stepIndex v + 1) (last_index v)" and "k = max (stepIndex v - 1) 0"
  have jk: "0 \<le> j" "j \<le> last_index v" "0 \<le> k" "k \<le> last_index v"
    using r by (auto simp: j_def k_def)
  have "next_step rd u = goTo rd j u" "prev_step rd u = goTo rd k u"
    if "stepIndex u = stepIndex v" "last_index u = last_index v" for u
    using that by (simp_all add: next_step_def prev_step_def j_def k_def)
  then show ?thesis
    using go [OF v jk(1,2)] go [OF v jk(3,4)] go [OF p(1) jk(1), unfolded p, OF jk(2)]
      go [OF p(1) jk(3), unfolded p, OF jk(4)] p
    by (simp add: j_def [unfolded r(3), symmetric] k_def [symmetric])
qed

theorem neighbours_are_clamped_witness: "stepIndex (snd (handle True Click_next duo_2)) = 1"
  using neighbours_are_clamped [OF duo_wf duo_reach(3)] duo_2_eval(5) by (simp add: duo_def)

text \<open>C34: when the reading time of a step at rest runs out during autoplay, the next step is entered;
  after the last step autoplay switches itself off and the button says Play again.\<close>

theorem autoplay_moves_on:
  assumes "wf_scene sc" "reach rd sc v" "playing v" "\<not> running v" "readTime v = Some r" "r \<le> sdt"
  shows "\<exists>w. step_autoplay rd sdt v = (None, w) \<and>
    (if stepIndex v < int (length (d_steps sc)) - 1
     then entered_at sc (nat (stepIndex v + 1)) w \<and> playing w
     else stepIndex w = stepIndex v \<and> \<not> playing w \<and> play_label w = ''Play'')"
proof -
  have v: "view_ok sc v" using reach_ok [OF assms(2,1)] .
  then have pk: "packets v = []"
    using assms(4) by (auto simp: view_ok_def playback_ok_def)
  let ?u = "v\<lparr>readTime := Some (r - sdt)\<rparr>"
  have "same_playback v ?u" "controls_ok ?u = controls_ok v"
    using assms(5) by (simp_all add: same_playback_def controls_ok_def)
  then have u: "view_ok sc ?u" using same_view_ok v by blast
  have r: "0 \<le> stepIndex v" "last_index ?u = int (length (d_steps sc)) - 1"
    using step_range(1) [OF v] step_range(2) [OF u] by auto
  have au: "step_autoplay rd sdt v =
      (if stepIndex v < int (length (d_steps sc)) - 1 then goTo rd (stepIndex v + 1) ?u else (None, pause ?u))"
    using assms(3-6) pk r(2) by (simp add: step_autoplay_def)
  show ?thesis
  proof (cases "stepIndex v < int (length (d_steps sc)) - 1")
    case True
    then have "nat (stepIndex v + 1) < length (d_steps sc)" using r(1) by linarith
    from goTo_entered [OF u this, of rd]
    obtain w where w: "goTo rd (stepIndex v + 1) ?u = (None, w)" "moved ?u w" "entered_at sc (nat (stepIndex v + 1)) w"
      using r(1) by auto
    then show ?thesis using True au assms(3) by (auto simp: moved_def)
  next
    case False
    then show ?thesis using au by (simp add: pause_def)
  qed
qed

theorem autoplay_moves_on_witness:
  "\<exists>w. step_autoplay True 4 duo_4 = (None, w) \<and> entered_at duo 1 w \<and> playing w"
  using autoplay_moves_on [OF duo_wf duo_4_reach duo_4_eval(2), of "3.0738" 4] duo_4_eval
  by (simp add: duo_def)

text \<open>C40: whatever the pointer, the zoom buttons and the home gesture do, the camera stays
  between 8 and 30 units away and between the two tilt limits, and the speed is one of the menu's.\<close>

theorem camera_within_limits:
  assumes "wf_scene sc" "reach rd sc v"
  shows "8 \<le> orbit_radius v \<and> orbit_radius v \<le> 30 \<and> 0.35 \<le> orbit_phi v \<and> orbit_phi v \<le> 1.45
    \<and> List.member speed_choices (speed v)"
  using reach_ok [OF assms(2,1)] by (simp add: view_ok_def controls_ok_def)

theorem camera_within_limits_witness:
  "orbit_radius (snd (handle True Zoom_in duo_0)) \<ge> 8"
proof -
  have "reach True duo (snd (handle True Zoom_in duo_0))"
    by (rule reach.event [OF duo_reach(1), of Zoom_in None]) simp_all
  then show ?thesis using camera_within_limits [OF duo_wf] by blast
qed

text \<open>\<open>setChain(n)\<close> leaves exactly \<open>n\<close> blocks: the blocks already there up to \<open>n\<close>, untouched, then new
  blocks at rest in their places, gold and plain in turn. Nothing else of the view changes.\<close>

lemma setChain_exact:
  "setChain rd n v = v\<lparr>chain := take n (chain v) @
     map (\<lambda>i. \<lparr>b_gold = odd i, b_y = 0.14 + of_nat i * 0.27, b_drop = None\<rparr>) [length (chain v)..<n]\<rparr>"
  by (rule setChain_blocks)

text \<open>A step is read for at least 2.6 and at most 9 seconds; it is 9 exactly when the body and the
  payload, weighted 1 and 0.35 per character, reach 6.4/0.018 characters.\<close>

lemma reading_time_bounds:
  "2.6 \<le> reading_time s \<and> reading_time s \<le> 9
   \<and> (reading_time s = 9 \<longleftrightarrow> (6.4::rat) \<le> 0.018 * (of_nat (length (case s_body s of None \<Rightarrow> [] | Some b \<Rightarrow> b))
        + 0.35 * of_nat (length (case s_payload s of None \<Rightarrow> [] | Some p \<Rightarrow> p))))"
  by (auto simp: reading_time_def Let_def min_def field_simps)

end
