(* ===== verification/Tour_Acme.thy ===== *)
theory Tour_Acme
  imports Scene_Invariants
begin

section \<open>Walkthrough: acme\<close>

text \<open>
  The scene registered under the id \<open>acme\<close> in \<open>kb-src/scenes-data.js\<close>: its actors, its steps with their
  texts and moves, and the proof that it is well-formed for the engine.
\<close>

definition acme_actors :: "actor list" where
  \<open>acme_actors =
    [(act ''operator'' ''person'' ''PKI operator'' (- 2.2) 6.8)\<lparr>a_sub := Some ''onboarding''\<rparr>,
     (act ''certbot'' ''laptop'' ''certbot'' (- 6.8) 2.4)\<lparr>a_sub := Some ''on www.portal'', a_anchorY := Some 0.8\<rparr>,
     (act ''web'' ''server'' ''Web server :80'' (- 5.6) (- 3.8))\<lparr>a_sub := Some ''serves the token'', a_anchorY := Some 1.1\<rparr>,
     (act ''acme'' ''gateway'' ''Certadillo ACME'' (- 0.6) 0.4)\<lparr>a_sub := Some ''/acme/*'', a_anchorY := Some 1.5\<rparr>,
     (act ''ra'' ''shield'' ''RA + policy'' 3.4 (- 4.2))\<lparr>a_sub := Some (''scope '' @ [CHR 0xB7] @ '' keys '' @ [CHR 0xB7] @ '' validity''), a_anchorY := Some 1.2\<rparr>,
     (act ''ca'' ''ca'' ''Issuing CA'' 6.9 (- 0.8))\<lparr>a_sub := Some (''issuing-ca-1 '' @ [CHR 0xB7] @ '' P-384''), a_anchorY := Some 1.6, a_labelY := Some 3.0\<rparr>,
     (act ''hsm'' ''hsm'' ''HSM'' 6.4 3.4)\<lparr>a_sub := Some (''PKCS#11 '' @ [CHR 0xB7] @ '' non-extractable''), a_anchorY := Some 0.6, a_labelY := Some 1.5\<rparr>,
     (act ''db'' ''db'' ''Inventory + audit'' 2.2 5.6)\<lparr>a_sub := Some ''hash-chained events'', a_anchorY := Some 1.1\<rparr>]\<close>

definition acme_step_1 :: step where
  \<open>acme_step_1 = stp ''Onboarding''
    ''Mint an EAB credential for the app''
    ''Before any ACME traffic, an operator mints a single-use External Account Binding credential for the onboarded app web-portal. It ties the future ACME account to the app, so every order inherits the app\'s approved names and profile.''
    ''POST /api/v1/apps/3/acme-eab\<newline>X-API-Key: <operator key>\<newline>\<newline>201 Created\<newline>{\<newline>  "kid": "eab_ea1ae05c6517f939",\<newline>  "hmac_key": "oh7sIaV_ZUzExOL24qDutXJfRwAHF4OL1X-ZjiXUWO8"\<newline>}''
    [mv ''operator'' ''acme'' ''POST /apps/3/acme-eab'',
     (mv ''acme'' ''db'' ''audit: acme.eab.create'')\<lparr>m_kind := Some ''response'', m_effect := Some ''store''\<rparr>,
     (mv ''acme'' ''operator'' ''kid + hmac_key'')\<lparr>m_kind := Some ''secret''\<rparr>]\<close>

definition acme_step_2 :: step where
  \<open>acme_step_2 = stp ''Discovery''
    ''Read the directory''
    ''certbot starts from one URL. The directory lists every endpoint and says an external account is required.''
    ''GET /acme/directory\<newline>\<newline>{\<newline>  "newNonce":   "https://pki.bank.internal/acme/new-nonce",\<newline>  "newAccount": "https://pki.bank.internal/acme/new-account",\<newline>  "newOrder":   "https://pki.bank.internal/acme/new-order",\<newline>  "revokeCert": "https://pki.bank.internal/acme/revoke-cert",\<newline>  "meta": { "externalAccountRequired": true }\<newline>}''
    [mv ''certbot'' ''acme'' ''GET /acme/directory'',
     (mv ''acme'' ''certbot'' ''endpoints'')\<lparr>m_kind := Some ''response''\<rparr>]\<close>

definition acme_step_3 :: step where
  \<open>acme_step_3 = stp ''Discovery''
    ''Get a replay nonce''
    ''Every signed ACME request carries a fresh nonce. Certadillo marks a nonce spent before it processes the request, so a captured request cannot be replayed.''
    ''HEAD /acme/new-nonce\<newline>\<newline>200 OK\<newline>Replay-Nonce: oQ3xK1vX2d6Hq9tYb0mR3w\<newline>Cache-Control: no-store''
    [mv ''certbot'' ''acme'' ''HEAD /new-nonce'',
     (mv ''acme'' ''certbot'' ''Replay-Nonce'')\<lparr>m_kind := Some ''response''\<rparr>]\<close>

definition acme_step_4 :: step where
  \<open>acme_step_4 = stp ''Account''
    ''Register the account with EAB''
    ''certbot generates an account key, signs the request with it (JWS, ES256), and embeds the EAB: its JWK signed with the HMAC key. Certadillo checks the HMAC, burns the EAB credential and binds the account to the app.''
    ''POST /acme/new-account\<newline>Content-Type: application/jose+json\<newline>\<newline>protected: {"alg":"ES256","jwk":{"kty":"EC","crv":"P-256",...},\<newline>            "nonce":"oQ3x...","url":".../acme/new-account"}\<newline>payload:   {"termsOfServiceAgreed":true,\<newline>            "externalAccountBinding":{\<newline>              "protected":{"alg":"HS256","kid":"eab_ea1a...","url":"..."},\<newline>              "payload": <account JWK>, "signature": <HMAC-SHA256>}}\<newline>\<newline>201 Created   Location: .../acme/acct/1''
    [(mv ''certbot'' ''acme'' ''POST /new-account'')\<lparr>m_sub := Some ''JWS + EAB''\<rparr>,
     (mv ''acme'' ''ra'' ''verify EAB HMAC'')\<lparr>m_effect := Some ''check''\<rparr>,
     (mv ''ra'' ''db'' ''account 1 -> app web-portal'')\<lparr>m_kind := Some ''response'', m_effect := Some ''store''\<rparr>,
     (mv ''acme'' ''certbot'' ''201 acct/1'')\<lparr>m_kind := Some ''response''\<rparr>]\<close>

definition acme_step_5 :: step where
  \<open>acme_step_5 = stp ''Order''
    ''Order two names''
    (''The order lists the DNS names. Certadillo checks them against the app\'s scope ('' @ ''*.portal.bank.internal) before creating any challenge, then returns one authorization per name.'')
    ''POST /acme/new-order   (JWS, kid = .../acme/acct/1)\<newline>payload: {"identifiers":[\<newline>  {"type":"dns","value":"www.portal.bank.internal"},\<newline>  {"type":"dns","value":"api.portal.bank.internal"}]}\<newline>\<newline>201 Created   Location: .../acme/order/7\<newline>{"status":"pending",\<newline> "authorizations":[".../authz/11",".../authz/12"],\<newline> "finalize":".../acme/order/7/finalize"}''
    [mv ''certbot'' ''acme'' ''POST /new-order'',
     (mv ''acme'' ''ra'' ''scope check'')\<lparr>m_sub := Some ''*.portal.bank.internal'', m_effect := Some ''check'', m_dilly := Some ''happy''\<rparr>,
     (mv ''acme'' ''certbot'' ''order 7: pending'')\<lparr>m_kind := Some ''response''\<rparr>]\<close>

definition acme_step_6 :: step where
  \<open>acme_step_6 = stp ''Order''
    ''What an out-of-scope order looks like''
    ''If the account asks for a name the app never had, the order is refused at once with rejectedIdentifier and the attempt goes into the audit trail. No challenge is ever created for it.''
    ''POST /acme/new-order\<newline>payload: {"identifiers":[{"type":"dns","value":"www.google.com"}]}\<newline>\<newline>403\<newline>{"type":"urn:ietf:params:acme:error:rejectedIdentifier",\<newline> "detail":"outside app scope: www.google.com"}''
    [mv ''certbot'' ''acme'' ''new-order www.google.com'',
     (mv ''acme'' ''ra'' ''scope check'')\<lparr>m_effect := Some ''reject'', m_dilly := Some ''worried''\<rparr>,
     (mv ''ra'' ''db'' ''audit: certificate.rejected'')\<lparr>m_kind := Some ''reject'', m_effect := Some ''store''\<rparr>,
     (mv ''acme'' ''certbot'' ''403 rejectedIdentifier'')\<lparr>m_kind := Some ''reject''\<rparr>]\<close>

definition acme_step_7 :: step where
  \<open>acme_step_7 = stp ''Challenge''
    ''Fetch the http-01 challenge''
    ''For each authorization certbot receives a random token. The key authorization is the token joined to the thumbprint of the account key.''
    ''POST /acme/authz/11   (POST-as-GET)\<newline>\<newline>{"status":"pending",\<newline> "identifier":{"type":"dns","value":"www.portal.bank.internal"},\<newline> "challenges":[{"type":"http-01",\<newline>   "url":".../acme/chall/11",\<newline>   "token":"LoqXcYV8q5ONbJQxbmR7SCTNo3tiAXDfowyjxAjEuX0"}]}''
    [(mv ''certbot'' ''acme'' ''POST /authz/11'')\<lparr>m_dilly := Some ''happy''\<rparr>,
     (mv ''acme'' ''certbot'' ''token'')\<lparr>m_kind := Some ''response''\<rparr>]\<close>

definition acme_step_8 :: step where
  \<open>acme_step_8 = stp ''Challenge''
    ''Serve the key authorization''
    ''certbot (standalone or webroot) publishes the key authorization on port 80 at a well-known path.''
    ''/.well-known/acme-challenge/LoqXcYV8q5ONbJQxbmR7SCTNo3tiAXDfowyjxAjEuX0\<newline>\<newline>LoqXcYV8q5ONbJQxbmR7SCTNo3tiAXDfowyjxAjEuX0.9jg46WB3rR_AHD-EBXdN7cBkH1WOu0tA3M9fm21mqTI''
    [(mv ''certbot'' ''web'' ''token.thumbprint'')\<lparr>m_kind := Some ''local''\<rparr>]\<close>

definition acme_step_9 :: step where
  \<open>acme_step_9 = stp ''Challenge''
    ''Validate http-01''
    ''certbot tells Certadillo it is ready. Certadillo fetches the path over HTTP from where it runs (off the event loop, so a slow host only delays its own order), compares in constant time, and marks the authorization valid. With CERTADILLO_ACME_CHALLENGE=ra-scope this network check is skipped for names already in scope.''
    ''POST /acme/chall/11   payload: {}\<newline>\<newline>Certadillo -> GET http://www.portal.bank.internal/.well-known/acme-challenge/LoqX...\<newline>          <- LoqX....9jg46WB3...\<newline>\<newline>{"type":"http-01","status":"valid","validated":"2026-09-23T22:31:39Z"}''
    [mv ''certbot'' ''acme'' ''POST /chall/11'',
     mv ''acme'' ''web'' ''GET /.well-known/acme-challenge/...'',
     (mv ''web'' ''acme'' ''key authorization'')\<lparr>m_kind := Some ''response'', m_effect := Some ''check''\<rparr>]\<close>

definition acme_step_10 :: step where
  \<open>acme_step_10 = stp ''Issue''
    ''Finalize with a CSR''
    ''certbot generates the certificate key locally and sends a CSR. The RA runs the same policy as every other protocol: proof of possession, P-256 allowed, both SANs in scope, 30-day default validity. The issuing CA builds the certificate and the HSM signs its to-be-signed bytes; the CA key never leaves the HSM.''
    (''POST /acme/order/7/finalize\<newline>payload: {"csr": "MIIBJjCBzQIBADAjMSEwHwYDVQQDDBh3d3cucG9ydGFsLmJhbmsu..."}\<newline>\<newline>Policy: csr_signature ok '' @ [CHR 0xB7] @ '' key ec-256 ok '' @ [CHR 0xB7] @ '' SAN www/api.portal.bank.internal in scope\<newline>        validity 30d <= 90d '' @ [CHR 0xB7] @ '' profile tls-server\<newline>HSM:    C_Sign(CKM_ECDSA, SHA-384(tbsCertificate)) -> (r, s)'')
    [(mv ''certbot'' ''acme'' ''POST /finalize'')\<lparr>m_sub := Some ''CSR''\<rparr>,
     (mv ''acme'' ''ra'' ''policy engine'')\<lparr>m_effect := Some ''check''\<rparr>,
     mv ''ra'' ''ca'' ''build certificate'',
     (mv ''ca'' ''hsm'' ''sign TBS digest'')\<lparr>m_kind := Some ''secret'', m_effect := Some ''hsm''\<rparr>,
     (mv ''hsm'' ''ca'' ''ECDSA signature'')\<lparr>m_kind := Some ''response'', m_effect := Some ''sign''\<rparr>]\<close>

definition acme_step_11 :: step where
  \<open>acme_step_11 = stp ''Issue''
    ''Record it''
    ''The certificate row and its audit event commit in one transaction. The audit event extends the SHA-256 hash chain (the stack of blocks). Prometheus sees the new expiry gauge on its next scrape, labelled with app, team and environment.''
    ''audit_event {\<newline>  actor: "acme:1:web-portal", action: "certificate.issue",\<newline>  target: "7b4c294dac830d452407acffe8492c99a84d2bd6",\<newline>  details: {protocol: "acme", profile: "tls-server", not_after: "2026-10-23"},\<newline>  prev_hash: "5f1c...", hash: "a93e..."\<newline>}\<newline>certadillo_issuance_total{profile="tls-server",protocol="acme",result="issued"} += 1''
    [(mv ''ca'' ''db'' ''certificate + audit event'')\<lparr>m_kind := Some ''response'', m_effect := Some ''store''\<rparr>]\<close>

definition acme_step_12 :: step where
  \<open>acme_step_12 = stp ''Issue''
    ''Download the chain''
    ''certbot downloads the leaf plus the issuing CA and installs it. The root is distributed out of band to relying parties.''
    ''POST /acme/cert/42   (POST-as-GET)\<newline>Content-Type: application/pem-certificate-chain\<newline>\<newline>-----BEGIN CERTIFICATE-----   (www.portal.bank.internal, 30 days)\<newline>-----BEGIN CERTIFICATE-----   (Example Bank Issuing CA issuing-ca-1)''
    [mv ''certbot'' ''acme'' ''POST /cert/42'',
     (mv ''acme'' ''certbot'' ''PEM chain'')\<lparr>m_kind := Some ''response''\<rparr>]\<close>

definition acme_step_13 :: step where
  \<open>acme_step_13 = stp ''Renew''
    ''Renew at two-thirds of the lifetime''
    ''certbot\'s timer renews with a new key around day 20 of 30, reusing the account, so no new EAB is needed. If that timer ever stops, the lifetime-aware alert fires at 10 days left (warning) and 3 days left (critical), routed to the web team.''
    ''systemd: certbot.timer -> certbot renew\<newline>new order -> new CSR (new key) -> new certificate\<newline>old certificate: status superseded, replaced_by = 43''
    [mv ''certbot'' ''acme'' ''certbot renew'',
     (mv ''acme'' ''db'' ''old -> superseded'')\<lparr>m_kind := Some ''response'', m_effect := Some ''store''\<rparr>,
     (mv ''acme'' ''certbot'' ''new chain'')\<lparr>m_kind := Some ''response''\<rparr>]\<close>

definition acme_scene :: scene where
  \<open>acme_scene = \<lparr>d_id = ''acme'', d_title = ''ACME with certbot (http-01)'',
     d_dilly = Some ''ra'', d_chainAt = Some ''db'',
     d_chainOffset = Some (1.2, 0.2), d_platformRadius = None,
     d_camera = Some \<lparr>cam_theta = 0.35, cam_phi = 1.1, cam_radius = 20.5\<rparr>,
     d_actors = acme_actors,
     d_steps = [acme_step_1, acme_step_2, acme_step_3, acme_step_4, acme_step_5, acme_step_6, acme_step_7, acme_step_8, acme_step_9, acme_step_10, acme_step_11, acme_step_12, acme_step_13]\<rparr>\<close>

lemmas acme_defs = acme_scene_def
  acme_step_1_def acme_step_2_def acme_step_3_def acme_step_4_def acme_step_5_def acme_step_6_def acme_step_7_def acme_step_8_def acme_step_9_def acme_step_10_def acme_step_11_def acme_step_12_def acme_step_13_def

lemma acme_wf: "wf_scene acme_scene"
  by (simp add: acme_defs acme_actors_def scene_check)

lemma acme_steps: "length (d_steps acme_scene) = 13" "d_id acme_scene = ''acme''"
  by (simp_all add: acme_scene_def)

lemma acme_break: "first_break acme_scene = 0"
  by (simp add: first_break_def acme_defs moves_of_def)

end
