(* ===== verification/Tour_Revocation.thy ===== *)
theory Tour_Revocation
  imports Scene_Invariants
begin

section \<open>Walkthrough: revocation\<close>

text \<open>
  The scene registered under the id \<open>revocation\<close> in \<open>kb-src/scenes-data.js\<close>: its actors, its steps with their
  texts and moves, and the proof that it is well-formed for the engine.
\<close>

definition revocation_actors :: "actor list" where
  \<open>revocation_actors =
    [(act ''rp'' ''globe'' ''Relying party'' (- 7.0) 1.4)\<lparr>a_sub := Some ''browser or service'', a_anchorY := Some 0.9\<rparr>,
     (act ''server'' ''server'' ''api.cards'' (- 5.0) (- 4.4))\<lparr>a_sub := Some ''presents its certificate'', a_anchorY := Some 1.1\<rparr>,
     (act ''cdn'' ''cloud'' ''CRL distribution'' (- 0.8) (- 7.0))\<lparr>a_sub := Some ''/pki/crl/issuing-ca-1.crl'', a_anchorY := Some 0.9, a_labelY := Some 1.9\<rparr>,
     (act ''ocsp'' ''terminal'' ''OCSP responder'' 2.6 (- 5.2))\<lparr>a_sub := Some ''delegated cert, 30 days'', a_anchorY := Some 0.9, a_labelY := Some 1.9\<rparr>,
     (act ''operator'' ''person'' ''Operator'' (- 2.0) 6.6)\<lparr>a_sub := Some ''revokes''\<rparr>,
     (act ''api'' ''gateway'' ''Certadillo API'' (- 0.6) 1.2)\<lparr>a_anchorY := Some 1.5\<rparr>,
     (act ''ca'' ''ca'' ''Issuing CA'' 6.6 (- 2.0))\<lparr>a_anchorY := Some 1.6, a_labelY := Some 3.0\<rparr>,
     (act ''hsm'' ''hsm'' ''HSM'' 7.2 1.6)\<lparr>a_anchorY := Some 0.6, a_labelY := Some 1.5\<rparr>,
     (act ''db'' ''db'' ''Certificate status'' 3.4 5.2)\<lparr>a_sub := Some (''active '' @ [CHR 0xB7] @ '' revoked''), a_anchorY := Some 1.1\<rparr>,
     (act ''prom'' ''chart'' ''Prometheus'' 6.6 5.0)\<lparr>a_sub := Some ''CRLStale'', a_anchorY := Some 0.8, a_labelY := Some 1.9\<rparr>]\<close>

definition revocation_step_1 :: step where
  \<open>revocation_step_1 = stp ''Normal''
    ''The certificate says where to check''
    ''During the TLS handshake the server presents its certificate. Two extensions tell the relying party where revocation lives: AIA points at the OCSP responder, CDP at the CRL.''
    ''Authority Information Access:\<newline>    OCSP - URI:https://pki.bank.internal/pki/ocsp\<newline>    CA Issuers - URI:https://pki.bank.internal/pki/ca/issuing-ca-1.crt\<newline>X509v3 CRL Distribution Points:\<newline>    URI:https://pki.bank.internal/pki/crl/issuing-ca-1.crl''
    [(mv ''server'' ''rp'' ''certificate (AIA, CDP)'')\<lparr>m_kind := Some ''response''\<rparr>]\<close>

definition revocation_step_2 :: step where
  \<open>revocation_step_2 = stp ''Normal''
    ''OCSP says good''
    ''The relying party asks about one serial. The responder looks up live status and signs a short answer (valid 4 hours) with its delegated responder key, so the CA key is not used for every query.''
    (''$ openssl ocsp -issuer issuing.pem -cert server.crt -url https://pki.bank.internal/pki/ocsp -CAfile root.pem\<newline>Response verify OK\<newline>server.crt: good\<newline>'' @ [CHR 0x09] @ ''This Update: Sep 23 22:31:39 2026 GMT\<newline>'' @ [CHR 0x09] @ ''Next Update: Sep 24 02:31:39 2026 GMT'')
    [mv ''rp'' ''ocsp'' ''OCSPRequest(serial 7B4C...)'',
     mv ''ocsp'' ''db'' ''status?'',
     (mv ''db'' ''ocsp'' ''active'')\<lparr>m_kind := Some ''response''\<rparr>,
     (mv ''ocsp'' ''rp'' ''good (signed)'')\<lparr>m_kind := Some ''response'', m_effect := Some ''check''\<rparr>]\<close>

definition revocation_step_3 :: step where
  \<open>revocation_step_3 = stp ''Incident''
    ''Key compromise: revoke''
    ''The server\'s key leaked. The operator revokes with reason key_compromise, which needs no change ticket even in production. The status changes in the same transaction as the audit event.''
    ''POST /api/v1/certificates/7/revoke\<newline>{"reason": "key_compromise"}\<newline>\<newline>200 {"status": "revoked", "revocation_reason": "key_compromise"}''
    [(mv ''operator'' ''api'' ''POST /certificates/7/revoke'')\<lparr>m_kind := Some ''reject'', m_dilly := Some ''worried''\<rparr>,
     (mv ''api'' ''db'' ''status = revoked + audit'')\<lparr>m_kind := Some ''reject'', m_effect := Some ''store''\<rparr>]\<close>

definition revocation_step_4 :: step where
  \<open>revocation_step_4 = stp ''Incident''
    ''Publish a new CRL right away''
    ''In the same request the issuing CA signs a new CRL with the next CRL number. The HSM signs it, and the CRL is published for download. Anonymous downloads serve this stored copy; they never trigger signing.''
    ''Certificate Revocation List (CRL):\<newline>    Issuer: CN=Example Bank Issuing CA issuing-ca-1\<newline>    Last Update: Sep 23 22:40:02 2026 GMT\<newline>    Next Update: Sep 24 22:40:02 2026 GMT\<newline>    X509v3 CRL Number: 5\<newline>Revoked Certificates:\<newline>    Serial Number: 7B4C294DAC830D452407ACFFE8492C99A84D2BD6\<newline>        X509v3 CRL Reason Code: Key Compromise''
    [mv ''api'' ''ca'' ''sign CRL #5'',
     (mv ''ca'' ''hsm'' ''sign'')\<lparr>m_kind := Some ''secret'', m_effect := Some ''hsm''\<rparr>,
     (mv ''ca'' ''cdn'' ''CRL #5'')\<lparr>m_kind := Some ''response''\<rparr>]\<close>

definition revocation_step_5 :: step where
  \<open>revocation_step_5 = stp ''Incident''
    ''OCSP now says revoked''
    ''OCSP answers from live state, so the very next query returns revoked with the reason and time. Clients that hard-fail on revoked certificates stop trusting the server immediately.''
    (''server.crt: revoked\<newline>'' @ [CHR 0x09] @ ''This Update: Sep 23 22:40:05 2026 GMT\<newline>'' @ [CHR 0x09] @ ''Reason: keyCompromise\<newline>'' @ [CHR 0x09] @ ''Revocation Time: Sep 23 22:40:02 2026 GMT'')
    [mv ''rp'' ''ocsp'' ''OCSPRequest'',
     mv ''ocsp'' ''db'' ''status?'',
     (mv ''db'' ''ocsp'' ''revoked'')\<lparr>m_kind := Some ''reject''\<rparr>,
     (mv ''ocsp'' ''rp'' ''revoked (keyCompromise)'')\<lparr>m_kind := Some ''reject'', m_effect := Some ''reject''\<rparr>]\<close>

definition revocation_step_6 :: step where
  \<open>revocation_step_6 = stp ''Incident''
    ''CRL clients see it too''
    ''Clients that use CRLs (many appliances, Windows chains) download the list and find the serial.''
    ''GET /pki/crl/issuing-ca-1.crl   (Cache-Control: max-age=300)\<newline>-> serial 7B4C... present, reason keyCompromise''
    [mv ''rp'' ''cdn'' ''GET issuing-ca-1.crl'',
     (mv ''cdn'' ''rp'' ''serial listed'')\<lparr>m_kind := Some ''reject'', m_effect := Some ''reject''\<rparr>]\<close>

definition revocation_step_7 :: step where
  \<open>revocation_step_7 = stp ''Housekeeping''
    ''Responder certificate rotation''
    ''The OCSP responder certificate lives 30 days. Housekeeping has the CA sign a new one a week before expiry, so the responder never answers with an expired signer.''
    ''OCSP Responder issuing-ca-1\<newline>  Extended Key Usage: OCSP Signing\<newline>  OCSP No Check\<newline>  Validity: 30 days, rotated at 7 days left''
    [(mv ''ca'' ''hsm'' ''sign responder cert'')\<lparr>m_kind := Some ''secret'', m_effect := Some ''hsm'', m_dilly := Some ''happy''\<rparr>,
     (mv ''ca'' ''ocsp'' ''new responder cert'')\<lparr>m_kind := Some ''response'', m_effect := Some ''sign''\<rparr>]\<close>

definition revocation_step_8 :: step where
  \<open>revocation_step_8 = stp ''Housekeeping''
    ''Freshness is watched''
    ''CRLs are re-signed every 12 hours even without revocations. Prometheus scrapes certadillo_crl_last_generated_timestamp_seconds; if a CRL goes 24 hours without re-signing, CRLStale pages the PKI on-call before relying parties start failing.''
    ''alert: CRLStale\<newline>expr: time() - certadillo_crl_last_generated_timestamp_seconds{ca!="root-ca"} > 24 * 3600\<newline>labels: {severity: critical}''
    [mv ''prom'' ''api'' ''scrape /metrics'',
     (mv ''api'' ''prom'' ''crl_last_generated'')\<lparr>m_kind := Some ''response'', m_effect := Some ''check''\<rparr>]\<close>

definition revocation_scene :: scene where
  \<open>revocation_scene = \<lparr>d_id = ''revocation'', d_title = ''Revocation: OCSP and CRL'',
     d_dilly = Some ''api'', d_chainAt = Some ''db'',
     d_chainOffset = Some (1.2, 0.3), d_platformRadius = None,
     d_camera = Some \<lparr>cam_theta = (- 0.2), cam_phi = 1.1, cam_radius = 21.0\<rparr>,
     d_actors = revocation_actors,
     d_steps = [revocation_step_1, revocation_step_2, revocation_step_3, revocation_step_4, revocation_step_5, revocation_step_6, revocation_step_7, revocation_step_8]\<rparr>\<close>

lemmas revocation_defs = revocation_scene_def
  revocation_step_1_def revocation_step_2_def revocation_step_3_def revocation_step_4_def revocation_step_5_def revocation_step_6_def revocation_step_7_def revocation_step_8_def

lemma revocation_wf: "wf_scene revocation_scene"
  by (simp add: revocation_defs revocation_actors_def scene_check)

lemma revocation_steps: "length (d_steps revocation_scene) = 8" "d_id revocation_scene = ''revocation''"
  by (simp_all add: revocation_scene_def)

lemma revocation_break: "first_break revocation_scene = 1"
  by (simp add: first_break_def revocation_defs moves_of_def)

end
