(* ===== verification/Tour_Platform.thy ===== *)
theory Tour_Platform
  imports Scene_Invariants
begin

section \<open>Walkthrough: platform\<close>

text \<open>
  The scene registered under the id \<open>platform\<close> in \<open>kb-src/scenes-data.js\<close>: its actors, its steps with their
  texts and moves, and the proof that it is well-formed for the engine.
\<close>

definition platform_actors :: "actor list" where
  \<open>platform_actors =
    [(act ''team'' ''person'' ''App team'' (- 7.4) 1.2)\<lparr>a_sub := Some ''cards'', a_color := Some 4157343\<rparr>,
     (act ''approver'' ''person'' ''Approver'' (- 5.0) (- 5.2))\<lparr>a_sub := Some ''second person'', a_color := Some 12024095\<rparr>,
     (act ''console'' ''laptop'' ''Console / API'' (- 4.2) 5.2)\<lparr>a_sub := Some ''onboarding'', a_anchorY := Some 0.8\<rparr>,
     (act ''protocols'' ''gateway'' ''Enrollment'' (- 1.4) 0.2)\<lparr>a_sub := Some ''REST ACME EST SCEP SSH SPIFFE'', a_anchorY := Some 1.5\<rparr>,
     (act ''ra'' ''shield'' ''RA + policy'' 2.4 (- 2.0))\<lparr>a_anchorY := Some 1.2\<rparr>,
     (act ''ca'' ''ca'' ''CA hierarchy'' 5.6 (- 5.0))\<lparr>a_sub := Some (''root offline '' @ [CHR 0xB7] @ '' issuing online''), a_anchorY := Some 1.6, a_labelY := Some 3.0\<rparr>,
     (act ''hsm'' ''hsm'' ''HSM'' 7.8 (- 1.6))\<lparr>a_anchorY := Some 0.6, a_labelY := Some 1.5\<rparr>,
     (act ''db'' ''db'' ''Inventory + audit'' 4.6 2.8)\<lparr>a_anchorY := Some 1.1\<rparr>,
     (act ''scanner'' ''radar'' ''Discovery'' 1.2 6.8)\<lparr>a_sub := Some (''TLS scans '' @ [CHR 0xB7] @ '' connectors''), a_anchorY := Some 1.1, a_labelY := Some 2.0\<rparr>,
     (act ''alerts'' ''bell'' ''Alerting'' 0.6 (- 7.2))\<lparr>a_sub := Some (''Slack '' @ [CHR 0xB7] @ '' Jira '' @ [CHR 0xB7] @ '' ServiceNow''), a_anchorY := Some 1.0, a_labelY := Some 2.0\<rparr>,
     (act ''prom'' ''chart'' ''Prometheus + Grafana'' 7.8 3.6)\<lparr>a_anchorY := Some 0.8, a_labelY := Some 1.9\<rparr>]\<close>

definition platform_step_1 :: step where
  \<open>platform_step_1 = stp ''Onboard''
    ''Onboard a team and an app''
    ''The cards team registers card-auth-api: environment prod, profile mtls-service, scope *.cards.bank.internal, classification pci. Nothing can be issued outside that scope later.''
    ''POST /api/v1/apps\<newline>{"team_id": 1, "name": "card-auth-api", "environment": "prod",\<newline> "profile": "mtls-service", "allowed_domains": ["*.cards.bank.internal"],\<newline> "data_classification": "pci"}\<newline>-> 201 {"status": "pending_approval", "approval_id": 12}''
    [mv ''team'' ''console'' ''team + app + scope'',
     (mv ''console'' ''db'' ''app pending + audit'')\<lparr>m_kind := Some ''response'', m_effect := Some ''store''\<rparr>]\<close>

definition platform_step_2 :: step where
  \<open>platform_step_2 = stp ''Onboard''
    ''A second person approves production''
    ''Maker-checker: only the approver role decides, never the requester, and never with a key the requester minted.''
    ''POST /api/v1/approvals/12/approve   (approver key)\<newline>{"comment": "CHG0012345 approved at CAB"}\<newline>-> app card-auth-api: active''
    [mv ''console'' ''approver'' ''approval #12'',
     (mv ''approver'' ''console'' ''approved'')\<lparr>m_kind := Some ''response'', m_effect := Some ''check''\<rparr>,
     (mv ''console'' ''db'' ''audit: approval.approved'')\<lparr>m_kind := Some ''response'', m_effect := Some ''store''\<rparr>]\<close>

definition platform_step_3 :: step where
  \<open>platform_step_3 = stp ''Onboard''
    ''Credentials for the way it enrolls''
    ''The team gets exactly one credential type per client: an API key for REST, EST and SSH, a single-use EAB for ACME, or one-time challenges for SCEP devices. Each is shown once.''
    ''POST /api/v1/apps/3/credentials   -> {"api_key": "cdl_..."}\<newline>POST /api/v1/apps/3/acme-eab      -> {"kid": "eab_...", "hmac_key": "..."}\<newline>POST /api/v1/apps/7/scep-challenge -> {"challenge": "90b0..."}''
    [(mv ''console'' ''team'' (''API key '' @ [CHR 0xB7] @ '' EAB '' @ [CHR 0xB7] @ '' challenge''))\<lparr>m_kind := Some ''secret''\<rparr>]\<close>

definition platform_step_4 :: step where
  \<open>platform_step_4 = stp ''Issue''
    ''Every protocol meets one RA''
    ''Whichever protocol the client speaks, the request lands in the same registration authority. The same policy, the same dual control, the same audit.''
    ''REST   POST /api/v1/certificates\<newline>ACME   POST /acme/order/{id}/finalize\<newline>EST    POST /.well-known/est/simpleenroll\<newline>SCEP   POST /scep?operation=PKIOperation\<newline>SSH    POST /api/v1/ssh/certificates\<newline>  -> Platform.request_certificate()''
    [(mv ''team'' ''protocols'' ''CSR'')\<lparr>m_sub := Some ''any protocol''\<rparr>,
     (mv ''protocols'' ''ra'' ''request_certificate()'')\<lparr>m_effect := Some ''check'', m_dilly := Some ''happy''\<rparr>]\<close>

definition platform_step_5 :: step where
  \<open>platform_step_5 = stp ''Issue''
    ''Sign in the HSM, record everything''
    ''The issuing CA key sits in the HSM as sensitive and non-extractable. The certificate, the audit event and the metrics update together.''
    ''C_Sign(CKM_ECDSA, SHA-384(tbsCertificate))\<newline>certificates: + auth.cards.bank.internal (mtls-service, 30d, app card-auth-api)\<newline>audit_events: + certificate.issue (hash chained)''
    [mv ''ra'' ''ca'' ''build certificate'',
     (mv ''ca'' ''hsm'' ''sign'')\<lparr>m_kind := Some ''secret'', m_effect := Some ''hsm''\<rparr>,
     (mv ''ca'' ''db'' ''store + audit'')\<lparr>m_kind := Some ''response'', m_effect := Some ''store''\<rparr>,
     (mv ''protocols'' ''team'' ''certificate'')\<lparr>m_kind := Some ''response''\<rparr>]\<close>

definition platform_step_6 :: step where
  \<open>platform_step_6 = stp ''Operate''
    ''Discovery finds a stranger''
    ''A scan of the payments subnet finds a certificate nobody onboarded, five days from expiry, on a load balancer. It enters the inventory as discovered and unowned.''
    ''POST /api/v1/discovery/scan {"targets": ["10.20.0.0/28:443"]}\<newline>-> 10.20.0.14:443  legacy-gw.cards.bank.internal  expires in 5 days\<newline>   findings: quantum_vulnerable''
    [(mv ''scanner'' ''db'' ''10.20.0.14:443: unknown cert'')\<lparr>m_kind := Some ''reject'', m_effect := Some ''store'', m_dilly := Some ''worried''\<rparr>]\<close>

definition platform_step_7 :: step where
  \<open>platform_step_7 = stp ''Operate''
    ''The alert reaches the owner''
    ''Once the certificate is assigned to card-auth-api, CertificateExpiringSoon goes to the cards team webhook, opens a ServiceNow incident and a Jira issue, and Dilly rolls into a ball.''
    ''alert CertificateExpiringSoon  severity=critical\<newline>  legacy-gw.cards.bank.internal at 10.20.0.14:443 expires in 4d 23h\<newline>  team=cards  app=card-auth-api  environment=prod\<newline>  runbook: docs/RUNBOOK.md#certificateexpiringsoon''
    [(mv ''db'' ''alerts'' ''CertificateExpiringSoon'')\<lparr>m_kind := Some ''reject'', m_dilly := Some ''rolled''\<rparr>,
     (mv ''alerts'' ''team'' ''Slack + ServiceNow + Jira'')\<lparr>m_kind := Some ''reject'', m_effect := Some ''reject''\<rparr>]\<close>

definition platform_step_8 :: step where
  \<open>platform_step_8 = stp ''Operate''
    ''Automation replaces it''
    ''The team moves the load balancer to ACME. The next scan sees the new certificate at the same endpoint, retires the old one, and the alert sends its resolved notice.''
    ''certbot certonly --server https://pki.bank.internal/acme/directory ... -d legacy-gw.cards.bank.internal\<newline>rescan 10.20.0.14:443 -> new certificate; old one superseded\<newline>alert CertificateExpiringSoon: resolved''
    [mv ''team'' ''protocols'' ''ACME order'',
     (mv ''protocols'' ''ra'' ''policy'')\<lparr>m_effect := Some ''check''\<rparr>,
     mv ''ra'' ''ca'' ''sign'',
     (mv ''ca'' ''db'' ''store; old superseded'')\<lparr>m_kind := Some ''response'', m_effect := Some ''store'', m_dilly := Some ''happy''\<rparr>,
     (mv ''db'' ''alerts'' ''resolved'')\<lparr>m_kind := Some ''response'', m_effect := Some ''check''\<rparr>]\<close>

definition platform_step_9 :: step where
  \<open>platform_step_9 = stp ''Prove''
    ''Metrics, dashboards and reports''
    ''Prometheus scrapes expiry and lifetime gauges per certificate, labelled by team. Grafana shows the estate; auditors pull the PCI DSS 4.2.1.1 inventory and the CycloneDX CBOM, and the audit chain verifies end to end.''
    ''GET /metrics                     certadillo_certificate_expiry_timestamp_seconds{team="cards",...}\<newline>GET /api/v1/reports/pci-inventory?format=csv\<newline>GET /api/v1/reports/cbom          CycloneDX 1.6\<newline>GET /api/v1/audit/verify          {"valid": true, "events": 51}''
    [mv ''prom'' ''db'' ''scrape /metrics'',
     (mv ''db'' ''prom'' ''gauges by team'')\<lparr>m_kind := Some ''response'', m_effect := Some ''check''\<rparr>]\<close>

definition platform_scene :: scene where
  \<open>platform_scene = \<lparr>d_id = ''platform'', d_title = ''Platform tour'',
     d_dilly = Some ''ra'', d_chainAt = Some ''db'',
     d_chainOffset = Some (1.3, (- 0.2)), d_platformRadius = Some 9.4,
     d_camera = Some \<lparr>cam_theta = 0.15, cam_phi = 1.1, cam_radius = 22.0\<rparr>,
     d_actors = platform_actors,
     d_steps = [platform_step_1, platform_step_2, platform_step_3, platform_step_4, platform_step_5, platform_step_6, platform_step_7, platform_step_8, platform_step_9]\<rparr>\<close>

lemmas platform_defs = platform_scene_def
  platform_step_1_def platform_step_2_def platform_step_3_def platform_step_4_def platform_step_5_def platform_step_6_def platform_step_7_def platform_step_8_def platform_step_9_def

lemma platform_wf: "wf_scene platform_scene"
  by (simp add: platform_defs platform_actors_def scene_check)

lemma platform_steps: "length (d_steps platform_scene) = 9" "d_id platform_scene = ''platform''"
  by (simp_all add: platform_scene_def)

lemma platform_break: "first_break platform_scene = 0"
  by (simp add: first_break_def platform_defs moves_of_def)

end
