(* ===== verification/Tour_Ari.thy ===== *)
theory Tour_Ari
  imports Scene_Invariants
begin

section \<open>Walkthrough: ari\<close>

text \<open>
  The scene registered under the id \<open>ari\<close> in \<open>kb-src/scenes-data.js\<close>: its actors, its steps with their
  texts and moves, and the proof that it is well-formed for the engine.
\<close>

definition ari_actors :: "actor list" where
  \<open>ari_actors =
    [(act ''operator'' ''person'' ''PKI operator'' (- 1.6) 7.0)\<lparr>a_sub := Some ''runs the campaign''\<rparr>,
     (act ''client'' ''laptop'' ''ACME client'' (- 7.0) 2.2)\<lparr>a_sub := Some ''cert-manager, lego, certbot'', a_anchorY := Some 0.8\<rparr>,
     (act ''dnsint'' ''globe'' ''Internal DNS'' (- 6.2) (- 3.8))\<lparr>a_sub := Some ''bank.internal view'', a_anchorY := Some 0.9\<rparr>,
     (act ''dnspub'' ''cloud'' ''Public DNS'' (- 2.2) (- 7.0))\<lparr>a_sub := Some ''never asked for .internal'', a_anchorY := Some 0.9, a_labelY := Some 1.9\<rparr>,
     (act ''acme'' ''gateway'' ''Certadillo ACME'' (- 0.8) 0.4)\<lparr>a_sub := Some ''/acme/*'', a_anchorY := Some 1.5\<rparr>,
     (act ''ra'' ''shield'' ''RA + policy'' 3.4 (- 4.0))\<lparr>a_sub := Some ''tls-wildcard profile'', a_anchorY := Some 1.2\<rparr>,
     (act ''ca'' ''ca'' ''Issuing CA'' 7.0 (- 0.8))\<lparr>a_sub := Some ''issuing-ca-1'', a_anchorY := Some 1.6, a_labelY := Some 3.0\<rparr>,
     (act ''db'' ''db'' ''Inventory + audit'' 2.4 5.6)\<lparr>a_sub := Some ''campaign state'', a_anchorY := Some 1.1\<rparr>,
     (act ''alerts'' ''bell'' ''Alerting'' 6.8 4.2)\<lparr>a_sub := Some ''routed to the owning team'', a_anchorY := Some 1.0, a_labelY := Some 2.0\<rparr>]\<close>

definition ari_step_1 :: step where
  \<open>ari_step_1 = stp ''Order''
    ''Order a wildcard''
    ''The app portal-edge is onboarded with the tls-wildcard profile and the scope *.portal.bank.internal. Its ACME client orders *.edge.portal.bank.internal. Any other profile would refuse the wildcard at newOrder, before a challenge exists.''
    ''POST /acme/new-order\<newline>payload: {"identifiers":[\<newline>  {"type":"dns","value":"*.edge.portal.bank.internal"},\<newline>  {"type":"dns","value":"edge.portal.bank.internal"}]}\<newline>\<newline>201 Created\<newline>{"status":"pending","authorizations":[".../authz/21",".../authz/22"], ...}''
    [(mv ''client'' ''acme'' ''POST /new-order'')\<lparr>m_sub := Some ''*.edge.portal''\<rparr>,
     (mv ''acme'' ''ra'' ''scope + allow_wildcard'')\<lparr>m_effect := Some ''check'', m_dilly := Some ''happy''\<rparr>,
     (mv ''acme'' ''client'' ''order: pending'')\<lparr>m_kind := Some ''response''\<rparr>]\<close>

definition ari_step_2 :: step where
  \<open>ari_step_2 = stp ''Challenge''
    ''A wildcard gets dns-01 only''
    ''RFC 8555 lets a wildcard be proven only through DNS, so its authorization offers dns-01 alone. The authorization names the base domain and carries wildcard: true. The plain name gets both http-01 and dns-01.''
    ''POST /acme/authz/21   (POST-as-GET)\<newline>\<newline>{"status":"pending",\<newline> "identifier":{"type":"dns","value":"edge.portal.bank.internal"},\<newline> "wildcard":true,\<newline> "challenges":[{"type":"dns-01",\<newline>   "url":".../acme/chall/21/dns-01",\<newline>   "token":"Xk8tZq3R0vE2aHn7YcLw5pUdGf4sJm1bQy9oTi6rVxE"}]}''
    [mv ''client'' ''acme'' ''POST /authz/21'',
     (mv ''acme'' ''client'' ''dns-01 token'')\<lparr>m_kind := Some ''response''\<rparr>]\<close>

definition ari_step_3 :: step where
  \<open>ari_step_3 = stp ''Challenge''
    ''Publish the TXT record''
    ''The client writes base64url(SHA-256(token.thumbprint)) at _acme-challenge. Many teams CNAME that name into a small zone their automation may write; Certadillo follows the CNAME.''
    ''_acme-challenge.edge.portal.bank.internal. 60 IN TXT "qZ0m4Wv1cN8yR2kP6tB3xH9sJ7eL5aD0fU2gQ8iO4rE"\<newline>\<newline>; or delegated:\<newline>_acme-challenge.edge.portal.bank.internal. CNAME edge.acme-delegate.portal.bank.internal.''
    [(mv ''client'' ''dnsint'' ''TXT via DNS API'')\<lparr>m_kind := Some ''secret''\<rparr>]\<close>

definition ari_step_4 :: step where
  \<open>ari_step_4 = stp ''Challenge''
    ''Validate through the internal view''
    ''CERTADILLO_ACME_DNS_VIEWS maps zones to resolvers. portal.bank.internal is answered by the internal resolvers; the public resolvers are never asked about it, and would not know the zone anyway. The longest matching zone wins, and the answer names the view that answered.''
    ''CERTADILLO_ACME_DNS_VIEWS="bank.internal=10.1.0.53,10.2.0.53;portal.bank.internal=10.9.0.53"\<newline>\<newline>dig @10.9.0.53 TXT _acme-challenge.edge.portal.bank.internal\<newline>-> "qZ0m4Wv1cN8yR2kP6tB3xH9sJ7eL5aD0fU2gQ8iO4rE"   (matches)\<newline>\<newline>{"type":"dns-01","status":"valid","validated":"2026-09-24T04:10:13Z"}''
    [mv ''client'' ''acme'' ''POST /chall/21/dns-01'',
     mv ''acme'' ''dnsint'' ''TXT _acme-challenge.edge...'',
     (mv ''dnsint'' ''acme'' ''digest matches'')\<lparr>m_kind := Some ''response'', m_effect := Some ''check''\<rparr>]\<close>

definition ari_step_5 :: step where
  \<open>ari_step_5 = stp ''Issue''
    ''Finalize and issue''
    ''The CSR carries both names. Policy checks the key, the scope and the profile, and the CA signs. The client now holds a 30-day wildcard.''
    (''POST /acme/order/9/finalize   {"csr": "MIIBTzCB9wIBADAmMSQwIgYDVQQDDBsqLmVkZ2UucG9y..."}\<newline>\<newline>SAN: *.edge.portal.bank.internal, edge.portal.bank.internal\<newline>profile tls-wildcard '' @ [CHR 0xB7] @ '' 30 days '' @ [CHR 0xB7] @ '' P-256'')
    [mv ''client'' ''acme'' ''POST /finalize'',
     (mv ''acme'' ''ra'' ''policy'')\<lparr>m_effect := Some ''check''\<rparr>,
     (mv ''ra'' ''ca'' ''sign'')\<lparr>m_effect := Some ''sign''\<rparr>,
     (mv ''ca'' ''db'' ''store + audit'')\<lparr>m_kind := Some ''response'', m_effect := Some ''store''\<rparr>]\<close>

definition ari_step_6 :: step where
  \<open>ari_step_6 = stp ''ARI''
    ''The client asks when to renew''
    ''The directory advertises renewalInfo (RFC 9773). The client asks with the certificate\'s CertID, built from the issuer\'s key identifier and the serial. Normally the window sits at 50 to 60 percent of the lifetime, before the platform\'s own expiry warning, and the client picks a random moment inside it.''
    ''GET /acme/renewal-info/kBXWiC6ES11xBWj1ZleSver1klM.WhBfketKLIVSfmI5ps5e1Ht5sE4\<newline>\<newline>200 OK\<newline>Retry-After: 21600\<newline>{"suggestedWindow":{"start":"2026-10-09T04:10:13Z",\<newline>                    "end":  "2026-10-12T04:10:13Z"}}''
    [mv ''client'' ''acme'' ''GET /renewal-info/<CertID>'',
     (mv ''acme'' ''client'' ''window: day 15 to 18'')\<lparr>m_kind := Some ''response''\<rparr>]\<close>

definition ari_step_7 :: step where
  \<open>ari_step_7 = stp ''Campaign''
    ''Something is wrong with a batch''
    ''A build host that held keys for these certificates is suspected of compromise. The operator starts a renewal campaign for the affected serials instead of revoking straight away: revoking first would take the services down.''
    ''POST /api/v1/renewal-campaigns\<newline>{"name": "rotate portal-edge",\<newline> "reason": "suspected key exposure on build host bh-12",\<newline> "criteria": {"app_ids": [4]},\<newline> "renew_within_hours": 24,\<newline> "explanation_url": "https://status.bank.example/pki/2026-09"}\<newline>\<newline>201 {"id": 3, "counts": {"total": 14, "replaced": 0, "remaining": 14}}''
    [mv ''operator'' ''acme'' ''POST /renewal-campaigns'',
     (mv ''acme'' ''db'' ''advice for 14 certificates'')\<lparr>m_kind := Some ''response'', m_effect := Some ''store'', m_dilly := Some ''worried''\<rparr>]\<close>

definition ari_step_8 :: step where
  \<open>ari_step_8 = stp ''Campaign''
    ''The window moves forward''
    ''The next time each client checks, the window is now: within 24 hours, with a link explaining why, and a one-hour Retry-After. Clients spread their renewals across the window, so the CA is not hit by all of them at once. For a true emergency, immediate: true puts the window in the past and every client renews on its next check.''
    ''GET /acme/renewal-info/kBXWiC6ES11xBWj1ZleSver1klM.WhBf...\<newline>\<newline>200 OK\<newline>Retry-After: 3600\<newline>{"suggestedWindow":{"start":"2026-09-24T04:15:00Z",\<newline>                    "end":  "2026-09-25T04:15:00Z"},\<newline> "explanationURL":"https://status.bank.example/pki/2026-09"}''
    [mv ''client'' ''acme'' ''GET /renewal-info'',
     (mv ''acme'' ''client'' ''renew within 24h'')\<lparr>m_kind := Some ''response''\<rparr>]\<close>

definition ari_step_9 :: step where
  \<open>ari_step_9 = stp ''Campaign''
    ''Renew with a new key''
    ''The client orders again with replaces set to the old CertID, proves the names again and sends a CSR with a new key; reusing the old key is refused. The old certificate is marked superseded. Clients that do not send replaces (certbot 5.8 checks ARI but does not) are matched by app and names instead.''
    ''POST /acme/new-order\<newline>payload: {"identifiers":[...],\<newline>          "replaces":"kBXWiC6ES11xBWj1ZleSver1klM.WhBfketKLIVSfmI5ps5e1Ht5sE4"}\<newline>\<newline>audit: certificate.renew {serial: 5a1f..., new_serial: 7c02...}''
    [mv ''client'' ''acme'' ''new-order + replaces'',
     (mv ''acme'' ''ra'' ''new key required'')\<lparr>m_effect := Some ''check''\<rparr>,
     (mv ''ra'' ''ca'' ''sign'')\<lparr>m_effect := Some ''sign''\<rparr>,
     (mv ''ca'' ''db'' ''old: superseded'')\<lparr>m_kind := Some ''response'', m_effect := Some ''store'', m_dilly := Some ''happy''\<rparr>]\<close>

definition ari_step_10 :: step where
  \<open>ari_step_10 = stp ''Campaign''
    ''Revoke what has been replaced''
    ''Revoking a certificate that has a successor breaks nothing, so this needs no second person. The CRL is re-signed at once and OCSP answers revoked for the old serials.''
    ''POST /api/v1/renewal-campaigns/3/revoke-replaced\<newline>{"change_ref": "CHG0042117"}\<newline>\<newline>200 {"revoked": 13}''
    [mv ''operator'' ''acme'' ''revoke-replaced'',
     (mv ''acme'' ''ca'' ''revoke 13 + new CRL'')\<lparr>m_kind := Some ''secret'', m_effect := Some ''sign''\<rparr>,
     (mv ''ca'' ''db'' ''audit'')\<lparr>m_kind := Some ''response'', m_effect := Some ''store''\<rparr>]\<close>

definition ari_step_11 :: step where
  \<open>ari_step_11 = stp ''Campaign''
    ''The deadline passes with one left''
    ''One client never renewed. RenewalCampaignOverdue fires as critical and goes to the team that owns the app, with the certificate named. Revoking the rest is the hard cutoff that can cause an outage, so it goes to an approver.''
    ''alert RenewalCampaignOverdue (critical)\<newline>  renewal campaign \'rotate portal-edge\' passed its deadline with 1 certificate(s)\<newline>  not replaced (teams: web)\<newline>\<newline>POST /api/v1/renewal-campaigns/3/revoke-remaining  {"change_ref":"CHG0042117"}\<newline>202 {"status":"pending_approval","approval_id":61}''
    [(mv ''db'' ''alerts'' ''RenewalCampaignOverdue'')\<lparr>m_kind := Some ''reject'', m_dilly := Some ''rolled''\<rparr>,
     mv ''operator'' ''acme'' ''revoke-remaining'',
     (mv ''acme'' ''db'' ''approval #61: second person'')\<lparr>m_kind := Some ''response'', m_effect := Some ''store''\<rparr>]\<close>

definition ari_scene :: scene where
  \<open>ari_scene = \<lparr>d_id = ''ari'', d_title = ''dns-01, wildcards and a renewal campaign (ARI)'',
     d_dilly = Some ''ra'', d_chainAt = Some ''db'',
     d_chainOffset = Some (1.2, 0.2), d_platformRadius = None,
     d_camera = Some \<lparr>cam_theta = 0.3, cam_phi = 1.1, cam_radius = 21.0\<rparr>,
     d_actors = ari_actors,
     d_steps = [ari_step_1, ari_step_2, ari_step_3, ari_step_4, ari_step_5, ari_step_6, ari_step_7, ari_step_8, ari_step_9, ari_step_10, ari_step_11]\<rparr>\<close>

lemmas ari_defs = ari_scene_def
  ari_step_1_def ari_step_2_def ari_step_3_def ari_step_4_def ari_step_5_def ari_step_6_def ari_step_7_def ari_step_8_def ari_step_9_def ari_step_10_def ari_step_11_def

lemma ari_wf: "wf_scene ari_scene"
  by (simp add: ari_defs ari_actors_def scene_check)

lemma ari_steps: "length (d_steps ari_scene) = 11" "d_id ari_scene = ''ari''"
  by (simp_all add: ari_scene_def)

lemma ari_break: "first_break ari_scene = 0"
  by (simp add: first_break_def ari_defs moves_of_def)

end
