(* ===== verification/Tour_Estlb.thy ===== *)
theory Tour_Estlb
  imports Scene_Invariants
begin

section \<open>Walkthrough: estlb\<close>

text \<open>
  The scene registered under the id \<open>estlb\<close> in \<open>kb-src/scenes-data.js\<close>: its actors, its steps with their
  texts and moves, and the proof that it is well-formed for the engine.
\<close>

definition estlb_actors :: "actor list" where
  \<open>estlb_actors =
    [(act ''device'' ''router'' ''Branch router'' (- 7.0) 2.0)\<lparr>a_sub := Some ''IDevID from the factory'', a_anchorY := Some 0.5, a_labelY := Some 1.7\<rparr>,
     (act ''mfr'' ''ca'' ''Manufacturer CA'' (- 6.0) (- 4.6))\<lparr>a_sub := Some ''Acme Devices IDevID'', a_anchorY := Some 1.6, a_labelY := Some 3.0\<rparr>,
     (act ''lb'' ''gateway'' ''nginx / load balancer'' (- 2.4) 0.2)\<lparr>a_sub := Some ''TLS + client cert'', a_anchorY := Some 1.5\<rparr>,
     (act ''attacker'' ''laptop'' ''Direct caller'' (- 2.4) 6.4)\<lparr>a_sub := Some ''bypasses the LB'', a_anchorY := Some 0.8\<rparr>,
     (act ''est'' ''terminal'' ''Certadillo EST'' 1.6 2.4)\<lparr>a_sub := Some ''/.well-known/est'', a_anchorY := Some 0.9, a_labelY := Some 1.9\<rparr>,
     (act ''ra'' ''shield'' ''RA + policy'' 3.2 (- 3.8))\<lparr>a_sub := Some ''tls-client'', a_anchorY := Some 1.2\<rparr>,
     (act ''ca'' ''ca'' ''Issuing CA'' 7.0 (- 0.6))\<lparr>a_sub := Some ''issuing-ca-1'', a_anchorY := Some 1.6, a_labelY := Some 3.0\<rparr>,
     (act ''db'' ''db'' ''Inventory + audit'' 4.6 5.2)\<lparr>a_anchorY := Some 1.1\<rparr>]\<close>

definition estlb_step_1 :: step where
  \<open>estlb_step_1 = stp ''Setup''
    ''Trust the manufacturer\'s CA for one app''
    ''The router shipped with a manufacturer certificate (IDevID) and no shared secret. An operator registers the manufacturer\'s CA for the app branch-routers. For a production app this is an approval, since it lets every device from that factory enroll.''
    (''POST /api/v1/apps/7/est-trust-anchors\<newline>{"name": "acme-devices", "cert_pem": "-----BEGIN CERTIFICATE-----'' @ [CHR 0x5C] @ ''nMIIB..."}\<newline>\<newline>202 {"status":"pending_approval","approval_id":52}   (prod app)\<newline>-> approved by a second person\<newline>audit: est.trust_anchor.add {subject: "CN=Acme Devices IDevID CA,O=Acme Devices"}'')
    [(mv ''mfr'' ''ra'' ''CA certificate, via operator'')\<lparr>m_kind := Some ''secret''\<rparr>,
     (mv ''ra'' ''db'' ''anchor for branch-routers'')\<lparr>m_kind := Some ''response'', m_effect := Some ''store''\<rparr>]\<close>

definition estlb_step_2 :: step where
  \<open>estlb_step_2 = stp ''Bootstrap''
    ''TLS with the factory certificate''
    ''The router connects to the load balancer and offers its IDevID during the TLS handshake. The handshake itself proves the router holds the IDevID key. nginx does not need to know the manufacturer; Certadillo decides whom to trust.''
    ''server {\<newline>  listen 443 ssl;\<newline>  ssl_verify_client optional_no_ca;\<newline>  location /.well-known/est/ {\<newline>    proxy_pass http://certadillo:8080;\<newline>    proxy_set_header X-SSL-Client-Cert        $ssl_client_escaped_cert;\<newline>    proxy_set_header X-Certadillo-Proxy-Auth  <shared secret>;\<newline>  }\<newline>}''
    [(mv ''device'' ''lb'' ''TLS ClientHello + IDevID'')\<lparr>m_kind := Some ''secret''\<rparr>,
     (mv ''lb'' ''device'' ''handshake OK'')\<lparr>m_kind := Some ''response'', m_effect := Some ''check''\<rparr>]\<close>

definition estlb_step_3 :: step where
  \<open>estlb_step_3 = stp ''Bootstrap''
    ''Ask what to put in the CSR''
    ''csrattrs answers from the app\'s profile: an EC P-256 key and ECDSA with SHA-256. The router generates its operational key accordingly.''
    ''GET /.well-known/est/csrattrs\<newline>\<newline>200 application/csrattrs\<newline>SEQUENCE {\<newline>  attribute id-ecPublicKey { secp256r1 }\<newline>  oid ecdsa-with-SHA256\<newline>}''
    [mv ''device'' ''lb'' ''GET /csrattrs'',
     mv ''lb'' ''est'' ''forward + cert header'',
     (mv ''est'' ''device'' ''P-256, ECDSA-SHA256'')\<lparr>m_kind := Some ''response''\<rparr>]\<close>

definition estlb_step_4 :: step where
  \<open>estlb_step_4 = stp ''Bootstrap''
    ''Enroll with the IDevID''
    ''nginx forwards the client certificate URL-encoded in a header, plus the shared secret. Certadillo believes the header only with that secret, finds that the IDevID chains to the registered manufacturer CA, and enrolls the CSR into branch-routers under the normal scope and policy.''
    ''POST /.well-known/est/simpleenroll\<newline>X-SSL-Client-Cert: -----BEGIN%20CERTIFICATE-----%0AMIIB...\<newline>X-Certadillo-Proxy-Auth: <secret>\<newline>\<newline>identify: IDevID serialNumber=SN-451 -> anchor acme-devices -> app branch-routers\<newline>policy:   CN rtr-451.routers.bank.internal in *.routers.bank.internal, P-256\<newline>200 application/pkcs7-mime''
    [(mv ''device'' ''lb'' ''POST /simpleenroll'')\<lparr>m_sub := Some ''CSR''\<rparr>,
     mv ''lb'' ''est'' ''CSR + IDevID header'',
     (mv ''est'' ''ra'' ''anchor + scope'')\<lparr>m_effect := Some ''check'', m_dilly := Some ''happy''\<rparr>,
     (mv ''ra'' ''ca'' ''sign'')\<lparr>m_effect := Some ''sign''\<rparr>,
     (mv ''ca'' ''db'' ''audit: est.enroll auth=idevid'')\<lparr>m_kind := Some ''response'', m_effect := Some ''store''\<rparr>,
     (mv ''est'' ''device'' ''operational certificate'')\<lparr>m_kind := Some ''response''\<rparr>]\<close>

definition estlb_step_5 :: step where
  \<open>estlb_step_5 = stp ''Renew''
    ''Re-enroll with the certificate alone''
    ''Later the router re-enrolls using its operational certificate for TLS and a CSR with a new key. No password is involved. RFC 7030 requires the same subject and names; the old certificate is superseded and stops authenticating.''
    ''POST /.well-known/est/simplereenroll\<newline>X-SSL-Client-Cert: <rtr-451 certificate>\<newline>\<newline>audit: est.enroll {"auth":"certificate","reenroll":true}\<newline>old serial 3f9a...: superseded''
    [mv ''device'' ''lb'' ''TLS with current cert'',
     mv ''lb'' ''est'' ''POST /simplereenroll'',
     (mv ''est'' ''ra'' ''same subject, new key'')\<lparr>m_effect := Some ''check''\<rparr>,
     (mv ''ra'' ''ca'' ''sign'')\<lparr>m_effect := Some ''sign''\<rparr>,
     (mv ''est'' ''device'' ''new certificate'')\<lparr>m_kind := Some ''response''\<rparr>]\<close>

definition estlb_step_6 :: step where
  \<open>estlb_step_6 = stp ''Guard''
    ''A forged header is ignored''
    ''Someone who reaches Certadillo without going through the load balancer can type any header. Without the shared secret (or a trusted source address) the header is ignored and the request falls back to HTTP Basic, which it does not have.''
    ''POST /.well-known/est/simplereenroll\<newline>X-SSL-Client-Cert: <someone else\'s certificate>\<newline>\<newline>log: client certificate header ignored: request did not come through the trusted load balancer\<newline>401 Unauthorized''
    [(mv ''attacker'' ''est'' ''forged X-SSL-Client-Cert'')\<lparr>m_kind := Some ''reject''\<rparr>,
     (mv ''est'' ''attacker'' ''401'')\<lparr>m_kind := Some ''reject'', m_effect := Some ''reject'', m_dilly := Some ''worried''\<rparr>]\<close>

definition estlb_step_7 :: step where
  \<open>estlb_step_7 = stp ''Keygen''
    ''A sensor that cannot make a key''
    ''For profiles with allow_server_keygen, serverkeygen creates the key on the server and returns it with the certificate as multipart/mixed over TLS. The key is not stored; the audit event says so. Anything that can generate its own key should.''
    ''POST /.well-known/est/serverkeygen\<newline>\<newline>200 multipart/mixed; boundary=est-4f1c...\<newline>--est-4f1c...\<newline>Content-Type: application/pkcs8\<newline>\<newline>MIGHAgEAMBMGByqGSM49AgEGCCqGSM49AwEHBG0wawIBAQQg...\<newline>--est-4f1c...\<newline>Content-Type: application/pkcs7-mime; smime-type=certs-only\<newline>\<newline>MIIC...\<newline>--est-4f1c...--\<newline>\<newline>audit: est.serverkeygen {"key":"ec-256","stored":false}''
    [mv ''device'' ''lb'' ''POST /serverkeygen'',
     mv ''lb'' ''est'' ''forward'',
     (mv ''est'' ''ca'' ''new key + certificate'')\<lparr>m_effect := Some ''sign''\<rparr>,
     (mv ''est'' ''device'' ''PKCS#8 + certificate'')\<lparr>m_kind := Some ''secret''\<rparr>]\<close>

definition estlb_scene :: scene where
  \<open>estlb_scene = \<lparr>d_id = ''estlb'', d_title = ''EST behind a load balancer'',
     d_dilly = Some ''ra'', d_chainAt = Some ''db'',
     d_chainOffset = Some (1.2, 0.2), d_platformRadius = None,
     d_camera = Some \<lparr>cam_theta = 0.25, cam_phi = 1.1, cam_radius = 21.0\<rparr>,
     d_actors = estlb_actors,
     d_steps = [estlb_step_1, estlb_step_2, estlb_step_3, estlb_step_4, estlb_step_5, estlb_step_6, estlb_step_7]\<rparr>\<close>

lemmas estlb_defs = estlb_scene_def
  estlb_step_1_def estlb_step_2_def estlb_step_3_def estlb_step_4_def estlb_step_5_def estlb_step_6_def estlb_step_7_def

lemma estlb_wf: "wf_scene estlb_scene"
  by (simp add: estlb_defs estlb_actors_def scene_check)

lemma estlb_steps: "length (d_steps estlb_scene) = 7" "d_id estlb_scene = ''estlb''"
  by (simp_all add: estlb_scene_def)

lemma estlb_break: "first_break estlb_scene = 0"
  by (simp add: first_break_def estlb_defs moves_of_def)

end
