(* ===== verification/Tour_Cmp.thy ===== *)
theory Tour_Cmp
  imports Scene_Invariants
begin

section \<open>Walkthrough: cmp\<close>

text \<open>
  The scene registered under the id \<open>cmp\<close> in \<open>kb-src/scenes-data.js\<close>: its actors, its steps with their
  texts and moves, and the proof that it is well-formed for the engine.
\<close>

definition cmp_actors :: "actor list" where
  \<open>cmp_actors =
    [(act ''operator'' ''person'' ''OT engineer'' (- 2.0) 7.0)\<lparr>a_sub := Some ''commissions devices''\<rparr>,
     (act ''plc'' ''terminal'' ''PLC / base station'' (- 7.0) 1.6)\<lparr>a_sub := Some ''openssl cmp'', a_anchorY := Some 0.9, a_labelY := Some 1.9\<rparr>,
     (act ''cmp'' ''gateway'' ''Certadillo CMP'' (- 1.4) (- 0.6))\<lparr>a_sub := Some ''/.well-known/cmp'', a_anchorY := Some 1.5\<rparr>,
     (act ''ra'' ''shield'' ''RA + policy'' 3.2 (- 4.4))\<lparr>a_sub := Some (''CMP RA cert '' @ [CHR 0xB7] @ '' cmcRA''), a_anchorY := Some 1.2\<rparr>,
     (act ''approver'' ''person'' ''Approver'' (- 4.6) (- 6.0))\<lparr>a_sub := Some ''second person''\<rparr>,
     (act ''ca'' ''ca'' ''Issuing CA'' 7.0 0.0)\<lparr>a_sub := Some ''issuing-ca-1'', a_anchorY := Some 1.6, a_labelY := Some 3.0\<rparr>,
     (act ''hsm'' ''hsm'' ''HSM'' 6.6 4.0)\<lparr>a_anchorY := Some 0.6, a_labelY := Some 1.5\<rparr>,
     (act ''db'' ''db'' ''Inventory + audit'' 2.2 5.6)\<lparr>a_anchorY := Some 1.1\<rparr>]\<close>

definition cmp_step_1 :: step where
  \<open>cmp_step_1 = stp ''Setup''
    ''A one-time reference and secret''
    ''A device without any certificate proves itself with a shared secret (RFC 9483 4.1.1). The operator mints a one-time reference and secret for the app plant-sensors and loads them into the device at commissioning.''
    ''POST /api/v1/apps/5/cmp-secret\<newline>\<newline>201 {"reference": "cmp-37614dc792fc",\<newline>     "secret": "q7Cq3oT0y1F2l8i9WmXbRk2v",\<newline>     "expires": "2026-09-24T05:27:21Z"}''
    [mv ''operator'' ''cmp'' ''POST /apps/5/cmp-secret'',
     (mv ''cmp'' ''db'' ''secret, encrypted at rest'')\<lparr>m_kind := Some ''response'', m_effect := Some ''store''\<rparr>,
     (mv ''cmp'' ''operator'' ''reference + secret'')\<lparr>m_kind := Some ''secret''\<rparr>,
     (mv ''operator'' ''plc'' ''load into device'')\<lparr>m_kind := Some ''secret''\<rparr>]\<close>

definition cmp_step_2 :: step where
  \<open>cmp_step_2 = stp ''Enroll''
    ''ir, protected with a MAC''
    ''The device makes a key, puts the public key and its names in a CRMF template, signs the request with the new key (proof of possession) and protects the whole message with PasswordBasedMac keyed from the secret. senderKID is the reference.''
    (''openssl cmp -cmd ir -server pki.bank.internal -path .well-known/cmp '' @ [CHR 0x5C] @ ''\<newline>  -ref cmp-37614dc792fc -secret pass:... -newkey dev.key '' @ [CHR 0x5C] @ ''\<newline>  -subject /CN=s1.plant.bank.internal -sans s1.plant.bank.internal\<newline>\<newline>PKIHeader { pvno 2, senderKID "cmp-37614dc792fc",\<newline>  protectionAlg PasswordBasedMac { salt, owf sha256, iterations 500, mac hmac-sha1 },\<newline>  transactionID 039d45ec..., senderNonce 6f5101ad... }\<newline>PKIBody ir { certReqId 0, template { subject, publicKey ec P-256, SAN }, popo signature }'')
    [(mv ''plc'' ''cmp'' ''ir (MAC)'')\<lparr>m_sub := Some ''CRMF + PoP'', m_kind := Some ''secret''\<rparr>,
     (mv ''cmp'' ''ra'' ''MAC + PoP + scope'')\<lparr>m_effect := Some ''check'', m_dilly := Some ''happy''\<rparr>,
     mv ''ra'' ''ca'' ''build certificate'',
     (mv ''ca'' ''hsm'' ''sign'')\<lparr>m_kind := Some ''secret'', m_effect := Some ''hsm''\<rparr>,
     (mv ''hsm'' ''ca'' ''signature'')\<lparr>m_kind := Some ''response'', m_effect := Some ''sign''\<rparr>]\<close>

definition cmp_step_3 :: step where
  \<open>cmp_step_3 = stp ''Enroll''
    ''ip with the certificate and a trust anchor''
    ''The reply is protected with the same secret. It carries the certificate, the issuing CA in extraCerts and the root in caPubs, because a device that enrolled with a password has no trust anchor yet. The secret is now spent.''
    ''PKIBody ip {\<newline>  caPubs [ Example Bank Root CA ]\<newline>  response { certReqId 0, status accepted,\<newline>    certificate CN=s1.plant.bank.internal (tls-client, 30 days) } }\<newline>extraCerts [ Issuing CA issuing-ca-1 ]\<newline>recipNonce = 6f5101ad...   (the device\'s senderNonce)''
    [(mv ''cmp'' ''db'' ''audit: cmp.issue'')\<lparr>m_kind := Some ''response'', m_effect := Some ''store''\<rparr>,
     (mv ''cmp'' ''plc'' ''ip (MAC)'')\<lparr>m_kind := Some ''response''\<rparr>]\<close>

definition cmp_step_4 :: step where
  \<open>cmp_step_4 = stp ''Enroll''
    ''certConf, then pkiConf''
    ''The device confirms it received the right certificate by sending its hash. Only then is the transaction closed. A device that asks for implicitConfirm skips this round trip; one that never confirms is flagged after 15 minutes.''
    ''PKIBody certConf { certHash SHA-384(certificate), certReqId 0 }\<newline>-> PKIBody pkiconf NULL\<newline>audit: cmp.confirmed''
    [(mv ''plc'' ''cmp'' ''certConf'')\<lparr>m_sub := Some ''certHash''\<rparr>,
     (mv ''cmp'' ''plc'' ''pkiConf'')\<lparr>m_kind := Some ''response'', m_effect := Some ''check''\<rparr>]\<close>

definition cmp_step_5 :: step where
  \<open>cmp_step_5 = stp ''Update''
    ''kur, signed with the current certificate''
    ''Before expiry the device asks for a key update, signing with its current certificate. The template may leave the subject out; it is copied from the old certificate. The old one is superseded, but still accepted for the certConf of this same transaction.''
    ''openssl cmp -cmd kur -cert dev.crt -key dev.key -newkey dev2.key -trusted root.pem\<newline>\<newline>PKIHeader { protectionAlg ecdsa-with-SHA256, extraCerts [ dev.crt, issuing CA ] }\<newline>PKIBody kur -> kup (signed by CMP RA issuing-ca-1, EKU id-kp-cmcRA)''
    [mv ''plc'' ''cmp'' ''kur (signature)'',
     (mv ''cmp'' ''ra'' ''same subject, new key'')\<lparr>m_effect := Some ''check''\<rparr>,
     (mv ''ra'' ''ca'' ''sign'')\<lparr>m_effect := Some ''sign''\<rparr>,
     (mv ''cmp'' ''plc'' ''kup (RA signature)'')\<lparr>m_kind := Some ''response''\<rparr>]\<close>

definition cmp_step_6 :: step where
  \<open>cmp_step_6 = stp ''Approval''
    ''Firmware signing waits for a second person''
    ''A code-signing certificate needs dual control. The ip says waiting, and the device polls with pollReq; each pollRep tells it when to ask again.''
    ''ip { response { certReqId 0, status waiting, "waiting for a second approver" } }\<newline>pollReq { certReqId 0 }\<newline>pollRep { certReqId 0, checkAfter 30 }''
    [mv ''plc'' ''cmp'' ''ir (code-signing)'',
     (mv ''cmp'' ''db'' ''approval #63'')\<lparr>m_kind := Some ''response'', m_effect := Some ''store'', m_dilly := Some ''worried''\<rparr>,
     (mv ''cmp'' ''plc'' ''status: waiting'')\<lparr>m_kind := Some ''response''\<rparr>,
     mv ''plc'' ''cmp'' ''pollReq'',
     (mv ''cmp'' ''plc'' ''pollRep checkAfter 30'')\<lparr>m_kind := Some ''response''\<rparr>]\<close>

definition cmp_step_7 :: step where
  \<open>cmp_step_7 = stp ''Approval''
    ''Approved; the next poll gets the certificate''
    ''The approver is not the person who asked. Once they approve, the next pollReq is answered with the ip carrying the certificate, and the device confirms it as usual.''
    ''POST /api/v1/approvals/63/approve   (approver key)\<newline>\<newline>pollReq -> ip { status accepted, certificate CN=fw.plant.bank.internal, EKU codeSigning }\<newline>certConf -> pkiConf''
    [mv ''approver'' ''cmp'' ''approve #63'',
     (mv ''cmp'' ''ca'' ''issue'')\<lparr>m_effect := Some ''sign'', m_dilly := Some ''happy''\<rparr>,
     mv ''plc'' ''cmp'' ''pollReq'',
     (mv ''cmp'' ''plc'' ''ip + certificate'')\<lparr>m_kind := Some ''response''\<rparr>]\<close>

definition cmp_step_8 :: step where
  \<open>cmp_step_8 = stp ''Revoke''
    ''The device revokes a certificate it holds''
    ''rr names the certificate by issuer and serial and gives a reason. It must be signed with a certificate of the same app. The CRL is re-signed right away.''
    ''openssl cmp -cmd rr -cert dev2.crt -key dev2.key -oldcert s3.crt -revreason 4\<newline>\<newline>PKIBody rr { certDetails { issuer, serialNumber }, crlEntryDetails { CRLReason superseded } }\<newline>-> rp { status accepted }''
    [mv ''plc'' ''cmp'' ''rr (signature)'',
     (mv ''cmp'' ''ca'' ''revoke + CRL'')\<lparr>m_kind := Some ''secret'', m_effect := Some ''sign''\<rparr>,
     (mv ''cmp'' ''plc'' ''rp accepted'')\<lparr>m_kind := Some ''response''\<rparr>]\<close>

definition cmp_scene :: scene where
  \<open>cmp_scene = \<lparr>d_id = ''cmp'', d_title = ''CMP for industrial devices (RFC 9483)'',
     d_dilly = Some ''ra'', d_chainAt = Some ''db'',
     d_chainOffset = Some (1.2, 0.2), d_platformRadius = None,
     d_camera = Some \<lparr>cam_theta = 0.3, cam_phi = 1.1, cam_radius = 21.0\<rparr>,
     d_actors = cmp_actors,
     d_steps = [cmp_step_1, cmp_step_2, cmp_step_3, cmp_step_4, cmp_step_5, cmp_step_6, cmp_step_7, cmp_step_8]\<rparr>\<close>

lemmas cmp_defs = cmp_scene_def
  cmp_step_1_def cmp_step_2_def cmp_step_3_def cmp_step_4_def cmp_step_5_def cmp_step_6_def cmp_step_7_def cmp_step_8_def

lemma cmp_wf: "wf_scene cmp_scene"
  by (simp add: cmp_defs cmp_actors_def scene_check)

lemma cmp_steps: "length (d_steps cmp_scene) = 8" "d_id cmp_scene = ''cmp''"
  by (simp_all add: cmp_scene_def)

lemma cmp_break: "first_break cmp_scene = 0"
  by (simp add: first_break_def cmp_defs moves_of_def)

end
