(* ===== verification/Tour_Adcs.thy ===== *)
theory Tour_Adcs
  imports Scene_Invariants
begin

section \<open>Walkthrough: adcs\<close>

text \<open>
  The scene registered under the id \<open>adcs\<close> in \<open>kb-src/scenes-data.js\<close>: its actors, its steps with their
  texts and moves, and the proof that it is well-formed for the engine.
\<close>

definition adcs_actors :: "actor list" where
  \<open>adcs_actors =
    [(act ''operator'' ''person'' ''PKI operator'' (- 2.2) 7.0)\<lparr>a_sub := Some ''runs the audit''\<rparr>,
     (act ''client'' ''laptop'' ''Windows client'' (- 7.2) 2.0)\<lparr>a_sub := Some ''smart-card logon'', a_anchorY := Some 0.8\<rparr>,
     (act ''dc'' ''server'' ''AD domain controller'' (- 5.6) (- 3.8))\<lparr>a_sub := Some (''LDAP '' @ [CHR 0xB7] @ '' templates '' @ [CHR 0xB7] @ '' SIDs''), a_anchorY := Some 1.1\<rparr>,
     (act ''ra'' ''shield'' ''Certadillo RA'' 0.4 (- 0.4))\<lparr>a_sub := Some (''scope '' @ [CHR 0xB7] @ '' policy '' @ [CHR 0xB7] @ '' SID lookup''), a_anchorY := Some 1.4\<rparr>,
     (act ''gw'' ''gateway'' ''Gateway worker'' 3.6 (- 4.6))\<lparr>a_sub := Some (''domain-joined '' @ [CHR 0xB7] @ '' certreq''), a_anchorY := Some 1.2\<rparr>,
     (act ''msca'' ''ca'' ''Microsoft AD CS'' 7.0 (- 0.4))\<lparr>a_sub := Some ''enterprise CA'', a_anchorY := Some 1.6, a_labelY := Some 3.0\<rparr>,
     (act ''ca'' ''ca'' ''Certadillo CA'' 6.6 3.8)\<lparr>a_sub := Some ''windows-logon'', a_anchorY := Some 1.2, a_labelY := Some 2.4\<rparr>,
     (act ''db'' ''db'' ''Inventory + audit'' 2.2 5.8)\<lparr>a_sub := Some (''findings '' @ [CHR 0xB7] @ '' certificates''), a_anchorY := Some 1.1\<rparr>]\<close>

definition adcs_step_1 :: step where
  \<open>adcs_step_1 = stp ''Audit''
    ''Read the templates''
    ''Certadillo reads the AD CS templates and CA configuration over an ordinary LDAP bind (or an offline export). It is read-only: it never enrolls or edits anything, it only grades what it finds.''
    ''certadillo adcs audit\<newline># or POST /api/v1/adcs/audit/ldap\<newline>\<newline>reads CN=Certificate Templates,CN=Public Key Services,\<newline>      CN=Services,CN=Configuration,DC=corp,DC=bank,DC=internal''
    [mv ''ra'' ''dc'' ''LDAP search (templates, ACLs, OIDs)'',
     (mv ''dc'' ''ra'' ''template objects'')\<lparr>m_kind := Some ''response''\<rparr>]\<close>

definition adcs_step_2 :: step where
  \<open>adcs_step_2 = stp ''Audit''
    ''Flag the misconfigured template''
    ''The \'VulnUser\' template lets the enrollee choose the subject, allows client authentication, and any Domain User can enroll: ESC1. Certadillo records the finding and raises AdcsTemplateVulnerable so the AD team can fix it.''
    ''ESC1  critical  template \'VulnUser\'\<newline>  Enrollee supplies subject and template allows\<newline>  client authentication.\<newline>  principals: Domain Users''
    [(mv ''ra'' ''db'' (''store finding '' @ [CHR 0xB7] @ '' alert''))\<lparr>m_kind := Some ''reject'', m_effect := Some ''reject''\<rparr>]\<close>

definition adcs_step_3 :: step where
  \<open>adcs_step_3 = stp ''Logon''
    ''Resolve the SID from the directory''
    ''A Windows client asks for a smart-card logon certificate with a UPN otherName. The RA checks the UPN suffix is in the app scope, then looks the account\'s SID up in the directory. The SID is never taken from the request, the lookup fails closed, and a disabled account is refused.''
    ''CSR: SAN otherName UPN = alice@corp.bank.internal\<newline>\<newline>LDAP (&(objectClass=user)\<newline>      (userPrincipalName=alice@corp.bank.internal))\<newline> -> objectSid S-1-5-21-...-1104, enabled''
    [mv ''client'' ''ra'' ''request windows-logon cert'',
     mv ''ra'' ''dc'' ''look up UPN -> SID'',
     (mv ''dc'' ''ra'' ''SID + account state'')\<lparr>m_kind := Some ''response'', m_effect := Some ''check''\<rparr>]\<close>

definition adcs_step_4 :: step where
  \<open>adcs_step_4 = stp ''Logon''
    ''Issue with the SID security extension''
    ''Certadillo signs the certificate with the UPN otherName and the SID security extension (szOID_NTDS_CA_SECURITY_EXT), so it passes strong certificate mapping under full KB5014754 enforcement. A sensitive account (adminCount=1) would first need a second approver.''
    ''leaf:\<newline>  SAN: otherName UPN alice@corp.bank.internal\<newline>  1.3.6.1.4.1.311.25.2: S-1-5-21-...-1104\<newline>  EKU: clientAuth, smartcardLogon, pkinitClient''
    [(mv ''ra'' ''ca'' ''sign logon certificate'')\<lparr>m_effect := Some ''sign''\<rparr>,
     (mv ''ca'' ''db'' ''inventory + audit'')\<lparr>m_kind := Some ''response'', m_effect := Some ''store''\<rparr>,
     (mv ''ra'' ''client'' ''certificate'')\<lparr>m_kind := Some ''response''\<rparr>]\<close>

definition adcs_step_5 :: step where
  \<open>adcs_step_5 = stp ''Gateway''
    ''Hand an approved request to AD CS''
    ''For a profile with issuer: adcs, Certadillo stays the RA but AD CS signs. The RA applies scope and policy, then queues a job. A domain-joined gateway worker claims it and submits to the Microsoft CA with certreq against the named template.''
    (''profile adcs-user (issuer: adcs)\<newline>202 {"status": "gateway_queued", "job_id": 7}\<newline>\<newline>gateway: certreq -submit -config "CA01'' @ [CHR 0x5C] @ ''Corp Issuing CA"\<newline>         -attrib "CertificateTemplate:CertadilloUser"'')
    [(mv ''ra'' ''db'' ''queue job (scope checked)'')\<lparr>m_effect := Some ''store''\<rparr>,
     mv ''gw'' ''ra'' ''claim pending jobs'',
     (mv ''gw'' ''msca'' ''certreq -submit'')\<lparr>m_kind := Some ''secret'', m_effect := Some ''sign''\<rparr>]\<close>

definition adcs_step_6 :: step where
  \<open>adcs_step_6 = stp ''Gateway''
    ''Return the certificate to inventory''
    ''The worker posts the issued certificate back. Certadillo ingests it with backend adcs and location adcs:<CA>, owned by the requesting app, so an AD CS certificate lands in the same inventory, alerting and reporting as everything else. Revocation and a CA-database inventory run the same way.''
    ''POST /api/v1/adcs/gateway/jobs/7/complete\<newline>{"certificate_pem": "-----BEGIN CERTIFICATE----- ..."}\<newline>\<newline>inventory: backend=adcs, location=adcs:Corp Issuing CA''
    [(mv ''gw'' ''ra'' ''post certificate back'')\<lparr>m_kind := Some ''response''\<rparr>,
     (mv ''ra'' ''db'' (''ingest '' @ [CHR 0xB7] @ '' owner = app''))\<lparr>m_kind := Some ''response'', m_effect := Some ''store''\<rparr>]\<close>

definition adcs_scene :: scene where
  \<open>adcs_scene = \<lparr>d_id = ''adcs'', d_title = ''Windows and AD CS'',
     d_dilly = Some ''ra'', d_chainAt = Some ''db'',
     d_chainOffset = Some (1.2, 0.2), d_platformRadius = None,
     d_camera = Some \<lparr>cam_theta = 0.32, cam_phi = 1.1, cam_radius = 21.5\<rparr>,
     d_actors = adcs_actors,
     d_steps = [adcs_step_1, adcs_step_2, adcs_step_3, adcs_step_4, adcs_step_5, adcs_step_6]\<rparr>\<close>

lemmas adcs_defs = adcs_scene_def
  adcs_step_1_def adcs_step_2_def adcs_step_3_def adcs_step_4_def adcs_step_5_def adcs_step_6_def

lemma adcs_wf: "wf_scene adcs_scene"
  by (simp add: adcs_defs adcs_actors_def scene_check)

lemma adcs_steps: "length (d_steps adcs_scene) = 6" "d_id adcs_scene = ''adcs''"
  by (simp_all add: adcs_scene_def)

lemma adcs_break: "first_break adcs_scene = 0"
  by (simp add: first_break_def adcs_defs moves_of_def)

end
