(* ===== verification/Tour_Provision.thy ===== *)
theory Tour_Provision
  imports Scene_Invariants
begin

section \<open>Walkthrough: provision\<close>

text \<open>
  The scene registered under the id \<open>provision\<close> in \<open>kb-src/scenes-data.js\<close>: its actors, its steps with their
  texts and moves, and the proof that it is well-formed for the engine.
\<close>

definition provision_actors :: "actor list" where
  \<open>provision_actors =
    [(act ''admin'' ''person'' ''PKI admin'' (- 2.4) 7.0)\<lparr>a_sub := Some ''registers targets''\<rparr>,
     (act ''vault'' ''hsm'' ''Vault KV'' (- 7.2) 4.2)\<lparr>a_sub := Some (''SSH key '' @ [CHR 0xB7] @ '' F5 password''), a_anchorY := Some 0.6, a_labelY := Some 1.5\<rparr>,
     (act ''engine'' ''gateway'' ''Provisioning engine'' (- 1.6) 0.4)\<lparr>a_sub := Some (''scheduler '' @ [CHR 0xB7] @ '' drivers''), a_anchorY := Some 1.5\<rparr>,
     (act ''ra'' ''shield'' ''RA + policy'' 3.0 (- 3.8))\<lparr>a_sub := Some ''the app\'s own rules'', a_anchorY := Some 1.2\<rparr>,
     (act ''ca'' ''ca'' ''Issuing CA'' 7.0 0.2)\<lparr>a_sub := Some ''issuing-ca-1'', a_anchorY := Some 1.6, a_labelY := Some 3.0\<rparr>,
     (act ''web'' ''server'' ''web1 (nginx)'' (- 6.8) (- 2.6))\<lparr>a_sub := Some (''SSH '' @ [CHR 0xB7] @ '' host key pinned''), a_anchorY := Some 1.1\<rparr>,
     (act ''f5'' ''router'' ''F5 BIG-IP'' (- 2.6) (- 6.4))\<lparr>a_sub := Some ''client-SSL profile'', a_anchorY := Some 0.8\<rparr>,
     (act ''db'' ''db'' ''Inventory + audit'' 2.6 5.8)\<lparr>a_sub := Some (''runs '' @ [CHR 0xB7] @ '' installations''), a_anchorY := Some 1.1\<rparr>]\<close>

definition provision_step_1 :: step where
  \<open>provision_step_1 = stp ''Setup''
    ''A target holds a reference, never a secret''
    ''The admin registers web1 as an SSH target. The host key comes from the server ahead of time and is pinned, files may only go under /etc/nginx/tls, and the reload command is fixed by the admin. The SSH key itself stays in Vault; the target only names where it lives.''
    ''POST /api/v1/targets\<newline>{"name": "web1", "kind": "ssh", "team_id": 1,\<newline> "config": {"host": "web1.pay.bank.internal", "username": "certadillo",\<newline>            "host_key": "ssh-ed25519 AAAAC3Nz...",\<newline>            "allowed_dirs": ["/etc/nginx/tls"],\<newline>            "reload_command": "sudo systemctl reload nginx"},\<newline> "credential_ref": "vault:secret/data/certadillo/web1#ssh_key"}\<newline>\<newline>201  (sealed: a later SQL edit to host or paths stops every run)''
    [mv ''admin'' ''engine'' ''POST /targets'',
     (mv ''engine'' ''db'' ''target, sealed'')\<lparr>m_kind := Some ''response'', m_effect := Some ''store''\<rparr>]\<close>

definition provision_step_2 :: step where
  \<open>provision_step_2 = stp ''Setup''
    ''An installation: what to keep where''
    ''The installation ties an app to the target: the name, where the files go, and the endpoint to check afterwards. With key_location device, the host makes the key itself and only a CSR ever leaves it.''
    ''POST /api/v1/installations\<newline>{"app_id": 1, "target_id": 1, "common_name": "www.pay.bank.internal",\<newline> "key_location": "device",\<newline> "params": {"cert_path": "/etc/nginx/tls/www.crt",\<newline>            "key_path": "/etc/nginx/tls/www.key"},\<newline> "validate_endpoint": "web1.pay.bank.internal:443"}''
    [mv ''admin'' ''engine'' ''POST /installations'',
     (mv ''engine'' ''db'' ''installation'')\<lparr>m_kind := Some ''response'', m_effect := Some ''store''\<rparr>]\<close>

definition provision_step_3 :: step where
  \<open>provision_step_3 = stp ''Run''
    ''Connect, and make the key on the host''
    ''When a run starts the engine resolves the credential from Vault, connects to web1 and refuses if the host key does not match the pinned one. openssl on the host generates the new key next to the live one and returns a CSR.''
    (''credential_ref -> Vault KV read (token never stored)\<newline>ssh certadillo@web1.pay.bank.internal   host key: matches pin\<newline>openssl req -new -newkey ec -pkeyopt ec_paramgen_curve:P-256 '' @ [CHR 0x5C] @ ''\<newline>  -keyout /etc/nginx/tls/www.key.new -subj /CN=www.pay.bank.internal\<newline>\<newline>step: the target generated a ec-p256 key and returned a CSR'')
    [(mv ''engine'' ''vault'' ''read ssh_key'')\<lparr>m_kind := Some ''secret''\<rparr>,
     (mv ''vault'' ''engine'' ''key (memory only)'')\<lparr>m_kind := Some ''secret'', m_effect := Some ''unlock''\<rparr>,
     (mv ''engine'' ''web'' ''SSH, pinned host key'')\<lparr>m_effect := Some ''check''\<rparr>,
     (mv ''web'' ''engine'' ''CSR'')\<lparr>m_kind := Some ''response''\<rparr>]\<close>

definition provision_step_4 :: step where
  \<open>provision_step_4 = stp ''Run''
    ''Issue under the app\'s policy''
    ''Push provisioning does not bypass anything. The CSR goes through the same RA as any other request: the app\'s scope, its profile, its policy folder. A name outside the app\'s scope would be refused here, before anything touches the server.''
    (''policy: www.pay.bank.internal in scope *.pay.bank.internal   ok\<newline>profile tls-server, 90 days, folder '' @ [CHR 0x5C] @ ''Bank'' @ [CHR 0x5C] @ ''Payments: max 30 days -> 30 days\<newline>step: issued serial 4f1c9a...'')
    [mv ''engine'' ''ra'' ''CSR for app 1'',
     (mv ''ra'' ''ca'' ''sign'')\<lparr>m_effect := Some ''sign'', m_dilly := Some ''happy''\<rparr>,
     (mv ''ca'' ''engine'' ''certificate + chain'')\<lparr>m_kind := Some ''response''\<rparr>]\<close>

definition provision_step_5 :: step where
  \<open>provision_step_5 = stp ''Run''
    ''Install, reload, and check it is really served''
    ''The certificate is written, the new key swapped in, and nginx reloaded. Then the engine opens TLS connections to web1:443 with the name as SNI and needs three in a row to present the new certificate, because old workers keep serving for a moment after a graceful reload.''
    ''step: wrote /etc/nginx/tls/www.crt\<newline>step: activated device key /etc/nginx/tls/www.key\<newline>step: ran the target\'s reload command\<newline>TLS web1:443 SNI www.pay.bank.internal  x3  sha256 = new fingerprint\<newline>step: web1.pay.bank.internal:443 serves the new certificate\<newline>step: superseded serial 2b07e1...''
    [mv ''engine'' ''web'' ''write + reload'',
     (mv ''engine'' ''web'' ''TLS x3: new cert?'')\<lparr>m_effect := Some ''check''\<rparr>,
     (mv ''engine'' ''db'' ''audit: provisioning.run'')\<lparr>m_kind := Some ''response'', m_effect := Some ''store''\<rparr>]\<close>

definition provision_step_6 :: step where
  \<open>provision_step_6 = stp ''F5''
    ''A load balancer, switched last''
    ''On the F5 the key is made in Certadillo\'s memory, pushed with the certificate and chain as new serial-named objects, and the client-SSL profile switched to them only at the end. The old objects stay for rollback. The key is dropped from memory once the push is done.''
    ''step: generated a ec-p256 key in memory\<newline>step: issued serial 7d22b0...\<newline>step: installed cdl-7d22b0.key/.crt/-chain.crt in /Payments\<newline>step: switched client-ssl profile www_clientssl to cdl-7d22b0''
    [(mv ''engine'' ''ra'' ''issue (central key)'')\<lparr>m_effect := Some ''sign''\<rparr>,
     (mv ''engine'' ''f5'' ''key + cert + chain'')\<lparr>m_kind := Some ''secret''\<rparr>,
     (mv ''engine'' ''f5'' ''switch profile'')\<lparr>m_effect := Some ''check''\<rparr>]\<close>

definition provision_step_7 :: step where
  \<open>provision_step_7 = stp ''Failure''
    ''A push that fails is not left lying around''
    ''If the F5 refuses the upload after the certificate was issued, nobody holds that key any more. The engine revokes the undelivered certificate straight away, backs off before retrying, and after three failures the ProvisioningFailed alert turns critical for the owning team.''
    ''F5 iControl: 401 Unauthorized\<newline>step: revoked undelivered serial 91ac3e...\<newline>installation 2: failures 3, next attempt in 4h\<newline>alert ProvisioningFailed (critical) -> team payments''
    [(mv ''f5'' ''engine'' ''401'')\<lparr>m_kind := Some ''reject'', m_effect := Some ''reject'', m_dilly := Some ''worried''\<rparr>,
     (mv ''engine'' ''ca'' ''revoke undelivered'')\<lparr>m_kind := Some ''secret'', m_effect := Some ''burn''\<rparr>,
     (mv ''engine'' ''db'' (''run failed '' @ [CHR 0xB7] @ '' alert''))\<lparr>m_kind := Some ''response'', m_effect := Some ''store''\<rparr>]\<close>

definition provision_scene :: scene where
  \<open>provision_scene = \<lparr>d_id = ''provision'', d_title = ''Push provisioning'',
     d_dilly = Some ''ra'', d_chainAt = Some ''db'',
     d_chainOffset = Some (1.2, 0.2), d_platformRadius = None,
     d_camera = Some \<lparr>cam_theta = 0.3, cam_phi = 1.1, cam_radius = 21.5\<rparr>,
     d_actors = provision_actors,
     d_steps = [provision_step_1, provision_step_2, provision_step_3, provision_step_4, provision_step_5, provision_step_6, provision_step_7]\<rparr>\<close>

lemmas provision_defs = provision_scene_def
  provision_step_1_def provision_step_2_def provision_step_3_def provision_step_4_def provision_step_5_def provision_step_6_def provision_step_7_def

lemma provision_wf: "wf_scene provision_scene"
  by (simp add: provision_defs provision_actors_def scene_check)

lemma provision_steps: "length (d_steps provision_scene) = 7" "d_id provision_scene = ''provision''"
  by (simp_all add: provision_scene_def)

lemma provision_break: "first_break provision_scene = 0"
  by (simp add: first_break_def provision_defs moves_of_def)

end
