(* ===== verification/Tour_Policytree.thy ===== *)
theory Tour_Policytree
  imports Scene_Invariants
begin

section \<open>Walkthrough: policytree\<close>

text \<open>
  The scene registered under the id \<open>policytree\<close> in \<open>kb-src/scenes-data.js\<close>: its actors, its steps with their
  texts and moves, and the proof that it is well-formed for the engine.
\<close>

definition policytree_actors :: "actor list" where
  \<open>policytree_actors =
    [(act ''admin'' ''person'' ''Policy admin'' (- 6.6) 5.0)\<lparr>a_sub := Some ''asks for changes''\<rparr>,
     (act ''approver'' ''person'' ''Approver'' (- 1.4) 7.2)\<lparr>a_sub := Some ''a different person''\<rparr>,
     (act ''bank'' ''chart'' ([CHR 0x5C] @ ''Bank'') (- 5.4) (- 4.6))\<lparr>a_sub := Some (''zones bank.internal (locked) '' @ [CHR 0xB7] @ '' RSA 3072 (locked)''), a_anchorY := Some 1.0\<rparr>,
     (act ''payments'' ''chart'' ([CHR 0x5C] @ ''Bank'' @ [CHR 0x5C] @ ''Payments'') (- 1.0) (- 2.4))\<lparr>a_sub := Some (''max 30 days '' @ [CHR 0xB7] @ '' TLS profiles only''), a_anchorY := Some 1.0\<rparr>,
     (act ''cards'' ''chart'' ([CHR 0x5C] @ ''Bank'' @ [CHR 0x5C] @ ''Payments'' @ [CHR 0x5C] @ ''Cards'') 3.2 (- 0.4))\<lparr>a_sub := Some ''issuing CA cards-ca (locked)'', a_anchorY := Some 1.0\<rparr>,
     (act ''policy'' ''shield'' ''Policy engine'' 3.6 (- 5.6))\<lparr>a_sub := Some ''profile, then folder chain'', a_anchorY := Some 1.2\<rparr>,
     (act ''app'' ''terminal'' ''card-api'' 7.2 2.6)\<lparr>a_sub := Some ''app in Cards'', a_anchorY := Some 0.9, a_labelY := Some 1.9\<rparr>,
     (act ''db'' ''db'' ''Approvals + audit'' 1.2 4.8)\<lparr>a_sub := Some ''folders and apps sealed'', a_anchorY := Some 1.1\<rparr>]\<close>

definition policytree_step_1 :: step where
  \<open>policytree_step_1 = stp ''Build''
    ''A folder is a policy change, so it needs two people''
    ''The admin asks for the top folder with the bank\'s zone and a minimum RSA size, both locked. Creating a folder changes what apps may get, so it is an approval request: the response is 202 and nothing exists yet.''
    ''POST /api/v1/folders\<newline>{"name": "Bank",\<newline> "settings": {"allowed_zones": {"value": ["bank.internal"], "locked": true},\<newline>              "rsa_min_bits":  {"value": 3072, "locked": true}}}\<newline>\<newline>202 {"status": "pending_approval", "approval_id": 41, "change": "create_folder"}''
    [mv ''admin'' ''policy'' ''POST /folders'',
     (mv ''policy'' ''db'' ''approval #41'')\<lparr>m_kind := Some ''response'', m_effect := Some ''store''\<rparr>]\<close>

definition policytree_step_2 :: step where
  \<open>policytree_step_2 = stp ''Build''
    ''A second person approves''
    ''An approver who is not the admin decides. The folder is created, sealed, and the audit trail records the settings. Payments and Cards are added below it the same way.''
    (''POST /api/v1/approvals/41/approve   (approver key)\<newline>audit: policy.folder.create  '' @ [CHR 0x5C] @ ''Bank  {allowed_zones, rsa_min_bits}\<newline>\<newline>'' @ [CHR 0x5C] @ ''Bank\<newline>'' @ [CHR 0x5C] @ ''Bank'' @ [CHR 0x5C] @ ''Payments          max_validity_days 30, allowed_profiles tls-server, tls-client\<newline>'' @ [CHR 0x5C] @ ''Bank'' @ [CHR 0x5C] @ ''Payments'' @ [CHR 0x5C] @ ''Cards    issuing_ca cards-ca (locked)'')
    [(mv ''approver'' ''db'' ''approve #41'')\<lparr>m_effect := Some ''check''\<rparr>,
     (mv ''db'' ''bank'' (''create '' @ [CHR 0x5C] @ ''Bank''))\<lparr>m_kind := Some ''response''\<rparr>,
     (mv ''bank'' ''payments'' ''child'')\<lparr>m_kind := Some ''local''\<rparr>,
     (mv ''payments'' ''cards'' ''child'')\<lparr>m_kind := Some ''local''\<rparr>]\<close>

definition policytree_step_3 :: step where
  \<open>policytree_step_3 = stp ''Inherit''
    ''What card-api actually gets''
    ''card-api sits in Cards. Its effective policy is its profile narrowed by every folder above it: names only under bank.internal, RSA of at least 3072 bits, at most 30 days, signed by cards-ca. Each rule shows the folder it came from and whether it is locked.''
    (''GET /api/v1/apps/7/policy\<newline>{"app": "card-api", "profile": "tls-server",\<newline> "folder": "'' @ [CHR 0x5C, CHR 0x5C] @ ''Bank'' @ [CHR 0x5C, CHR 0x5C] @ ''Payments'' @ [CHR 0x5C, CHR 0x5C] @ ''Cards",\<newline> "folder_rules": {\<newline>  "allowed_zones":     {"value": ["bank.internal"], "locked": true, "folder": "'' @ [CHR 0x5C, CHR 0x5C] @ ''Bank"},\<newline>  "rsa_min_bits":      {"value": 3072, "locked": true, "folder": "'' @ [CHR 0x5C, CHR 0x5C] @ ''Bank"},\<newline>  "max_validity_days": {"value": 30, "locked": false, "folder": "'' @ [CHR 0x5C, CHR 0x5C] @ ''Bank'' @ [CHR 0x5C, CHR 0x5C] @ ''Payments"},\<newline>  "issuing_ca":        {"value": "cards-ca", "locked": true, "folder": "'' @ [CHR 0x5C, CHR 0x5C] @ ''Bank'' @ [CHR 0x5C, CHR 0x5C] @ ''Payments'' @ [CHR 0x5C, CHR 0x5C] @ ''Cards"}}}'')
    [(mv ''bank'' ''policy'' (''zones '' @ [CHR 0xB7] @ '' RSA 3072''))\<lparr>m_kind := Some ''local''\<rparr>,
     (mv ''payments'' ''policy'' ''30 days'')\<lparr>m_kind := Some ''local''\<rparr>,
     (mv ''cards'' ''policy'' ''cards-ca'')\<lparr>m_kind := Some ''local''\<rparr>,
     (mv ''policy'' ''app'' ''effective policy'')\<lparr>m_kind := Some ''response'', m_effect := Some ''check''\<rparr>]\<close>

definition policytree_step_4 :: step where
  \<open>policytree_step_4 = stp ''Enforce''
    ''A 2048-bit key is refused''
    (''card-api sends a CSR with an RSA 2048 key. The profile alone would allow it, but the locked rule on '' @ [CHR 0x5C] @ ''Bank does not. The request is refused with the folder named, and the refusal is audited.'')
    (''POST /api/v1/certificates  (RSA 2048, api.cards.bank.internal)\<newline>\<newline>422 {"error": "policy_violation",\<newline>     "violations": [{"rule": "folder_key_strength",\<newline>                     "message": "RSA 2048 below 3072 required by '' @ [CHR 0x5C, CHR 0x5C] @ ''Bank"}]}\<newline>audit: certificate.rejected'')
    [mv ''app'' ''policy'' ''CSR RSA 2048'',
     (mv ''policy'' ''app'' ''422 below 3072'')\<lparr>m_kind := Some ''reject'', m_effect := Some ''reject'', m_dilly := Some ''worried''\<rparr>]\<close>

definition policytree_step_5 :: step where
  \<open>policytree_step_5 = stp ''Enforce''
    ''Nobody below can loosen a lock''
    ''The Payments admin tries to lower the minimum key size for their own folder. A setting locked higher up cannot be set below it, so this is refused before it even becomes an approval request.''
    (''PUT /api/v1/folders/2/settings\<newline>{"rsa_min_bits": {"value": 2048}}\<newline>\<newline>400 {"error": "bad_request", "message": "rsa_min_bits is locked at '' @ [CHR 0x5C, CHR 0x5C] @ ''Bank"}'')
    [mv ''admin'' ''payments'' ''rsa_min_bits 2048'',
     (mv ''payments'' ''admin'' (''400 locked at '' @ [CHR 0x5C] @ ''Bank''))\<lparr>m_kind := Some ''reject'', m_effect := Some ''reject''\<rparr>]\<close>

definition policytree_step_6 :: step where
  \<open>policytree_step_6 = stp ''Tamper''
    ''A move done in SQL stops the app''
    ''Someone with database access moves card-api to a looser folder with an UPDATE. The app\'s seal no longer matches, so its next issuance is refused and IntegritySealBroken fires. A real move goes through POST /apps/7/move and a second person.''
    ''UPDATE apps SET folder_id = 9 WHERE id = 7;   -- outside Certadillo\<newline>\<newline>POST /api/v1/certificates -> 403 this app failed its integrity check (changed outside Certadillo)\<newline>alert IntegritySealBroken (critical): app card-api was changed outside Certadillo''
    [(mv ''db'' ''app'' ''folder_id changed in SQL'')\<lparr>m_kind := Some ''secret''\<rparr>,
     mv ''app'' ''policy'' ''CSR'',
     (mv ''policy'' ''db'' (''seal broken '' @ [CHR 0xB7] @ '' alert''))\<lparr>m_kind := Some ''reject'', m_effect := Some ''burn'', m_dilly := Some ''rolled''\<rparr>]\<close>

definition policytree_scene :: scene where
  \<open>policytree_scene = \<lparr>d_id = ''policytree'', d_title = ''The policy tree'',
     d_dilly = Some ''policy'', d_chainAt = Some ''db'',
     d_chainOffset = Some (1.2, 0.2), d_platformRadius = None,
     d_camera = Some \<lparr>cam_theta = 0.28, cam_phi = 1.08, cam_radius = 21.0\<rparr>,
     d_actors = policytree_actors,
     d_steps = [policytree_step_1, policytree_step_2, policytree_step_3, policytree_step_4, policytree_step_5, policytree_step_6]\<rparr>\<close>

lemmas policytree_defs = policytree_scene_def
  policytree_step_1_def policytree_step_2_def policytree_step_3_def policytree_step_4_def policytree_step_5_def policytree_step_6_def

lemma policytree_wf: "wf_scene policytree_scene"
  by (simp add: policytree_defs policytree_actors_def scene_check)

lemma policytree_steps: "length (d_steps policytree_scene) = 6" "d_id policytree_scene = ''policytree''"
  by (simp_all add: policytree_scene_def)

lemma policytree_break: "first_break policytree_scene = 0"
  by (simp add: first_break_def policytree_defs moves_of_def)

end
