(* ===== verification/Tour_Upstream.thy ===== *)
theory Tour_Upstream
  imports Scene_Invariants
begin

section \<open>Walkthrough: upstream\<close>

text \<open>
  The scene registered under the id \<open>upstream\<close> in \<open>kb-src/scenes-data.js\<close>: its actors, its steps with their
  texts and moves, and the proof that it is well-formed for the engine.
\<close>

definition upstream_actors :: "actor list" where
  \<open>upstream_actors =
    [(act ''app'' ''terminal'' ''online-banking'' (- 7.2) 2.0)\<lparr>a_sub := Some ''app in Internet facing'', a_anchorY := Some 0.9, a_labelY := Some 1.9\<rparr>,
     (act ''ra'' ''shield'' ''Certadillo RA'' (- 2.0) (- 0.6))\<lparr>a_sub := Some ''policy first'', a_anchorY := Some 1.4\<rparr>,
     (act ''acme'' ''gateway'' ''ACME client'' 2.4 (- 3.8))\<lparr>a_sub := Some ''account key encrypted'', a_anchorY := Some 1.2\<rparr>,
     (act ''le'' ''globe'' ''Public ACME CA'' 7.4 (- 1.0))\<lparr>a_sub := Some ''Let\'s Encrypt, or any RFC 8555 CA'', a_anchorY := Some 1.4, a_labelY := Some 2.8\<rparr>,
     (act ''dns'' ''server'' ''Authoritative DNS'' 3.4 3.8)\<lparr>a_sub := Some ''RFC 2136 + TSIG'', a_anchorY := Some 1.1\<rparr>,
     (act ''db'' ''db'' ''Inventory + audit'' (- 2.6) 5.8)\<lparr>a_sub := Some ''certificate + chain'', a_anchorY := Some 1.1\<rparr>]\<close>

definition upstream_step_1 :: step where
  \<open>upstream_step_1 = stp ''Route''
    ''The folder says who signs''
    ''Apps in the Internet facing folder use the public-acme issuer, locked, and may only ask for names under bank.example. online-banking asks for www.bank.example with its own CSR, exactly as it would from the internal CA.''
    ([CHR 0x5C] @ ''Internet facing   issuer public-acme (locked), allowed_zones bank.example (locked)\<newline>\<newline>issuers:\<newline>  public-acme:\<newline>    type: acme\<newline>    directory: https://acme-v02.api.letsencrypt.org/directory\<newline>    dns: {provider: rfc2136, server: 10.1.0.53, zone: bank.example.,\<newline>          tsig_name: certadillo-acme., tsig_secret_ref: vault:...#tsig}'')
    [mv ''app'' ''ra'' ''CSR www.bank.example'']\<close>

definition upstream_step_2 :: step where
  \<open>upstream_step_2 = stp ''Route''
    ''Policy runs before anything leaves the bank''
    ''Scope, zone, key size, validity and dual control are all checked here. A request that fails policy never reaches the public CA, so nothing about it appears in Certificate Transparency.''
    (''scope *.bank.example          ok\<newline>allowed_zones bank.example    ok\<newline>key ec P-256                  ok\<newline>issuer: public-acme (from '' @ [CHR 0x5C] @ ''Internet facing, locked)'')
    [(mv ''ra'' ''acme'' ''approved request'')\<lparr>m_effect := Some ''check''\<rparr>]\<close>

definition upstream_step_3 :: step where
  \<open>upstream_step_3 = stp ''Order''
    ''New order, dns-01 challenge''
    ''The ACME client opens an order for the approved names with its account key. The CA answers with a dns-01 challenge for each name.''
    ''POST /acme/new-order  {"identifiers": [{"type": "dns", "value": "www.bank.example"}]}\<newline>-> authorization: challenge dns-01, token "evaGxfADs6pSRb2LAv9IZf17Dt3juxGJ-PCt92wr-oA"''
    [mv ''acme'' ''le'' ''newOrder (JWS)'',
     (mv ''le'' ''acme'' ''dns-01 challenge'')\<lparr>m_kind := Some ''response''\<rparr>]\<close>

definition upstream_step_4 :: step where
  \<open>upstream_step_4 = stp ''Order''
    ''Publish the TXT record with a TSIG-signed update''
    ''The client writes _acme-challenge.www.bank.example through an RFC 2136 dynamic update signed with the TSIG key from Vault, waits for propagation, then tells the CA to validate.''
    ''nsupdate (TSIG certadillo-acme., hmac-sha256)\<newline>  update add _acme-challenge.www.bank.example. 60 TXT "Yd6J...base64url(SHA-256(keyAuthorization))"\<newline>sleep 20   (propagation_seconds)\<newline>POST challenge URL {}''
    [(mv ''acme'' ''dns'' ''UPDATE TXT (TSIG)'')\<lparr>m_kind := Some ''secret''\<rparr>,
     (mv ''le'' ''dns'' ''query TXT'')\<lparr>m_effect := Some ''check''\<rparr>,
     (mv ''le'' ''acme'' ''valid'')\<lparr>m_kind := Some ''response''\<rparr>]\<close>

definition upstream_step_5 :: step where
  \<open>upstream_step_5 = stp ''Order''
    ''Finalize with the app\'s own CSR''
    ''The order is finalized with the CSR the app sent, so the key never left the app. The TXT record is removed and the certificate and chain downloaded.''
    ''POST /acme/finalize  {"csr": base64url(app CSR)}\<newline>GET certificate -> leaf + R11 + ISRG Root X1\<newline>update delete _acme-challenge.www.bank.example. TXT''
    [mv ''acme'' ''le'' ''finalize (app CSR)'',
     (mv ''le'' ''acme'' ''certificate + chain'')\<lparr>m_kind := Some ''response'', m_effect := Some ''sign''\<rparr>,
     (mv ''acme'' ''dns'' ''delete TXT'')\<lparr>m_kind := Some ''local''\<rparr>]\<close>

definition upstream_step_6 :: step where
  \<open>upstream_step_6 = stp ''Check''
    ''Trust, but check''
    ''Before anything is stored, Certadillo compares what came back with what was approved: the public key must be the one in the CSR and there must be no extra DNS name. Then it goes into the inventory with its chain, owned by the app, and back to the app.''
    ''public key == CSR key          ok\<newline>SANs subset of approved names  ok\<newline>inventory: backend public-acme, chain_pem stored\<newline>audit: certificate.issue''
    [(mv ''acme'' ''ra'' ''certificate'')\<lparr>m_kind := Some ''response'', m_effect := Some ''check''\<rparr>,
     (mv ''ra'' ''db'' ''inventory + audit'')\<lparr>m_kind := Some ''response'', m_effect := Some ''store'', m_dilly := Some ''happy''\<rparr>,
     (mv ''ra'' ''app'' ''certificate + chain'')\<lparr>m_kind := Some ''response''\<rparr>]\<close>

definition upstream_step_7 :: step where
  \<open>upstream_step_7 = stp ''Check''
    ''A CA that adds a name gets nothing stored''
    ''If an upstream CA ever returned a certificate with a name nobody approved, or a different key, it is treated as a failure: nothing is stored or returned to the app, and the error is audited.''
    ''upstream certificate carries www2.bank.example, which the policy did not approve\<newline>audit: certificate.rejected (issuer public-acme)''
    [(mv ''acme'' ''ra'' ''unexpected SAN'')\<lparr>m_kind := Some ''reject'', m_effect := Some ''reject'', m_dilly := Some ''worried''\<rparr>]\<close>

definition upstream_scene :: scene where
  \<open>upstream_scene = \<lparr>d_id = ''upstream'', d_title = ''Upstream issuers: a public ACME CA'',
     d_dilly = Some ''ra'', d_chainAt = Some ''db'',
     d_chainOffset = Some (1.2, 0.2), d_platformRadius = None,
     d_camera = Some \<lparr>cam_theta = 0.3, cam_phi = 1.1, cam_radius = 21.5\<rparr>,
     d_actors = upstream_actors,
     d_steps = [upstream_step_1, upstream_step_2, upstream_step_3, upstream_step_4, upstream_step_5, upstream_step_6, upstream_step_7]\<rparr>\<close>

lemmas upstream_defs = upstream_scene_def
  upstream_step_1_def upstream_step_2_def upstream_step_3_def upstream_step_4_def upstream_step_5_def upstream_step_6_def upstream_step_7_def

lemma upstream_wf: "wf_scene upstream_scene"
  by (simp add: upstream_defs upstream_actors_def scene_check)

lemma upstream_steps: "length (d_steps upstream_scene) = 7" "d_id upstream_scene = ''upstream''"
  by (simp_all add: upstream_scene_def)

lemma upstream_break: "first_break upstream_scene = 2"
  by (simp add: first_break_def upstream_defs moves_of_def)

end
