(* ===== verification/Tour_Discover.thy ===== *)
theory Tour_Discover
  imports Scene_Invariants
begin

section \<open>Walkthrough: discover\<close>

text \<open>
  The scene registered under the id \<open>discover\<close> in \<open>kb-src/scenes-data.js\<close>: its actors, its steps with their
  texts and moves, and the proof that it is well-formed for the engine.
\<close>

definition discover_actors :: "actor list" where
  \<open>discover_actors =
    [(act ''host'' ''server'' ''app01'' (- 7.0) 2.6)\<lparr>a_sub := Some ''certadillo agent scan'', a_anchorY := Some 1.1\<rparr>,
     (act ''ra'' ''shield'' ''Certadillo'' (- 1.0) (- 0.2))\<lparr>a_sub := Some (''agent role '' @ [CHR 0xB7] @ '' sources''), a_anchorY := Some 1.4\<rparr>,
     (act ''cloud'' ''cloud'' ''Cloud stores'' (- 5.4) (- 4.6))\<lparr>a_sub := Some (''AWS ACM '' @ [CHR 0xB7] @ '' Key Vault '' @ [CHR 0xB7] @ '' GCP''), a_anchorY := Some 1.2\<rparr>,
     (act ''ct'' ''radar'' ''CT logs'' 4.2 (- 5.2))\<lparr>a_sub := Some ''via Cert Spotter'', a_anchorY := Some 1.0\<rparr>,
     (act ''bell'' ''bell'' ''Alerts'' 7.2 1.2)\<lparr>a_sub := Some (''owning team '' @ [CHR 0xB7] @ '' SOC''), a_anchorY := Some 1.0\<rparr>,
     (act ''team'' ''person'' ''App team'' 3.6 6.4)\<lparr>a_sub := Some ''fixes and confirms''\<rparr>,
     (act ''db'' ''db'' ''Inventory + findings'' (- 2.6) 5.8)\<lparr>a_sub := Some ''audit'', a_anchorY := Some 1.1\<rparr>]\<close>

definition discover_step_1 :: step where
  \<open>discover_step_1 = stp ''Agent''
    ''Scan the disks, not just the ports''
    ''A network scan sees what a server serves. The agent sees what sits on its disks: PEM and DER files, PKCS#12, Java keystores through keytool, the Windows stores. It reads public certificates, and for private key files only the path, owner and mode.''
    (''certadillo agent scan --api-key-file /etc/certadillo/agent.key '' @ [CHR 0x5C] @ ''\<newline>  --password-file /etc/certadillo/keystore-passwords\<newline>\<newline>/etc/nginx/tls/www.crt           pem\<newline>/opt/tomcat/conf/keystore.jks    jks (keytool, password via env)\<newline>/opt/legacy/server.key           key file: mode 0644, owner root'')
    [(mv ''host'' ''host'' ''walk /etc, /opt, /srv'')\<lparr>m_effect := Some ''check'', m_local := True\<rparr>]\<close>

definition discover_step_2 :: step where
  \<open>discover_step_2 = stp ''Agent''
    ''The report carries no key material''
    ''The agent posts certificates and key file metadata with a key that has the agent role: it can post reports and read nothing else. The certificates land in the inventory as source agent, location host:/path.''
    ''POST /api/v1/discovery/agent-report   (role: agent)\<newline>{"host": "app01",\<newline> "certificates": [{"path": "/etc/nginx/tls/www.crt", "format": "pem", "pem": "..."}],\<newline> "key_files": [{"path": "/opt/legacy/server.key", "mode": "0o644",\<newline>                "owner": "root", "world_readable": true}]}''
    [mv ''host'' ''ra'' ''agent report'',
     (mv ''ra'' ''db'' ''source agent'')\<lparr>m_kind := Some ''response'', m_effect := Some ''store''\<rparr>]\<close>

definition discover_step_3 :: step where
  \<open>discover_step_3 = stp ''Agent''
    ''A key every user can read''
    ''/opt/legacy/server.key is mode 0644. That opens a PrivateKeyExposed finding and a critical alert to the team that owns the host. The next report after chmod 600 closes it on its own.''
    ''finding key_readable  host:app01:/opt/legacy/server.key\<newline>alert PrivateKeyExposed (critical): private key /opt/legacy/server.key is readable\<newline>      by every user on the host (mode 0o644)\<newline>\<newline># on app01\<newline>chmod 600 /opt/legacy/server.key   -> next report closes the finding''
    [(mv ''ra'' ''bell'' ''PrivateKeyExposed'')\<lparr>m_kind := Some ''reject'', m_effect := Some ''burn'', m_dilly := Some ''worried''\<rparr>,
     mv ''bell'' ''team'' ''critical'',
     (mv ''team'' ''host'' ''chmod 600'')\<lparr>m_effect := Some ''check''\<rparr>]\<close>

definition discover_step_4 :: step where
  \<open>discover_step_4 = stp ''Cloud''
    ''Cloud certificate stores on a schedule''
    ''The server lists certificates in AWS ACM, Azure Key Vault and GCP Certificate Manager on its own schedule, with read-only credentials referenced from the policy file. Each one is de-duplicated by fingerprint and recorded with its ARN or resource id.''
    ''discovery.sources.acm: {type: aws-acm, regions: [us-east-1, us-west-2], interval_hours: 24}\<newline>\<newline>audit: discovery.source.run  acm  found 14, new 3\<newline>location arn:aws:acm:us-east-1:111122223333:certificate/9f2e...''
    [mv ''ra'' ''cloud'' ''list + describe (read-only)'',
     (mv ''cloud'' ''ra'' ''certificates'')\<lparr>m_kind := Some ''response''\<rparr>,
     (mv ''ra'' ''db'' ''source cloud'')\<lparr>m_kind := Some ''response'', m_effect := Some ''store''\<rparr>]\<close>

definition discover_step_5 :: step where
  \<open>discover_step_5 = stp ''CT''
    ''Watch the public logs for the bank\'s names''
    ''Every publicly trusted certificate is logged in Certificate Transparency. Certadillo asks Cert Spotter for the bank\'s zones and matches each entry by serial against what it issued or already knows.''
    ''discovery.sources.ct: {type: ct, provider: certspotter,\<newline>                       zones: [bank.example], interval_hours: 6}\<newline>\<newline>GET /v1/issuances?domain=bank.example&include_subdomains=true&expand=dns_names&expand=issuer&expand=cert''
    [mv ''ra'' ''ct'' ''issuances for bank.example'',
     (mv ''ct'' ''ra'' ''entries'')\<lparr>m_kind := Some ''response'', m_effect := Some ''check''\<rparr>]\<close>

definition discover_step_6 :: step where
  \<open>discover_step_6 = stp ''CT''
    ''A certificate nobody asked for''
    ''One entry for promo.bank.example was issued by a public CA but never requested through Certadillo. That is an UnknownPublicCertificate finding: shadow IT at best, someone else holding a certificate for the bank\'s name at worst.''
    ''finding unknown_public_cert\<newline>  promo.bank.example  issuer Sectigo  serial 00e1c4...\<newline>alert UnknownPublicCertificate (warning)''
    [(mv ''ra'' ''db'' ''finding'')\<lparr>m_kind := Some ''response'', m_effect := Some ''store''\<rparr>,
     (mv ''ra'' ''bell'' ''UnknownPublicCertificate'')\<lparr>m_kind := Some ''reject'', m_effect := Some ''reject''\<rparr>]\<close>

definition discover_step_7 :: step where
  \<open>discover_step_7 = stp ''CT''
    ''Expected after all: acknowledged with a reason''
    ''Marketing confirms an agency runs that site. The finding is acknowledged with a comment, which is audited, and the certificate stays in the inventory so its expiry is still tracked.''
    ''POST /api/v1/discovery/findings/12/acknowledge\<newline>{"comment": "Promo site run by the agency under contract MK-2291"}''
    [mv ''team'' ''ra'' ''acknowledge + reason'',
     (mv ''ra'' ''db'' ''audited'')\<lparr>m_kind := Some ''response'', m_effect := Some ''store'', m_dilly := Some ''happy''\<rparr>]\<close>

definition discover_scene :: scene where
  \<open>discover_scene = \<lparr>d_id = ''discover'', d_title = ''Discovery: host agent, cloud stores, CT'',
     d_dilly = Some ''ra'', d_chainAt = Some ''db'',
     d_chainOffset = Some (1.2, 0.2), d_platformRadius = None,
     d_camera = Some \<lparr>cam_theta = 0.3, cam_phi = 1.1, cam_radius = 22.0\<rparr>,
     d_actors = discover_actors,
     d_steps = [discover_step_1, discover_step_2, discover_step_3, discover_step_4, discover_step_5, discover_step_6, discover_step_7]\<rparr>\<close>

lemmas discover_defs = discover_scene_def
  discover_step_1_def discover_step_2_def discover_step_3_def discover_step_4_def discover_step_5_def discover_step_6_def discover_step_7_def

lemma discover_wf: "wf_scene discover_scene"
  by (simp add: discover_defs discover_actors_def scene_check)

lemma discover_steps: "length (d_steps discover_scene) = 7" "d_id discover_scene = ''discover''"
  by (simp_all add: discover_scene_def)

lemma discover_break: "first_break discover_scene = 1"
  by (simp add: first_break_def discover_defs moves_of_def)

end
