(* ===== verification/Tour_Auditship.thy ===== *)
theory Tour_Auditship
  imports Scene_Invariants
begin

section \<open>Walkthrough: auditship\<close>

text \<open>
  The scene registered under the id \<open>auditship\<close> in \<open>kb-src/scenes-data.js\<close>: its actors, its steps with their
  texts and moves, and the proof that it is well-formed for the engine.
\<close>

definition auditship_actors :: "actor list" where
  \<open>auditship_actors =
    [(act ''ops'' ''person'' ''Operator'' (- 6.8) 4.4)\<lparr>a_sub := Some ''issues, revokes''\<rparr>,
     (act ''db'' ''db'' ''Audit table'' (- 4.2) (- 1.6))\<lparr>a_sub := Some (''hash chain '' @ [CHR 0xB7] @ '' append-only''), a_anchorY := Some 1.1\<rparr>,
     (act ''shipper'' ''gateway'' ''Audit shipper'' 0.6 0.4)\<lparr>a_sub := Some (''Ed25519 '' @ [CHR 0xB7] @ '' cursor per sink''), a_anchorY := Some 1.5\<rparr>,
     (act ''siem'' ''chart'' ''SIEM'' 6.6 (- 3.6))\<lparr>a_sub := Some (''syslog TLS '' @ [CHR 0xB7] @ '' Splunk HEC''), a_anchorY := Some 1.0\<rparr>,
     (act ''s3'' ''cloud'' ''S3 Object Lock'' 6.8 3.2)\<lparr>a_sub := Some (''COMPLIANCE '' @ [CHR 0xB7] @ '' 7 years''), a_anchorY := Some 1.2\<rparr>,
     (act ''auditor'' ''person'' ''Internal audit'' 2.4 7.0)\<lparr>a_sub := Some ''public key only''\<rparr>,
     (act ''attacker'' ''terminal'' ''DB owner (rogue)'' (- 7.2) (- 5.4))\<lparr>a_sub := Some ''drops the triggers'', a_anchorY := Some 0.9, a_labelY := Some 1.9\<rparr>]\<close>

definition auditship_step_1 :: step where
  \<open>auditship_step_1 = stp ''Record''
    ''Every action is a link in a hash chain''
    ''Each audit event stores the hash of the previous one, so changing any event breaks every link after it. The table refuses UPDATE and DELETE.''
    ''hash = SHA-256(prev_hash | ts | actor | action | target | details)\<newline>\<newline>#411 certificate.issue    prev 3a9f...  hash 9c1e...\<newline>#412 certificate.revoke   prev 9c1e...  hash b04d...''
    [(mv ''ops'' ''db'' ''certificate.revoke'')\<lparr>m_effect := Some ''store''\<rparr>]\<close>

definition auditship_step_2 :: step where
  \<open>auditship_step_2 = stp ''Ship''
    ''Signed and sent within seconds''
    ''Every 15 seconds the shipper takes what each sink has not seen, checks the database still continues the chain it already shipped, and signs every record with an Ed25519 key that never leaves the host.''
    ''{"id": 412, "action": "certificate.revoke", "prev_hash": "9c1e...", "hash": "b04d...",\<newline> "instance": "https://pki.bank.internal",\<newline> "kid": "5e0b9a2c4d1f8e37", "sig": "MEUCIQ...", "mac": "d2a1..."}''
    [(mv ''db'' ''shipper'' ''events after cursor'')\<lparr>m_kind := Some ''response''\<rparr>,
     (mv ''shipper'' ''shipper'' ''chain continues? sign'')\<lparr>m_effect := Some ''sign'', m_local := True\<rparr>]\<close>

definition auditship_step_3 :: step where
  \<open>auditship_step_3 = stp ''Ship''
    ''Two places, two owners''
    ''Records go over TLS to the SOC\'s SIEM for search and correlation, and as one object per batch to an S3 bucket with Object Lock in COMPLIANCE mode. Not even the bucket owner can delete those objects before retention ends.''
    ''<109>1 2026-11-04T02:51:07Z pki certadillo - certificate.revoke - {...}\<newline>\<newline>PUT s3://pki-audit/certadillo/prod/000000000401-000000000412.jsonl\<newline>  x-amz-object-lock-mode: COMPLIANCE\<newline>  x-amz-object-lock-retain-until-date: 2033-11-02''
    [(mv ''shipper'' ''siem'' ''syslog over TLS'')\<lparr>m_kind := Some ''secret''\<rparr>,
     (mv ''shipper'' ''s3'' ''PutObject (locked)'')\<lparr>m_kind := Some ''secret'', m_effect := Some ''store''\<rparr>]\<close>

definition auditship_step_4 :: step where
  \<open>auditship_step_4 = stp ''Verify''
    ''Checked by someone who cannot forge''
    ''Internal audit holds only the public key. verify-export recomputes every hash, checks every link and every signature. They can prove the copy is intact, but could not produce a record that verifies.''
    ''certadillo audit verify-export prod-2026-11.jsonl --public-key certadillo-audit.pub --no-mac\<newline>\<newline>{"valid": true, "records": 18342, "from_genesis": true,\<newline> "signatures_checked": true, "problems": []}''
    [(mv ''s3'' ''auditor'' ''download export'')\<lparr>m_kind := Some ''response''\<rparr>,
     (mv ''auditor'' ''auditor'' (''hashes '' @ [CHR 0xB7] @ '' links '' @ [CHR 0xB7] @ '' signatures''))\<lparr>m_effect := Some ''check'', m_dilly := Some ''happy'', m_local := True\<rparr>]\<close>

definition auditship_step_5 :: step where
  \<open>auditship_step_5 = stp ''Attack''
    ''History rewritten in the database''
    ''Someone with database owner rights drops the trigger and rewrites event 412 to hide the revocation, recomputing the hash. Inside the database the chain may look fine again.''
    ''DROP TRIGGER audit_events_no_update;\<newline>UPDATE audit_events SET details = \'{}\', hash = \'<recomputed>\' WHERE id = 412;''
    [(mv ''attacker'' ''db'' ''rewrite #412'')\<lparr>m_kind := Some ''secret'', m_effect := Some ''burn'', m_dilly := Some ''worried''\<rparr>]\<close>

definition auditship_step_6 :: step where
  \<open>auditship_step_6 = stp ''Attack''
    ''The shipper stops and raises the alarm''
    ''The next event\'s prev_hash no longer matches the hash the shipper already sent. It refuses to ship anything past the break and AuditShippingFailing goes critical. The SIEM and the locked bucket still hold the original #412.''
    ''chain break after event 412: the history was changed after it was shipped\<newline>alert AuditShippingFailing (critical)\<newline>\<newline>shipped copy:  #412 certificate.revoke  hash b04d...   (original, signed)''
    [(mv ''db'' ''shipper'' ''#413 prev != b04d'')\<lparr>m_kind := Some ''reject'', m_effect := Some ''reject''\<rparr>,
     (mv ''shipper'' ''siem'' ''AuditShippingFailing'')\<lparr>m_kind := Some ''reject'', m_effect := Some ''burn'', m_dilly := Some ''rolled''\<rparr>]\<close>

definition auditship_step_7 :: step where
  \<open>auditship_step_7 = stp ''Attack''
    ''Forging the export does not work either''
    ''Editing a shipped record and recomputing its hash keeps the chain intact, but the signature no longer verifies, and stripping the signatures fails too. The only key that signs is on the Certadillo host, encrypted under the key passphrase.''
    ''verify-export rewritten.jsonl --public-key certadillo-audit.pub\<newline>{"valid": false,\<newline> "problems": [{"id": 412, "problem": "signature does not verify (not from this Certadillo)"}]}''
    [(mv ''auditor'' ''auditor'' ''signature fails'')\<lparr>m_effect := Some ''reject'', m_local := True\<rparr>]\<close>

definition auditship_scene :: scene where
  \<open>auditship_scene = \<lparr>d_id = ''auditship'', d_title = ''Tamper-evident audit shipping'',
     d_dilly = Some ''shipper'', d_chainAt = Some ''db'',
     d_chainOffset = Some (1.2, 0.2), d_platformRadius = None,
     d_camera = Some \<lparr>cam_theta = 0.3, cam_phi = 1.1, cam_radius = 21.5\<rparr>,
     d_actors = auditship_actors,
     d_steps = [auditship_step_1, auditship_step_2, auditship_step_3, auditship_step_4, auditship_step_5, auditship_step_6, auditship_step_7]\<rparr>\<close>

lemmas auditship_defs = auditship_scene_def
  auditship_step_1_def auditship_step_2_def auditship_step_3_def auditship_step_4_def auditship_step_5_def auditship_step_6_def auditship_step_7_def

lemma auditship_wf: "wf_scene auditship_scene"
  by (simp add: auditship_defs auditship_actors_def scene_check)

lemma auditship_steps: "length (d_steps auditship_scene) = 7" "d_id auditship_scene = ''auditship''"
  by (simp_all add: auditship_scene_def)

lemma auditship_break: "first_break auditship_scene = 2"
  by (simp add: first_break_def auditship_defs moves_of_def)

end
