(* ===== verification/Tour_Offlineroot.thy ===== *)
theory Tour_Offlineroot
  imports Scene_Invariants
begin

section \<open>Walkthrough: offlineroot\<close>

text \<open>
  The scene registered under the id \<open>offlineroot\<close> in \<open>kb-src/scenes-data.js\<close>: its actors, its steps with their
  texts and moves, and the proof that it is well-formed for the engine.
\<close>

definition offlineroot_actors :: "actor list" where
  \<open>offlineroot_actors =
    [(act ''operator'' ''person'' ''Operator'' (- 2.8) 7.0)\<lparr>a_sub := Some ''runs the ceremony''\<rparr>,
     (act ''witness'' ''person'' ''Witness'' 1.4 7.2)\<lparr>a_sub := Some ''a second person''\<rparr>,
     (act ''offline'' ''laptop'' ''Air-gapped machine'' (- 7.2) 1.0)\<lparr>a_sub := Some ''certadillo offline-root'', a_anchorY := Some 0.8\<rparr>,
     (act ''root'' ''ca'' ''Root CA'' (- 6.6) (- 4.4))\<lparr>a_sub := Some ''key on removable media'', a_anchorY := Some 1.6, a_labelY := Some 3.0\<rparr>,
     (act ''server'' ''shield'' ''Certadillo server'' 1.0 (- 1.0))\<lparr>a_sub := Some ''never holds the root key'', a_anchorY := Some 1.4\<rparr>,
     (act ''hsm'' ''hsm'' ''HSM'' 6.6 (- 3.6))\<lparr>a_sub := Some ''issuing CA key'', a_anchorY := Some 0.6, a_labelY := Some 1.5\<rparr>,
     (act ''db'' ''db'' ''Inventory + audit'' 5.4 3.6)\<lparr>a_anchorY := Some 1.1\<rparr>]\<close>

definition offlineroot_step_1 :: step where
  \<open>offlineroot_step_1 = stp ''Root''
    ''The root is born offline''
    ''On a machine that has never been on a network, the root key is generated, encrypted with a passphrase of at least 16 characters, and written to removable media with its self-signed certificate. The fingerprint goes on the ceremony form; every later step is checked against it.''
    ''certadillo offline-root init --dir /media/root-ca --org "Example Bank" --years 20\<newline>\<newline>{"root": "/media/root-ca/root.pem",\<newline> "sha256": "68a4e733a3e901ac584dbd36131145087ca396f41a3fd41a78faacbee99cbd89",\<newline> "not_after": "2046-11-04T06:07:03+00:00"}''
    [(mv ''operator'' ''offline'' ''init (passphrase)'')\<lparr>m_kind := Some ''secret''\<rparr>,
     (mv ''offline'' ''root'' ''root key, encrypted'')\<lparr>m_kind := Some ''secret'', m_effect := Some ''sign''\<rparr>]\<close>

definition offlineroot_step_2 :: step where
  \<open>offlineroot_step_2 = stp ''Issuing CA''
    ''The issuing key is made in the HSM''
    ''On the server side, the issuing CA\'s key is generated where CA keys live and never leaves it. Certadillo writes a CSR asking for a CA with pathlen 0 and the name constraints it is configured to require. Operator and witness are recorded.''
    ''certadillo ca offline-csr --name issuing-ca-1 --operator alice --witness bob --out issuing.csr\<newline>\<newline>audit: ca.offline.csr  key_ref pkcs11:issuing-ca-1  spki_sha256 d3cd9ea6...''
    [(mv ''server'' ''hsm'' ''generate key'')\<lparr>m_kind := Some ''secret'', m_effect := Some ''hsm''\<rparr>,
     (mv ''server'' ''db'' ''audit: ca.offline.csr'')\<lparr>m_kind := Some ''response'', m_effect := Some ''store''\<rparr>]\<close>

definition offlineroot_step_3 :: step where
  \<open>offlineroot_step_3 = stp ''Issuing CA''
    ''The root signs, offline''
    ''The CSR travels on media. Only the subject, the public key and the name constraints are taken from it; the CA flags, key usage, validity cap and CRL location are set by the tool. The subject and fingerprint are read aloud for the witness.''
    (''certadillo offline-root sign --dir /media/root-ca --csr issuing.csr --out issuing.pem '' @ [CHR 0x5C] @ ''\<newline>  --years 5 --crl-url https://pki.bank.internal/pki/crl/root-ca.crl\<newline>\<newline>BasicConstraints CA:TRUE pathlen:0 (critical)\<newline>KeyUsage keyCertSign, cRLSign (critical)\<newline>NameConstraints permitted DNS:bank.internal (critical, from the CSR)'')
    [(mv ''server'' ''offline'' ''issuing.csr (media)'')\<lparr>m_kind := Some ''local''\<rparr>,
     (mv ''root'' ''offline'' ''sign'')\<lparr>m_effect := Some ''sign''\<rparr>,
     (mv ''witness'' ''offline'' ''checks the fingerprint'')\<lparr>m_effect := Some ''check''\<rparr>]\<close>

definition offlineroot_step_4 :: step where
  \<open>offlineroot_step_4 = stp ''Import''
    ''The server checks everything it is given''
    ''The signed certificate must carry the key generated in the HSM, verify with the root\'s key (not just name it), be a pathlen 0 CA inside the root\'s validity, and keep the required name constraints. The root is stored with no key at all.''
    (''certadillo ca import-issuing --name issuing-ca-1 --cert issuing.pem --root root.pem '' @ [CHR 0x5C] @ ''\<newline>  --operator alice --witness bob\<newline>\<newline>root-ca       key_ref offline:68a4e733...   signer offline\<newline>issuing-ca-1  key_ref pkcs11:issuing-ca-1   signer pkcs11'')
    [(mv ''offline'' ''server'' ''issuing.pem + root.pem'')\<lparr>m_kind := Some ''response''\<rparr>,
     (mv ''server'' ''hsm'' ''key matches?'')\<lparr>m_effect := Some ''check'', m_dilly := Some ''happy''\<rparr>,
     (mv ''server'' ''db'' ''audit: ca.offline.import'')\<lparr>m_kind := Some ''response'', m_effect := Some ''store''\<rparr>]\<close>

definition offlineroot_step_5 :: step where
  \<open>offlineroot_step_5 = stp ''Import''
    ''A certificate with someone else\'s key is refused''
    ''If the certificate that comes back carries a different key, even one signed by the real root, the import stops. The same happens for a forged root that copies the real root\'s name, or a certificate that dropped the name constraints.''
    ''ceremony error: the certificate does not carry the key generated for this ceremony\<newline>ceremony error: the certificate\'s signature does not verify with the root\'s key\<newline>ceremony error: the certificate does not carry the name constraints this server requires''
    [(mv ''offline'' ''server'' ''wrong key'')\<lparr>m_kind := Some ''reject'', m_effect := Some ''reject'', m_dilly := Some ''worried''\<rparr>]\<close>

definition offlineroot_step_6 :: step where
  \<open>offlineroot_step_6 = stp ''CRL''
    ''The root CRL, twice a year''
    ''Only the offline root can sign its CRL, so it is signed at the ceremony and imported. The server checks the signature and refuses a CRL whose number is not newer, so an old CRL cannot be replayed to take a revocation back. CRLStale warns 30 days before it expires.''
    ''certadillo offline-root crl --dir /media/root-ca --out root.crl --days 180\<newline>certadillo ca import-crl --ca root-ca root.crl\<newline>{"ca": "root-ca", "crl_number": 2, "next_update": "2027-05-03T...", "revoked": 0}\<newline>\<newline>replay of CRL #1 -> 400 CRL number 1 is not newer than the current 2''
    [(mv ''root'' ''offline'' ''sign CRL'')\<lparr>m_effect := Some ''sign''\<rparr>,
     (mv ''offline'' ''server'' ''root.crl (media)'')\<lparr>m_kind := Some ''local''\<rparr>,
     (mv ''server'' ''db'' ''audit: ca.crl.import'')\<lparr>m_kind := Some ''response'', m_effect := Some ''store''\<rparr>]\<close>

definition offlineroot_scene :: scene where
  \<open>offlineroot_scene = \<lparr>d_id = ''offlineroot'', d_title = ''Offline root ceremony'',
     d_dilly = Some ''server'', d_chainAt = Some ''db'',
     d_chainOffset = Some (1.2, 0.2), d_platformRadius = None,
     d_camera = Some \<lparr>cam_theta = 0.3, cam_phi = 1.1, cam_radius = 21.5\<rparr>,
     d_actors = offlineroot_actors,
     d_steps = [offlineroot_step_1, offlineroot_step_2, offlineroot_step_3, offlineroot_step_4, offlineroot_step_5, offlineroot_step_6]\<rparr>\<close>

lemmas offlineroot_defs = offlineroot_scene_def
  offlineroot_step_1_def offlineroot_step_2_def offlineroot_step_3_def offlineroot_step_4_def offlineroot_step_5_def offlineroot_step_6_def

lemma offlineroot_wf: "wf_scene offlineroot_scene"
  by (simp add: offlineroot_defs offlineroot_actors_def scene_check)

lemma offlineroot_steps: "length (d_steps offlineroot_scene) = 6" "d_id offlineroot_scene = ''offlineroot''"
  by (simp_all add: offlineroot_scene_def)

lemma offlineroot_break: "first_break offlineroot_scene = 0"
  by (simp add: first_break_def offlineroot_defs moves_of_def)

end
