(* ===== verification/Tour_Codesign.thy ===== *)
theory Tour_Codesign
  imports Scene_Invariants
begin

section \<open>Walkthrough: codesign\<close>

text \<open>
  The scene registered under the id \<open>codesign\<close> in \<open>kb-src/scenes-data.js\<close>: its actors, its steps with their
  texts and moves, and the proof that it is well-formed for the engine.
\<close>

definition codesign_actors :: "actor list" where
  \<open>codesign_actors =
    [(act ''ci'' ''terminal'' ''Build pipeline'' (- 7.2) 1.8)\<lparr>a_sub := Some ''certadillo sign'', a_anchorY := Some 0.9, a_labelY := Some 1.9\<rparr>,
     (act ''svc'' ''shield'' ''Signing service'' (- 1.2) (- 0.6))\<lparr>a_sub := Some ''owning app only'', a_anchorY := Some 1.4\<rparr>,
     (act ''approver'' ''person'' ''Approver'' (- 3.4) 6.6)\<lparr>a_sub := Some ''release manager''\<rparr>,
     (act ''hsm'' ''hsm'' ''HSM'' 4.4 (- 4.6))\<lparr>a_sub := Some ''signing key'', a_anchorY := Some 0.6, a_labelY := Some 1.5\<rparr>,
     (act ''tsa'' ''gateway'' ''Time stamping'' 6.8 0.4)\<lparr>a_sub := Some ''RFC 3161 /tsa'', a_anchorY := Some 1.2\<rparr>,
     (act ''verifier'' ''laptop'' ''Anyone verifying'' 3.4 6.4)\<lparr>a_sub := Some ''openssl cms -verify'', a_anchorY := Some 0.8\<rparr>,
     (act ''db'' ''db'' ''Audit'' 0.6 4.2)\<lparr>a_anchorY := Some 1.1\<rparr>]\<close>

definition codesign_step_1 :: step where
  \<open>codesign_step_1 = stp ''Key''
    ''A signing key is a second-person decision''
    ''An operator asks for a release key for the release-bot app. An approver who is not the requester decides. The key is generated in the HSM and gets a certificate from the code-signing profile, which lands in the inventory so its expiry is watched.''
    ''POST /api/v1/signing/keys {"name": "payments-release", "app_id": 7, "purpose": "release"}\<newline>202 {"status": "pending_approval", "approval_id": 41}\<newline>POST /api/v1/approvals/41/approve   (approver)\<newline>audit: codesign.key.create  key_ref pkcs11:codesign-payments-release''
    [(mv ''approver'' ''svc'' ''approve #41'')\<lparr>m_effect := Some ''check''\<rparr>,
     (mv ''svc'' ''hsm'' ''generate key'')\<lparr>m_kind := Some ''secret'', m_effect := Some ''hsm''\<rparr>,
     (mv ''svc'' ''db'' ''audit'')\<lparr>m_kind := Some ''response'', m_effect := Some ''store''\<rparr>]\<close>

definition codesign_step_2 :: step where
  \<open>codesign_step_2 = stp ''Sign''
    ''The build sends a digest, not the file''
    ''The pipeline hashes its artifact locally and sends the digest with the artifact name, version and commit. Only the owning app\'s credential can ask this key. A release key does not sign yet: the request waits for an approver.''
    ''certadillo sign dist/payments-api-3.0.0.tar.gz --key payments-release --version 3.0.0 --commit 8a925e3\<newline>\<newline>POST /api/v1/signing/sign {"key": "payments-release", "digest_alg": "sha384",\<newline>  "digest": "ba46caa66521b492...", "artifact": {"name": "payments-api-3.0.0.tar.gz", ...}}\<newline>202 {"id": 18, "status": "pending", "approval_id": 52}''
    [mv ''ci'' ''svc'' ''digest + artifact'',
     (mv ''svc'' ''db'' ''approval #52'')\<lparr>m_kind := Some ''response'', m_effect := Some ''store''\<rparr>]\<close>

definition codesign_step_3 :: step where
  \<open>codesign_step_3 = stp ''Sign''
    ''Approved, then signed in the HSM''
    ''The release manager approves. The HSM signs the CMS signed attributes, which carry the artifact\'s digest; it never sees the artifact. The request now holds a CMS detached signature with the certificate chain.''
    ''POST /api/v1/approvals/52/approve\<newline>\<newline>SignerInfo { digestAlgorithm sha384, signedAttrs { contentType data, signingTime,\<newline>  messageDigest ba46caa6... }, signatureAlgorithm ecdsa-with-SHA384 }''
    [(mv ''approver'' ''svc'' ''approve #52'')\<lparr>m_effect := Some ''check'', m_dilly := Some ''happy''\<rparr>,
     (mv ''svc'' ''hsm'' ''sign signed attrs'')\<lparr>m_kind := Some ''secret'', m_effect := Some ''hsm''\<rparr>,
     (mv ''hsm'' ''svc'' ''signature'')\<lparr>m_kind := Some ''response'', m_effect := Some ''sign''\<rparr>]\<close>

definition codesign_step_4 :: step where
  \<open>codesign_step_4 = stp ''Sign''
    ''A timestamp keeps it valid after the certificate expires''
    ''The signature value is time-stamped by Certadillo\'s RFC 3161 unit and the token is attached as an unsigned attribute. Later, a verifier can show the signature was made while the certificate was valid.''
    ''TimeStampToken over SHA-256(signature)\<newline>TSTInfo { policy 2.25.<uuid>, genTime 2026-11-04T16:52:07Z, accuracy 1s }\<newline>signer: Time Stamping Unit issuing-ca-1 (EKU timeStamping, critical)''
    [mv ''svc'' ''tsa'' ''hash of signature'',
     (mv ''tsa'' ''svc'' ''timestamp token'')\<lparr>m_kind := Some ''response'', m_effect := Some ''sign''\<rparr>,
     (mv ''svc'' ''db'' ''audit: codesign.sign'')\<lparr>m_kind := Some ''response'', m_effect := Some ''store''\<rparr>,
     (mv ''svc'' ''ci'' ''payments-api-3.0.0.tar.gz.p7s'')\<lparr>m_kind := Some ''response''\<rparr>]\<close>

definition codesign_step_5 :: step where
  \<open>codesign_step_5 = stp ''Verify''
    ''Anyone checks it with standard tools''
    ''The signature is plain CMS. openssl verifies it against the artifact and the chain, and openssl ts verifies the embedded timestamp. A changed artifact fails.''
    (''openssl cms -verify -binary -inform DER -in payments-api-3.0.0.tar.gz.p7s '' @ [CHR 0x5C] @ ''\<newline>  -content payments-api-3.0.0.tar.gz -CAfile chain.pem -purpose any\<newline>CMS Verification successful'')
    [(mv ''ci'' ''verifier'' ''artifact + .p7s'')\<lparr>m_kind := Some ''local''\<rparr>,
     (mv ''verifier'' ''verifier'' ''signature + timestamp'')\<lparr>m_effect := Some ''check'', m_local := True\<rparr>]\<close>

definition codesign_step_6 :: step where
  \<open>codesign_step_6 = stp ''Refuse''
    ''Another team\'s pipeline cannot use the key''
    ''A credential from a different app asks the release key for a signature and is refused. A rejected release request never gets a signature, and both are in the audit trail.''
    ''POST /api/v1/signing/sign {"key": "payments-release", ...}   (app: online-banking-web)\<newline>403 {"error": "forbidden", "message": "this signing key belongs to another app"}''
    [(mv ''ci'' ''svc'' ''other app\'s key'')\<lparr>m_kind := Some ''reject'', m_effect := Some ''reject'', m_dilly := Some ''worried''\<rparr>]\<close>

definition codesign_scene :: scene where
  \<open>codesign_scene = \<lparr>d_id = ''codesign'', d_title = ''Code signing without handing out the key'',
     d_dilly = Some ''svc'', d_chainAt = Some ''db'',
     d_chainOffset = Some (1.2, 0.2), d_platformRadius = None,
     d_camera = Some \<lparr>cam_theta = 0.3, cam_phi = 1.1, cam_radius = 21.5\<rparr>,
     d_actors = codesign_actors,
     d_steps = [codesign_step_1, codesign_step_2, codesign_step_3, codesign_step_4, codesign_step_5, codesign_step_6]\<rparr>\<close>

lemmas codesign_defs = codesign_scene_def
  codesign_step_1_def codesign_step_2_def codesign_step_3_def codesign_step_4_def codesign_step_5_def codesign_step_6_def

lemma codesign_wf: "wf_scene codesign_scene"
  by (simp add: codesign_defs codesign_actors_def scene_check)

lemma codesign_steps: "length (d_steps codesign_scene) = 6" "d_id codesign_scene = ''codesign''"
  by (simp_all add: codesign_scene_def)

lemma codesign_break: "first_break codesign_scene = 0"
  by (simp add: first_break_def codesign_defs moves_of_def)

end
