(* ===== verification/Tours.thy ===== *)
theory Tours
  imports
    Playback
    Tour_Acme
    Tour_Devices
    Tour_Revocation
    Tour_Platform
    Tour_Ari
    Tour_Estlb
    Tour_Cmp
    Tour_Adcs
    Tour_Provision
    Tour_Policytree
    Tour_Upstream
    Tour_Discover
    Tour_Auditship
    Tour_Offlineroot
    Tour_Codesign
begin

section \<open>The fifteen shipped walkthroughs\<close>

text \<open>
  \<open>kb-src/scenes-data.js\<close> as a whole: the scenes in the order the file registers them, and the
  registry \<open>CertadilloScenes\<close> holds after the file has run.
\<close>

definition shipped :: "scene list" where
  "shipped = [acme_scene, devices_scene, revocation_scene, platform_scene, ari_scene, estlb_scene, cmp_scene, adcs_scene, provision_scene, policytree_scene, upstream_scene, discover_scene, auditship_scene, offlineroot_scene, codesign_scene]"

definition shipped_defs :: registry where
  "shipped_defs = fold register shipped Map.empty"

lemma fold_register_other: "i \<notin> set (map d_id scs) \<Longrightarrow> fold register scs defs i = defs i"
  by (induction scs arbitrary: defs) (auto simp: register_def)

text \<open>With distinct ids every registered scene is found under its own id.\<close>

lemma fold_register_lookup:
  "distinct (map d_id scs) \<Longrightarrow> sc \<in> set scs \<Longrightarrow> fold register scs defs (d_id sc) = Some sc"
proof (induction scs arbitrary: defs)
  case (Cons s scs)
  show ?case
  proof (cases "sc \<in> set scs")
    case True
    with Cons show ?thesis by simp
  next
    case False
    with Cons.prems have "sc = s" "d_id sc \<notin> set (map d_id scs)" by auto
    then have "fold register (s # scs) defs (d_id sc) = register s defs (d_id sc)"
      using fold_register_other [of "d_id sc" scs "register s defs"] by simp
    also have "\<dots> = Some sc"
      using \<open>sc = s\<close> by (simp add: register_def)
    finally show ?thesis .
  qed
qed simp

lemma fold_register_found: "fold register scs defs i = Some sc \<Longrightarrow> sc \<in> set scs \<or> defs i = Some sc"
proof (induction scs arbitrary: defs)
  case (Cons s scs)
  then have "sc \<in> set scs \<or> register s defs i = Some sc" by simp
  then show ?case by (auto simp: register_def split: if_splits)
qed simp

lemma shipped_distinct: "distinct (map d_id shipped)"
  by (simp add: shipped_def acme_steps devices_steps revocation_steps platform_steps ari_steps estlb_steps cmp_steps adcs_steps provision_steps policytree_steps upstream_steps discover_steps auditship_steps offlineroot_steps codesign_steps)

lemma shipped_wf: "sc \<in> set shipped \<Longrightarrow> wf_scene sc"
  using acme_wf devices_wf revocation_wf platform_wf ari_wf estlb_wf cmp_wf adcs_wf provision_wf policytree_wf upstream_wf discover_wf auditship_wf offlineroot_wf codesign_wf
  by (auto simp: shipped_def)

lemma shipped_early_break: "sc \<in> set shipped \<Longrightarrow> Suc (first_break sc) < length (d_steps sc)"
  by (auto simp: shipped_def acme_steps devices_steps revocation_steps platform_steps ari_steps estlb_steps cmp_steps adcs_steps provision_steps policytree_steps upstream_steps discover_steps auditship_steps offlineroot_steps codesign_steps
    acme_break devices_break revocation_break platform_break ari_break estlb_break cmp_break adcs_break provision_break policytree_break upstream_break discover_break auditship_break offlineroot_break codesign_break)

lemma shipped_lookup: "sc \<in> set shipped \<Longrightarrow> shipped_defs (d_id sc) = Some sc"
  unfolding shipped_defs_def by (rule fold_register_lookup [OF shipped_distinct])

lemma shipped_found: "shipped_defs i = Some sc \<Longrightarrow> sc \<in> set shipped \<and> d_id sc = i"
proof -
  assume f: "shipped_defs i = Some sc"
  then have s: "sc \<in> set shipped"
    using fold_register_found [of shipped Map.empty i sc] by (simp add: shipped_defs_def)
  have "i \<in> set (map d_id shipped)"
    using f fold_register_other [of i shipped Map.empty] by (auto simp: shipped_defs_def)
  then obtain sd where "sd \<in> set shipped" "d_id sd = i" by auto
  then show ?thesis
    using shipped_lookup [of sd] f s by auto
qed

lemma mount_shipped:
  assumes "sc \<in> set shipped"
  shows "\<exists>v. mount True None rd shipped_defs (d_id sc) now = (Some v, None) \<and> view_ok sc v \<and> stepIndex v = 0 \<and> \<not> stuck v"
  using construct_ok [OF shipped_wf [OF assms], of rd now] shipped_lookup [OF assms]
  by (auto simp: mount_def)

end
