(* ===== verification/Tour_Properties.thy ===== *)
theory Tour_Properties
  imports Tours Duo
begin

section \<open>The shipped walkthroughs in the player\<close>

text \<open>
  Properties of \<open>kb-src/scenes-data.js\<close> and \<open>kb-src/scenes-engine.js\<close> together: what the player does
  with the fifteen scenes it ships, and what \<open>mount\<close> answers for every registry.
\<close>

subsection \<open>Moods\<close>

text \<open>The moods that have a picture.\<close>

definition mood_known :: "string option \<Rightarrow> bool" where
  "mood_known m \<longleftrightarrow> (truthy m \<longrightarrow> List.member [''happy'', ''worried'', ''rolled''] (the m))"

definition moods_known :: "scene \<Rightarrow> bool" where
  "moods_known sc \<longleftrightarrow>
     list_all (\<lambda>s. mood_known (s_dilly s) \<and> list_all (\<lambda>m. mood_known (m_dilly m)) (moves_of s)) (d_steps sc)"

lemma move_mood_known: "mood_known d \<Longrightarrow> mood_known (m_dilly m) \<Longrightarrow> mood_known (move_mood d m)"
  by (simp add: move_mood_def)

lemma moves_mood_known:
  "mood_known d \<Longrightarrow> \<forall>m \<in> set ms. mood_known (m_dilly m) \<Longrightarrow> mood_known (foldl move_mood d ms)"
  by (induction ms arbitrary: d) (simp_all add: move_mood_known)

lemma own_mood_known: "mood_known d \<Longrightarrow> mood_known (s_dilly s) \<Longrightarrow> mood_known (own_mood d s)"
  by (simp add: own_mood_def)

lemma steps_mood_known:
  "mood_known d \<Longrightarrow> \<forall>s \<in> set ss. mood_known (s_dilly s) \<and> (\<forall>m \<in> set (moves_of s). mood_known (m_dilly m))
     \<Longrightarrow> mood_known (foldl step_mood d ss)"
  by (induction ss arbitrary: d) (simp_all add: step_mood_def moves_mood_known own_mood_known)

lemma view_mood_known:
  assumes v: "view_ok sc v" and k: "moods_known sc"
  shows "mood_known (pendingMood v)"
proof -
  have core: "core_ok sc v" using v by (simp add: view_ok_def playback_ok_def)
  have all: "\<forall>s \<in> set (d_steps sc). mood_known (s_dilly s) \<and> (\<forall>m \<in> set (moves_of s). mood_known (m_dilly m))"
    using k by (simp add: moods_known_def list_all_iff)
  have st: "steps_of v = d_steps sc" using core by (simp add: core_ok_def steps_of_def)
  obtain dn rest where s: "script v dn rest"
    using v by (auto simp: view_ok_def playback_ok_def)
  have cur: "current v \<in> set (d_steps sc)" using current_in [OF core] .
  have "mood_known (foldl step_mood (Some ''happy'') (take (nat (stepIndex v)) (steps_of v)))"
    using all st by (intro steps_mood_known) (auto simp: mood_known_def dest: in_set_takeD)
  then have "mood_known (base_mood v)"
    unfolding base_mood_def using all cur own_mood_known by blast
  moreover have "\<forall>m \<in> set dn. mood_known (m_dilly m)"
    using all cur s by (auto simp: script_def)
  ultimately show ?thesis
    using s moves_mood_known by (simp add: script_def)
qed

lemma known_file: "mood_known m \<Longrightarrow> dilly_file m \<in> {''dilly.svg'', ''dilly-worried.svg'', ''dilly-rolled.svg''}"
  by (auto simp: mood_known_def dilly_file_def Let_def)

lemma acme_moods: "moods_known acme_scene"
  by (simp add: moods_known_def acme_defs moves_of_def mood_known_def)

lemma devices_moods: "moods_known devices_scene"
  by (simp add: moods_known_def devices_defs moves_of_def mood_known_def)

lemma revocation_moods: "moods_known revocation_scene"
  by (simp add: moods_known_def revocation_defs moves_of_def mood_known_def)

lemma platform_moods: "moods_known platform_scene"
  by (simp add: moods_known_def platform_defs moves_of_def mood_known_def)

lemma ari_moods: "moods_known ari_scene"
  by (simp add: moods_known_def ari_defs moves_of_def mood_known_def)

lemma estlb_moods: "moods_known estlb_scene"
  by (simp add: moods_known_def estlb_defs moves_of_def mood_known_def)

lemma cmp_moods: "moods_known cmp_scene"
  by (simp add: moods_known_def cmp_defs moves_of_def mood_known_def)

lemma adcs_moods: "moods_known adcs_scene"
  by (simp add: moods_known_def adcs_defs moves_of_def mood_known_def)

lemma provision_moods: "moods_known provision_scene"
  by (simp add: moods_known_def provision_defs moves_of_def mood_known_def)

lemma policytree_moods: "moods_known policytree_scene"
  by (simp add: moods_known_def policytree_defs moves_of_def mood_known_def)

lemma upstream_moods: "moods_known upstream_scene"
  by (simp add: moods_known_def upstream_defs moves_of_def mood_known_def)

lemma discover_moods: "moods_known discover_scene"
  by (simp add: moods_known_def discover_defs moves_of_def mood_known_def)

lemma auditship_moods: "moods_known auditship_scene"
  by (simp add: moods_known_def auditship_defs moves_of_def mood_known_def)

lemma offlineroot_moods: "moods_known offlineroot_scene"
  by (simp add: moods_known_def offlineroot_defs moves_of_def mood_known_def)

lemma codesign_moods: "moods_known codesign_scene"
  by (simp add: moods_known_def codesign_defs moves_of_def mood_known_def)

lemma shipped_moods: "sc \<in> set shipped \<Longrightarrow> moods_known sc"
  using acme_moods devices_moods revocation_moods platform_moods ari_moods
    estlb_moods cmp_moods adcs_moods provision_moods policytree_moods
    upstream_moods discover_moods auditship_moods offlineroot_moods codesign_moods
  by (auto simp: shipped_def)

subsection \<open>Properties\<close>

text \<open>C15: every one of the fifteen shipped walkthroughs is found under its own id, mounts at its first
  step, and no sequence of events makes it throw.\<close>

theorem shipped_walkthroughs_mount:
  assumes "sc \<in> set shipped"
  shows "\<exists>v. mount True None rd shipped_defs (d_id sc) now = (Some v, None) \<and> stepIndex v = 0
    \<and> (\<forall>es. all_enabled rd es v \<longrightarrow> thrown (handle rd) es v = [] \<and> view_ok sc (run_events rd es v))"
proof -
  obtain v where v: "mount True None rd shipped_defs (d_id sc) now = (Some v, None)" "view_ok sc v" "stepIndex v = 0"
    using mount_shipped [OF assms] by blast
  then show ?thesis
    using player.run_quiet [of sc v] player.run_keeps [of sc v] unfolding all_enabled_def run_events_def by blast
qed

theorem shipped_walkthroughs_mount_witness:
  "\<exists>v. mount True None False shipped_defs ''acme'' 0 = (Some v, None) \<and> stepIndex v = 0
    \<and> thrown (handle False) [Click_step 12, Click_next, Click_play, Frame False 16] v = []"
proof -
  have "acme_scene \<in> set shipped" by (simp add: shipped_def)
  from shipped_walkthroughs_mount [OF this, of False 0]
  obtain v where v: "mount True None False shipped_defs ''acme'' 0 = (Some v, None)" "stepIndex v = 0"
      "\<forall>es. all_enabled False es v \<longrightarrow> thrown (handle False) es v = [] \<and> view_ok acme_scene (run_events False es v)"
    by (auto simp: acme_steps)
  moreover have "all_enabled False [] v" by simp
  then have "view_ok acme_scene v" using v(3) by fastforce
  then have "steps_of v = d_steps acme_scene"
    by (simp add: view_ok_def playback_ok_def core_ok_def steps_of_def)
  then have "all_enabled False [Click_step 12, Click_next, Click_play, Frame False 16] v"
    by (simp add: acme_steps)
  ultimately show ?thesis by blast
qed

text \<open>C22: none of the shipped walkthroughs plays to its end. From the mounted view, Play and animation
  frames alone, for however long, never show the last step.\<close>

theorem shipped_walkthroughs_never_finish:
  assumes "sc \<in> set shipped" "mount True None rd shipped_defs (d_id sc) now = (Some v, None)"
    and "all_enabled rd es v" "\<forall>e \<in> set es. \<not> navigates e"
  shows "stepIndex (run_events rd es v) \<le> int (first_break sc)
    \<and> int (first_break sc) < int (length (d_steps sc)) - 1"
proof -
  have b: "int (first_break sc) < int (length (d_steps sc)) - 1"
    using shipped_early_break [OF assms(1)] by linarith
  have "upto_step sc (first_break sc) v"
    using mount_shipped [OF assms(1), of rd now] assms(2) by (auto simp: upto_step_def)
  then show ?thesis
    using passive_run_upto [OF _ first_break_step(1) _ assms(3,4)] b by (auto simp: upto_step_def)
qed

theorem shipped_walkthroughs_never_finish_witness:
  "\<exists>v. mount True None False shipped_defs ''revocation'' 0 = (Some v, None)
     \<and> stepIndex (run_events False (Click_play # map (\<lambda>i. Frame False (of_nat i * 16)) [1..<2000]) v) \<le> 1"
proof -
  have s: "revocation_scene \<in> set shipped" by (simp add: shipped_def)
  obtain v where v: "mount True None False shipped_defs (d_id revocation_scene) 0 = (Some v, None)"
    using mount_shipped [OF s] by blast
  let ?es = "Click_play # map (\<lambda>i. Frame False (of_nat i * 16)) [1..<2000]"
  have "all_allowed enabled h (map (\<lambda>i. Frame False (f i)) xs) w" for h f xs w
    by (induction xs arbitrary: w) simp_all
  then have "all_enabled False ?es v" by (simp add: all_enabled_def)
  then show ?thesis
    using shipped_walkthroughs_never_finish [OF s v, of ?es] v by (auto simp: revocation_steps revocation_break)
qed

text \<open>C38: the mascot is never asked for a picture that does not exist: in every view a shipped
  walkthrough reaches, the file of its mood is one of the three that ship beside the page.\<close>

theorem mascot_pictures_exist:
  assumes "sc \<in> set shipped" "reach rd sc v"
  shows "dilly_file (pendingMood v) \<in> {''dilly.svg'', ''dilly-worried.svg'', ''dilly-rolled.svg''}"
  by (rule known_file [OF view_mood_known [OF reach_ok [OF assms(2) shipped_wf [OF assms(1)]] shipped_moods [OF assms(1)]]])

theorem mascot_pictures_exist_witness:
  "\<exists>v. reach False revocation_scene v
     \<and> dilly_file (pendingMood v) \<in> {''dilly.svg'', ''dilly-worried.svg'', ''dilly-rolled.svg''}"
proof -
  have s: "revocation_scene \<in> set shipped" by (simp add: shipped_def)
  obtain v where "construct False revocation_scene 0 = (None, v)"
    using construct_ok [OF shipped_wf [OF s]] by blast
  then show ?thesis
    using mascot_pictures_exist [OF s] reach.mounted by blast
qed



end
