(* ===== verification/Three_Graph.thy ===== *)
theory Three_Graph
  imports Scene_Engine
begin

section \<open>What the walkthroughs draw\<close>

text \<open>
  The objects \<open>kb-src/scenes-engine.js\<close> builds with three.js, as trees: an object has a pose, a mesh or
  sprite of its own and children.  The constructors are those of the library with the arguments the code
  passes; what the library computes from them is not described.  Then the helpers of the file: \<open>mat\<close>,
  \<open>roundRect\<close>, \<open>makeLabel\<close>, \<open>box\<close>, \<open>cyl\<close> and \<open>keyhole\<close>.  \<open>Math_PI\<close> is the double the language gives.
\<close>

subsection \<open>Objects\<close>

type_synonym vec = "rat \<times> rat \<times> rat"

definition Math_PI :: rat where
  "Math_PI = 884279719003555 / 281474976710656"

text \<open>Functions whose values the language leaves to the implementation.\<close>

record maths =
  Math_sin :: "rat \<Rightarrow> rat"
  Math_cos :: "rat \<Rightarrow> rat"
  Math_sqrt :: "rat \<Rightarrow> rat"

datatype path_op =
    BeginPath
  | MoveTo rat rat
  | LineTo rat rat
  | QuadraticCurveTo rat rat rat rat
  | ClosePath

datatype geometry =
    BoxGeometry rat rat rat
  | CylinderGeometry rat rat rat nat
  | OpenCylinder rat rat rat nat nat
  | SphereGeometry rat nat nat
  | SpherePart rat nat nat rat rat rat rat
  | OctahedronGeometry rat
  | CapsuleGeometry rat rat nat nat
  | ConeGeometry rat rat nat nat
  | TorusGeometry rat rat nat nat
  | RingGeometry rat rat nat
  | PolarGrid rat nat nat nat nat nat
  | ExtrudeGeometry "path_op list" rat rat rat nat

record material =
  mt_standard :: bool
  mt_color :: nat
  mt_roughness :: rat
  mt_metalness :: rat
  mt_emissive :: nat
  mt_emissiveIntensity :: rat
  mt_transparent :: bool
  mt_opacity :: rat
  mt_wireframe :: bool
  mt_double :: bool

record pose =
  ps_position :: vec
  ps_rotation :: vec
  ps_scale :: vec
  ps_cast :: bool
  ps_receive :: bool

datatype canvas_op =
    FillPath string "path_op list"
  | FillText string string string rat rat

record picture =
  pc_ops :: "canvas_op list"
  pc_width :: rat
  pc_height :: rat

datatype kind =
    Mesh geometry material
  | Group
  | Label picture
  | Mascot string
  | Dashes nat "vec list"
  | HemisphereLight nat nat rat
  | DirectionalLight nat rat nat rat

datatype object = Object (kind_of: kind) (pose_of: pose) (children_of: "object list")

definition at_rest :: pose where
  "at_rest = \<lparr>ps_position = (0, 0, 0), ps_rotation = (0, 0, 0), ps_scale = (1, 1, 1), ps_cast = False, ps_receive = False\<rparr>"

definition mesh :: "geometry \<Rightarrow> material \<Rightarrow> object" where
  "mesh g m = Object (Mesh g m) at_rest []"

text \<open>A group after its calls of \<open>add\<close>.\<close>

definition group :: "object list \<Rightarrow> object" where
  "group os = Object Group at_rest os"

definition move_to :: "vec \<Rightarrow> object \<Rightarrow> object" where
  "move_to p x = Object (kind_of x) ((pose_of x)\<lparr>ps_position := p\<rparr>) (children_of x)"

definition rise_to :: "rat \<Rightarrow> object \<Rightarrow> object" where
  "rise_to y x = (case ps_position (pose_of x) of (a, b, c) \<Rightarrow> move_to (a, y, c) x)"

definition turn_to :: "vec \<Rightarrow> object \<Rightarrow> object" where
  "turn_to r x = Object (kind_of x) ((pose_of x)\<lparr>ps_rotation := r\<rparr>) (children_of x)"

definition scale_to :: "vec \<Rightarrow> object \<Rightarrow> object" where
  "scale_to s x = Object (kind_of x) ((pose_of x)\<lparr>ps_scale := s\<rparr>) (children_of x)"

definition casting :: "object \<Rightarrow> object" where
  "casting x = Object (kind_of x) ((pose_of x)\<lparr>ps_cast := True\<rparr>) (children_of x)"

definition receiving :: "object \<Rightarrow> object" where
  "receiving x = Object (kind_of x) ((pose_of x)\<lparr>ps_receive := True\<rparr>) (children_of x)"

subsection \<open>Materials and colours\<close>

text \<open>\<open>x || d\<close> for numbers that may be missing.\<close>

definition num_or :: "'a::zero option \<Rightarrow> 'a \<Rightarrow> 'a" where
  "num_or x d = (case x of Some v \<Rightarrow> if v = 0 then d else v | None \<Rightarrow> d)"

definition color :: "string \<Rightarrow> nat" where
  "color k = (case colors k of Some c \<Rightarrow> c | None \<Rightarrow> 0)"

record mat_opts =
  rough :: "rat option"
  metal :: "rat option"
  emissive :: "nat option"
  ei :: "rat option"
  opacity :: "rat option"

definition no_opts :: mat_opts where
  "no_opts = \<lparr>rough = None, metal = None, emissive = None, ei = None, opacity = None\<rparr>"

definition mat :: "nat \<Rightarrow> mat_opts \<Rightarrow> material" where
  "mat c opts = \<lparr>mt_standard = True, mt_color = c,
     mt_roughness = (case rough opts of None \<Rightarrow> 0.55 | Some r \<Rightarrow> r), mt_metalness = num_or (metal opts) 0.05,
     mt_emissive = num_or (emissive opts) 0, mt_emissiveIntensity = num_or (ei opts) 0,
     mt_transparent = (num_or (opacity opts) 0 \<noteq> 0), mt_opacity = num_or (opacity opts) 1,
     mt_wireframe = False, mt_double = False\<rparr>"

definition glowing :: "nat \<Rightarrow> rat \<Rightarrow> mat_opts" where
  "glowing c i = no_opts\<lparr>emissive := Some c, ei := Some i\<rparr>"

text \<open>A \<open>MeshBasicMaterial\<close> that is transparent.\<close>

definition basic_mat :: "nat \<Rightarrow> rat \<Rightarrow> material" where
  "basic_mat c a = \<lparr>mt_standard = False, mt_color = c, mt_roughness = 0, mt_metalness = 0, mt_emissive = 0,
     mt_emissiveIntensity = 0, mt_transparent = True, mt_opacity = a, mt_wireframe = False, mt_double = False\<rparr>"

subsection \<open>Labels\<close>

definition roundRect :: "rat \<Rightarrow> rat \<Rightarrow> rat \<Rightarrow> rat \<Rightarrow> rat \<Rightarrow> path_op list" where
  "roundRect x y w h r =
     [BeginPath,
      MoveTo (x + r) y, LineTo (x + w - r) y, QuadraticCurveTo (x + w) y (x + w) (y + r),
      LineTo (x + w) (y + h - r), QuadraticCurveTo (x + w) (y + h) (x + w - r) (y + h),
      LineTo (x + r) (y + h), QuadraticCurveTo x (y + h) x (y + h - r),
      LineTo x (y + r), QuadraticCurveTo x y (x + r) y, ClosePath]"

definition hex_digit :: "nat \<Rightarrow> char" where
  "hex_digit n = ''0123456789abcdef'' ! (n mod 16)"

text \<open>\<open>new THREE.Color(c).getHexString()\<close>.\<close>

definition hex_string :: "nat \<Rightarrow> string" where
  "hex_string c = map (\<lambda>i. hex_digit (c div 16 ^ i)) [5, 4, 3, 2, 1, 0]"

definition title_font :: string where
  "title_font = ''600 52px '' @ [CHR 0x27] @ ''IBM Plex Sans'' @ [CHR 0x27] @ '', system-ui, sans-serif''"

definition sub_font :: string where
  "sub_font = ''500 36px '' @ [CHR 0x27] @ ''IBM Plex Mono'' @ [CHR 0x27] @ '', ui-monospace, monospace''"

text \<open>The size of the plate; \<open>metrics font text\<close> is the width the canvas measures.\<close>

definition label_dpr :: rat where "label_dpr = 2"
definition label_pad :: rat where "label_pad = 14 * label_dpr"

definition label_width :: "(string \<Rightarrow> string \<Rightarrow> rat) \<Rightarrow> string \<Rightarrow> string option \<Rightarrow> rat" where
  "label_width metrics t sub = of_int \<lceil>max (metrics title_font t) (if truthy sub then metrics sub_font (the sub) else 0)
     + label_pad * 2 + 6 * label_dpr\<rceil>"

definition label_height :: "string option \<Rightarrow> rat" where
  "label_height sub = of_int \<lceil>(if truthy sub then 70 else 46) * label_dpr\<rceil>"

text \<open>What is drawn: a path or a text with its fill style; a text has its font and the place it starts at.\<close>

definition label_ops :: "(string \<Rightarrow> string \<Rightarrow> rat) \<Rightarrow> string \<Rightarrow> string option \<Rightarrow> nat option \<Rightarrow> canvas_op list" where
  "label_ops metrics t sub accent = (let w = label_width metrics t sub; h = label_height sub in
     [FillPath ''rgba(12,24,22,0.88)'' (roundRect 0 0 w h (10 * label_dpr)),
      FillPath (''#'' @ hex_string (num_or accent (color ''tealBright''))) (roundRect 0 0 (6 * label_dpr) h (3 * label_dpr)),
      FillText ''#f2f6f5'' title_font t (label_pad + 4 * label_dpr) (10 * label_dpr)]
     @ (if truthy sub then [FillText ''#9fb7b3'' sub_font (the sub) (label_pad + 4 * label_dpr) (42 * label_dpr)] else []))"

definition makeLabel :: "(string \<Rightarrow> string \<Rightarrow> rat) \<Rightarrow> string \<Rightarrow> string option \<Rightarrow> nat option \<Rightarrow> rat option \<Rightarrow> object" where
  "makeLabel metrics t sub accent scale =
     (let w = label_width metrics t sub; h = label_height sub; s = num_or scale 1 * 0.0125
      in scale_to (w * s / label_dpr, h * s / label_dpr, 1)
           (Object (Label \<lparr>pc_ops = label_ops metrics t sub accent, pc_width = w, pc_height = h\<rparr>) at_rest []))"

text \<open>Every text of a label ends inside its plate.\<close>

definition font_height :: "string \<Rightarrow> rat" where
  "font_height f = (if f = title_font then 52 else 36)"

fun text_inside :: "(string \<Rightarrow> string \<Rightarrow> rat) \<Rightarrow> rat \<Rightarrow> rat \<Rightarrow> canvas_op \<Rightarrow> bool" where
  "text_inside metrics w h (FillPath style path) = True"
| "text_inside metrics w h (FillText style f t x y) = (0 \<le> x \<and> x + metrics f t \<le> w \<and> 0 \<le> y \<and> y + font_height f \<le> h)"

lemma label_width_enough:
  "max (metrics title_font t) (if truthy sub then metrics sub_font (the sub) else 0) + label_pad * 2 + 6 * label_dpr
    \<le> label_width metrics t sub"
  unfolding label_width_def by (rule le_of_int_ceiling)

lemma label_holds_text:
  "list_all (text_inside metrics (label_width metrics t sub) (label_height sub)) (label_ops metrics t sub accent)"
  using label_width_enough [of metrics t sub]
  by (auto simp: label_ops_def Let_def label_pad_def label_dpr_def label_height_def font_height_def title_font_def sub_font_def split: if_splits)

subsection \<open>Shapes\<close>

definition box :: "rat \<Rightarrow> rat \<Rightarrow> rat \<Rightarrow> material \<Rightarrow> object" where
  "box w h d m = receiving (casting (mesh (BoxGeometry w h d) m))"

definition cyl :: "rat \<Rightarrow> rat \<Rightarrow> rat \<Rightarrow> nat \<Rightarrow> material \<Rightarrow> object" where
  "cyl rt rb h seg m = casting (mesh (CylinderGeometry rt rb h (if seg = 0 then 32 else seg)) m)"

definition keyhole :: "rat \<Rightarrow> nat option \<Rightarrow> object" where
  "keyhole sz c =
     (let m = mat (num_or c (color ''gold'')) (no_opts\<lparr>metal := Some 0.6, rough := Some 0.3,
            emissive := Some (num_or c (color ''gold'')), ei := Some 0.25\<rparr>);
          hole = mat (color ''ink'') no_opts
      in group
        [turn_to (Math_PI / 2, 0, 0) (cyl sz sz 0.05 32 m),
         move_to (0, sz * 0.15, 0.01) (turn_to (Math_PI / 2, 0, 0) (cyl (sz * 0.3) (sz * 0.3) 0.06 20 hole)),
         move_to (0, - sz * 0.2, 0.01) (box (sz * 0.26) (sz * 0.5) 0.06 hole)])"

subsection \<open>Well-formed objects\<close>

text \<open>
  What the library asks for: sizes are positive, solids have the segments they need, and the numbers of a
  material lie between 0 and 1.
\<close>

fun geometry_ok :: "geometry \<Rightarrow> bool" where
  "geometry_ok (BoxGeometry w h d) = (0 < w \<and> 0 < h \<and> 0 < d)"
| "geometry_ok (CylinderGeometry a b h n) = (0 < a \<and> 0 < b \<and> 0 < h \<and> 3 \<le> n)"
| "geometry_ok (OpenCylinder a b h n k) = (0 < a \<and> 0 < b \<and> 0 < h \<and> 3 \<le> n \<and> 1 \<le> k)"
| "geometry_ok (SphereGeometry r n k) = (0 < r \<and> 3 \<le> n \<and> 2 \<le> k)"
| "geometry_ok (SpherePart r n k a b c d) = (0 < r \<and> 3 \<le> n \<and> 2 \<le> k \<and> 0 < b \<and> 0 < d)"
| "geometry_ok (OctahedronGeometry r) = (0 < r)"
| "geometry_ok (CapsuleGeometry r l n k) = (0 < r \<and> 0 < l \<and> 1 \<le> n \<and> 3 \<le> k)"
| "geometry_ok (ConeGeometry r h n k) = (0 < r \<and> 0 < h \<and> 3 \<le> n \<and> 1 \<le> k)"
| "geometry_ok (TorusGeometry r t n k) = (0 < t \<and> t < r \<and> 2 \<le> n \<and> 3 \<le> k)"
| "geometry_ok (RingGeometry a b n) = (0 < a \<and> a < b \<and> 3 \<le> n)"
| "geometry_ok (PolarGrid r s k n c d) = (0 < r)"
| "geometry_ok (ExtrudeGeometry path d t s n) = (path \<noteq> [] \<and> last path = ClosePath \<and> 0 < d)"

definition unit_number :: "rat \<Rightarrow> bool" where
  "unit_number q \<longleftrightarrow> 0 \<le> q \<and> q \<le> 1"

definition material_ok :: "material \<Rightarrow> bool" where
  "material_ok m \<longleftrightarrow> unit_number (mt_roughness m) \<and> unit_number (mt_metalness m) \<and> unit_number (mt_opacity m)
     \<and> 0 \<le> mt_emissiveIntensity m \<and> mt_color m < 2 ^ 24 \<and> mt_emissive m < 2 ^ 24"

fun kind_ok :: "kind \<Rightarrow> bool" where
  "kind_ok (Mesh g m) = (geometry_ok g \<and> material_ok m)"
| "kind_ok (Label p) = (0 < pc_width p \<and> 0 < pc_height p)"
| "kind_ok _ = True"

fun object_ok :: "object \<Rightarrow> bool" where
  "object_ok (Object k p os) = (kind_ok k \<and> list_all object_ok os)"

lemma object_ok_pose [simp]:
  "object_ok (move_to p x) = object_ok x" "object_ok (turn_to p x) = object_ok x" "object_ok (scale_to p x) = object_ok x"
  "object_ok (rise_to y x) = object_ok x" "object_ok (casting x) = object_ok x" "object_ok (receiving x) = object_ok x"
  by (cases x; simp add: move_to_def turn_to_def scale_to_def rise_to_def casting_def receiving_def split: prod.split)+

lemma object_ok_new [simp]:
  "object_ok (mesh g m) = (geometry_ok g \<and> material_ok m)" "object_ok (group os) = list_all object_ok os"
  "object_ok (box w h d m) = (0 < w \<and> 0 < h \<and> 0 < d \<and> material_ok m)"
  by (simp_all add: mesh_def group_def box_def)

lemma object_ok_cyl [simp]:
  "object_ok (cyl a b h n m) = (0 < a \<and> 0 < b \<and> 0 < h \<and> (n = 0 \<or> 3 \<le> n) \<and> material_ok m)"
  by (simp add: cyl_def)

lemma material_ok_mat:
  "material_ok (mat c opts) = ((\<forall>r. rough opts = Some r \<longrightarrow> unit_number r) \<and> unit_number (num_or (metal opts) 0.05)
     \<and> unit_number (num_or (opacity opts) 1) \<and> 0 \<le> num_or (ei opts) 0 \<and> c < 2 ^ 24 \<and> num_or (emissive opts) 0 < 2 ^ 24)"
  by (auto simp: material_ok_def mat_def unit_number_def split: option.split)

lemma color_values:
  "color ''teal'' = 0x0f766e" "color ''tealBright'' = 0x2dd4bf" "color ''gold'' = 0xf2b233" "color ''ink'' = 0x10201e"
  "color ''graphite'' = 0x2a3634" "color ''green'' = 0x22c55e" "color ''blue'' = 0x3b82f6" "color ''red'' = 0xe5484d"
  by (simp_all add: color_def colors_def)

lemmas build_ok = material_ok_mat unit_number_def num_or_def no_opts_def glowing_def color_values

lemma keyhole_ok: "0 < sz \<Longrightarrow> (\<forall>n. c = Some n \<longrightarrow> n < 2 ^ 24) \<Longrightarrow> object_ok (keyhole sz c)"
  by (auto simp: keyhole_def Let_def build_ok split: option.split)

lemma label_ok:
  assumes "\<And>f t. 0 \<le> metrics f t"
  shows "object_ok (makeLabel metrics t sub accent scale)"
proof -
  have "0 < label_width metrics t sub"
    using label_width_enough [of metrics t sub] assms [of title_font t] by (simp add: label_pad_def label_dpr_def)
  then show ?thesis
    by (simp add: makeLabel_def Let_def label_height_def label_dpr_def)
qed

end
