(* ===== verification/Actor_Models.thy ===== *)
theory Actor_Models
  imports Three_Graph
begin

section \<open>The actors of the walkthroughs\<close>

text \<open>
  The table \<open>MODELS\<close> of \<open>kb-src/scenes-engine.js\<close>: one function per kind of actor, each the group of meshes
  it builds in the order it adds them.  Loops over small numbers are \<open>concat\<close> or \<open>map\<close> over the indices.
\<close>

abbreviation metallic :: "rat \<Rightarrow> mat_opts" where
  "metallic x \<equiv> no_opts\<lparr>metal := Some x\<rparr>"

abbreviation rough_as :: "rat \<Rightarrow> mat_opts" where
  "rough_as x \<equiv> no_opts\<lparr>rough := Some x\<rparr>"

abbreviation metal_rough :: "rat \<Rightarrow> rat \<Rightarrow> mat_opts" where
  "metal_rough x y \<equiv> no_opts\<lparr>metal := Some x, rough := Some y\<rparr>"

definition laptop :: object where
  "laptop = (let body = mat 0xc9d3d1 (metal_rough 0.4 0.35) in group
     [rise_to 0.04 (box 1.5 0.08 1.0 body),
      turn_to (- 0.28, 0, 0) (move_to (0, 0.08, - 0.47) (group
        [rise_to 0.475 (box 1.5 0.95 0.06 body),
         move_to (0, 0.48, 0.035) (box 1.36 0.8 0.02 (mat (color ''ink'') (glowing (color ''tealBright'') 0.35)))]))])"

definition server_unit :: "nat \<Rightarrow> object list" where
  "server_unit i = rise_to (0.2 + of_nat i * 0.4) (box 1.2 0.36 0.95 (mat (color ''graphite'') (metallic 0.3)))
     # map (\<lambda>j. move_to (- 0.45 + of_nat j * 0.12, 0.2 + of_nat i * 0.4, 0.48)
         (box 0.08 0.05 0.02 (mat (color ''green'') (glowing (color ''green'') 0.9)))) [0, 1, 2]"

definition server :: object where
  "server = group (concat (map server_unit [0, 1, 2]))"

definition gateway :: object where
  "gateway = group
     ([rise_to 0.85 (box 1.5 1.7 0.55 (mat 0xdfe7e5 (rough_as 0.4))),
       rise_to 1.3 (box 1.52 0.16 0.57 (mat (color ''teal'') (glowing (color ''tealBright'') 0.4)))]
      @ map (\<lambda>i. move_to (- 0.45 + of_nat i * 0.3, 0.55, 0.285) (box 0.22 0.12 0.02 (mat (color ''ink'') no_opts))) [0, 1, 2, 3::nat])"

definition shield_outline :: "path_op list" where
  "shield_outline = [MoveTo 0 1.5, LineTo 0.62 1.28, QuadraticCurveTo 0.66 0.45 0 0,
     QuadraticCurveTo (- 0.66) 0.45 (- 0.62) 1.28, ClosePath]"

definition shield :: object where
  "shield = group
     [move_to (0, 0.15, - 0.14) (casting (mesh (ExtrudeGeometry shield_outline 0.28 0.05 0.05 3)
        (mat (color ''teal'') (no_opts\<lparr>metal := Some 0.25, rough := Some 0.35, emissive := Some (color ''teal''), ei := Some 0.15\<rparr>)))),
      move_to (0, 0.95, 0.2) (keyhole 0.26 None)]"

definition golden :: "rat \<Rightarrow> rat \<Rightarrow> rat \<Rightarrow> mat_opts" where
  "golden m r e = no_opts\<lparr>metal := Some m, rough := Some r, emissive := Some (color ''gold''), ei := Some e\<rparr>"

definition ca :: object where
  "ca = group
     [rise_to 1.05 (cyl 0.38 0.62 2.1 6 (mat 0xe7eceb (rough_as 0.4))),
      rise_to 0.6 (cyl 0.5 0.5 0.12 6 (mat (color ''teal'') (glowing (color ''tealBright'') 0.3))),
      casting (rise_to 2.4 (mesh (OctahedronGeometry 0.34) (mat (color ''gold'') (golden 0.7 0.25 0.3))))]"

definition hsm :: object where
  "hsm = group
     ([rise_to 0.35 (box 1.2 0.7 0.9 (mat 0x1c2524 (metal_rough 0.5 0.3))),
       move_to (0.25, 0.38, 0.46) (keyhole 0.2 None)]
      @ map (\<lambda>i. move_to (- 0.4 + of_nat i * 0.13, 0.55, 0.46)
          (box 0.07 0.07 0.02 (mat (color ''gold'') (glowing (color ''gold'') 1)))) [0, 1, 2::nat])"

definition disk :: "nat \<Rightarrow> object list" where
  "disk i =
     [rise_to (0.2 + of_nat i * 0.42) (cyl 0.62 0.62 0.36 40 (mat (if odd i then 0x5b6b69 else 0x74868a) (metal_rough 0.3 0.4))),
      rise_to (0.4 + of_nat i * 0.42) (cyl 0.63 0.63 0.04 40 (mat (color ''tealBright'') (glowing (color ''tealBright'') 0.6)))]"

definition db :: object where
  "db = group (concat (map disk [0, 1, 2]))"

definition atm :: object where
  "atm = group
     [rise_to 0.85 (box 1.0 1.7 0.7 (mat 0x2f4a7a (rough_as 0.45))),
      turn_to (- 0.15, 0, 0) (move_to (0, 1.2, 0.36) (box 0.66 0.46 0.04 (mat (color ''ink'') (glowing (color ''blue'') 0.5)))),
      move_to (0, 0.7, 0.36) (box 0.5 0.05 0.05 (mat (color ''ink'') no_opts)),
      move_to (0, 0.86, 0.45) (box 0.5 0.06 0.3 (mat 0x9fb1c9 no_opts))]"

definition antenna :: "rat \<Rightarrow> object" where
  "antenna x = turn_to (0, 0, if 0 < x then - 0.15 else 0.15) (move_to (x, 0.72, - 0.3) (cyl 0.03 0.04 0.9 8 (mat 0x39413f no_opts)))"

definition router :: object where
  "router = group
     (rise_to 0.15 (box 1.3 0.3 0.8 (mat 0x39413f (metallic 0.3)))
      # map antenna [- 0.45, 0.45]
      @ map (\<lambda>i. move_to (- 0.4 + of_nat i * 0.2, 0.2, 0.41)
          (box 0.06 0.04 0.02 (mat (color ''green'') (glowing (color ''green'') 0.9)))) [0, 1, 2, 3, 4::nat])"

definition cloud :: object where
  "cloud = (let m = mat 0xf0f4f3 (rough_as 0.8) in group
     (map (\<lambda>(x, y, z, r). casting (move_to (x, y, z) (mesh (SphereGeometry r 24 16) m)))
        [(0, 0.7, 0, 0.5), (0.5, 0.6, 0, 0.38), (- 0.5, 0.6, 0, 0.4), (0.2, 0.95, 0.1, 0.38)]))"

definition globe :: object where
  "globe = group
     [casting (rise_to 0.8 (mesh (SphereGeometry 0.62 32 24)
        (mat (color ''blue'') (no_opts\<lparr>rough := Some 0.5, emissive := Some (color ''blue''), ei := Some 0.15\<rparr>)))),
      rise_to 0.8 (mesh (SphereGeometry 0.64 12 8) ((basic_mat 0xdbeafe 0.35)\<lparr>mt_wireframe := True\<rparr>)),
      rise_to 0.07 (cyl 0.3 0.4 0.14 24 (mat (color ''graphite'') no_opts))]"

text \<open>\<open>capsule\<close> says whether the library has \<open>CapsuleGeometry\<close>.\<close>

definition person :: "bool \<Rightarrow> nat option \<Rightarrow> object" where
  "person capsule c = group
     [casting (rise_to 0.65 (mesh (if capsule then CapsuleGeometry 0.3 0.6 6 16 else CylinderGeometry 0.3 0.3 1.1 16)
        (mat (num_or c 0x3f6f9f) no_opts))),
      casting (rise_to 1.42 (mesh (SphereGeometry 0.24 24 16) (mat 0xf2d3a7 no_opts)))]"

definition bell :: object where
  "bell = (let m = (mat (color ''gold'') (golden 0.7 0.3 0.15))\<lparr>mt_double := True\<rparr> in group
     [casting (rise_to 0.95 (mesh (OpenCylinder 0.2 0.62 0.9 32 1) m)),
      rise_to 1.4 (mesh (SphereGeometry 0.2 16 12) m),
      rise_to 0.48 (mesh (SphereGeometry 0.13 16 12) (mat (color ''graphite'') no_opts))])"

definition bar :: "nat \<Rightarrow> rat \<Rightarrow> object" where
  "bar i h = move_to (- 0.52 + of_nat i * 0.26, h / 2 + 0.08, 0) (box 0.2 h 0.2
     (mat (if i = 3 then color ''gold'' else color ''tealBright'') (glowing (if i = 3 then color ''gold'' else color ''teal'') 0.25)))"

definition chart :: object where
  "chart = group (rise_to 0.04 (box 1.4 0.08 0.8 (mat (color ''graphite'') no_opts))
     # map (\<lambda>(i, h). bar i h) (zip [0, 1, 2, 3, 4] [0.5, 0.9, 0.7, 1.3, 1.0]))"

definition radar :: object where
  "radar = group
     [rise_to 0.45 (cyl 0.08 0.12 0.9 12 (mat (color ''graphite'') no_opts)),
      rise_to 1.05 (turn_to (Math_PI * 0.72, 0, 0) (mesh (SpherePart 0.6 32 16 0 (Math_PI * 2) 0 (Math_PI / 3))
        ((mat 0xe7eceb (rough_as 0.35))\<lparr>mt_double := True\<rparr>)))]"

definition terminal :: object where
  "terminal = group
     [rise_to 0.75 (box 1.3 0.85 0.12 (mat 0x1b2423 no_opts)),
      move_to (0, 0.75, 0.07) (box 1.18 0.72 0.02 (mat (color ''ink'') (glowing (color ''green'') 0.25))),
      rise_to 0.17 (box 0.14 0.35 0.14 (mat 0x1b2423 no_opts))]"

definition k8s :: "maths \<Rightarrow> object" where
  "k8s m = group (rise_to 0.3 (cyl 0.62 0.62 0.22 7 (mat 0x326ce5 (glowing 0x326ce5 0.2)))
     # map (\<lambda>i. let a = of_nat i * Math_PI / 2 + 0.4
         in move_to (Math_cos m a * 0.35, 0.58, Math_sin m a * 0.35) (box 0.28 0.28 0.28 (mat 0xe7eceb no_opts))) [0, 1, 2, 3::nat])"

text \<open>\<open>MODELS\<close>, and the model of an actor: \<open>(MODELS[a.kind] || MODELS.server)(a.color)\<close>.\<close>

definition MODELS :: "maths \<Rightarrow> bool \<Rightarrow> (string \<times> (nat option \<Rightarrow> object)) list" where
  "MODELS m capsule =
     [(''laptop'', \<lambda>c. laptop), (''server'', \<lambda>c. server), (''gateway'', \<lambda>c. gateway), (''shield'', \<lambda>c. shield),
      (''ca'', \<lambda>c. ca), (''hsm'', \<lambda>c. hsm), (''db'', \<lambda>c. db), (''atm'', \<lambda>c. atm), (''router'', \<lambda>c. router),
      (''cloud'', \<lambda>c. cloud), (''globe'', \<lambda>c. globe), (''person'', person capsule), (''bell'', \<lambda>c. bell),
      (''chart'', \<lambda>c. chart), (''radar'', \<lambda>c. radar), (''terminal'', \<lambda>c. terminal), (''k8s'', \<lambda>c. k8s m)]"

definition actor_model :: "maths \<Rightarrow> bool \<Rightarrow> string \<Rightarrow> nat option \<Rightarrow> object" where
  "actor_model m capsule k c = (case map_of (MODELS m capsule) k of Some f \<Rightarrow> f c | None \<Rightarrow> server)"

subsection \<open>All models are well formed\<close>

lemma models_named: "map fst (MODELS m capsule) = model_kinds"
  by (simp add: MODELS_def model_kinds_def)

lemma actor_model_known: "actor_model m capsule k c = the (map_of (MODELS m capsule) (model_of k)) c"
proof (cases "k \<in> set model_kinds")
  case True
  then obtain f where "map_of (MODELS m capsule) k = Some f"
    by (metis models_named list.set_map map_of_eq_None_iff not_Some_eq)
  with True show ?thesis by (simp add: actor_model_def model_of_def)
next
  case False
  then have "map_of (MODELS m capsule) k = None"
    by (metis models_named list.set_map map_of_eq_None_iff)
  with False show ?thesis by (simp add: actor_model_def model_of_def MODELS_def)
qed

lemma basic_mat_ok: "material_ok ((basic_mat c a)\<lparr>mt_wireframe := b\<rparr>) \<longleftrightarrow> unit_number a \<and> c < 2 ^ 24"
  by (simp add: material_ok_def basic_mat_def unit_number_def)

lemma double_ok [simp]: "material_ok (m\<lparr>mt_double := b\<rparr>) = material_ok m"
  by (simp add: material_ok_def)

lemma machines_ok:
  "object_ok laptop" "object_ok server" "object_ok gateway" "object_ok atm" "object_ok router" "object_ok terminal"
  by (simp_all add: laptop_def server_def server_unit_def gateway_def atm_def router_def antenna_def terminal_def Let_def build_ok)

lemma services_ok:
  "object_ok shield" "object_ok ca" "object_ok hsm" "object_ok db" "object_ok radar" "object_ok chart"
  by (simp_all add: shield_def shield_outline_def ca_def hsm_def db_def disk_def radar_def chart_def bar_def golden_def keyhole_ok build_ok Math_PI_def Let_def)

lemma others_ok:
  "object_ok cloud" "object_ok globe" "object_ok bell" "object_ok (k8s m)" "\<forall>n. c = Some n \<longrightarrow> n < 2 ^ 24 \<Longrightarrow> object_ok (person capsule c)"
  by (auto simp: cloud_def globe_def bell_def k8s_def person_def golden_def basic_mat_ok build_ok Let_def split: option.split)

lemma models_ok:
  assumes "(k, f) \<in> set (MODELS m capsule)" "\<forall>n. c = Some n \<longrightarrow> n < 2 ^ 24"
  shows "object_ok (f c)"
  using assms by (auto simp: MODELS_def machines_ok services_ok others_ok)

lemma actor_model_ok:
  assumes "\<forall>n. c = Some n \<longrightarrow> n < 2 ^ 24"
  shows "object_ok (actor_model m capsule k c)"
  using models_ok [OF map_of_SomeD assms] machines_ok(2) by (auto simp: actor_model_def split: option.split)

end
