(* ===== verification/Js_Values.thy ===== *)
theory Js_Values
  imports Js_Prelude
begin

section \<open>JavaScript values and the library functions the pages use\<close>

text \<open>
  The values that flow through the console: what \<open>JSON.parse\<close> returns, \<open>undefined\<close>, and the
  console's own class \<open>SafeHtml\<close> (constructor \<open>Safe\<close>).  An expression that may throw has type
  \<open>js_error + 'a\<close>.  A number is an exact rational; an object is the list of its own properties.
\<close>

datatype jsval =
    Undefined
  | Null
  | Bool bool
  | Num rat
  | Str string
  | Arr "jsval list"
  | Obj "(string \<times> jsval) list"
  | Safe string

type_synonym 'a res = "js_error + 'a"

subsection \<open>Expressions that may throw\<close>

definition andThen :: "'a res \<Rightarrow> ('a \<Rightarrow> 'b res) \<Rightarrow> 'b res" where
  "andThen r f = (case r of Inl e \<Rightarrow> Inl e | Inr x \<Rightarrow> f x)"

lemma andThen_simps [simp]: "andThen (Inr x) f = f x" "andThen (Inl e) f = Inl e"
  by (simp_all add: andThen_def)

lemma andThen_Inr: "andThen r f = Inr y \<longleftrightarrow> (\<exists>x. r = Inr x \<and> f x = Inr y)"
  by (cases r) simp_all

lemma andThen_assoc: "andThen (andThen r f) g = andThen r (\<lambda>x. andThen (f x) g)"
  by (cases r) simp_all

text \<open>Evaluation from left to right; the first exception wins.\<close>

fun sequence :: "'a res list \<Rightarrow> 'a list res" where
  "sequence [] = Inr []"
| "sequence (r # rs) = andThen r (\<lambda>x. andThen (sequence rs) (\<lambda>xs. Inr (x # xs)))"

lemma sequence_Inr: "sequence rs = Inr xs \<longleftrightarrow> rs = map Inr xs"
  by (induction rs arbitrary: xs) (auto simp: andThen_Inr Cons_eq_map_conv)

definition mapM :: "('a \<Rightarrow> 'b res) \<Rightarrow> 'a list \<Rightarrow> 'b list res" where
  "mapM f xs = sequence (map f xs)"

lemma mapM_Inr: "mapM f xs = Inr ys \<longleftrightarrow> map f xs = map Inr ys"
  by (simp add: mapM_def sequence_Inr)

subsection \<open>Truthiness, equality, text\<close>

fun is_true :: "jsval \<Rightarrow> bool" where
  "is_true Undefined = False"
| "is_true Null = False"
| "is_true (Bool b) = b"
| "is_true (Num n) = (n \<noteq> 0)"
| "is_true (Str s) = (s \<noteq> [])"
| "is_true (Arr vs) = True"
| "is_true (Obj ps) = True"
| "is_true (Safe s) = True"

text \<open>\<open>===\<close> on primitive values; two objects are never the same object here.\<close>

fun same :: "jsval \<Rightarrow> jsval \<Rightarrow> bool" where
  "same Undefined Undefined = True"
| "same Null Null = True"
| "same (Bool a) (Bool b) = (a = b)"
| "same (Num a) (Num b) = (a = b)"
| "same (Str a) (Str b) = (a = b)"
| "same _ _ = False"

lemma same_Str [simp]: "same v (Str s) \<longleftrightarrow> v = Str s"
  by (cases v) auto

text \<open>
  Decimal text of a number: exact for integers and for fractions of at most seventeen decimals,
  which is every number the API sends.
\<close>

fun frac_digits :: "nat \<Rightarrow> rat \<Rightarrow> string" where
  "frac_digits 0 q = []"
| "frac_digits (Suc k) q = (if q = 0 then [] else
     let d = \<lfloor>q * 10\<rfloor> in char_of (48 + nat d) # frac_digits k (q * 10 - of_int d))"

definition num_str :: "rat \<Rightarrow> string" where
  "num_str q = (let a = \<bar>q\<bar>; i = \<lfloor>a\<rfloor>; f = a - of_int i in
     (if q < 0 then ''-'' else []) @ nat_str (nat i) @ (if f = 0 then [] else ''.'' @ frac_digits 17 f))"

lemma num_str_int: "num_str (of_int i) = int_str i"
  by (cases "i < 0") (simp_all add: num_str_def int_str_def Let_def)

fun joined :: "string \<Rightarrow> string list \<Rightarrow> string" where
  "joined sep [] = []"
| "joined sep [s] = s"
| "joined sep (s # t # ss) = s @ sep @ joined sep (t # ss)"

text \<open>\<open>String(v)\<close>; an element that is \<open>null\<close> or \<open>undefined\<close> is empty in the text of an array.\<close>

fun to_string :: "jsval \<Rightarrow> string" where
  "to_string Undefined = ''undefined''"
| "to_string Null = ''null''"
| "to_string (Bool b) = (if b then ''true'' else ''false'')"
| "to_string (Num n) = num_str n"
| "to_string (Str s) = s"
| "to_string (Arr vs) = joined '','' (map (\<lambda>v. if v = Undefined \<or> v = Null then [] else to_string v) vs)"
| "to_string (Obj ps) = ''[object Object]''"
| "to_string (Safe s) = s"

subsection \<open>Properties and methods\<close>

text \<open>\<open>v.k\<close>: reading a property of \<open>null\<close> or \<open>undefined\<close> throws; a missing property is \<open>undefined\<close>.\<close>

definition no_prop :: "string \<Rightarrow> string \<Rightarrow> js_error" where
  "no_prop what k = TypeError (''Cannot read properties of '' @ what @ '' (reading '' @ [CHR 0x27] @ k @ [CHR 0x27] @ '')'')"

definition not_function :: "string \<Rightarrow> js_error" where
  "not_function what = TypeError (what @ '' is not a function'')"

fun field :: "string \<Rightarrow> jsval \<Rightarrow> jsval res" where
  "field k Undefined = Inl (no_prop ''undefined'' k)"
| "field k Null = Inl (no_prop ''null'' k)"
| "field k (Obj ps) = Inr (case map_of ps k of Some v \<Rightarrow> v | None \<Rightarrow> Undefined)"
| "field k (Arr vs) = Inr (if k = ''length'' then Num (of_nat (length vs)) else Undefined)"
| "field k (Str s) = Inr (if k = ''length'' then Num (of_nat (length s)) else Undefined)"
| "field k _ = Inr Undefined"

fun path :: "string list \<Rightarrow> jsval \<Rightarrow> jsval res" where
  "path [] v = Inr v"
| "path (k # ks) v = andThen (field k v) (path ks)"

text \<open>\<open>a || b\<close>, \<open>c ? a : b\<close>.\<close>

definition orElse :: "jsval res \<Rightarrow> jsval res \<Rightarrow> jsval res" where
  "orElse a b = andThen a (\<lambda>v. if is_true v then Inr v else b)"

definition ite :: "jsval res \<Rightarrow> 'a res \<Rightarrow> 'a res \<Rightarrow> 'a res" where
  "ite c a b = andThen c (\<lambda>v. if is_true v then a else b)"

text \<open>
  \<open>v.slice(0, n)\<close>, \<open>v.join(sep)\<close> and the elements \<open>v.map(...)\<close> runs over.  \<open>what\<close> is the source text of
  the method, which V8 quotes when there is no such method.
\<close>

fun slice0 :: "string \<Rightarrow> nat \<Rightarrow> jsval \<Rightarrow> jsval res" where
  "slice0 what n Undefined = Inl (no_prop ''undefined'' ''slice'')"
| "slice0 what n Null = Inl (no_prop ''null'' ''slice'')"
| "slice0 what n (Str s) = Inr (Str (take n s))"
| "slice0 what n (Arr vs) = Inr (Arr (take n vs))"
| "slice0 what n _ = Inl (not_function what)"

fun elements :: "string \<Rightarrow> string \<Rightarrow> jsval \<Rightarrow> jsval list res" where
  "elements what m (Arr vs) = Inr vs"
| "elements what m Undefined = Inl (no_prop ''undefined'' m)"
| "elements what m Null = Inl (no_prop ''null'' m)"
| "elements what m _ = Inl (not_function what)"

definition join_text :: "string \<Rightarrow> jsval list \<Rightarrow> string" where
  "join_text sep vs = joined sep (map (\<lambda>v. if v = Undefined \<or> v = Null then [] else to_string v) vs)"

text \<open>\<open>Object.entries(v)\<close> on an object, a list or a primitive.\<close>

fun entries :: "jsval \<Rightarrow> (string \<times> jsval) list res" where
  "entries (Obj ps) = Inr ps"
| "entries (Arr vs) = Inr (zip (map (\<lambda>i. nat_str i) [0..<length vs]) vs)"
| "entries (Str s) = Inr (zip (map (\<lambda>i. nat_str i) [0..<length s]) (map (\<lambda>c. Str [c]) s))"
| "entries Undefined = Inl (TypeError ''Cannot convert undefined or null to object'')"
| "entries Null = Inl (TypeError ''Cannot convert undefined or null to object'')"
| "entries _ = Inr []"

subsection \<open>String functions\<close>

fun starts_with :: "string \<Rightarrow> string \<Rightarrow> bool" where
  "starts_with p s = (take (length p) s = p)"

text \<open>\<open>s.indexOf(w)\<close>, from index \<open>i\<close> on; \<open>s.includes(w)\<close>.\<close>

fun index_from :: "nat \<Rightarrow> string \<Rightarrow> string \<Rightarrow> nat option" where
  "index_from i w s = (if starts_with w s then Some i
     else case s of [] \<Rightarrow> None | _ # t \<Rightarrow> index_from (Suc i) w t)"

declare index_from.simps [simp del]

definition index_of :: "string \<Rightarrow> string \<Rightarrow> nat option" where
  "index_of w s = index_from 0 w s"

definition has_text :: "string \<Rightarrow> string \<Rightarrow> bool" where
  "has_text w s = (index_of w s \<noteq> None)"

definition js_trim :: "string \<Rightarrow> string" where
  "js_trim s = rev (dropWhile is_space (rev (dropWhile is_space s)))"

text \<open>\<open>s.split(/\\s+/)\<close> and \<open>s.split(/[\\s,]+/)\<close>: split at every run of separators.\<close>

function split_runs :: "(char \<Rightarrow> bool) \<Rightarrow> string \<Rightarrow> string list" where
  "split_runs P s = (let w = takeWhile (\<lambda>c. \<not> P c) s; r = dropWhile (\<lambda>c. \<not> P c) s
     in if r = [] then [w] else w # split_runs P (dropWhile P r))"
  by pat_completeness auto
termination
proof (relation "measure (\<lambda>(P, s). length s)")
  fix P :: "char \<Rightarrow> bool" and s w r :: string
  assume "r = dropWhile (\<lambda>c. \<not> P c) s" "r \<noteq> []"
  then have "P (hd r)" using hd_dropWhile [of "\<lambda>c. \<not> P c" s] by blast
  with \<open>r \<noteq> []\<close> obtain c t where r: "r = c # t" "P c"
    by (cases r) simp_all
  then have "length (dropWhile P r) \<le> length t"
    by (simp add: length_dropWhile_le)
  moreover have "length r \<le> length s"
    using \<open>r = dropWhile (\<lambda>c. \<not> P c) s\<close> by (simp add: length_dropWhile_le)
  ultimately show "((P, dropWhile P r), (P, s)) \<in> measure (\<lambda>(P, s). length s)"
    using r by simp
qed simp

declare split_runs.simps [simp del]

definition words_of :: "string \<Rightarrow> string list" where
  "words_of s = filter (\<lambda>w. w \<noteq> []) (split_runs is_space s)"

text \<open>\<open>s.replace("T", " ")\<close>: the first occurrence.\<close>

fun replace_first :: "char \<Rightarrow> char \<Rightarrow> string \<Rightarrow> string" where
  "replace_first a b [] = []"
| "replace_first a b (c # s) = (if c = a then b # s else c # replace_first a b s)"

lemma index_from_shift: "index_from i w s = map_option ((+) i) (index_from 0 w s)"
proof (induction s arbitrary: i)
  case Nil
  then show ?case by (simp add: index_from.simps)
next
  case (Cons c s)
  show ?case
    using Cons [of "Suc i"] Cons [of "Suc 0"]
    by (subst (1 2) index_from.simps) (simp add: option.map_comp o_def)
qed

lemma index_of_Some:
  "index_of w s = Some i \<Longrightarrow> take (length w) (drop i s) = w \<and> i \<le> length s"
proof (induction s arbitrary: i)
  case Nil
  then show ?case by (auto simp: index_of_def index_from.simps split: if_splits)
next
  case (Cons c s)
  show ?case
  proof (cases "starts_with w (c # s)")
    case True
    with Cons.prems show ?thesis by (simp add: index_of_def index_from.simps)
  next
    case False
    with Cons.prems obtain j where "index_of w s = Some j" "i = Suc j"
      by (auto simp: index_of_def index_from.simps [of 0 w "c # s"] index_from_shift [of "Suc 0"])
    with Cons.IH show ?thesis by simp
  qed
qed

lemma has_text_append: "has_text w (s @ w @ t)"
proof (induction s)
  case Nil
  then show ?case by (simp add: has_text_def index_of_def index_from.simps)
next
  case (Cons c s)
  then show ?case
    by (auto simp: has_text_def index_of_def index_from.simps [of 0 w "c # _"] index_from_shift [of "Suc 0"])
qed

lemma has_text_iff: "has_text w s \<longleftrightarrow> (\<exists>a b. s = a @ w @ b)"
proof
  assume "has_text w s"
  then obtain i where "index_of w s = Some i" by (auto simp: has_text_def)
  then have "take (length w) (drop i s) = w" using index_of_Some by blast
  then have "s = take i s @ w @ drop (length w) (drop i s)"
    by (metis append_take_drop_id)
  then show "\<exists>a b. s = a @ w @ b" by blast
qed (use has_text_append in blast)

text \<open>The character U+2026 as its UTF-8 bytes: a constant of the model.\<close>

definition ellipsis :: string where
  "ellipsis = [CHR 0xE2, CHR 0x80, CHR 0xA6]"

end
