(* ===== verification/Markup.thy ===== *)
theory Markup
  imports Js_Values
begin

section \<open>Escaping and the html tag\<close>

text \<open>
  How the pages make markup.  \<open>console.js\<close> builds it with the template tag \<open>html\<close> (lines 13 to 28):
  an interpolated value is escaped unless it is itself \<open>SafeHtml\<close>, and \<open>render\<close> is the only function
  that writes markup into the page.  \<open>kb-app.js\<close> and \<open>scenes-engine.js\<close> concatenate strings and pass
  every value through their own \<open>esc\<close>.  The locale \<open>escaper\<close> states what the pages need of an
  escaping function; it is interpreted for all three.
\<close>

subsection \<open>The three escapers\<close>

text \<open>The replacement table of \<open>escText\<close> and \<open>esc\<close>: the six characters of \<open>/[&<>"'`]/g\<close>.\<close>

definition entity :: "char \<Rightarrow> string option" where
  "entity = map_of [(CHR ''&'', ''&amp;''), (CHR ''<'', ''&lt;''), (CHR ''>'', ''&gt;''), (CHR 0x22, ''&quot;''),
     (CHR 0x27, ''&#39;''), (CHR 0x60, ''&#96;'')]"

definition esc_char :: "char \<Rightarrow> string" where
  "esc_char c = (case entity c of Some e \<Rightarrow> e | None \<Rightarrow> [c])"

definition replace_special :: "string \<Rightarrow> string" where
  "replace_special s = concat (map esc_char s)"

text \<open>\<open>escText\<close> of the console: \<open>null\<close> and \<open>undefined\<close> are the empty text.\<close>

definition escText :: "jsval \<Rightarrow> string" where
  "escText v = replace_special (if v = Undefined \<or> v = Null then [] else to_string v)"

text \<open>\<open>esc\<close> of the knowledge base and of the scene chrome: \<open>String(s)\<close>.\<close>

definition kb_esc :: "jsval \<Rightarrow> string" where
  "kb_esc v = replace_special (to_string v)"

definition scene_esc :: "jsval \<Rightarrow> string" where
  "scene_esc v = replace_special (to_string v)"

subsection \<open>SafeHtml, part, html, render\<close>

text \<open>\<open>part\<close>: \<open>SafeHtml\<close> as it is, a list element by element, everything else escaped.\<close>

fun part :: "jsval \<Rightarrow> string" where
  "part (Safe s) = s"
| "part (Arr vs) = concat (map part vs)"
| "part v = escText v"

text \<open>
  \<open>html(strings, ...values)\<close>.  A template literal with \<open>n\<close> holes passes \<open>n + 1\<close> strings; reading past
  them would append the text \<open>undefined\<close>.
\<close>

definition string_at :: "string list \<Rightarrow> nat \<Rightarrow> string" where
  "string_at strs i = (if i < length strs then strs ! i else ''undefined'')"

fun append_values :: "string list \<Rightarrow> nat \<Rightarrow> jsval list \<Rightarrow> string \<Rightarrow> string" where
  "append_values strs i [] out = out"
| "append_values strs i (v # vs) out = append_values strs (Suc i) vs (out @ part v @ string_at strs (Suc i))"

definition html :: "string list \<Rightarrow> jsval list \<Rightarrow> jsval" where
  "html strs vals = Safe (append_values strs 0 vals (string_at strs 0))"

text \<open>The document: the markup of each element.  \<open>render\<close> writes it or throws.\<close>

type_synonym document = "string \<Rightarrow> string"

definition render :: "string \<Rightarrow> jsval \<Rightarrow> document act" where
  "render el v doc = (case v of
     Safe s \<Rightarrow> (None, doc(el := s))
   | _ \<Rightarrow> (Some (TypeError ''render() only accepts html`...` output''), doc))"

subsection \<open>What an escaper promises\<close>

definition special :: "char list" where
  "special = [CHR ''<'', CHR ''>'', CHR 0x22, CHR 0x27, CHR 0x60]"

definition entities :: "string list" where
  "entities = [''&amp;'', ''&lt;'', ''&gt;'', ''&quot;'', ''&#39;'', ''&#96;'']"

text \<open>
  Reading the six character references back, as an HTML parser does: the reference decoder of the
  round trip.
\<close>

definition decode_table :: "(string \<times> char) list" where
  "decode_table = zip entities [CHR ''&'', CHR ''<'', CHR ''>'', CHR 0x22, CHR 0x27, CHR 0x60]"

function decode :: "string \<Rightarrow> string" where
  "decode [] = []"
| "decode (c # s) =
     (case find (\<lambda>(e, d). starts_with e (c # s)) decode_table of
        Some (e, d) \<Rightarrow> d # decode (drop (length e - 1) s)
      | None \<Rightarrow> c # decode s)"
  by pat_completeness auto
termination by (relation "measure length") (auto simp: less_Suc_eq_le)

declare decode.simps(2) [simp del]

text \<open>
  An escaper maps each character either to itself or to the reference of a special character, and
  never lets a special character through.
\<close>

locale escaper =
  fixes escape :: "string \<Rightarrow> string"
  assumes escape_Nil: "escape [] = []"
    and escape_Cons: "escape (c # s) = escape [c] @ escape s"
    and escape_plain: "c \<notin> set special \<Longrightarrow> c \<noteq> CHR ''&'' \<Longrightarrow> escape [c] = [c]"
    and escape_special: "c \<in> set special \<or> c = CHR ''&'' \<Longrightarrow> (escape [c], c) \<in> set decode_table"
begin

lemma escape_append: "escape (s @ t) = escape s @ escape t"
  by (induction s) (simp_all add: escape_Nil, metis append.assoc escape_Cons)

lemma escape_cases:
  obtains "escape [c] = [c]" "c \<notin> set special" "c \<noteq> CHR ''&''" | "(escape [c], c) \<in> set decode_table"
  using escape_plain [of c] escape_special [of c] by blast

lemma no_special: "c \<in> set (escape s) \<Longrightarrow> c \<notin> set special"
proof (induction s)
  case (Cons a s)
  have "c \<notin> set special" if "c \<in> set (escape [a])"
    using that by (cases rule: escape_cases [of a]) (auto simp: decode_table_def entities_def special_def)
  then show ?case
    using Cons escape_Cons [of a s] by auto
qed (simp add: escape_Nil)

lemma decode_entity: "(e, d) \<in> set decode_table \<Longrightarrow> decode (e @ s) = d # decode s"
  by (auto simp: decode_table_def entities_def decode.simps(2))

lemma decode_plain: "c \<noteq> CHR ''&'' \<Longrightarrow> decode (c # s) = c # decode s"
  by (simp add: decode.simps(2) decode_table_def entities_def)

theorem decode_escape: "decode (escape s) = s"
proof (induction s)
  case (Cons c s)
  then show ?case
    using escape_Cons [of c s]
    by (cases rule: escape_cases [of c]) (simp_all add: decode_entity decode_plain)
qed (simp add: escape_Nil)

lemma escape_inject: "escape s = escape t \<longleftrightarrow> s = t"
  using decode_escape by metis

text \<open>An ampersand of the output always begins one of the six references.\<close>

lemma ampersand_starts_entity:
  "escape s = a @ CHR ''&'' # b \<Longrightarrow> \<exists>e \<in> set entities. \<exists>b'. CHR ''&'' # b = e @ b'"
proof (induction s arbitrary: a)
  case (Cons c s)
  have eq: "escape [c] @ escape s = a @ CHR ''&'' # b"
    using Cons.prems escape_Cons [of c s] by simp
  show ?case
  proof (cases "length (escape [c]) \<le> length a")
    case True
    then obtain a' where "a = escape [c] @ a'"
      using eq by (metis append_eq_append_conv_if append_take_drop_id)
    then show ?thesis using Cons.IH [of a'] eq by simp
  next
    case False
    then obtain x where x: "escape [c] = a @ CHR ''&'' # x" "b = x @ escape s"
      using eq by (auto simp: append_eq_append_conv2 append_eq_Cons_conv)
    then have "escape [c] \<noteq> [c]" if "c \<noteq> CHR ''&''"
      using that by (cases a) auto
    then have "(escape [c], c) \<in> set decode_table"
      by (cases rule: escape_cases [of c]) auto
    then have "a = []" "escape [c] \<in> set entities"
      using x(1) by (auto simp: decode_table_def entities_def append_eq_Cons_conv Cons_eq_append_conv)
    then show ?thesis using x by (intro bexI [of _ "escape [c]"] exI [of _ "escape s"]) simp_all
  qed
qed (simp add: escape_Nil)

end

lemma replace_special_laws:
  "replace_special [] = []" "replace_special (c # s) = replace_special [c] @ replace_special s"
  "c \<notin> set special \<Longrightarrow> c \<noteq> CHR ''&'' \<Longrightarrow> replace_special [c] = [c]"
  "c \<in> set special \<or> c = CHR ''&'' \<Longrightarrow> (replace_special [c], c) \<in> set decode_table"
proof -
  show "replace_special [] = []" "replace_special (c # s) = replace_special [c] @ replace_special s"
    by (simp_all add: replace_special_def)
  show "replace_special [c] = [c]" if "c \<notin> set special" "c \<noteq> CHR ''&''"
    using that by (simp add: replace_special_def esc_char_def entity_def special_def)
  show "(replace_special [c], c) \<in> set decode_table" if "c \<in> set special \<or> c = CHR ''&''"
    using that by (auto simp: replace_special_def esc_char_def entity_def special_def decode_table_def entities_def)
qed

lemma escText_Str [simp]: "escText (Str s) = replace_special s"
  by (simp add: escText_def)

interpretation console: escaper "\<lambda>s. escText (Str s)"
  by unfold_locales (unfold escText_Str, (rule replace_special_laws | assumption)+)

interpretation kb: escaper "\<lambda>s. kb_esc (Str s)"
  by unfold_locales (unfold kb_esc_def to_string.simps, (rule replace_special_laws | assumption)+)

interpretation chrome: escaper "\<lambda>s. scene_esc (Str s)"
  by unfold_locales (unfold scene_esc_def to_string.simps, (rule replace_special_laws | assumption)+)

end
