(* ===== verification/Html_Context.thy ===== *)
theory Html_Context
  imports Markup
begin

section \<open>Where in a document a value stands\<close>

text \<open>
  The lexical contexts of the HTML the templates write: text content, the inside of a tag, a
  double-quoted attribute value.  \<open>scan\<close> reads markup from left to right and lists the tags and the
  attribute names it finds; it covers the syntax the templates use and answers \<open>Broken\<close> for any
  other.  A value is clean at a context when it leaves the scanner there and adds only allowed tags
  and attributes; the rules of the last section derive cleanness of a template's output from a check
  of its literal strings and the cleanness of its holes.
\<close>

subsection \<open>Contexts\<close>

datatype ctx =
    Content
  | OpenTag string
  | InTag
  | AttrName string
  | AttrStart string
  | Quoted
  | Broken

datatype token = Tag string | Attr string

definition blank :: "char \<Rightarrow> bool" where
  "blank c \<longleftrightarrow> c = CHR '' '' \<or> c = CHR 0x0A"

definition misplaced :: "char \<Rightarrow> bool" where
  "misplaced c \<longleftrightarrow> c = CHR ''<'' \<or> c = CHR 0x22 \<or> c = CHR 0x27"

fun scan1 :: "ctx \<Rightarrow> char \<Rightarrow> ctx \<times> token list" where
  "scan1 Content c = (if c = CHR ''<'' then (OpenTag [], []) else (Content, []))"
| "scan1 (OpenTag n) c =
     (if c = CHR ''>'' then (Content, [Tag n])
      else if blank c then (InTag, [Tag n])
      else if misplaced c \<or> c = CHR ''='' then (Broken, []) else (OpenTag (n @ [c]), []))"
| "scan1 InTag c =
     (if c = CHR ''>'' then (Content, [])
      else if blank c then (InTag, [])
      else if misplaced c \<or> c = CHR ''='' then (Broken, []) else (AttrName [c], []))"
| "scan1 (AttrName n) c =
     (if c = CHR ''>'' then (Content, [Attr n])
      else if blank c then (InTag, [Attr n])
      else if c = CHR ''='' then (AttrStart n, [])
      else if misplaced c then (Broken, []) else (AttrName (n @ [c]), []))"
| "scan1 (AttrStart n) c = (if c = CHR 0x22 then (Quoted, [Attr n]) else (Broken, []))"
| "scan1 Quoted c = (if c = CHR 0x22 then (InTag, []) else (Quoted, []))"
| "scan1 Broken c = (Broken, [])"

fun scan :: "ctx \<Rightarrow> string \<Rightarrow> ctx \<times> token list" where
  "scan q [] = (q, [])"
| "scan q (c # s) = (case scan1 q c of (q1, ts) \<Rightarrow> (case scan q1 s of (q2, us) \<Rightarrow> (q2, ts @ us)))"

lemma scan_append: "scan q (s @ t) = (case scan q s of (q1, ts) \<Rightarrow> (case scan q1 t of (q2, us) \<Rightarrow> (q2, ts @ us)))"
  by (induction q s rule: scan.induct) (simp_all split: prod.split)

text \<open>The contexts in which the templates put data.\<close>

definition harmless :: "ctx \<Rightarrow> bool" where
  "harmless q \<longleftrightarrow> q = Content \<or> q = Quoted"

lemma harmless_simps [simp]: "harmless Content" "harmless Quoted"
  by (simp_all add: harmless_def)

lemma scan_inert: "harmless q \<Longrightarrow> CHR ''<'' \<notin> set s \<Longrightarrow> CHR 0x22 \<notin> set s \<Longrightarrow> scan q s = (q, [])"
  by (induction s) (auto simp: harmless_def)

lemma scan_escaped: "harmless q \<Longrightarrow> scan q (replace_special s) = (q, [])"
  using console.no_special [of "CHR ''<''" s] console.no_special [of "CHR 0x22" s]
  by (intro scan_inert) (auto simp: special_def)

lemma scan_escText: "harmless q \<Longrightarrow> scan q (escText v) = (q, [])"
  by (simp add: escText_def scan_escaped)

subsection \<open>Values without markup of their own\<close>

text \<open>What comes from the API and from form fields: no \<open>SafeHtml\<close> anywhere inside.\<close>

fun plain :: "jsval \<Rightarrow> bool" where
  "plain (Safe s) = False"
| "plain (Arr vs) = (\<forall>v \<in> set vs. plain v)"
| "plain (Obj ps) = (\<forall>p \<in> set ps. plain (snd p))"
| "plain _ = True"

lemma scan_concat: "(\<And>s. s \<in> set ss \<Longrightarrow> scan q s = (q, [])) \<Longrightarrow> scan q (concat ss) = (q, [])"
  by (induction ss) (simp_all add: scan_append)

lemma scan_plain: "plain v \<Longrightarrow> harmless q \<Longrightarrow> scan q (part v) = (q, [])"
proof (induction v rule: part.induct)
  case (2 vs)
  then have "\<And>t. t \<in> set (map part vs) \<Longrightarrow> scan q t = (q, [])" by auto
  then show ?case using scan_concat [of "map part vs" q] by simp
qed (simp_all add: scan_escText scan_escaped)

subsection \<open>Clean values and clean templates\<close>

definition allowed_tags :: "string list" where
  "allowed_tags =
     (let ts = [''table'', ''tr'', ''th'', ''td'', ''b'', ''span'', ''p'', ''pre'', ''label'', ''button'', ''option'', ''select'',
        ''code'', ''ul'', ''ol'', ''li'', ''div'', ''h2'', ''h3'']
      in [''br'', ''input''] @ ts @ map ((@) ''/'') ts)"

definition allowed_attrs :: "string list" where
  "allowed_attrs = [''class'', ''value'', ''title'', ''type'', ''placeholder'', ''selected'', ''checked'', ''data-tab'',
     ''data-revoke'', ''data-ok'', ''data-no'', ''data-ack'', ''data-src'', ''data-runs'', ''data-push'', ''data-edit'', ''data-own'']"

fun allowed_token :: "token \<Rightarrow> bool" where
  "allowed_token (Tag n) = List.member allowed_tags n"
| "allowed_token (Attr n) = List.member allowed_attrs n"

definition clean_at :: "ctx \<Rightarrow> jsval \<Rightarrow> bool" where
  "clean_at q v \<longleftrightarrow> (case scan q (part v) of (q', ts) \<Rightarrow> q' = q \<and> list_all allowed_token ts)"

lemma clean_at_iff: "clean_at q v \<longleftrightarrow> (\<exists>ts. scan q (part v) = (q, ts) \<and> list_all allowed_token ts)"
  by (auto simp: clean_at_def split: prod.split)

definition clean :: "jsval \<Rightarrow> bool" where
  "clean v \<longleftrightarrow> clean_at Content v"

lemma plain_clean: "plain v \<Longrightarrow> harmless q \<Longrightarrow> clean_at q v"
  by (simp add: clean_at_def scan_plain)

lemma clean_Arr: "(\<And>v. v \<in> set vs \<Longrightarrow> clean_at q v) \<Longrightarrow> clean_at q (Arr vs)"
proof (induction vs)
  case (Cons v vs)
  then have v: "clean_at q v" "clean_at q (Arr vs)" by simp_all
  then show ?case
    by (auto simp: clean_at_iff scan_append)
qed (simp add: clean_at_def)

text \<open>The contexts of a template's holes, its last context and its tokens.\<close>

fun run_template :: "ctx \<Rightarrow> string list \<Rightarrow> ctx list \<times> ctx \<times> token list" where
  "run_template q [] = ([], q, [])"
| "run_template q [s] = (case scan q s of (q1, ts) \<Rightarrow> ([], q1, ts))"
| "run_template q (s # t # ss) =
     (case scan q s of (q1, ts) \<Rightarrow> (case run_template q1 (t # ss) of (hs, q2, us) \<Rightarrow> (q1 # hs, q2, ts @ us)))"

fun interleave :: "string list \<Rightarrow> jsval list \<Rightarrow> string" where
  "interleave (s # ss) (v # vs) = s @ part v @ interleave ss vs"
| "interleave (s # ss) [] = s"
| "interleave [] _ = []"

lemma append_values_interleave:
  "length strs = Suc (i + length vals) \<Longrightarrow>
     append_values strs i vals (out @ string_at strs i) = out @ interleave (drop i strs) vals"
proof (induction vals arbitrary: i out)
  case Nil
  then have "drop i strs = [strs ! i]"
    by (metis Cons_nth_drop_Suc add.right_neutral drop_all le_refl lessI list.size(3))
  then show ?case using Nil by (simp add: string_at_def)
next
  case (Cons v vs)
  have "drop i strs = strs ! i # drop (Suc i) strs"
    using Cons.prems by (simp add: Cons_nth_drop_Suc)
  moreover have "string_at strs i = strs ! i"
    using Cons.prems by (simp add: string_at_def)
  ultimately show ?case
    using Cons.IH [of "Suc i" "out @ string_at strs i @ part v"] Cons.prems by simp
qed

lemma html_interleave: "length strs = Suc (length vals) \<Longrightarrow> html strs vals = Safe (interleave strs vals)"
  using append_values_interleave [of strs 0 vals "[]"] by (simp add: html_def)

lemma scan_interleave:
  "run_template q strs = (hs, q', ts) \<Longrightarrow> length strs = Suc (length vals) \<Longrightarrow> list_all2 clean_at hs vals
     \<Longrightarrow> list_all allowed_token ts \<Longrightarrow> \<exists>us. scan q (interleave strs vals) = (q', us) \<and> list_all allowed_token us"
proof (induction q strs arbitrary: vals hs ts rule: run_template.induct)
  case (2 q s)
  then show ?case by (auto split: prod.splits)
next
  case (3 q s t ss)
  obtain q1 ts1 where s: "scan q s = (q1, ts1)" by force
  obtain hs2 q2 us where r: "run_template q1 (t # ss) = (hs2, q2, us)" by (cases "run_template q1 (t # ss)")
  obtain v vs where vals: "vals = v # vs" using 3(3) by (cases vals) simp_all
  have h: "hs = q1 # hs2" "q' = q2" "ts = ts1 @ us" using 3(2) s r by simp_all
  have c: "clean_at q1 v" "list_all2 clean_at hs2 vs" using 3(4) vals h by simp_all
  obtain ws where "scan q1 (interleave (t # ss) vs) = (q', ws)" "list_all allowed_token ws"
    using 3(1) [OF s [symmetric] r [folded h(2)], of vs] c(2) 3(3,5) vals h by auto
  moreover obtain xs where "scan q1 (part v) = (q1, xs)" "list_all allowed_token xs"
    using c(1) by (auto simp: clean_at_iff)
  ultimately show ?case
    using s h 3(5) vals by (simp add: scan_append)
qed simp

lemma run_template_length: "run_template q strs = (hs, q', ts) \<Longrightarrow> strs \<noteq> [] \<Longrightarrow> length strs = Suc (length hs)"
  by (induction q strs arbitrary: hs q' ts rule: run_template.induct) (auto split: prod.splits)

text \<open>A template that starts and ends in text content, with clean values in its holes, is clean.\<close>

lemma html_clean:
  assumes "run_template Content strs = (hs, Content, ts)" "strs \<noteq> []" "list_all allowed_token ts" "list_all2 clean_at hs vals"
  shows "clean (html strs vals)"
proof -
  have len: "length strs = Suc (length vals)"
    using run_template_length [OF assms(1,2)] assms(4) by (simp add: list_all2_lengthD)
  from scan_interleave [OF assms(1) len assms(4,3)] show ?thesis
    by (simp add: clean_def clean_at_iff html_interleave [OF len])
qed

subsection \<open>Expressions with clean results\<close>

definition yields :: "('a \<Rightarrow> bool) \<Rightarrow> 'a res \<Rightarrow> bool" where
  "yields P r \<longleftrightarrow> (\<forall>v. r = Inr v \<longrightarrow> P v)"

named_theorems yield_intros

lemma yields_Inr [simp]: "yields P (Inr v) = P v"
  by (simp add: yields_def)

lemma yields_Inl [simp]: "yields P (Inl e)"
  by (simp add: yields_def)

lemma yieldsD: "yields P r \<Longrightarrow> r = Inr v \<Longrightarrow> P v"
  by (simp add: yields_def)

lemma yields_andThen: "(\<And>v. r = Inr v \<Longrightarrow> yields P (f v)) \<Longrightarrow> yields P (andThen r f)"
  by (cases r) simp_all

lemma yields_bind: "yields Q r \<Longrightarrow> (\<And>v. Q v \<Longrightarrow> yields P (f v)) \<Longrightarrow> yields P (andThen r f)"
  by (cases r) simp_all

lemma yields_weaken: "yields P r \<Longrightarrow> (\<And>v. P v \<Longrightarrow> Q v) \<Longrightarrow> yields Q r"
  by (simp add: yields_def)

lemma yields_ite [yield_intros]: "yields P a \<Longrightarrow> yields P b \<Longrightarrow> yields P (ite c a b)"
  by (cases c) (simp_all add: ite_def)

lemma yields_orElse [yield_intros]: "yields P a \<Longrightarrow> yields P b \<Longrightarrow> yields P (orElse a b)"
  by (cases a) (simp_all add: orElse_def)

lemma yields_mapM: "(\<And>x. x \<in> set xs \<Longrightarrow> yields P (f x)) \<Longrightarrow> yields (\<lambda>ys. \<forall>y \<in> set ys. P y) (mapM f xs)"
  by (auto simp: yields_def mapM_Inr) (metis (no_types, lifting) image_iff list.set_map)

text \<open>Reading plain data gives plain data.\<close>

lemma plain_field [yield_intros]: "plain x \<Longrightarrow> yields plain (field k x)"
  by (induction k x rule: field.induct) (auto split: option.split dest!: map_of_SomeD)

lemma plain_path [yield_intros]: "plain x \<Longrightarrow> yields plain (path ks x)"
proof (induction ks arbitrary: x)
  case (Cons k ks)
  show ?case
    using yields_bind [OF plain_field [OF Cons.prems] Cons.IH] by simp
qed simp

lemma plain_slice0: "plain x \<Longrightarrow> yields plain (slice0 w n x)"
  by (cases x) (auto dest: in_set_takeD)

lemma plain_elements: "plain x \<Longrightarrow> yields (\<lambda>vs. \<forall>v \<in> set vs. plain v) (elements w m x)"
  by (cases x) simp_all

lemma plain_entries: "plain x \<Longrightarrow> yields (\<lambda>ps. \<forall>p \<in> set ps. plain (snd p)) (entries x)"
proof (cases x)
  case (Str s)
  have "plain v" if "(k, v) \<in> set (zip ks (map (\<lambda>c. Str [c]) s))" for k v and ks :: "string list"
    using set_zip_rightD [OF that] by auto
  then show ?thesis using Str by auto
qed (auto dest: set_zip_rightD)

text \<open>Evaluating a template: the holes from left to right, then the tag.\<close>

definition tmpl :: "string list \<Rightarrow> jsval res list \<Rightarrow> jsval res" where
  "tmpl strs rs = andThen (sequence rs) (\<lambda>vs. Inr (html strs vs))"

text \<open>The check of a template's literal strings: the contexts of its holes, if it is well formed.\<close>

definition check_template :: "string list \<Rightarrow> ctx list option" where
  "check_template strs = (case run_template Content strs of (hs, q, ts) \<Rightarrow>
     if strs \<noteq> [] \<and> q = Content \<and> list_all allowed_token ts then Some hs else None)"

lemma check_html_clean: "check_template strs = Some hs \<Longrightarrow> list_all2 clean_at hs vals \<Longrightarrow> clean (html strs vals)"
  using html_clean [of strs hs] by (auto simp: check_template_def split: prod.splits if_splits)

lemma tmpl_clean:
  assumes "check_template strs = Some hs" "list_all2 (\<lambda>q r. yields (clean_at q) r) hs rs"
  shows "yields clean (tmpl strs rs)"
proof -
  have "list_all2 clean_at hs vs" if "rs = map Inr vs" for vs
    using assms(2) unfolding that by (simp add: list.rel_map list_all2_map2)
  then show ?thesis
    using check_html_clean [OF assms(1)] by (auto simp: yields_def tmpl_def andThen_Inr sequence_Inr)
qed

lemma yields_plain_at [yield_intros]: "yields plain r \<Longrightarrow> yields (clean_at Quoted) r"
  "yields plain r \<Longrightarrow> yields (clean_at Content) r"
  by (simp_all add: yields_def plain_clean)

lemma yields_clean_at: "yields clean r \<Longrightarrow> yields (clean_at Content) r"
  by (simp add: clean_def [abs_def])

end
