(* ===== verification/Scene_Lifecycle.thy ===== *)
theory Scene_Lifecycle
  imports Scene_Frames Html_Context
begin

section \<open>The life of a walkthrough in its page\<close>

text \<open>
  What a \<open>SceneView\<close> of \<open>kb-src/scenes-engine.js\<close> holds outside its own fields, around the \<open>view\<close> of
  \<open>Scene_Engine\<close>: the listeners and observers it has on the page, the callbacks it has asked the
  browser to run in the next frame, its renderer, the colours of the theme, the size of its canvas and
  the markup of its frame.  \<open>open_stage\<close> is the constructor, \<open>close_stage\<close> is \<open>dispose\<close>.
\<close>

subsection \<open>Surroundings\<close>

text \<open>What a view can listen to outside its container, and which of it the browser has.\<close>

datatype source = Theme_Query | Theme_Attribute | Window_Resize | In_View

record device =
  has_media :: bool
  has_mutations :: bool
  has_intersections :: bool

record look =
  theme_attr :: "string option"
  prefers_dark :: bool
  stage_width :: nat

definition isDark :: "device \<Rightarrow> look \<Rightarrow> bool" where
  "isDark d l =
     (if theme_attr l = Some ''dark'' then True
      else if theme_attr l = Some ''light'' then False
      else has_media d \<and> prefers_dark l)"

record stage =
  sv :: view
  heard :: "source list"
  loop_live :: bool
  requested :: "bool list"
  renderer_live :: bool
  late_renders :: nat
  platform_color :: nat
  grid_opacity :: rat
  hemi_intensity :: rat
  canvas_width :: nat
  canvas_height :: int

text \<open>
  \<open>requested\<close> lists the callbacks passed to \<open>requestAnimationFrame\<close>: \<open>True\<close> is the animation loop,
  \<open>False\<close> the empty function \<open>dispose\<close> puts in its place.
\<close>

subsection \<open>Theme, size, markup\<close>

definition applyTheme :: "device \<Rightarrow> look \<Rightarrow> stage \<Rightarrow> stage" where
  "applyTheme d l s = (let dark = isDark d l in
     s\<lparr>platform_color := (if dark then 0x1b2a28 else 0xdfe6e4),
       grid_opacity := (if dark then 0.35 else 0.45),
       hemi_intensity := (if dark then 0.75 else 0.9)\<rparr>)"

definition js_round :: "rat \<Rightarrow> int" where
  "js_round q = \<lfloor>q + 1 / 2\<rfloor>"

definition shown_width :: "look \<Rightarrow> nat" where
  "shown_width l = (if stage_width l = 0 then 600 else stage_width l)"

definition resize :: "look \<Rightarrow> stage \<Rightarrow> stage" where
  "resize l s = (let w = shown_width l; h = max 300 (min 560 (js_round (of_nat w * 0.58))) in
     s\<lparr>canvas_width := w, canvas_height := h\<rparr>)"

definition aspect :: "stage \<Rightarrow> rat" where
  "aspect s = of_nat (canvas_width s) / of_int (canvas_height s)"

text \<open>The distance of the camera in a frame: it backs off on narrow screens.\<close>

definition camera_distance :: "stage \<Rightarrow> rat" where
  "camera_distance s = orbit_radius (sv s) * max 1 (1.5 / aspect s)"

text \<open>
  The markup \<open>buildDom\<close> writes around a walkthrough; \<open>dot\<close>, \<open>minus\<close> and \<open>times\<close> are the characters U+00B7,
  U+2212 and U+00D7 as their UTF-8 bytes.
\<close>

definition dot :: string where "dot = [CHR 0xC2, CHR 0xB7]"
definition minus :: string where "minus = [CHR 0xE2, CHR 0x88, CHR 0x92]"
definition times :: string where "times = [CHR 0xC3, CHR 0x97]"

definition chrome_head :: string where
  \<open>chrome_head = ''<div class="scene-stage"><canvas class="scene-canvas" aria-label="''\<close>

definition chrome_tail :: string where
  \<open>chrome_tail = '' 3D walkthrough"></canvas>''
     @ ''<div class="scene-hint">Drag to rotate '' @ dot @ '' double-click to reset</div>''
     @ ''<div class="scene-zoom"><button type="button" data-z="in" aria-label="Zoom in">+</button><button type="button" data-z="out" aria-label="Zoom out">'' @ minus @ ''</button></div></div>''
     @ ''<div class="scene-panel">''
     @ ''<div class="scene-controls" role="group" aria-label="Walkthrough controls">''
     @ ''<button type="button" data-a="restart">Restart</button>''
     @ ''<button type="button" data-a="prev">Back</button>''
     @ ''<button type="button" data-a="play" class="primary">Play</button>''
     @ ''<button type="button" data-a="next">Next</button>''
     @ ''<span class="scene-count" aria-live="polite"></span>''
     @ ''<label class="scene-speed">Speed <select><option value="0.6">0.6'' @ times @ ''</option><option value="1" selected>1'' @ times @ ''</option><option value="1.6">1.6'' @ times @ ''</option></select></label>''
     @ ''</div>''
     @ ''<div class="scene-step"><div class="scene-eyebrow"></div><h4></h4><p></p><pre class="scene-payload"><code></code></pre></div>''
     @ ''<ol class="scene-steps"></ol></div>''\<close>

definition chrome :: "scene \<Rightarrow> string" where
  "chrome sc = chrome_head @ scene_esc (Str (d_title sc)) @ chrome_tail"

subsection \<open>Construction\<close>

definition subscribe :: "bool \<Rightarrow> source \<Rightarrow> stage \<Rightarrow> stage" where
  "subscribe b x s = (if b then s\<lparr>heard := heard s @ [x]\<rparr> else s)"

text \<open>An operation of the view inside.\<close>

definition on_view :: "view act \<Rightarrow> stage act" where
  "on_view a s = (case a (sv s) of (r, v) \<Rightarrow> (r, s\<lparr>sv := v\<rparr>))"

definition fresh_stage :: "scene \<Rightarrow> stage" where
  "fresh_stage sc = \<lparr>sv = fresh_view sc, heard = [], loop_live = False, requested = [], renderer_live = False, late_renders = 0,
     platform_color = 0, grid_opacity = 0, hemi_intensity = 0, canvas_width = 0, canvas_height = 0\<rparr>"

text \<open>\<open>buildScene\<close> with its listeners for the theme; \<open>bindEvents\<close> with those for size and visibility.\<close>

definition build_stage :: "device \<Rightarrow> look \<Rightarrow> stage act" where
  "build_stage d l = do_all
     [pure_act (\<lambda>s. s\<lparr>renderer_live := True\<rparr>),
      pure_act (applyTheme d l),
      pure_act (subscribe (has_media d) Theme_Query),
      pure_act (subscribe (has_mutations d) Theme_Attribute),
      on_view buildScene,
      pure_act (resize l)]"

definition bind_stage :: "device \<Rightarrow> stage act" where
  "bind_stage d = do_all
     [pure_act (subscribe True Window_Resize),
      pure_act (subscribe (has_intersections d) In_View)]"

definition request_loop :: "stage \<Rightarrow> stage" where
  "request_loop s = s\<lparr>requested := requested s @ [loop_live s]\<rparr>"

definition open_stage :: "device \<Rightarrow> look \<Rightarrow> bool \<Rightarrow> scene \<Rightarrow> rat \<Rightarrow> js_error option \<times> stage" where
  "open_stage d l rd sc now = do_all
     [build_stage d l, bind_stage d, on_view (goTo rd 0),
      pure_act (\<lambda>s. s\<lparr>sv := (sv s)\<lparr>visible := True, last_time := now\<rparr>, loop_live := True\<rparr>),
      pure_act request_loop] (fresh_stage sc)"

subsection \<open>Frames\<close>

definition render :: "stage \<Rightarrow> stage" where
  "render s = (if renderer_live s then s else s\<lparr>late_renders := Suc (late_renders s)\<rparr>)"

text \<open>\<open>loop\<close>: ask for the next frame, advance the view, draw.  Hidden views are not drawn.\<close>

definition stage_loop :: "bool \<Rightarrow> bool \<Rightarrow> rat \<Rightarrow> stage act" where
  "stage_loop rd hidden now s = do_all
     [pure_act request_loop,
      on_view (frame rd hidden now),
      pure_act (if visible (sv s) \<and> \<not> hidden then render else id)] s"

text \<open>One animation frame of the browser: it runs the callbacks requested before it.\<close>

fun run_requested :: "bool \<Rightarrow> bool \<Rightarrow> rat \<Rightarrow> bool list \<Rightarrow> stage act" where
  "run_requested rd hidden now [] s = (None, s)"
| "run_requested rd hidden now (r # rs) s =
     (case (if r then stage_loop rd hidden now s else (None, s)) of
        (e, s') \<Rightarrow> (case run_requested rd hidden now rs s' of (e', t) \<Rightarrow> (if e = None then e' else e, t)))"

definition browser_frame :: "bool \<Rightarrow> bool \<Rightarrow> rat \<Rightarrow> stage act" where
  "browser_frame rd hidden now s = run_requested rd hidden now (requested s) (s\<lparr>requested := []\<rparr>)"

subsection \<open>Closing\<close>

definition unsubscribe :: "source \<Rightarrow> stage \<Rightarrow> stage" where
  "unsubscribe x s = s\<lparr>heard := filter (\<lambda>y. y \<noteq> x) (heard s)\<rparr>"

definition close_stage :: "stage \<Rightarrow> stage" where
  "close_stage s = (unsubscribe In_View (unsubscribe Theme_Attribute (unsubscribe Theme_Query (unsubscribe Window_Resize s))))
     \<lparr>renderer_live := False, loop_live := False\<rparr>"

subsection \<open>Events\<close>

datatype stage_event =
    Control event
  | Next_Frame bool rat
  | Resized look
  | Theme_Changed source look
  | Seen bool
  | Dispose

fun stage_handle :: "device \<Rightarrow> bool \<Rightarrow> stage_event \<Rightarrow> stage act" where
  "stage_handle d rd (Control e) s = on_view (handle rd e) s"
| "stage_handle d rd (Next_Frame hidden now) s = browser_frame rd hidden now s"
| "stage_handle d rd (Resized l) s = (None, if Window_Resize \<in> set (heard s) then resize l s else s)"
| "stage_handle d rd (Theme_Changed x l) s = (None, if x \<in> set (heard s) then applyTheme d l s else s)"
| "stage_handle d rd (Seen b) s = (if In_View \<in> set (heard s) then on_view (handle rd (Visibility b)) s else (None, s))"
| "stage_handle d rd Dispose s = (None, close_stage s)"

text \<open>The controls a user has; the animation loop and visibility are driven by the browser.\<close>

fun is_control :: "event \<Rightarrow> bool" where
  "is_control (Frame hidden now) = False"
| "is_control (Visibility b) = False"
| "is_control e = True"

fun stage_allowed :: "stage_event \<Rightarrow> stage \<Rightarrow> bool" where
  "stage_allowed (Control e) s = (is_control e \<and> enabled e (sv s))"
| "stage_allowed (Theme_Changed x l) s = (x = Theme_Query \<or> x = Theme_Attribute)"
| "stage_allowed e s = True"

subsection \<open>The invariant of a stage\<close>

definition sources :: "device \<Rightarrow> source list" where
  "sources d = (if has_media d then [Theme_Query] else []) @ (if has_mutations d then [Theme_Attribute] else [])
     @ [Window_Resize] @ (if has_intersections d then [In_View] else [])"

text \<open>
  While the view lives it listens to every source once, one callback is requested, the loop.  Once
  disposed of it listens to nothing, and what is still requested runs out.
\<close>

definition living :: "device \<Rightarrow> stage \<Rightarrow> bool" where
  "living d s \<longleftrightarrow> loop_live s \<and> renderer_live s \<and> heard s = sources d \<and> requested s = [True] \<and> late_renders s = 0"

definition closed :: "stage \<Rightarrow> bool" where
  "closed s \<longleftrightarrow> \<not> loop_live s \<and> \<not> renderer_live s \<and> heard s = []
     \<and> (requested s = [True] \<and> late_renders s = 0 \<or> requested s = [False] \<and> late_renders s \<le> 1 \<or> requested s = [] \<and> late_renders s \<le> 1)"

definition size_ok :: "stage \<Rightarrow> bool" where
  "size_ok s \<longleftrightarrow> 0 < canvas_width s \<and> 300 \<le> canvas_height s \<and> canvas_height s \<le> 560"

definition stage_ok :: "device \<Rightarrow> scene \<Rightarrow> stage \<Rightarrow> bool" where
  "stage_ok d sc s \<longleftrightarrow> view_ok sc (sv s) \<and> size_ok s \<and> (living d s \<or> closed s)"

definition outside :: "stage \<Rightarrow> source list \<times> bool \<times> bool list \<times> bool \<times> nat \<times> nat \<times> int" where
  "outside s = (heard s, loop_live s, requested s, renderer_live s, late_renders s, canvas_width s, canvas_height s)"

lemma outside_same:
  assumes "outside s' = outside s"
  shows "living d s' = living d s" "closed s' = closed s" "size_ok s' = size_ok s"
  using assms by (simp_all add: outside_def living_def closed_def size_ok_def)

lemma outside_view [simp]: "outside (s\<lparr>sv := v\<rparr>) = outside s"
  by (simp add: outside_def)

lemma outside_theme [simp]: "outside (applyTheme d l s) = outside s" "sv (applyTheme d l s) = sv s"
  by (simp_all add: outside_def applyTheme_def Let_def)

lemma resize_fields [simp]:
  "sv (resize l s) = sv s" "heard (resize l s) = heard s" "loop_live (resize l s) = loop_live s"
  "requested (resize l s) = requested s" "renderer_live (resize l s) = renderer_live s" "late_renders (resize l s) = late_renders s"
  by (simp_all add: resize_def Let_def)

lemma resize_size: "size_ok (resize l s)"
  by (simp add: size_ok_def resize_def shown_width_def Let_def)

lemma on_view_ok:
  assumes "fst (a (sv s)) = None \<and> view_ok sc (snd (a (sv s)))"
  shows "\<exists>v. on_view a s = (None, s\<lparr>sv := v\<rparr>) \<and> view_ok sc v"
  using assms by (intro exI [of _ "snd (a (sv s))"]) (cases "a (sv s)", simp add: on_view_def)

lemma open_stage_ok:
  assumes "wf_scene sc"
  shows "\<exists>s. open_stage d l rd sc now = (None, s) \<and> view_ok sc (sv s) \<and> stepIndex (sv s) = 0 \<and> size_ok s \<and> living d s
    \<and> construct rd sc now = (None, sv s)"
proof -
  obtain v where v: "construct rd sc now = (None, v)" "view_ok sc v" "stepIndex v = 0"
    using construct_ok [OF assms] by blast
  obtain v1 where v1: "buildScene (fresh_view sc) = (None, v1)"
    using v(1) by (cases "buildScene (fresh_view sc)"; cases "fst (buildScene (fresh_view sc))") (simp_all add: construct_def)
  obtain v2 where v2: "goTo rd 0 v1 = (None, v2)"
    using v(1) v1 by (cases "goTo rd 0 v1"; cases "fst (goTo rd 0 v1)") (simp_all add: construct_def)
  have v3: "v = v2\<lparr>visible := True, last_time := now\<rparr>"
    using v(1) v1 v2 by (simp add: construct_def)
  have fresh: "sv (fresh_stage sc) = fresh_view sc" "heard (fresh_stage sc) = []" "requested (fresh_stage sc) = []"
    "late_renders (fresh_stage sc) = 0"
    by (simp_all add: fresh_stage_def)
  define s1 where "s1 = subscribe (has_mutations d) Theme_Attribute (subscribe (has_media d) Theme_Query
      (applyTheme d l ((fresh_stage sc)\<lparr>renderer_live := True\<rparr>)))"
  have s1: "sv s1 = fresh_view sc" "heard s1 = (if has_media d then [Theme_Query] else []) @ (if has_mutations d then [Theme_Attribute] else [])"
    "requested s1 = []" "late_renders s1 = 0" "renderer_live s1"
    by (simp_all add: s1_def subscribe_def applyTheme_def Let_def fresh)
  define s2 where "s2 = resize l (s1\<lparr>sv := v1\<rparr>)"
  have "build_stage d l (fresh_stage sc) = (None, s2)"
    using v1 s1(1) by (simp add: build_stage_def on_view_def s1_def s2_def)
  moreover define s3 where "s3 = subscribe (has_intersections d) In_View (subscribe True Window_Resize s2)"
  moreover have s3: "sv s3 = v1" "heard s3 = sources d" "requested s3 = []" "late_renders s3 = 0" "renderer_live s3" "size_ok s3"
    using s1 resize_size [of l "s1\<lparr>sv := v1\<rparr>"] by (auto simp: s3_def s2_def subscribe_def sources_def size_ok_def)
  moreover define s4 where "s4 = s3\<lparr>sv := v, loop_live := True, requested := [True]\<rparr>"
  ultimately have "open_stage d l rd sc now = (None, s4)"
    using v2 by (simp add: open_stage_def bind_stage_def on_view_def request_loop_def v3 s4_def)
  then show ?thesis
    using v s3 by (intro exI [of _ s4]) (simp add: s4_def living_def size_ok_def)
qed

subsection \<open>Every event keeps the invariant\<close>

lemma frame_view: "view_ok sc v \<Longrightarrow> fst (frame rd hidden now v) = None \<and> view_ok sc (snd (frame rd hidden now v))"
  using handle_ok [of sc v "Frame hidden now" rd] by simp

definition drawn_late :: "bool \<Rightarrow> stage \<Rightarrow> nat" where
  "drawn_late hidden s = (if \<not> renderer_live s \<and> visible (sv s) \<and> \<not> hidden then Suc (late_renders s) else late_renders s)"

lemma drawn_late_requested [simp]: "drawn_late hidden (s\<lparr>requested := r\<rparr>) = drawn_late hidden s"
  by (simp add: drawn_late_def)

lemma loop_result:
  assumes "view_ok sc (sv s)"
  shows "\<exists>v. stage_loop rd hidden now s = (None, s\<lparr>requested := requested s @ [loop_live s], sv := v, late_renders := drawn_late hidden s\<rparr>)
    \<and> view_ok sc v"
proof -
  obtain v where "on_view (frame rd hidden now) (request_loop s) = (None, (request_loop s)\<lparr>sv := v\<rparr>)" "view_ok sc v"
    using on_view_ok [of "frame rd hidden now" "request_loop s" sc] frame_view assms by (auto simp: request_loop_def)
  then show ?thesis
    by (intro exI [of _ v]) (simp add: stage_loop_def request_loop_def render_def drawn_late_def)
qed

lemma frame_living:
  assumes "living d s" "view_ok sc (sv s)"
  shows "\<exists>v. browser_frame rd hidden now s = (None, s\<lparr>sv := v\<rparr>) \<and> view_ok sc v"
proof -
  have "view_ok sc (sv (s\<lparr>requested := []\<rparr>))" using assms(2) by simp
  from loop_result [OF this, of rd hidden now] obtain v where
    "stage_loop rd hidden now (s\<lparr>requested := []\<rparr>) = (None, s\<lparr>requested := [True], sv := v, late_renders := 0\<rparr>)" "view_ok sc v"
    using assms(1) by (auto simp: living_def drawn_late_def)
  moreover have "s\<lparr>requested := [True], sv := v, late_renders := 0\<rparr> = s\<lparr>sv := v\<rparr>" for v
    using assms(1) by (cases s) (simp add: living_def)
  ultimately show ?thesis
    using assms(1) by (intro exI [of _ v]) (simp add: browser_frame_def living_def)
qed

definition after_frame :: "bool list \<Rightarrow> bool list" where
  "after_frame r = (if r = [True] then [False] else [])"

lemma frame_closed:
  assumes "closed s" "view_ok sc (sv s)"
  shows "\<exists>t. browser_frame rd hidden now s = (None, t) \<and> view_ok sc (sv t) \<and> closed t \<and> requested t = after_frame (requested s)
    \<and> canvas_width t = canvas_width s \<and> canvas_height t = canvas_height s \<and> late_renders t = (if requested s = [True] then drawn_late hidden s else late_renders s) \<and> (requested s \<noteq> [True] \<longrightarrow> sv t = sv s)"
proof (cases "requested s = [True]")
  case True
  have "view_ok sc (sv (s\<lparr>requested := []\<rparr>))" using assms(2) by simp
  from loop_result [OF this, of rd hidden now] obtain v where
    "stage_loop rd hidden now (s\<lparr>requested := []\<rparr>) = (None, s\<lparr>requested := [False], sv := v, late_renders := drawn_late hidden s\<rparr>)" "view_ok sc v"
    using assms(1) True by (auto simp: closed_def)
  moreover have "drawn_late hidden s \<le> 1" using assms(1) True by (auto simp: closed_def drawn_late_def)
  ultimately show ?thesis
    using assms(1) True by (simp add: browser_frame_def closed_def after_frame_def)
next
  case False
  then have "requested s = [False] \<or> requested s = []" using assms(1) by (auto simp: closed_def)
  then have "browser_frame rd hidden now s = (None, s\<lparr>requested := []\<rparr>)" by (auto simp: browser_frame_def)
  then show ?thesis
    using assms False by (auto simp: closed_def after_frame_def)
qed

lemma unsubscribe_fields [simp]:
  "heard (unsubscribe x s) = filter (\<lambda>y. y \<noteq> x) (heard s)" "sv (unsubscribe x s) = sv s" "requested (unsubscribe x s) = requested s"
  "late_renders (unsubscribe x s) = late_renders s" "canvas_width (unsubscribe x s) = canvas_width s"
  "canvas_height (unsubscribe x s) = canvas_height s"
  by (simp_all add: unsubscribe_def)

lemma close_stage_fields [simp]:
  "heard (close_stage s) = []" "sv (close_stage s) = sv s" "requested (close_stage s) = requested s" "\<not> loop_live (close_stage s)"
  "\<not> renderer_live (close_stage s)" "late_renders (close_stage s) = late_renders s"
  "canvas_width (close_stage s) = canvas_width s" "canvas_height (close_stage s) = canvas_height s"
proof -
  have "x = Window_Resize \<or> x = Theme_Query \<or> x = Theme_Attribute \<or> x = In_View" for x by (cases x) simp_all
  then show "heard (close_stage s) = []" by (auto simp: close_stage_def filter_empty_conv)
qed (simp_all add: close_stage_def)

lemma close_stage_ok: "stage_ok d sc s \<Longrightarrow> stage_ok d sc (close_stage s) \<and> closed (close_stage s)"
  by (auto simp: stage_ok_def size_ok_def closed_def living_def)

lemma stage_view_ok: "stage_ok d sc s \<Longrightarrow> view_ok sc v \<Longrightarrow> stage_ok d sc (s\<lparr>sv := v\<rparr>)"
  using outside_same [OF outside_view [where s = s and v = v]] by (simp add: stage_ok_def)

lemma stage_control_ok:
  assumes "stage_ok d sc s" "enabled e (sv s)"
  shows "\<exists>t. on_view (handle rd e) s = (None, t) \<and> stage_ok d sc t"
proof -
  have "view_ok sc (sv s)" using assms(1) by (simp add: stage_ok_def)
  then obtain v where "on_view (handle rd e) s = (None, s\<lparr>sv := v\<rparr>)" "view_ok sc v"
    using on_view_ok [of "handle rd e" s sc] handle_ok [of sc "sv s" e rd] assms(2) by blast
  then show ?thesis using stage_view_ok [OF assms(1)] by blast
qed

lemma stage_frame_ok:
  assumes "stage_ok d sc s"
  shows "\<exists>t. browser_frame rd hidden now s = (None, t) \<and> stage_ok d sc t"
proof (cases "living d s")
  case True
  then show ?thesis using frame_living [OF True, of sc rd hidden now] stage_view_ok [OF assms] assms by (auto simp: stage_ok_def)
next
  case False
  then have c: "closed s" "view_ok sc (sv s)" "size_ok s" using assms by (simp_all add: stage_ok_def)
  from frame_closed [OF c(1,2), of rd hidden now] obtain t where
    "browser_frame rd hidden now s = (None, t)" "view_ok sc (sv t)" "closed t" "canvas_width t = canvas_width s" "canvas_height t = canvas_height s"
    by blast
  then show ?thesis using c(3) by (intro exI [of _ t]) (simp add: stage_ok_def size_ok_def)
qed

lemma stage_handle_ok:
  assumes "stage_ok d sc s" "stage_allowed e s"
  shows "fst (stage_handle d rd e s) = None \<and> stage_ok d sc (snd (stage_handle d rd e s))"
proof (cases e)
  case (Control x)
  then show ?thesis using stage_control_ok [OF assms(1), of x rd] assms(2) by auto
next
  case (Next_Frame hidden now)
  then show ?thesis using stage_frame_ok [OF assms(1), of rd hidden now] by auto
next
  case (Resized l)
  then show ?thesis
    using assms(1) resize_size [of l s] by (simp add: stage_ok_def living_def closed_def)
next
  case (Theme_Changed x l)
  then show ?thesis
    using assms(1) outside_same [OF outside_theme(1) [where d = d and l = l and s = s]] by (simp add: stage_ok_def)
next
  case (Seen b)
  then show ?thesis
    using stage_control_ok [OF assms(1), of "Visibility b" rd] assms(1) by auto
next
  case Dispose
  then show ?thesis using close_stage_ok [OF assms(1)] by simp
qed

interpretation stages: event_system "stage_handle d rd" stage_allowed "stage_ok d sc"
    "\<lambda>s. wf_scene sc \<and> (\<exists>l now. open_stage d l rd sc now = (None, s))" for d rd sc
proof
  fix s
  assume "wf_scene sc \<and> (\<exists>l now. open_stage d l rd sc now = (None, s))"
  then obtain l now where "wf_scene sc" "open_stage d l rd sc now = (None, s)" by blast
  then show "stage_ok d sc s" using open_stage_ok [of sc d l rd now] by (auto simp: stage_ok_def)
qed (simp add: stage_handle_ok)

subsection \<open>Living and closed\<close>

lemma control_outside: "outside (snd (on_view a s)) = outside s"
  by (cases "a (sv s)") (simp add: on_view_def)

lemma living_stays:
  assumes "stage_ok d sc s" "living d s" "e \<noteq> Dispose"
  shows "living d (snd (stage_handle d rd e s))"
proof (cases e)
  case (Control x)
  then show ?thesis using assms(2) outside_same [OF control_outside] by simp
next
  case (Next_Frame hidden now)
  have "view_ok sc (sv s)" using assms(1) by (simp add: stage_ok_def)
  from frame_living [OF assms(2) this, of rd hidden now] show ?thesis
    using Next_Frame assms(2) outside_same [OF outside_view [where s = s]] by auto
next
  case (Seen b)
  then show ?thesis using assms(2) outside_same [OF control_outside] by simp
next
  case (Theme_Changed x l)
  then show ?thesis using assms(2) outside_same [OF outside_theme(1) [where s = s]] by simp
qed (use assms(2,3) in \<open>simp_all add: living_def\<close>)

lemma closed_stays:
  assumes "stage_ok d sc s" "closed s"
  shows "closed (snd (stage_handle d rd e s))"
proof (cases e)
  case (Control x)
  then show ?thesis using assms(2) outside_same [OF control_outside] by simp
next
  case (Next_Frame hidden now)
  have "view_ok sc (sv s)" using assms(1) by (simp add: stage_ok_def)
  from frame_closed [OF assms(2) this, of rd hidden now] show ?thesis using Next_Frame by auto
next
  case Dispose
  then show ?thesis using close_stage_ok [OF assms(1)] by simp
qed (use assms(2) in \<open>simp_all add: closed_def\<close>)

lemma living_run:
  assumes "stage_ok d sc s" "living d s" "all_allowed stage_allowed (stage_handle d rd) es s" "Dispose \<notin> set es"
  shows "living d (run_all (stage_handle d rd) es s)"
  using assms
proof (induction es arbitrary: s)
  case (Cons e es)
  then have "stage_ok d sc (snd (stage_handle d rd e s))" using stage_handle_ok [of d sc s e rd] by simp
  moreover have "living d (snd (stage_handle d rd e s))" using living_stays [OF Cons.prems(1,2)] Cons.prems(4) by auto
  ultimately show ?case using Cons by simp
qed simp

text \<open>
  Two frames after it was closed nothing of a view is left in the browser; the first of them still runs
  the loop, and draws with the renderer that has been disposed of.
\<close>

lemma closed_runs_out:
  assumes "stage_ok d sc s" "living d s" "t = snd (browser_frame rd h1 n1 (close_stage s))" "u = snd (browser_frame rd h2 n2 t)"
  shows "requested u = [] \<and> heard u = [] \<and> sv u = sv t \<and> late_renders u = (if visible (sv s) \<and> \<not> h1 then 1 else 0)"
proof -
  have c: "closed (close_stage s)" "view_ok sc (sv (close_stage s))"
    using close_stage_ok [OF assms(1)] assms(1) by (simp_all add: stage_ok_def)
  have t: "view_ok sc (sv t)" "closed t" "requested t = [False]" "late_renders t = drawn_late h1 (close_stage s)"
    using frame_closed [OF c, of rd h1 n1] assms(2,3) by (auto simp: after_frame_def living_def)
  have u: "closed u" "requested u = []" "sv u = sv t" "late_renders u = late_renders t"
    using frame_closed [OF t(2,1), of rd h2 n2] assms(4) t(3) by (auto simp: after_frame_def)
  then show ?thesis using t(4) assms(2) by (simp add: closed_def drawn_late_def living_def)
qed

text \<open>
  A scene whose mascot stands at an actor it does not have: the constructor throws after the view has
  begun to listen for the theme, and nobody stops that.
\<close>

lemma failed_mount_leaks:
  assumes "truthy (d_dilly sc)" "build_actors (d_actors sc) Map.empty (the (d_dilly sc)) = None"
  shows "\<exists>e s. open_stage d l rd sc now = (Some e, s)
    \<and> heard s = (if has_media d then [Theme_Query] else []) @ (if has_mutations d then [Theme_Attribute] else [])"
  using assms
  by (cases "d_dilly sc")
    (simp_all add: open_stage_def build_stage_def on_view_def buildScene_def require_actor_def actor_at_def fresh_stage_def fresh_view_def
      subscribe_def applyTheme_def Let_def)

subsection \<open>The markup of the frame\<close>

lemma scan_scene_esc: "harmless q \<Longrightarrow> scan q (scene_esc (Str t)) = (q, [])"
  by (simp add: scene_esc_def scan_escaped)

definition chrome_tokens :: "token list" where
  "chrome_tokens = snd (scan Content (chrome_head @ chrome_tail))"

lemma chrome_literals: "fst (scan Content chrome_head) = Quoted" "fst (scan Quoted chrome_tail) = Content"
  by code_simp+

lemma scan_chrome: "scan Content (chrome sc) = (Content, chrome_tokens)"
proof -
  obtain a b where "scan Content chrome_head = (Quoted, a)" "scan Quoted chrome_tail = (Content, b)"
    using chrome_literals by (metis prod.collapse)
  then show ?thesis
    by (simp add: chrome_def chrome_tokens_def scan_append scan_scene_esc)
qed

end
