(* ===== verification/Scene_Set.thy ===== *)
theory Scene_Set
  imports Actor_Models Scene_Lifecycle
begin

section \<open>The stage of a walkthrough\<close>

text \<open>
  What \<open>buildScene\<close> puts on the stage, what the moves, effects and blocks of \<open>Scene_Engine\<close> look like there,
  and where the animation frame draws them: \<open>kb-src/scenes-engine.js\<close>, lines 292 to 363 and 464 to 640.
  The pictures are functions of the state of the player; \<open>m\<close> holds the functions of \<open>Math\<close>, \<open>metrics\<close> the
  widths of texts on a canvas, \<open>capsule\<close> whether the library has capsules.
\<close>

subsection \<open>The set\<close>

definition platform_radius :: "scene \<Rightarrow> rat" where
  "platform_radius sc = num_or (d_platformRadius sc) 9"

definition hemi_light :: "stage \<Rightarrow> object" where
  "hemi_light s = Object (HemisphereLight 0xffffff 0x3a4a48 (hemi_intensity s)) at_rest []"

definition sun :: object where
  "sun = casting (move_to (6, 12, 8) (Object (DirectionalLight 0xffffff 1.1 1024 14) at_rest []))"

definition platform :: "scene \<Rightarrow> stage \<Rightarrow> object" where
  "platform sc s = receiving (rise_to (- 0.2) (mesh (CylinderGeometry (platform_radius sc) (platform_radius sc + 0.3) 0.4 96)
     ((mat 0xdfe6e4 (rough_as 0.9))\<lparr>mt_color := platform_color s\<rparr>)))"

definition rim :: "scene \<Rightarrow> object" where
  "rim sc = rise_to 0.01 (turn_to (Math_PI / 2, 0, 0) (mesh (TorusGeometry (platform_radius sc + 0.05) 0.05 8 128)
     (mat (color ''teal'') (glowing (color ''tealBright'') 0.5))))"

definition grid :: "scene \<Rightarrow> stage \<Rightarrow> object" where
  "grid sc s = rise_to 0.012 (mesh (PolarGrid (platform_radius sc - 0.2) 12 6 64 0x9fb1ae 0xc3cfcc) (basic_mat 0xffffff (grid_opacity s)))"

text \<open>An actor: its model turned to the camera, its halo and its label.\<close>

definition scale_of :: "actor \<Rightarrow> rat" where
  "scale_of a = num_or (a_scale a) 1"

definition facing :: "scene \<Rightarrow> rat" where
  "facing sc = (case d_camera sc of Some c \<Rightarrow> cam_theta c | None \<Rightarrow> 0)"

definition halo :: "rat \<Rightarrow> rat \<Rightarrow> object" where
  "halo alpha s = scale_to (s, s, s) (rise_to 0.02 (turn_to (- Math_PI / 2, 0, 0)
     (mesh (RingGeometry 0.95 1.15 48) ((basic_mat (color ''tealBright'') alpha)\<lparr>mt_double := True\<rparr>))))"

definition actor_label :: "(string \<Rightarrow> string \<Rightarrow> rat) \<Rightarrow> actor \<Rightarrow> object" where
  "actor_label metrics a = move_to (0, num_or (a_labelY a) 2.2 * scale_of a, 0) (makeLabel metrics (a_label a) (a_sub a) None None)"

definition posed_model :: "maths \<Rightarrow> bool \<Rightarrow> rat \<Rightarrow> actor \<Rightarrow> object" where
  "posed_model m capsule r a = turn_to (0, r, 0)
     (scale_to (scale_of a, scale_of a, scale_of a) (actor_model m capsule (a_kind a) (a_color a)))"

text \<open>Frames: the authorities and the globe turn slowly; every model starts at \<open>facing\<close>.\<close>

definition turn_frame :: "rat \<Rightarrow> actor \<Rightarrow> rat \<Rightarrow> rat" where
  "turn_frame dt a r = (if a_kind a = ''ca'' \<or> a_kind a = ''globe'' then r + dt * 0.25 else r)"

lemma others_face_the_camera:
  "a_kind a \<noteq> ''ca'' \<Longrightarrow> a_kind a \<noteq> ''globe'' \<Longrightarrow> fold (\<lambda>dt. turn_frame dt a) dts (facing sc) = facing sc"
  by (induction dts) (simp_all add: turn_frame_def)

lemma turned: "a_kind a = ''ca'' \<or> a_kind a = ''globe'' \<Longrightarrow> fold (\<lambda>dt. turn_frame dt a) dts r = r + sum_list dts * 0.25"
  by (induction dts arbitrary: r) (auto simp: turn_frame_def algebra_simps)

text \<open>Frames: a pulse lights the halo and lets it breathe.\<close>

definition halo_opacity :: "rat \<Rightarrow> rat" where
  "halo_opacity glow = glow * 0.85"

definition halo_scale :: "maths \<Rightarrow> rat \<Rightarrow> rat \<Rightarrow> rat" where
  "halo_scale m t glow = 1 + glow * 0.25 * (1 + Math_sin m (t * 8) * 0.2)"

definition actor_object :: "maths \<Rightarrow> (string \<Rightarrow> string \<Rightarrow> rat) \<Rightarrow> bool \<Rightarrow> rat \<Rightarrow> rat \<Rightarrow> rat \<Rightarrow> actor \<Rightarrow> object" where
  "actor_object m metrics capsule r t glow a = move_to (a_x a, 0, a_z a)
     (group [posed_model m capsule r a, halo (halo_opacity glow) (halo_scale m t glow), actor_label metrics a])"

text \<open>The mascot stands beside its actor and hovers, unless motion is reduced.\<close>

definition mascot_y :: "maths \<Rightarrow> bool \<Rightarrow> rat \<Rightarrow> rat" where
  "mascot_y m rd t = 3.15 + (if rd then 0 else Math_sin m (t * 2) * 0.06)"

definition mascot :: "maths \<Rightarrow> bool \<Rightarrow> rat \<Rightarrow> string option \<Rightarrow> actor \<Rightarrow> object" where
  "mascot m rd t md a = scale_to (1.9, 1.47, 1) (move_to (a_x a * 0.78, mascot_y m rd t, a_z a * 0.78 + 0.01)
     (Object (Mascot (dilly_file md)) at_rest []))"

text \<open>The audit chain beside its actor.\<close>

definition chain_place :: "scene \<Rightarrow> actor \<Rightarrow> vec" where
  "chain_place sc a = (case d_chainOffset sc of
     Some (dx, dz) \<Rightarrow> (a_x a + dx, 0, a_z a + dz) | None \<Rightarrow> (a_x a + 1.1, 0, a_z a))"

definition block_object :: "block \<Rightarrow> object" where
  "block_object b = move_to (0, b_y b, 0) (box 0.42 0.24 0.42
     (mat (if b_gold b then color ''gold'' else color ''tealBright'')
       (no_opts\<lparr>metal := Some 0.3, emissive := Some (if b_gold b then color ''gold'' else color ''teal''), ei := Some 0.25\<rparr>)))"

definition chain_object :: "view \<Rightarrow> object" where
  "chain_object v = (case d_chainAt (v_def v) of
       Some i \<Rightarrow> (case actors v i of Some a \<Rightarrow> move_to (chain_place (v_def v) (as_def a)) | None \<Rightarrow> id)
     | None \<Rightarrow> id) (group (map block_object (chain v)))"

subsection \<open>Envelopes\<close>

definition envelope :: "(string \<Rightarrow> string \<Rightarrow> rat) \<Rightarrow> move \<Rightarrow> object" where
  "envelope metrics mo =
     (let c = move_color mo; lit = mat c (glowing c 0.55) in group
       ([box 0.62 0.4 0.08 (mat 0xf7faf9 (rough_as 0.5)),
         move_to (0, 0.07, 0.05) (scale_to (1, 1, 0.12) (turn_to (Math_PI / 2, 0, Math_PI / 4) (mesh (ConeGeometry 0.44 0.24 4 1) lit))),
         rise_to (- 0.12) (box 0.64 0.08 0.09 lit)]
        @ (if m_kind mo = Some ''secret'' then [move_to (0, - 0.02, 0.06) (keyhole 0.14 (Some (color ''gold'')))] else [])
        @ (if truthy (m_label mo) then [move_to (0, 0.62, 0) (makeLabel metrics (the (m_label mo)) (m_sub mo) (Some c) (Some 0.8))] else [])))"

text \<open>The anchor of an actor and the curve of a message, as \<open>QuadraticBezierCurve3\<close> computes it.\<close>

definition anchor :: "actor \<Rightarrow> vec" where
  "anchor a = (a_x a, num_or (a_anchorY a) 1 * scale_of a, a_z a)"

definition distance :: "maths \<Rightarrow> vec \<Rightarrow> vec \<Rightarrow> rat" where
  "distance m p q = (case (p, q) of ((a, b, c), (x, y, z)) \<Rightarrow> Math_sqrt m ((a - x) * (a - x) + (b - y) * (b - y) + (c - z) * (c - z)))"

definition mid_point :: "maths \<Rightarrow> vec \<Rightarrow> vec \<Rightarrow> vec" where
  "mid_point m p q = (case (p, q) of ((a, b, c), (x, y, z)) \<Rightarrow>
     ((a + x) * 0.5, (b + y) * 0.5 + (1.4 + distance m p q * 0.18), (c + z) * 0.5))"

definition bezier :: "rat \<Rightarrow> rat \<Rightarrow> rat \<Rightarrow> rat \<Rightarrow> rat" where
  "bezier t p q r = (1 - t) * (1 - t) * p + 2 * (1 - t) * t * q + t * t * r"

fun getPoint :: "vec \<Rightarrow> vec \<Rightarrow> vec \<Rightarrow> rat \<Rightarrow> vec" where
  "getPoint (a, b, c) (d, e, f) (x, y, z) t = (bezier t a d x, bezier t b e y, bezier t c f z)"

definition curve_point :: "maths \<Rightarrow> actor \<Rightarrow> actor \<Rightarrow> rat \<Rightarrow> vec" where
  "curve_point m a b t = getPoint (anchor a) (mid_point m (anchor a) (anchor b)) (anchor b) t"

text \<open>The dashed line of a message: \<open>curve.getPoints(40)\<close>.\<close>

definition path_line :: "maths \<Rightarrow> move \<Rightarrow> actor \<Rightarrow> actor \<Rightarrow> object" where
  "path_line m mo a b = Object (Dashes (move_color mo) (map (\<lambda>i. curve_point m a b (of_nat i / 40)) [0..<41])) at_rest []"

text \<open>Where a frame draws an envelope: it speeds up in the first half of its way and slows down in the second.\<close>

definition ease :: "rat \<Rightarrow> rat" where
  "ease k = (if k < 0.5 then 2 * k * k else 1 - (- 2 * k + 2) * (- 2 * k + 2) / 2)"

definition flown :: "packet \<Rightarrow> rat" where
  "flown p = min 1 (p_t p)"

definition envelope_at :: "maths \<Rightarrow> view \<Rightarrow> packet \<Rightarrow> vec option" where
  "envelope_at m v p = (case (actor_at v (m_from (p_move p)), actor_at v (m_to (p_move p))) of
     (Some a, Some b) \<Rightarrow> Some (curve_point m (as_def a) (as_def b) (ease (flown p))) | _ \<Rightarrow> None)"

text \<open>A rejected envelope turns red behind the middle of its way: \<open>children[0]\<close> is the body.\<close>

definition reddened :: "object \<Rightarrow> object" where
  "reddened x = (case children_of x of
     Object (Mesh g mt) p os # rest \<Rightarrow> Object (kind_of x) (pose_of x) (Object (Mesh g (mt\<lparr>mt_color := color ''red''\<rparr>)) p os # rest)
   | _ \<Rightarrow> x)"

definition drawn_envelope :: "maths \<Rightarrow> (string \<Rightarrow> string \<Rightarrow> rat) \<Rightarrow> view \<Rightarrow> packet \<Rightarrow> object option" where
  "drawn_envelope m metrics v p = map_option (\<lambda>q. move_to q
     (if m_kind (p_move p) = Some ''reject'' \<and> 0.55 < flown p then reddened (envelope metrics (p_move p)) else envelope metrics (p_move p)))
     (envelope_at m v p)"

subsection \<open>Pictures of the mascot\<close>

text \<open>
  \<open>DILLY_SRC\<close>, the textures already asked for by mood: \<open>dillyTexture\<close> loads each picture once, from the
  directory the page names or from \<open>img/\<close>.
\<close>

definition mood_key :: "string option \<Rightarrow> string" where
  "mood_key md = (if truthy md then the md else ''happy'')"

definition picture_url :: "string option \<Rightarrow> string option \<Rightarrow> string" where
  "picture_url assets md = (if truthy assets then the assets else ''img/'') @ dilly_file md"

definition dillyTexture :: "string option \<Rightarrow> string option \<Rightarrow> (string \<times> string) list \<Rightarrow> string \<times> (string \<times> string) list" where
  "dillyTexture assets md cache = (case map_of cache (mood_key md) of
     Some u \<Rightarrow> (u, cache)
   | None \<Rightarrow> (picture_url assets md, cache @ [(mood_key md, picture_url assets md)]))"

definition cache_ok :: "string option \<Rightarrow> (string \<times> string) list \<Rightarrow> bool" where
  "cache_ok assets cache \<longleftrightarrow> distinct (map fst cache) \<and> (\<forall>(k, u) \<in> set cache. u = picture_url assets (Some k))"

lemma picture_of_key: "picture_url assets (Some (mood_key md)) = picture_url assets md"
  by (cases md) (auto simp: picture_url_def dilly_file_def mood_key_def Let_def)

lemma dillyTexture_ok:
  assumes "cache_ok assets cache" "dillyTexture assets md cache = (u, cache')"
  shows "u = picture_url assets md \<and> cache_ok assets cache' \<and> map_of cache' (mood_key md) = Some u"
proof (cases "map_of cache (mood_key md)")
  case None
  then have "mood_key md \<notin> fst ` set cache" by (simp add: map_of_eq_None_iff)
  with None assms show ?thesis
    by (auto simp: dillyTexture_def cache_ok_def picture_of_key map_of_append map_add_def)
next
  case (Some w)
  then have "w = picture_url assets (Some (mood_key md))"
    using assms(1) map_of_SomeD [OF Some] by (auto simp: cache_ok_def)
  with Some assms show ?thesis by (simp add: dillyTexture_def picture_of_key)
qed

subsection \<open>Rings, sparks and the camera\<close>

text \<open>The ring of an effect around its actor; in each frame it widens and fades with the life it has left.\<close>

definition ring_at :: "actor \<Rightarrow> vec" where
  "ring_at a = (case anchor a of (x, y, z) \<Rightarrow> (x, y + 0.4, z))"

definition ring_object :: "nat \<Rightarrow> rat \<Rightarrow> rat \<Rightarrow> actor \<Rightarrow> object" where
  "ring_object c s alpha a = scale_to (s, s, s) (turn_to (Math_PI / 2, 0, 0) (move_to (ring_at a)
     (mesh (TorusGeometry 0.9 0.06 8 48) (basic_mat c alpha))))"

definition ring_frame :: "rat \<Rightarrow> rat \<times> rat \<times> rat \<Rightarrow> rat \<times> rat \<times> rat" where
  "ring_frame dt r = (case r of (s, life, alpha) \<Rightarrow> (s + dt * 1.2, life - dt, max 0 ((life - dt) / 1.2)))"

text \<open>The sparks of a burst: \<open>random\<close> yields the values of \<open>Math.random\<close> in the order they are asked for.\<close>

record spark =
  sp_at :: vec
  sp_v :: vec
  sp_life :: rat
  sp_opacity :: rat

definition spark_object :: "nat \<Rightarrow> spark \<Rightarrow> object" where
  "spark_object c s = move_to (sp_at s) (mesh (SphereGeometry 0.05 8 6) (basic_mat c (sp_opacity s)))"

definition new_spark :: "(nat \<Rightarrow> rat) \<Rightarrow> nat \<Rightarrow> vec \<Rightarrow> spark" where
  "new_spark random i p = (case p of (x, y, z) \<Rightarrow>
     \<lparr>sp_at = (x, y + 0.6, z), sp_v = ((random (3 * i) - 0.5) * 2.4, random (3 * i + 1) * 2.2 + 0.6, (random (3 * i + 2) - 0.5) * 2.4),
      sp_life = 1, sp_opacity = 1\<rparr>)"

definition burst_sparks :: "bool \<Rightarrow> (nat \<Rightarrow> rat) \<Rightarrow> vec \<Rightarrow> spark list" where
  "burst_sparks rd random p = map (\<lambda>i. new_spark random i p) [0..<(if rd then 0 else 16)]"

definition spark_frame :: "rat \<Rightarrow> spark \<Rightarrow> spark" where
  "spark_frame dt s = (case (sp_at s, sp_v s) of ((x, y, z), (u, v, w)) \<Rightarrow>
     s\<lparr>sp_at := (x + u * dt, y + (v - dt * 4) * dt, z + w * dt), sp_v := (u, v - dt * 4, w),
       sp_life := sp_life s - dt, sp_opacity := max 0 (sp_life s - dt)\<rparr>)"

text \<open>The camera circles the point \<open>target\<close>.\<close>

definition look_at :: vec where
  "look_at = (0, - 0.6, 0.4)"

definition camera_position :: "maths \<Rightarrow> stage \<Rightarrow> vec" where
  "camera_position m s = (let rad = camera_distance s; th = orbit_theta (sv s); ph = orbit_phi (sv s) in
     case look_at of (x, y, z) \<Rightarrow>
       (x + rad * Math_sin m ph * Math_sin m th, y + rad * Math_cos m ph, z + rad * Math_sin m ph * Math_cos m th))"

text \<open>The point an envelope turns to: the camera, at the envelope's own height.\<close>

definition gaze :: "maths \<Rightarrow> stage \<Rightarrow> vec \<Rightarrow> vec" where
  "gaze m s pos = (case (camera_position m s, pos) of ((x, _, z), (_, y, _)) \<Rightarrow> (x, y, z))"

lemma camera_on_sphere:
  assumes "\<And>x. (Math_sin m x)\<^sup>2 + (Math_cos m x)\<^sup>2 = 1" "camera_position m s = (x, y, z)" "look_at = (a, b, c)"
  shows "(x - a)\<^sup>2 + (y - b)\<^sup>2 + (z - c)\<^sup>2 = (camera_distance s)\<^sup>2"
proof -
  let ?r = "camera_distance s" and ?sp = "Math_sin m (orbit_phi (sv s))" and ?cp = "Math_cos m (orbit_phi (sv s))"
    and ?st = "Math_sin m (orbit_theta (sv s))" and ?ct = "Math_cos m (orbit_theta (sv s))"
  have "x - a = ?r * ?sp * ?st" "y - b = ?r * ?cp" "z - c = ?r * ?sp * ?ct"
    using assms(2) unfolding camera_position_def Let_def assms(3) by auto
  then have "(x - a)\<^sup>2 + (y - b)\<^sup>2 + (z - c)\<^sup>2 = ?r\<^sup>2 * (?sp\<^sup>2 * (?st\<^sup>2 + ?ct\<^sup>2) + ?cp\<^sup>2)"
    by (simp add: power_mult_distrib algebra_simps)
  then show ?thesis by (simp only: assms(1) mult_1_right)
qed

lemma spark_unit: "0 \<le> dt \<Longrightarrow> sp_life s \<le> 1 \<Longrightarrow> unit_number (sp_opacity (spark_frame dt s)) \<and> sp_life (spark_frame dt s) \<le> 1"
  by (simp add: spark_frame_def unit_number_def split: prod.split)

lemma ring_unit: "0 \<le> dt \<Longrightarrow> life \<le> 1.2 \<Longrightarrow> ring_frame dt (s, life, alpha) = (s', life', alpha') \<Longrightarrow> unit_number alpha' \<and> life' \<le> 1.2 \<and> s \<le> s'"
  by (auto simp: ring_frame_def unit_number_def)

subsection \<open>Flights\<close>

text \<open>
  The reference: above the straight line between the anchors by a parabola whose top is half of
  \<open>1.4 + 0.18 * distance\<close> high.
\<close>

definition on_line :: "rat \<Rightarrow> rat \<Rightarrow> rat \<Rightarrow> rat" where
  "on_line p q t = (1 - t) * p + t * q"

definition arc_height :: "maths \<Rightarrow> vec \<Rightarrow> vec \<Rightarrow> rat \<Rightarrow> rat" where
  "arc_height m p q t = 2 * t * (1 - t) * (1.4 + distance m p q * 0.18)"

lemma bezier_line: "bezier t p ((p + q) * 0.5 + h) q = on_line p q t + 2 * t * (1 - t) * h"
  by (simp add: bezier_def on_line_def field_simps)

lemma bezier_mid: "bezier t p ((p + q) * 0.5) q = on_line p q t"
  using bezier_line [of t p q 0] by (simp only: add_0_right mult_zero_right)

lemma curve_spec:
  "curve_point m a b t = (on_line (a_x a) (a_x b) t,
     on_line (fst (snd (anchor a))) (fst (snd (anchor b))) t + arc_height m (anchor a) (anchor b) t,
     on_line (a_z a) (a_z b) t)"
proof -
  obtain p q where "anchor a = (a_x a, p, a_z a)" "anchor b = (a_x b, q, a_z b)"
    by (simp add: anchor_def)
  then show ?thesis
    by (simp only: curve_point_def mid_point_def arc_height_def prod.case getPoint.simps bezier_mid bezier_line fst_conv snd_conv)
qed

lemma curve_ends: "curve_point m a b 0 = anchor a" "curve_point m a b 1 = anchor b"
  by (simp_all add: curve_spec on_line_def arc_height_def anchor_def)

lemma distance_pos: "(\<And>q. 0 \<le> Math_sqrt m q) \<Longrightarrow> 0 \<le> distance m p q"
  by (simp add: distance_def split: prod.split)

lemma on_line_above: "0 \<le> t \<Longrightarrow> t \<le> 1 \<Longrightarrow> min p q \<le> on_line p q t"
proof -
  assume "0 \<le> t" "t \<le> 1"
  then have "(1 - t) * min p q + t * min p q \<le> on_line p q t"
    unfolding on_line_def by (intro add_mono mult_left_mono) auto
  then show ?thesis by (simp add: algebra_simps)
qed

lemma arc_above:
  assumes "\<And>q. 0 \<le> Math_sqrt m q" "0 \<le> t" "t \<le> 1"
  shows "0 \<le> arc_height m p q t"
  using distance_pos [OF assms(1), of p q] assms(2,3) by (simp add: arc_height_def)

lemma curve_above:
  assumes "\<And>q. 0 \<le> Math_sqrt m q" "0 \<le> t" "t \<le> 1"
  shows "min (fst (snd (anchor a))) (fst (snd (anchor b))) \<le> fst (snd (curve_point m a b t))"
  using on_line_above [OF assms(2,3)] arc_above [OF assms] by (simp add: curve_spec) (meson add_increasing2 order_trans)

lemma ease_ends [simp]: "ease 0 = 0" "ease 1 = 1"
  by (simp_all add: ease_def)

lemma ease_first: "k < 0.5 \<Longrightarrow> ease k = 2 * (k * k)"
  by (simp add: ease_def)

lemma ease_second: "0.5 \<le> k \<Longrightarrow> ease k = 1 - 2 * ((1 - k) * (1 - k))"
  by (simp add: ease_def field_simps)

lemma ease_mono:
  assumes "0 \<le> j" "j \<le> k" "k \<le> 1"
  shows "ease j \<le> ease k"
proof -
  consider "k < 0.5" | "j < 0.5" "0.5 \<le> k" | "0.5 \<le> j" by linarith
  then show ?thesis
  proof cases
    case 1
    then show ?thesis using assms mult_mono [of j k j k] by (simp add: ease_first)
  next
    case 2
    then have "j * j \<le> 0.5 * 0.5" "(1 - k) * (1 - k) \<le> 0.5 * 0.5"
      using assms by (intro mult_mono; simp)+
    with 2 show ?thesis by (simp add: ease_first ease_second)
  next
    case 3
    then show ?thesis using assms mult_mono [of "1 - k" "1 - j" "1 - k" "1 - j"] by (simp add: ease_second)
  qed
qed

lemma ease_unit: "0 \<le> k \<Longrightarrow> k \<le> 1 \<Longrightarrow> 0 \<le> ease k \<and> ease k \<le> 1"
  using ease_mono [of 0 k] ease_mono [of k 1] by simp

subsection \<open>Packets in a view\<close>

lemma packet_actors:
  assumes "view_ok sc v" "p \<in> set (packets v)"
  obtains a b where "actor_at v (m_from (p_move p)) = Some a" "actor_at v (m_to (p_move p)) = Some b"
    "m_from (p_move p) = Some (a_id (as_def a))" "m_to (p_move p) = Some (a_id (as_def b))"
    "a_id (as_def a) \<in> set (scene_ids sc)" "a_id (as_def b) \<in> set (scene_ids sc)"
proof -
  have A: "actors_ok sc (actors v)" and "packet_ok sc p"
    using assms by (auto simp: view_ok_def playback_ok_def core_ok_def list_all_iff)
  then have m: "id_ok (scene_ids sc) (m_from (p_move p))" "id_ok (scene_ids sc) (m_to (p_move p))"
    by (simp_all add: packet_ok_def move_ok_def)
  have found: "\<exists>a. actor_at v i = Some a \<and> i = Some (a_id (as_def a)) \<and> a_id (as_def a) \<in> set (scene_ids sc)"
    if ok: "id_ok (scene_ids sc) i" for i
  proof -
    obtain k where k: "i = Some k" "k \<in> set (scene_ids sc)" using ok by (auto simp: id_ok_def split: option.splits)
    obtain a where a: "actor_at v i = Some a" using actor_at_ok [OF A ok] by blast
    then have "a_id (as_def a) = k" using A k(1) by (simp add: actor_at_def actors_ok_def)
    with a k show ?thesis by auto
  qed
  from found [OF m(1)] found [OF m(2)] that show thesis by blast
qed

subsection \<open>Everything drawn is well formed\<close>

definition colors_fit :: "scene \<Rightarrow> bool" where
  "colors_fit sc \<longleftrightarrow> list_all (\<lambda>a. case a_color a of Some c \<Rightarrow> c < 2 ^ 24 | None \<Rightarrow> True) (d_actors sc)"

lemma move_color_fits: "move_color mo < 2 ^ 24"
  by (simp add: move_color_def colors_def split: option.split)

lemma envelope_ok:
  assumes "\<And>f t. 0 \<le> metrics f t"
  shows "object_ok (envelope metrics mo)"
  using move_color_fits [of mo] label_ok [OF assms]
  by (auto simp: envelope_def Let_def build_ok keyhole_ok)

lemma envelope_body: "\<exists>g mt p rest. children_of (envelope metrics mo) = Object (Mesh g mt) p [] # rest"
  by (simp add: envelope_def Let_def group_def box_def receiving_def casting_def mesh_def)

lemma actor_object_ok:
  assumes "\<And>f t. 0 \<le> metrics f t" "\<forall>c. a_color a = Some c \<longrightarrow> c < 2 ^ 24" "0 \<le> glow" "glow \<le> 1"
  shows "object_ok (actor_object m metrics capsule r t glow a)"
  using assms(3,4) actor_model_ok [OF assms(2)] label_ok [OF assms(1)]
  by (simp add: actor_object_def posed_model_def halo_def actor_label_def halo_opacity_def)
    (simp add: material_ok_def basic_mat_def unit_number_def color_values)

lemma block_ok: "object_ok (block_object b)"
  by (simp add: block_object_def build_ok)

end
