(* ===== verification/Stage_Properties.thy ===== *)
theory Stage_Properties
  imports Scene_Set Duo Tours
begin

section \<open>Properties of the stage\<close>

text \<open>What a reader sees of a walkthrough: where the envelopes fly and how the shipped scenes are laid out.\<close>


definition flat_maths :: maths where
  "flat_maths = \<lparr>Math_sin = (\<lambda>x. 0), Math_cos = (\<lambda>x. 1), Math_sqrt = (\<lambda>x. if x = 16 then 4 else 0)\<rparr>"


subsection \<open>The layout of the shipped scenes\<close>

definition apart :: "actor \<Rightarrow> actor \<Rightarrow> bool" where
  "apart a b \<longleftrightarrow> (2.3 * 1.3)\<^sup>2 < (a_x a - a_x b)\<^sup>2 + (a_z a - a_z b)\<^sup>2"

definition on_platform :: "scene \<Rightarrow> actor \<Rightarrow> bool" where
  "on_platform sc a \<longleftrightarrow> (a_x a)\<^sup>2 + (a_z a)\<^sup>2 \<le> (platform_radius sc)\<^sup>2 \<and> 0 < fst (snd (anchor a))"

definition laid_out :: "scene \<Rightarrow> bool" where
  "laid_out sc \<longleftrightarrow> sorted_wrt apart (d_actors sc) \<and> list_all (on_platform sc) (d_actors sc) \<and> colors_fit sc"

lemmas layout_check = laid_out_def apart_def on_platform_def colors_fit_def platform_radius_def anchor_def scale_of_def num_or_def act_def power2_eq_square

lemma acme_layout: "laid_out acme_scene"
  by (simp add: layout_check acme_scene_def acme_actors_def)

lemma devices_layout: "laid_out devices_scene"
  by (simp add: layout_check devices_scene_def devices_actors_def)

lemma revocation_layout: "laid_out revocation_scene"
  by (simp add: layout_check revocation_scene_def revocation_actors_def)

lemma platform_layout: "laid_out platform_scene"
  by (simp add: layout_check platform_scene_def platform_actors_def)

lemma ari_layout: "laid_out ari_scene"
  by (simp add: layout_check ari_scene_def ari_actors_def)

lemma estlb_layout: "laid_out estlb_scene"
  by (simp add: layout_check estlb_scene_def estlb_actors_def)

lemma cmp_layout: "laid_out cmp_scene"
  by (simp add: layout_check cmp_scene_def cmp_actors_def)

lemma adcs_layout: "laid_out adcs_scene"
  by (simp add: layout_check adcs_scene_def adcs_actors_def)

lemma provision_layout: "laid_out provision_scene"
  by (simp add: layout_check provision_scene_def provision_actors_def)

lemma policytree_layout: "laid_out policytree_scene"
  by (simp add: layout_check policytree_scene_def policytree_actors_def)

lemma upstream_layout: "laid_out upstream_scene"
  by (simp add: layout_check upstream_scene_def upstream_actors_def)

lemma discover_layout: "laid_out discover_scene"
  by (simp add: layout_check discover_scene_def discover_actors_def)

lemma auditship_layout: "laid_out auditship_scene"
  by (simp add: layout_check auditship_scene_def auditship_actors_def)

lemma offlineroot_layout: "laid_out offlineroot_scene"
  by (simp add: layout_check offlineroot_scene_def offlineroot_actors_def)

lemma codesign_layout: "laid_out codesign_scene"
  by (simp add: layout_check codesign_scene_def codesign_actors_def)

lemma shipped_layout: "sc \<in> set shipped \<Longrightarrow> laid_out sc"
  using acme_layout devices_layout revocation_layout platform_layout ari_layout estlb_layout cmp_layout adcs_layout provision_layout policytree_layout upstream_layout discover_layout auditship_layout offlineroot_layout codesign_layout
  by (auto simp: shipped_def)

text \<open>A pulse never widens a halo by more than three tenths.\<close>

lemma halo_scale_bound:
  assumes "0 \<le> glow" "glow \<le> 1" "Math_sin m (t * 8) \<le> 1" "- 1 \<le> Math_sin m (t * 8)"
  shows "0 \<le> halo_scale m t glow" "halo_scale m t glow \<le> 1.3"
proof -
  let ?b = "1 + Math_sin m (t * 8) * 0.2"
  have b: "0 \<le> ?b" "?b \<le> 1.2" using assms(3,4) by simp_all
  have "0 \<le> glow * 0.25 * ?b" using assms(1) b(1) by (intro mult_nonneg_nonneg) simp_all
  moreover have "glow * 0.25 * ?b \<le> 0.25 * 1.2" using assms(1,2) b by (intro mult_mono) simp_all
  ultimately show "0 \<le> halo_scale m t glow" "halo_scale m t glow \<le> 1.3"
    by (simp_all add: halo_scale_def)
qed

lemma apart_halos:
  assumes "apart a b" "0 \<le> s" "s \<le> 1.3"
  shows "(2 * 1.15 * s)\<^sup>2 < (a_x a - a_x b)\<^sup>2 + (a_z a - a_z b)\<^sup>2"
proof -
  have "(2 * 1.15 * s)\<^sup>2 \<le> (2.3 * 1.3)\<^sup>2" using assms(2,3) by (intro power_mono) simp_all
  with assms(1) show ?thesis by (simp add: apart_def)
qed

text \<open>The shipped scenes are laid out for the engine: every actor stands on its platform with its anchor above it, the
  halos of two actors never touch however they pulse, and what is drawn of an actor is well formed for three.js.\<close>

lemma shipped_scenes_are_laid_out:
  assumes "sc \<in> set shipped" "\<And>x. - 1 \<le> Math_sin m x \<and> Math_sin m x \<le> 1" "\<And>f t. 0 \<le> metrics f t" "0 \<le> glow" "glow \<le> 1"
  shows "list_all (\<lambda>a. (a_x a)\<^sup>2 + (a_z a)\<^sup>2 \<le> (platform_radius sc)\<^sup>2 \<and> 0 < fst (snd (anchor a))
       \<and> object_ok (actor_object m metrics capsule r t glow a)) (d_actors sc)
    \<and> sorted_wrt (\<lambda>a b. (2 * 1.15 * halo_scale m t glow)\<^sup>2 < (a_x a - a_x b)\<^sup>2 + (a_z a - a_z b)\<^sup>2) (d_actors sc)"
proof -
  have l: "sorted_wrt apart (d_actors sc)" "list_all (on_platform sc) (d_actors sc)" "colors_fit sc"
    using shipped_layout [OF assms(1)] by (simp_all add: laid_out_def)
  have "sorted_wrt (\<lambda>a b. (2 * 1.15 * halo_scale m t glow)\<^sup>2 < (a_x a - a_x b)\<^sup>2 + (a_z a - a_z b)\<^sup>2) (d_actors sc)"
    by (rule sorted_wrt_mono_rel [OF _ l(1)], rule apart_halos) (use halo_scale_bound [OF assms(4,5)] assms(2) in auto)
  moreover have "object_ok (actor_object m metrics capsule r t glow a)" if "a \<in> set (d_actors sc)" for a
    by (rule actor_object_ok [OF assms(3) _ assms(4,5)]) (use l(3) that in \<open>fastforce simp: colors_fit_def list_all_iff\<close>)
  ultimately show ?thesis using l(2) by (auto simp: list_all_iff on_platform_def)
qed

lemma shipped_scenes_are_laid_out_witness:
  "object_ok (actor_object flat_maths (\<lambda>f t. of_nat (length t)) True 0.35 3 1 (hd acme_actors))"
proof -
  have "acme_scene \<in> set shipped" "\<And>x. - 1 \<le> Math_sin flat_maths x \<and> Math_sin flat_maths x \<le> 1"
    by (simp_all add: shipped_def flat_maths_def)
  from shipped_scenes_are_laid_out [OF this, of "\<lambda>f t. of_nat (length t)" 1 True "0.35" 3]
  have "list_all (\<lambda>a. object_ok (actor_object flat_maths (\<lambda>f t. of_nat (length t)) True 0.35 3 1 a)) (d_actors acme_scene)"
    by (simp add: list_all_iff)
  then show ?thesis by (simp add: acme_scene_def acme_actors_def)
qed

end
