(* ===== verification/Js_Numbers.thy ===== *)
theory Js_Numbers
  imports Js_Values
begin

section \<open>Number(text)\<close>

text \<open>
  The conversion of a string to a number that \<open>Number(raw)\<close> and unary plus make of a form field:
  \<open>None\<close> is \<open>NaN\<close>.  Decimal literals with fraction and exponent and the three prefixed integer
  notations are read exactly; \<open>Infinity\<close> and overflow to it are not represented.
\<close>

definition is_digit :: "char \<Rightarrow> bool" where
  "is_digit c \<longleftrightarrow> 48 \<le> code c \<and> code c \<le> 57"

definition sign_of :: "string \<Rightarrow> bool \<times> string" where
  "sign_of t = (case t of c # r \<Rightarrow> if c = CHR ''-'' then (True, r) else if c = CHR ''+'' then (False, r) else (False, t)
     | [] \<Rightarrow> (False, t))"

text \<open>The exponent part: \<open>e\<close>, an optional sign, digits up to the end.\<close>

definition exponent_of :: "string \<Rightarrow> int option" where
  "exponent_of r = (case r of [] \<Rightarrow> Some 0
     | c # s \<Rightarrow> if c = CHR ''e'' \<or> c = CHR ''E'' then
         (case sign_of s of (neg, d) \<Rightarrow>
            if d \<noteq> [] \<and> list_all is_digit d then Some (if neg then - int (read_nat d) else int (read_nat d)) else None)
       else None)"

definition scaled :: "rat \<Rightarrow> int \<Rightarrow> rat" where
  "scaled m e = (if 0 \<le> e then m * 10 ^ nat e else m / 10 ^ nat (- e))"

definition fraction_of :: "string \<Rightarrow> string \<times> string" where
  "fraction_of r = (case r of c # s \<Rightarrow> if c = CHR ''.'' then (takeWhile is_digit s, dropWhile is_digit s) else ([], r)
     | [] \<Rightarrow> ([], r))"

definition decimal_number :: "string \<Rightarrow> rat option" where
  "decimal_number t = (case sign_of t of (neg, t1) \<Rightarrow>
     (let ip = takeWhile is_digit t1; r1 = dropWhile is_digit t1 in
      (case fraction_of r1 of (fp, r2) \<Rightarrow>
         if ip = [] \<and> fp = [] then None
         else map_option (\<lambda>e. (if neg then -1 else 1) * scaled (of_nat (read_nat (ip @ fp)) / 10 ^ length fp) e) (exponent_of r2))))"

definition digit_in :: "nat \<Rightarrow> char \<Rightarrow> nat option" where
  "digit_in base c =
     (let v = (if is_digit c then code c - 48
               else if 97 \<le> code c \<and> code c \<le> 102 then code c - 87
               else if 65 \<le> code c \<and> code c \<le> 70 then code c - 55 else 99)
      in if v < base then Some v else None)"

definition based_number :: "nat \<Rightarrow> string \<Rightarrow> rat option" where
  "based_number base d = (if d = [] \<or> list_ex (\<lambda>c. digit_in base c = None) d then None
     else Some (of_nat (foldl (\<lambda>n c. base * n + the (digit_in base c)) 0 d)))"

definition str_number :: "string \<Rightarrow> rat option" where
  "str_number s =
     (case js_trim s of
        [] \<Rightarrow> Some 0
      | t \<Rightarrow>
          (let p = map lower_char (take 2 t) in
           if p = ''0x'' then based_number 16 (drop 2 t)
           else if p = ''0o'' then based_number 8 (drop 2 t)
           else if p = ''0b'' then based_number 2 (drop 2 t)
           else decimal_number t))"

subsection \<open>Decimal text of a counter is read back\<close>

lemma nat_str_is_digit: "c \<in> set (nat_str n) \<Longrightarrow> is_digit c"
  using nat_str_digits by (simp add: is_digit_def)

lemma digit_not_space: "is_digit c \<Longrightarrow> \<not> is_space c"
  by (auto simp: is_digit_def is_space_def)

lemma js_trim_id:
  assumes "\<forall>c \<in> set s. \<not> is_space c"
  shows "js_trim s = s"
proof -
  have "dropWhile is_space s = s" "dropWhile is_space (rev s) = rev s"
    using assms by (simp_all add: dropWhile_eq_self_iff) (metis in_set_conv_nth hd_conv_nth last_in_set hd_rev set_rev rev_is_Nil_conv)+
  then show ?thesis by (simp add: js_trim_def)
qed

lemma decimal_nat: "decimal_number (nat_str n) = Some (of_nat n)"
proof -
  have d: "\<forall>c \<in> set (nat_str n). is_digit c" using nat_str_is_digit by blast
  have s: "sign_of (nat_str n) = (False, nat_str n)"
  proof (cases "nat_str n")
    case (Cons c r)
    then have "is_digit c" using d by simp
    then have "c \<noteq> CHR ''-''" "c \<noteq> CHR ''+''" by (auto simp: is_digit_def code_def)
    then show ?thesis using Cons by (simp add: sign_of_def)
  qed simp
  have tw: "takeWhile is_digit (nat_str n) = nat_str n" "dropWhile is_digit (nat_str n) = []"
    using d takeWhile_eq_all_conv dropWhile_eq_Nil_conv by blast+
  then show ?thesis
    by (simp add: decimal_number_def s tw fraction_of_def exponent_of_def scaled_def read_nat_str Let_def)
qed

lemma nat_str_no_prefix:
  assumes "2 \<le> length (nat_str n)"
  shows "is_digit (nat_str n ! 1)"
  using assms nat_str_is_digit [OF nth_mem, of 1 n] by simp

lemma str_number_nat: "str_number (nat_str n) = Some (of_nat n)"
proof -
  have sp: "js_trim (nat_str n) = nat_str n"
    using nat_str_is_digit digit_not_space by (intro js_trim_id) blast
  obtain c r where cr: "nat_str n = c # r" by (cases "nat_str n") simp_all
  have "map lower_char (take 2 (nat_str n)) \<notin> {''0x'', ''0o'', ''0b''}"
  proof (cases r)
    case (Cons d r')
    then have "is_digit d" using nat_str_no_prefix [of n] cr by simp
    then have "lower_char d = d" "d \<notin> {CHR ''x'', CHR ''o'', CHR ''b''}"
      by (auto simp: is_digit_def lower_char_def code_def)
    then show ?thesis using cr Cons by auto
  qed (use cr in simp)
  then have "str_number (nat_str n) = decimal_number (nat_str n)"
    unfolding str_number_def sp Let_def using cr by auto
  then show ?thesis by (simp add: decimal_nat)
qed

end
