(* ===== verification/Console_Html.thy ===== *)
theory Console_Html
  imports Html_Context Js_Numbers
begin

section \<open>Building blocks of the console views\<close>

text \<open>
  The expressions the templates of \<open>console.js\<close> use (property paths, \<open>map\<close>, \<open>join\<close>, text) and the pieces its views
  share: \<open>pill\<close>, \<open>options\<close>, \<open>when\<close>, \<open>left\<close>.  A view is a function from the API answer to the value handed to
  \<open>render\<close>, or to the exception the expression throws.  The collection \<open>view_clean\<close> holds the rules that
  derive cleanness (\<open>Html_Context\<close>): what a view returns stays in text content and adds only tags and
  attributes of the fixed lists.
\<close>

named_theorems view_clean

subsection \<open>Expressions\<close>

definition str :: "string \<Rightarrow> jsval res" where
  "str s = Inr (Str s)"

text \<open>An untagged template literal, and string concatenation with \<open>+\<close>.\<close>

definition text_of :: "jsval res list \<Rightarrow> jsval res" where
  "text_of rs = andThen (sequence rs) (\<lambda>vs. Inr (Str (concat (map to_string vs))))"

definition is_str :: "jsval res \<Rightarrow> string \<Rightarrow> jsval res" where
  "is_str r s = andThen r (\<lambda>v. Inr (Bool (v = Str s)))"

text \<open>\<open>v.map(f)\<close>.\<close>

definition map_html :: "string \<Rightarrow> (jsval \<Rightarrow> jsval res) \<Rightarrow> jsval \<Rightarrow> jsval res" where
  "map_html what f v = andThen (elements what ''map'' v) (\<lambda>vs. andThen (mapM f vs) (\<lambda>ys. Inr (Arr ys)))"

definition map_entries :: "(string \<times> jsval \<Rightarrow> jsval res) \<Rightarrow> jsval \<Rightarrow> jsval res" where
  "map_entries f v = andThen (entries v) (\<lambda>ps. andThen (mapM f ps) (\<lambda>ys. Inr (Arr ys)))"

text \<open>\<open>v.join(sep)\<close>.\<close>

definition joined_with :: "string \<Rightarrow> string \<Rightarrow> jsval \<Rightarrow> jsval res" where
  "joined_with what sep v = andThen (elements what ''join'' v) (\<lambda>vs. Inr (Str (join_text sep vs)))"

text \<open>\<open>a && b\<close>.\<close>

definition andAlso :: "jsval res \<Rightarrow> jsval res \<Rightarrow> jsval res" where
  "andAlso a b = andThen a (\<lambda>v. if is_true v then b else Inr v)"

lemma str_plain [view_clean]: "yields plain (str s)"
  by (simp add: str_def)

lemma text_of_plain [view_clean]: "yields plain (text_of rs)"
  by (simp add: text_of_def yields_andThen)

lemma joined_with_plain [view_clean]: "yields plain (joined_with w s v)"
  by (simp add: joined_with_def yields_andThen)

lemma clean_list: "\<forall>y \<in> set ys. clean y \<Longrightarrow> clean (Arr ys)"
  by (simp add: clean_def clean_Arr)

lemma map_html_clean [view_clean]:
  assumes "yields plain r" "\<And>x. plain x \<Longrightarrow> yields clean (f x)"
  shows "yields clean (andThen r (map_html w f))"
proof (rule yields_bind [OF assms(1)])
  fix v assume "plain v"
  from plain_elements [OF this]
  have "yields (\<lambda>vs. \<forall>v \<in> set vs. plain v) (elements w ''map'' v)" .
  then show "yields clean (map_html w f v)"
    unfolding map_html_def
    by (rule yields_bind) (rule yields_bind [OF yields_mapM], use assms(2) in \<open>auto intro: clean_list\<close>)
qed

lemma map_html_clean1 [view_clean]:
  "plain v \<Longrightarrow> (\<And>x. plain x \<Longrightarrow> yields clean (f x)) \<Longrightarrow> yields clean (map_html w f v)"
  using map_html_clean [of "Inr v" f w] by simp

lemma map_entries_clean [view_clean]:
  assumes "yields plain r" "\<And>k x. plain x \<Longrightarrow> yields clean (f (k, x))"
  shows "yields clean (andThen r (map_entries f))"
proof (rule yields_bind [OF assms(1)])
  fix v assume "plain v"
  from plain_entries [OF this]
  have "yields (\<lambda>ps. \<forall>p \<in> set ps. plain (snd p)) (entries v)" .
  then show "yields clean (map_entries f v)"
    unfolding map_entries_def
    by (rule yields_bind) (rule yields_bind [OF yields_mapM], use assms(2) in \<open>auto intro: clean_list\<close>)
qed

lemma map_entries_clean1 [view_clean]:
  "plain v \<Longrightarrow> (\<And>k x. plain x \<Longrightarrow> yields clean (f (k, x))) \<Longrightarrow> yields clean (map_entries f v)"
  using map_entries_clean [of "Inr v" f] by simp

lemma plain_at [view_clean]: "plain v \<Longrightarrow> clean_at Content v" "plain v \<Longrightarrow> clean_at Quoted v"
  by (simp_all add: plain_clean)

lemma joined_bind_plain [view_clean]: "yields plain (andThen r (joined_with w s))"
  by (rule yields_andThen) (rule joined_with_plain)

lemma number_clean [view_clean]: "harmless q \<Longrightarrow> clean_at q (Num n)"
  by (rule plain_clean) simp_all

lemma plain_bind [view_clean]: "yields plain r \<Longrightarrow> yields plain (andThen r (slice0 w n))"
  "yields plain r \<Longrightarrow> yields plain (andThen r (field k))"
  "yields plain r \<Longrightarrow> yields plain (andThen r (path ks))"
  by (auto elim!: yields_bind intro: plain_slice0 plain_field plain_path)

lemma plain_andAlso [view_clean]: "yields plain a \<Longrightarrow> yields plain b \<Longrightarrow> yields plain (andAlso a b)"
  by (cases a) (simp_all add: andAlso_def)

lemmas view_rules [view_clean] = plain_field plain_path plain_slice0 yields_ite yields_orElse yields_plain_at yields_clean_at

subsection \<open>Shared pieces\<close>

text \<open>\<open>pill\<close> and the message \<open>part403\<close> shows instead of a section the role may not read.\<close>

definition pill :: "jsval \<Rightarrow> jsval" where
  \<open>pill x = html [''<span class="pill '', ''">'', ''</span>''] [x, x]\<close>

definition pill_of :: "jsval res \<Rightarrow> jsval res" where
  "pill_of r = andThen r (\<lambda>v. Inr (pill v))"

lemma pill_clean: "plain x \<Longrightarrow> clean (pill x)"
  unfolding pill_def
  by (rule check_html_clean [where hs = "[Quoted, Content]"], code_simp) (simp add: plain_clean)

lemma pill_of_clean [view_clean]: "yields plain r \<Longrightarrow> yields clean (pill_of r)"
  by (cases r) (simp_all add: pill_of_def pill_clean)

definition denied_view :: "string \<Rightarrow> jsval res" where
  \<open>denied_view msg =
    tmpl [''<span class="muted">'',
       ''</span>'']
      [str msg]\<close>

lemma denied_view_clean [view_clean]: "yields clean (denied_view msg)"
  unfolding denied_view_def
  by (rule tmpl_clean [where hs = "[Content]"], code_simp) (simp add: view_clean)

text \<open>\<open>options(rows, label, value, first)\<close>.\<close>

definition first_option :: "string \<Rightarrow> jsval res" where
  \<open>first_option first =
    tmpl [''<option value="">'',
       ''</option>'']
      [str first]\<close>

lemma first_option_clean [view_clean]: "yields clean (first_option first)"
  unfolding first_option_def
  by (rule tmpl_clean [where hs = "[Content]"], code_simp) (simp add: view_clean)

definition option_row :: "(jsval \<Rightarrow> jsval res) \<Rightarrow> (jsval \<Rightarrow> jsval res) \<Rightarrow> jsval \<Rightarrow> jsval res" where
  \<open>option_row label value x = tmpl [''<option value="'', ''">'', ''</option>''] [value x, label x]\<close>

lemma option_row_clean:
  assumes "yields plain (label x)" "yields plain (value x)"
  shows "yields clean (option_row label value x)"
  unfolding option_row_def
  by (rule tmpl_clean [where hs = "[Quoted, Content]"], code_simp) (use assms in \<open>simp add: view_clean\<close>)

definition options_view :: "jsval \<Rightarrow> (jsval \<Rightarrow> jsval res) \<Rightarrow> (jsval \<Rightarrow> jsval res) \<Rightarrow> string option \<Rightarrow> jsval res" where
  \<open>options_view rows label value first =
    tmpl [[], [], []]
      [case first of None \<Rightarrow> str [] | Some t \<Rightarrow> if t = [] then str [] else first_option t,
       map_html ''rows.map'' (option_row label value) rows]\<close>

lemma options_view_clean:
  assumes "plain rows" "\<And>x. plain x \<Longrightarrow> yields plain (label x)" "\<And>x. plain x \<Longrightarrow> yields plain (value x)"
  shows "yields clean (options_view rows label value first)"
  unfolding options_view_def
  by (rule tmpl_clean [where hs = "[Content, Content]"], code_simp)
    (use assms in \<open>simp add: view_clean option_row_clean split: option.split\<close>)

text \<open>\<open>when\<close>: the first sixteen characters of a time stamp, its \<open>T\<close> replaced by a space.\<close>

fun replace_T :: "jsval \<Rightarrow> jsval res" where
  "replace_T (Str s) = Inr (Str (replace_first CHR ''T'' CHR '' '' s))"
| "replace_T _ = Inl (not_function ''t.slice(...).replace'')"

definition time_text :: "jsval res \<Rightarrow> jsval res" where
  "time_text r = andThen r (\<lambda>t. if is_true t then andThen (slice0 ''t.slice'' 16 t) replace_T else Inr (Str []))"

lemma replace_T_plain: "yields plain (replace_T v)"
  by (cases v) simp_all

lemma time_text_plain [view_clean]: "yields plain (time_text r)"
  by (auto simp: time_text_def intro!: yields_andThen replace_T_plain)

text \<open>\<open>left\<close>: how long a certificate still runs.  A comparison with something that is not a number is false.\<close>

fun as_number :: "jsval \<Rightarrow> rat option" where
  "as_number (Num n) = Some n"
| "as_number Null = Some 0"
| "as_number (Bool b) = Some (if b then 1 else 0)"
| "as_number Undefined = None"
| "as_number (Str s) = str_number s"
| "as_number v = str_number (to_string v)"

definition below :: "jsval \<Rightarrow> rat \<Rightarrow> bool" where
  "below v k = (case as_number v of None \<Rightarrow> False | Some n \<Rightarrow> n < k)"

definition time_left_text :: "jsval \<Rightarrow> jsval res" where
  "time_left_text x = andThen (field ''hours_left'' x) (\<lambda>h.
     if below h 0 then str (num_str (of_int \<lceil>- the (as_number h) / 24\<rceil>) @ ''d ago'')
     else if below h 48 then text_of [Inr h, str ''h'']
     else text_of [field ''days_left'' x, str ''d''])"

lemma time_left_text_plain [view_clean]: "yields plain (time_left_text x)"
  by (simp add: time_left_text_def yields_andThen text_of_plain str_plain)

end
