(* ===== verification/Console_Api.thy ===== *)
theory Console_Api
  imports Console_Html
begin

section \<open>Talking to the API\<close>

text \<open>
  \<open>api\<close>, the paths and bodies of its callers and the small functions of the forms (\<open>console.js\<close>, lines
  30 to 43, 80 to 88 and 123 to 128).  The server, \<open>JSON.parse\<close> and \<open>JSON.stringify\<close> are not code of the
  repository: an answer is a value of \<open>response\<close>, \<open>parse\<close> is an argument of the functions that read
  one, and a request holds the value that is stringified.
\<close>

subsection \<open>Requests\<close>

record request =
  rq_method :: string
  rq_path :: string
  rq_headers :: "(string \<times> string) list"
  rq_body :: "jsval option"

record api_options =
  o_method :: "string option"
  o_headers :: "(string \<times> string) list"
  o_body :: "jsval option"

definition no_options :: api_options where
  "no_options = \<lparr>o_method = None, o_headers = [], o_body = None\<rparr>"

definition post :: "jsval \<Rightarrow> api_options" where
  "post b = \<lparr>o_method = Some ''POST'', o_headers = [], o_body = Some b\<rparr>"

definition post_empty :: api_options where
  "post_empty = \<lparr>o_method = Some ''POST'', o_headers = [], o_body = None\<rparr>"

definition put :: "jsval \<Rightarrow> api_options" where
  "put b = \<lparr>o_method = Some ''PUT'', o_headers = [], o_body = Some b\<rparr>"

text \<open>\<open>{...opts, headers: {"X-API-Key": KEY, "Content-Type": ..., ...(opts.headers || {})}}\<close>: a later header replaces an earlier one.\<close>

definition header :: "string \<Rightarrow> string \<Rightarrow> (string \<times> string) list \<Rightarrow> (string \<times> string) list" where
  "header k v hs = (if k \<in> fst ` set hs then map (\<lambda>h. if fst h = k then (k, v) else h) hs else hs @ [(k, v)])"

definition api_request :: "string \<Rightarrow> string \<Rightarrow> api_options \<Rightarrow> request" where
  "api_request KEY url opts = \<lparr>
     rq_method = (case o_method opts of Some m \<Rightarrow> m | None \<Rightarrow> ''GET''),
     rq_path = url,
     rq_headers = foldl (\<lambda>hs h. header (fst h) (snd h) hs) [(''X-API-Key'', KEY), (''Content-Type'', ''application/json'')] (o_headers opts),
     rq_body = o_body opts\<rparr>"

subsection \<open>Answers\<close>

record response =
  rs_ok :: bool
  rs_text :: string

definition body_of :: "(string \<Rightarrow> jsval option) \<Rightarrow> response \<Rightarrow> jsval" where
  "body_of parse r = (case parse (rs_text r) of Some v \<Rightarrow> v | None \<Rightarrow> Str (rs_text r))"

definition violation_line :: "jsval \<Rightarrow> jsval res" where
  "violation_line v = text_of [field ''rule'' v, str '': '', field ''message'' v]"

definition violation_lines :: "jsval \<Rightarrow> jsval res" where
  "violation_lines vs = andThen (elements ''body.violations.map'' ''map'' vs) (\<lambda>xs.
     andThen (mapM violation_line xs) (\<lambda>ls. Inr (Str (join_text [CHR 0x0A] ls))))"

definition failure_text :: "jsval \<Rightarrow> string \<Rightarrow> jsval res" where
  "failure_text body t =
     (let plain_text = orElse (field ''message'' body) (orElse (field ''detail'' body) (Inr (Str t))) in
      if is_true body
      then andThen (field ''violations'' body) (\<lambda>vs. if is_true vs then violation_lines vs else plain_text)
      else plain_text)"

text \<open>\<open>new Error(msg)\<close>: the message is the text of \<open>msg\<close>, empty for \<open>undefined\<close>.\<close>

definition new_error :: "jsval \<Rightarrow> js_error" where
  "new_error m = PlainError (if m = Undefined then [] else to_string m)"

definition api_answer :: "(string \<Rightarrow> jsval option) \<Rightarrow> response \<Rightarrow> jsval res" where
  "api_answer parse r =
     (let body = body_of parse r in
      if rs_ok r then Inr body else andThen (failure_text body (rs_text r)) (\<lambda>m. Inl (new_error m)))"

lemma api_answer_ok: "rs_ok r \<Longrightarrow> api_answer parse r = Inr (body_of parse r)"
  by (simp add: api_answer_def)

lemma api_answer_failed: "\<not> rs_ok r \<Longrightarrow> \<exists>e. api_answer parse r = Inl e"
  by (cases "failure_text (body_of parse r) (rs_text r)") (simp_all add: api_answer_def)

lemma failure_plain:
  assumes "field ''violations'' body = Inr Undefined \<or> \<not> is_true body"
  shows "failure_text body t = orElse (field ''message'' body) (orElse (field ''detail'' body) (Inr (Str t)))"
  using assms by (auto simp: failure_text_def Let_def)

text \<open>The answers of the server: policy violations, a message, a detail, a text that is not JSON.\<close>

lemma api_violations:
  assumes "parse (rs_text r) = Some (Obj ps)" "map_of ps ''violations'' = Some (Arr (map (\<lambda>(a, b). Obj [(''rule'', Str a), (''message'', Str b)]) vs))"
    "\<not> rs_ok r"
  shows "api_answer parse r = Inl (PlainError (joined [CHR 0x0A] (map (\<lambda>(a, b). a @ '': '' @ b) vs)))"
proof -
  have line: "violation_line (Obj [(''rule'', Str a), (''message'', Str b)]) = Inr (Str (a @ '': '' @ b))" for a b
    by (simp add: violation_line_def text_of_def str_def)
  have "mapM violation_line (map (\<lambda>(a, b). Obj [(''rule'', Str a), (''message'', Str b)]) vs)
      = Inr (map (\<lambda>(a, b). Str (a @ '': '' @ b)) vs)"
    by (auto simp: mapM_Inr line)
  then have "violation_lines (Arr (map (\<lambda>(a, b). Obj [(''rule'', Str a), (''message'', Str b)]) vs))
      = Inr (Str (joined [CHR 0x0A] (map (\<lambda>(a, b). a @ '': '' @ b) vs)))"
    by (simp add: violation_lines_def join_text_def comp_def case_prod_unfold)
  then show ?thesis
    using assms by (simp add: api_answer_def body_of_def failure_text_def Let_def new_error_def)
qed

lemma api_message:
  assumes "parse (rs_text r) = Some (Obj ps)" "map_of ps ''violations'' = None" "\<not> rs_ok r"
    "map_of ps ''message'' = Some (Str m) \<and> m \<noteq> [] \<or> map_of ps ''message'' = None \<and> map_of ps ''detail'' = Some (Str m) \<and> m \<noteq> []
     \<or> map_of ps ''message'' = None \<and> map_of ps ''detail'' = None \<and> m = rs_text r"
  shows "api_answer parse r = Inl (PlainError m)"
  using assms by (auto simp: api_answer_def body_of_def failure_plain orElse_def new_error_def)

lemma api_not_json:
  assumes "parse (rs_text r) = None" "\<not> rs_ok r"
  shows "api_answer parse r = Inl (PlainError (rs_text r))"
  using assms by (simp add: api_answer_def body_of_def failure_plain orElse_def new_error_def)

lemma api_null_body:
  assumes "parse (rs_text r) = Some Null" "\<not> rs_ok r"
  shows "api_answer parse r = Inl (no_prop ''null'' ''message'')"
  using assms by (simp add: api_answer_def body_of_def failure_plain orElse_def)

text \<open>A list of validation errors under \<open>detail\<close> becomes the text of a list of objects.\<close>

lemma api_detail_list:
  assumes "parse (rs_text r) = Some (Obj [(''detail'', Arr [Obj ps])])" "\<not> rs_ok r"
  shows "api_answer parse r = Inl (PlainError ''[object Object]'')"
  using assms by (simp add: api_answer_def body_of_def failure_plain orElse_def new_error_def)

subsection \<open>Path segments\<close>

text \<open>\<open>encodeURIComponent\<close>: the UTF-8 bytes of every character outside the unreserved set, in hexadecimal.\<close>

definition unreserved :: "char \<Rightarrow> bool" where
  "unreserved c \<longleftrightarrow> 48 \<le> code c \<and> code c \<le> 57 \<or> 65 \<le> code c \<and> code c \<le> 90 \<or> 97 \<le> code c \<and> code c \<le> 122
     \<or> c \<in> set ''-_.!~*()'' \<or> c = CHR 0x27"

definition hex_digit :: "nat \<Rightarrow> char" where
  "hex_digit d = char_of (if d < 10 then 48 + d else 55 + d)"

definition percent_byte :: "nat \<Rightarrow> string" where
  "percent_byte b = [CHR ''%'', hex_digit (b div 16), hex_digit (b mod 16)]"

definition utf8_char :: "char \<Rightarrow> nat list" where
  "utf8_char c = (if code c < 128 then [code c] else [192 + code c div 64, 128 + code c mod 64])"

definition encode_char :: "char \<Rightarrow> string" where
  "encode_char c = (if unreserved c then [c] else concat (map percent_byte (utf8_char c)))"

definition encodeURIComponent :: "string \<Rightarrow> string" where
  "encodeURIComponent s = concat (map encode_char s)"

text \<open>The server's view: the bytes of a percent-encoded text.\<close>

definition hex_value :: "char \<Rightarrow> nat" where
  "hex_value c = (if code c \<le> 57 then code c - 48 else code c - 55)"

fun percent_decode :: "string \<Rightarrow> nat list" where
  "percent_decode (c # h # l # s) =
     (if c = CHR ''%'' then (16 * hex_value h + hex_value l) # percent_decode s else code c # percent_decode (h # l # s))"
| "percent_decode (c # s) = code c # percent_decode s"
| "percent_decode [] = []"

lemma percent_decode_plain: "c \<noteq> CHR ''%'' \<Longrightarrow> percent_decode (c # s) = code c # percent_decode s"
  by (cases s rule: percent_decode.cases) simp_all

lemma hex_value_digit: "d < 16 \<Longrightarrow> hex_value (hex_digit d) = d"
  by (simp add: hex_value_def hex_digit_def code_def)

lemma percent_decode_byte: "b < 256 \<Longrightarrow> percent_decode (percent_byte b @ s) = b # percent_decode s"
  by (simp add: percent_byte_def hex_value_digit)

lemma utf8_bytes: "b \<in> set (utf8_char c) \<Longrightarrow> b < 256"
  using code_less [of c] by (auto simp: utf8_char_def split: if_splits)

lemma unreserved_facts: "unreserved c \<Longrightarrow> c \<noteq> CHR ''%'' \<and> code c < 128 \<and> c \<notin> set ''/?#&=''"
  by (auto simp: unreserved_def code_def)

lemma percent_decode_bytes: "\<forall>b \<in> set bs. b < 256 \<Longrightarrow> percent_decode (concat (map percent_byte bs) @ s) = bs @ percent_decode s"
  by (induction bs) (simp_all add: percent_decode_byte)

lemma percent_decode_char: "percent_decode (encode_char c @ s) = utf8_char c @ percent_decode s"
proof (cases "unreserved c")
  case True
  then show ?thesis
    using unreserved_facts [OF True] by (simp add: encode_char_def percent_decode_plain utf8_char_def)
next
  case False
  then show ?thesis
    using percent_decode_bytes [of "utf8_char c" s] utf8_bytes by (simp add: encode_char_def)
qed

lemma percent_decode_encode: "percent_decode (encodeURIComponent s) = concat (map utf8_char s)"
  by (induction s) (simp_all add: encodeURIComponent_def percent_decode_char)

lemma code_hex_digit: "d < 16 \<Longrightarrow> code (hex_digit d) = (if d < 10 then 48 + d else 55 + d)"
  by (simp add: hex_digit_def code_def)

lemma hex_digit_safe: "d < 16 \<Longrightarrow> hex_digit d \<notin> set ''/?#&=%''"
  using code_hex_digit [of d] by (auto simp: code_def split: if_splits)

lemma encode_char_safe: "c \<in> set (encode_char a) \<Longrightarrow> c \<notin> set ''/?#&=''"
proof (cases "unreserved a")
  case True
  then show "c \<in> set (encode_char a) \<Longrightarrow> ?thesis" using unreserved_facts by (simp add: encode_char_def)
next
  case False
  assume "c \<in> set (encode_char a)"
  then obtain b where "b \<in> set (utf8_char a)" "c \<in> set (percent_byte b)"
    using False by (auto simp: encode_char_def)
  moreover from this have "b div 16 < 16" "b mod 16 < 16"
    using utf8_bytes by (auto simp: less_mult_imp_div_less)
  ultimately show ?thesis
    using hex_digit_safe [of "b div 16"] hex_digit_safe [of "b mod 16"] by (auto simp: percent_byte_def)
qed

lemma encode_safe: "c \<in> set (encodeURIComponent s) \<Longrightarrow> c \<notin> set ''/?#&=''"
  using encode_char_safe unfolding encodeURIComponent_def by fastforce

text \<open>Two texts with the same bytes are equal: the encoding loses nothing.\<close>

lemma utf8_char_inject:
  assumes "utf8_char c @ x = utf8_char d @ y"
  shows "c = d \<and> x = y"
proof -
  have "code c = code d \<and> x = y"
  proof (cases "code c < 128")
    case True
    then show ?thesis
      using assms code_less [of d] by (auto simp: utf8_char_def split: if_splits)
  next
    case False
    then have "code c div 64 = code d div 64 \<and> code c mod 64 = code d mod 64 \<and> x = y"
      using assms code_less [of c] by (auto simp: utf8_char_def split: if_splits)
    then show ?thesis by (metis div_mult_mod_eq)
  qed
  then show ?thesis by (simp add: code_inject)
qed

lemma utf8_char_nonempty: "utf8_char c \<noteq> []"
  by (simp add: utf8_char_def)

lemma utf8_inject: "concat (map utf8_char s) = concat (map utf8_char t) \<Longrightarrow> s = t"
proof (induction s arbitrary: t)
  case Nil
  then show ?case by (cases t) (simp_all add: utf8_char_nonempty)
next
  case (Cons c s)
  then obtain d t' where t: "t = d # t'" by (cases t) (simp_all add: utf8_char_nonempty)
  with Cons.prems have "utf8_char c @ concat (map utf8_char s) = utf8_char d @ concat (map utf8_char t')" by simp
  from utf8_char_inject [OF this] Cons.IH t show ?case by blast
qed

lemma encode_inject: "encodeURIComponent s = encodeURIComponent t \<longleftrightarrow> s = t"
  using percent_decode_encode utf8_inject by metis

end
