(* ===== verification/Policy_Rules.thy ===== *)
theory Policy_Rules
  imports Console_Html
begin

section \<open>The rules editor of the policy tab\<close>

text \<open>
  The form that edits the rules of a policy folder (\<open>console.js\<close>, lines 326 to 380): \<open>ruleRow\<close> and
  \<open>drawRules\<close> draw it, \<open>readRules\<close> reads it back, the button \<open>fe-add\<close> adds a row.  A row of the form is
  a record of what its three controls hold.  The round trip at the end says that reading the form
  that was drawn for the stored rules gives the stored rules.
\<close>

definition SETTING_KIND :: "string \<Rightarrow> string option" where
  "SETTING_KIND = map_of [(''allowed_profiles'', ''list''), (''allowed_zones'', ''list''), (''ec_curves'', ''list''),
     (''rsa_min_bits'', ''int''), (''max_validity_days'', ''int''), (''dual_control'', ''bool''), (''issuing_ca'', ''text''),
     (''issuer'', ''text'')]"

definition kind_of :: "string \<Rightarrow> string" where
  "kind_of key = (case SETTING_KIND key of Some k \<Rightarrow> k | None \<Rightarrow> ''text'')"

record rule_input =
  r_key :: string
  r_val :: string
  r_lock :: bool

subsection \<open>Reading the form\<close>

definition is_list_sep :: "char \<Rightarrow> bool" where
  "is_list_sep c \<longleftrightarrow> is_space c \<or> c = CHR '',''"

definition read_value :: "string \<Rightarrow> string \<Rightarrow> jsval res" where
  "read_value key raw =
     (let kind = kind_of key in
      if kind = ''list'' then Inr (Arr (map Str (filter (\<lambda>w. w \<noteq> []) (split_runs is_list_sep raw))))
      else if kind = ''int'' then
        (case str_number raw of
           Some q \<Rightarrow> if of_int \<lfloor>q\<rfloor> = q then Inr (Num q) else Inl (PlainError (key @ '' must be a whole number''))
         | None \<Rightarrow> Inl (PlainError (key @ '' must be a whole number'')))
      else if kind = ''bool'' then Inr (Bool (js_lower raw \<in> set [''true'', ''yes'', ''1'']))
      else Inr (Str raw))"

definition rule_value :: "jsval \<Rightarrow> bool \<Rightarrow> jsval" where
  "rule_value v locked = Obj [(''value'', v), (''locked'', Bool locked)]"

text \<open>\<open>out[key] = v\<close>: a property keeps its place when it is written again.\<close>

definition obj_set :: "string \<Rightarrow> jsval \<Rightarrow> (string \<times> jsval) list \<Rightarrow> (string \<times> jsval) list" where
  "obj_set k v ps = (if k \<in> fst ` set ps then map (\<lambda>p. if fst p = k then (k, v) else p) ps else ps @ [(k, v)])"

text \<open>\<open>readRules\<close> over the rows that have a key control.\<close>

fun read_rules :: "rule_input list \<Rightarrow> (string \<times> jsval) list \<Rightarrow> (string \<times> jsval) list res" where
  "read_rules [] out = Inr out"
| "read_rules (r # rs) out =
     (let raw = js_trim (r_val r) in
      if raw = [] then Inl (PlainError (r_key r @ '' needs a value''))
      else andThen (read_value (r_key r) raw)
             (\<lambda>v. read_rules rs (obj_set (r_key r) (rule_value v (r_lock r)) out)))"

definition readRules :: "rule_input list \<Rightarrow> (string \<times> jsval) list res" where
  "readRules rows = read_rules rows []"

subsection \<open>Drawing the form\<close>

text \<open>A boolean attribute: the word, or nothing.\<close>

definition mark :: "string \<Rightarrow> bool \<Rightarrow> jsval" where
  "mark w b = (if b then html [w] [] else Str [])"

definition key_option :: "string \<Rightarrow> string \<Rightarrow> jsval" where
  \<open>key_option key k = html [''<option value="'', ''" '', ''>'', ''</option>''] [Str k, mark ''selected'' (k = key), Str k]\<close>

text \<open>\<open>Array.isArray(value) ? value.join(", ") : value\<close>, with \<open>value = ""\<close> when it is missing.\<close>

definition shown_value :: "jsval \<Rightarrow> jsval" where
  "shown_value v = (case v of Undefined \<Rightarrow> Str [] | Arr vs \<Rightarrow> Str (join_text '', '' vs) | _ \<Rightarrow> v)"

definition ruleRow :: "string list \<Rightarrow> string \<Rightarrow> jsval \<Rightarrow> jsval \<Rightarrow> jsval" where
  \<open>ruleRow keys key value locked =
    html [''<tr><td><select class="fe-key">'',
        ''</select></td>\<newline>    <td><input class="fe-val" value="'',
        ''" placeholder="value; lists comma separated"></td>\<newline>    <td><label class="inline"><input type="checkbox" class="fe-lock" '',
        ''> locked</label></td>\<newline>    <td><button class="fe-del">Remove</button></td></tr>'']
      [Arr (map (key_option key) keys), shown_value value, mark ''checked'' (is_true locked)]\<close>

definition rule_of_entry :: "string list \<Rightarrow> string \<times> jsval \<Rightarrow> jsval res" where
  "rule_of_entry keys p = andThen (field ''value'' (snd p)) (\<lambda>v. andThen (field ''locked'' (snd p)) (\<lambda>l.
     Inr (ruleRow keys (fst p) v l)))"

definition drawRules :: "string list \<Rightarrow> (string \<times> jsval) list \<Rightarrow> jsval res" where
  "drawRules keys rules = andThen (mapM (rule_of_entry keys) rules) (\<lambda>ys.
     Inr (html [''<tr><th>Rule</th><th>Value</th><th></th><th></th></tr>'', []] [Arr ys]))"

lemma part_mark: "part (mark w b) = (if b then w else [])"
  by (simp add: mark_def html_def string_at_def escText_def replace_special_def)

lemma same_text_clean: "part v = part w \<Longrightarrow> clean v \<Longrightarrow> clean w"
  by (simp add: clean_def clean_at_def)

text \<open>A template with a boolean attribute is the template with the word, or without it, in its literal text.\<close>

lemma key_option_clean: "clean (key_option key k)"
proof (cases "k = key")
  case True
  have \<open>clean (html [''<option value="'', ''" selected>'', ''</option>''] [Str k, Str k])\<close>
    by (rule check_html_clean [where hs = "[Quoted, Content]"], code_simp) (simp add: plain_clean)
  then show ?thesis
    by (rule same_text_clean [rotated]) (simp add: key_option_def html_interleave part_mark True)
next
  case False
  have \<open>clean (html [''<option value="'', ''" >'', ''</option>''] [Str k, Str k])\<close>
    by (rule check_html_clean [where hs = "[Quoted, Content]"], code_simp) (simp add: plain_clean)
  then show ?thesis
    by (rule same_text_clean [rotated]) (simp add: key_option_def html_interleave part_mark False)
qed

lemma shown_value_plain: "plain v \<Longrightarrow> plain (shown_value v)"
  by (cases v) (simp_all add: shown_value_def)

lemma ruleRow_clean:
  assumes "plain value"
  shows "clean (ruleRow keys key value locked)"
proof -
  have keys: "clean_at Content (Arr (map (key_option key) keys))"
    using key_option_clean by (intro clean_Arr) (auto simp: clean_def)
  show ?thesis
  proof (cases "is_true locked")
    case True
    have \<open>clean (html [''<tr><td><select class="fe-key">'',
        ''</select></td>\<newline>    <td><input class="fe-val" value="'',
        ''" placeholder="value; lists comma separated"></td>\<newline>    <td><label class="inline"><input type="checkbox" class="fe-lock" checked> locked</label></td>\<newline>    <td><button class="fe-del">Remove</button></td></tr>'']
       [Arr (map (key_option key) keys), shown_value value])\<close>
      by (rule check_html_clean [where hs = "[Content, Quoted]"], code_simp) (simp add: keys shown_value_plain assms plain_clean)
    then show ?thesis
      by (rule same_text_clean [rotated]) (simp add: ruleRow_def html_interleave part_mark True)
  next
    case False
    have \<open>clean (html [''<tr><td><select class="fe-key">'',
        ''</select></td>\<newline>    <td><input class="fe-val" value="'',
        ''" placeholder="value; lists comma separated"></td>\<newline>    <td><label class="inline"><input type="checkbox" class="fe-lock" > locked</label></td>\<newline>    <td><button class="fe-del">Remove</button></td></tr>'']
       [Arr (map (key_option key) keys), shown_value value])\<close>
      by (rule check_html_clean [where hs = "[Content, Quoted]"], code_simp) (simp add: keys shown_value_plain assms plain_clean)
    then show ?thesis
      by (rule same_text_clean [rotated]) (simp add: ruleRow_def html_interleave part_mark False)
  qed
qed

lemma rule_of_entry_clean: "plain (snd p) \<Longrightarrow> yields clean (rule_of_entry keys p)"
  unfolding rule_of_entry_def
  by (rule yields_bind [OF plain_field], assumption) (auto intro!: yields_andThen ruleRow_clean)

lemma rules_table_clean:
  assumes "clean_at Content (Arr ys)"
  shows "clean (html [''<tr><th>Rule</th><th>Value</th><th></th><th></th></tr>'', []] [Arr ys])"
  by (rule check_html_clean [where hs = "[Content]"], code_simp) (simp add: assms)

lemma drawRules_clean:
  assumes "\<forall>p \<in> set rules. plain (snd p)"
  shows "yields clean (drawRules keys rules)"
proof -
  have rows: "yields (\<lambda>ys. \<forall>y \<in> set ys. clean y) (mapM (rule_of_entry keys) rules)"
    using assms by (intro yields_mapM rule_of_entry_clean) blast
  show ?thesis
    unfolding drawRules_def
    by (rule yields_bind [OF rows]) (use clean_Arr [of _ Content] in \<open>simp add: rules_table_clean clean_def [symmetric]\<close>)
qed

subsection \<open>The form a drawn table makes\<close>

text \<open>
  What the controls hold after the browser has parsed the rows of \<open>drawRules\<close>: a \<open>select\<close> shows its
  selected option, or else its first one; a text field holds its \<open>value\<close> attribute with the character
  references decoded and line breaks stripped; a check box holds its \<open>checked\<close> attribute.
\<close>

definition line_break :: "char \<Rightarrow> bool" where
  "line_break c \<longleftrightarrow> c = CHR 0x0A \<or> c = CHR 0x0D"

definition control_text :: "jsval \<Rightarrow> string" where
  "control_text v = filter (\<lambda>c. \<not> line_break c) (decode (part v))"

definition select_value :: "string list \<Rightarrow> string \<Rightarrow> string" where
  "select_value keys k = (if k \<in> set keys then k else case keys of [] \<Rightarrow> [] | k0 # _ \<Rightarrow> k0)"

definition drawn_row :: "string list \<Rightarrow> string \<times> jsval \<Rightarrow> rule_input res" where
  "drawn_row keys p = andThen (field ''value'' (snd p)) (\<lambda>v. andThen (field ''locked'' (snd p)) (\<lambda>l.
     Inr \<lparr>r_key = select_value keys (fst p), r_val = control_text (shown_value v), r_lock = is_true l\<rparr>))"

definition drawn_form :: "string list \<Rightarrow> (string \<times> jsval) list \<Rightarrow> rule_input list res" where
  "drawn_form keys rules = mapM (drawn_row keys) rules"

text \<open>The button \<open>fe-add\<close>: the rows typed so far, unvalidated, and an empty rule for the first unused key.\<close>

definition typed_rule :: "rule_input \<Rightarrow> string \<times> jsval" where
  "typed_rule r = (r_key r, rule_value (Str (r_val r)) (r_lock r))"

definition next_key :: "string list \<Rightarrow> rule_input list \<Rightarrow> string" where
  "next_key keys rows = (let first = (case keys of [] \<Rightarrow> [] | k0 # _ \<Rightarrow> k0) in
     case find (\<lambda>k. k \<notin> set (map r_key rows)) keys of
       Some k \<Rightarrow> if k = [] then first else k
     | None \<Rightarrow> first)"

definition feAdd :: "string list \<Rightarrow> rule_input list \<Rightarrow> (string \<times> jsval) list" where
  "feAdd keys rows = map typed_rule rows @ [(next_key keys rows, rule_value (Str []) False)]"

text \<open>A row as the browser can hold it: a key of the list, a text without line breaks.\<close>

definition typed_ok :: "string list \<Rightarrow> rule_input \<Rightarrow> bool" where
  "typed_ok keys r \<longleftrightarrow> r_key r \<in> set keys \<and> list_all (\<lambda>c. \<not> line_break c) (r_val r)"

lemma control_text_Str: "list_all (\<lambda>c. \<not> line_break c) s \<Longrightarrow> control_text (Str s) = s"
  using console.decode_escape [of s] by (simp add: control_text_def list_all_iff filter_id_conv)

lemma drawn_row_rule: "drawn_row keys (k, rule_value v b)
   = Inr \<lparr>r_key = select_value keys k, r_val = control_text (shown_value v), r_lock = b\<rparr>"
  by (simp add: drawn_row_def rule_value_def)

lemma mapM_map: "mapM f (map g xs) = mapM (f \<circ> g) xs"
  by (simp add: mapM_def)

lemma mapM_all: "(\<And>x. x \<in> set xs \<Longrightarrow> f x = Inr (g x)) \<Longrightarrow> mapM f xs = Inr (map g xs)"
  by (simp add: mapM_Inr)

lemma drawn_typed: "typed_ok keys r \<Longrightarrow> drawn_row keys (typed_rule r) = Inr r"
  by (simp add: typed_ok_def typed_rule_def drawn_row_rule select_value_def shown_value_def control_text_Str)

lemma drawn_feAdd:
  assumes "\<forall>r \<in> set rows. typed_ok keys r"
  shows "drawn_form keys (feAdd keys rows)
    = Inr (rows @ [\<lparr>r_key = select_value keys (next_key keys rows), r_val = [], r_lock = False\<rparr>])"
  using assms unfolding drawn_form_def feAdd_def mapM_Inr
  by (simp add: drawn_typed drawn_row_rule shown_value_def control_text_Str)

lemma next_key_unused:
  assumes "\<exists>k \<in> set keys. k \<notin> r_key ` set rows" "[] \<notin> set keys"
  shows "next_key keys rows \<in> set keys" "next_key keys rows \<notin> r_key ` set rows"
proof -
  obtain k where k: "find (\<lambda>k. k \<notin> set (map r_key rows)) keys = Some k"
    using assms(1) by (cases "find (\<lambda>k. k \<notin> set (map r_key rows)) keys") (auto simp: find_None_iff)
  then have "k \<in> set keys" "k \<notin> r_key ` set rows"
    by (auto simp: find_Some_iff)
  moreover from this assms(2) have "next_key keys rows = k"
    using k by (auto simp: next_key_def)
  ultimately show "next_key keys rows \<in> set keys" "next_key keys rows \<notin> r_key ` set rows"
    by simp_all
qed

subsection \<open>Reading back what was drawn\<close>

text \<open>
  The values the server stores for each kind of rule: a non-empty list of names, a whole number, a
  truth value, a trimmed text.
\<close>

definition list_word :: "string \<Rightarrow> bool" where
  "list_word w \<longleftrightarrow> w \<noteq> [] \<and> list_all (\<lambda>c. \<not> is_list_sep c) w"

fun word_of :: "jsval \<Rightarrow> string" where
  "word_of (Str s) = s"
| "word_of _ = []"

definition stored_value :: "string \<Rightarrow> jsval \<Rightarrow> bool" where
  "stored_value key v =
     (let kind = kind_of key in
      if kind = ''list'' then (case v of Arr vs \<Rightarrow> vs \<noteq> [] \<and> list_all (\<lambda>x. x = Str (word_of x) \<and> list_word (word_of x)) vs | _ \<Rightarrow> False)
      else if kind = ''int'' then (case v of Num q \<Rightarrow> q = of_nat (nat \<lfloor>q\<rfloor>) | _ \<Rightarrow> False)
      else if kind = ''bool'' then (case v of Bool b \<Rightarrow> True | _ \<Rightarrow> False)
      else (case v of Str s \<Rightarrow> s \<noteq> [] \<and> js_trim s = s \<and> list_all (\<lambda>c. \<not> line_break c) s | _ \<Rightarrow> False))"

lemma split_runs_word: "list_all (\<lambda>c. \<not> P c) w \<Longrightarrow> split_runs P w = [w]"
  by (subst split_runs.simps) (simp add: list_all_iff takeWhile_eq_all_conv [THEN iffD2])

lemma split_runs_sep:
  assumes "list_all (\<lambda>c. \<not> P c) w" "P a" "P b" "t \<noteq> []" "\<not> P (hd t)"
  shows "split_runs P (w @ a # b # t) = w # split_runs P t"
proof -
  have "takeWhile (\<lambda>c. \<not> P c) (w @ a # b # t) = w" "dropWhile (\<lambda>c. \<not> P c) (w @ a # b # t) = a # b # t"
    using assms(1,2) by (simp_all add: list_all_iff takeWhile_append2 dropWhile_append2)
  moreover have "dropWhile P t = t"
    using assms(4,5) by (cases t) simp_all
  ultimately show ?thesis
    using assms(2,3) by (subst split_runs.simps) (simp add: Let_def)
qed

lemma joined_head: "list_word w \<Longrightarrow> joined sep (w # ws) \<noteq> [] \<and> hd (joined sep (w # ws)) = hd w"
  by (cases ws) (simp_all add: list_word_def)

lemma joined_last: "list_all list_word (w # ws) \<Longrightarrow> last (joined sep (w # ws)) = last (last (w # ws))"
  by (induction ws arbitrary: w) (simp_all add: list_word_def joined_head)

lemma word_ends: "list_word w \<Longrightarrow> \<not> is_list_sep (hd w) \<and> \<not> is_list_sep (last w)"
  by (cases w) (auto simp: list_word_def list_all_iff)

lemma split_joined: "list_all list_word (w # ws) \<Longrightarrow> split_runs is_list_sep (joined '', '' (w # ws)) = w # ws"
proof (induction ws arbitrary: w)
  case Nil
  then show ?case by (simp add: split_runs_word list_word_def)
next
  case (Cons v ws)
  have "split_runs is_list_sep (w @ CHR '','' # CHR '' '' # joined '', '' (v # ws)) = w # split_runs is_list_sep (joined '', '' (v # ws))"
  proof (rule split_runs_sep)
    show "is_list_sep CHR '',''" "is_list_sep CHR '' ''" by (simp_all add: is_list_sep_def is_space_def code_def)
  qed (use Cons.prems joined_head [of v] word_ends [of v] in \<open>simp_all add: list_word_def\<close>)
  with Cons show ?case by simp
qed

lemma js_trim_ends: "s \<noteq> [] \<Longrightarrow> \<not> is_space (hd s) \<Longrightarrow> \<not> is_space (last s) \<Longrightarrow> js_trim s = s"
proof -
  assume s: "s \<noteq> []" "\<not> is_space (hd s)" "\<not> is_space (last s)"
  then have "dropWhile is_space s = s" by (cases s) simp_all
  moreover have "dropWhile is_space (rev s) = rev s"
    using s by (cases "rev s") (auto simp: hd_rev [symmetric])
  ultimately show ?thesis by (simp add: js_trim_def)
qed

lemma joined_all: "list_all Q sep \<Longrightarrow> list_all (list_all Q) ws \<Longrightarrow> list_all Q (joined sep ws)"
  by (induction sep ws rule: joined.induct) simp_all

lemma joined_no_break: "list_all list_word ws \<Longrightarrow> list_all (\<lambda>c. \<not> line_break c) (joined '', '' ws)"
proof (rule joined_all)
  have "\<not> is_list_sep c \<Longrightarrow> \<not> line_break c" for c
    by (auto simp: is_list_sep_def line_break_def is_space_def code_def)
  then show "list_all list_word ws \<Longrightarrow> list_all (list_all (\<lambda>c. \<not> line_break c)) ws"
    by (auto simp: list_all_iff list_word_def)
qed (simp add: line_break_def)

text \<open>The text field shows the words, the number, the truth value or the text itself.\<close>

definition rule_text :: "string \<Rightarrow> jsval \<Rightarrow> string" where
  "rule_text key v = (if kind_of key = ''list'' then (case v of Arr vs \<Rightarrow> joined '', '' (map word_of vs) | _ \<Rightarrow> []) else to_string v)"

lemma control_text_plain:
  assumes "part v = replace_special s" "list_all (\<lambda>c. \<not> line_break c) s"
  shows "control_text v = s"
  using control_text_Str [OF assms(2)] assms(1) by (simp add: control_text_def escText_def)

lemma nat_str_no_break: "list_all (\<lambda>c. \<not> line_break c) (nat_str n)"
  using nat_str_is_digit by (fastforce simp: list_all_iff line_break_def is_digit_def code_def)

lemma nat_str_trim: "js_trim (nat_str n) = nat_str n"
  using nat_str_is_digit digit_not_space by (intro js_trim_id) blast

lemma num_str_nat: "num_str (of_nat n) = nat_str n"
  using num_str_int [of "int n"] by (simp add: int_str_def)

lemma read_list:
  assumes "kind_of key = ''list''" "stored_value key v"
  shows "control_text (shown_value v) = rule_text key v \<and> js_trim (rule_text key v) = rule_text key v
    \<and> rule_text key v \<noteq> [] \<and> read_value key (rule_text key v) = Inr v"
proof -
  obtain vs where v: "v = Arr vs" "vs \<noteq> []" "list_all (\<lambda>x. x = Str (word_of x) \<and> list_word (word_of x)) vs"
    using assms by (cases v) (simp_all add: stored_value_def Let_def)
  obtain w ws where ws: "map word_of vs = w # ws" using v(2) by (cases vs) simp_all
  have vs: "vs = map Str (w # ws)"
    using v(3) ws [symmetric] by (simp add: list_all_iff map_idI)
  have ok: "list_all list_word (w # ws)"
    using v(3) ws by (metis (mono_tags, lifting) list.pred_map list_all_iff comp_def)
  have str: "rule_text key v = joined '', '' (w # ws)"
    using assms(1) v(1) ws by (simp add: rule_text_def)
  have shown: "shown_value v = Str (joined '', '' (w # ws))"
    unfolding v(1) vs by (simp add: shown_value_def join_text_def comp_def del: joined.simps)
  have ends: "\<not> is_space (hd (joined '', '' (w # ws)))" "\<not> is_space (last (joined '', '' (w # ws)))"
    using ok joined_head [of w] joined_last [OF ok] word_ends [of w] word_ends [of "last (w # ws)"]
    by (auto simp: is_list_sep_def list_all_iff)
  have "filter (\<lambda>u. u \<noteq> []) (w # ws) = w # ws"
    using ok by (auto simp: list_word_def list_all_iff intro!: filter_True)
  then show ?thesis
    using ok joined_head [of w] js_trim_ends [OF _ ends] assms(1)
    unfolding str shown
    by (simp add: control_text_Str [OF joined_no_break] split_joined read_value_def v(1) vs del: joined.simps filter.simps)
qed

lemma read_int:
  assumes "kind_of key = ''int''" "stored_value key v"
  shows "control_text (shown_value v) = rule_text key v \<and> js_trim (rule_text key v) = rule_text key v
    \<and> rule_text key v \<noteq> [] \<and> read_value key (rule_text key v) = Inr v"
proof -
  obtain n :: nat where v: "v = Num (of_nat n)"
    using assms by (cases v) (auto simp: stored_value_def Let_def)
  have "control_text v = nat_str n"
    by (rule control_text_plain) (simp_all add: v escText_def num_str_nat nat_str_no_break)
  then show ?thesis
    using assms(1) by (simp add: v shown_value_def rule_text_def num_str_nat nat_str_trim read_value_def str_number_nat)
qed

lemma read_bool:
  assumes "kind_of key = ''bool''" "stored_value key v"
  shows "control_text (shown_value v) = rule_text key v \<and> js_trim (rule_text key v) = rule_text key v
    \<and> rule_text key v \<noteq> [] \<and> read_value key (rule_text key v) = Inr v"
proof -
  obtain b where v: "v = Bool b"
    using assms by (cases v) (auto simp: stored_value_def Let_def)
  have "control_text v = to_string v"
    by (rule control_text_plain) (simp_all add: v escText_def line_break_def)
  moreover have "js_trim (to_string v) = to_string v"
    unfolding v by (cases b) (simp_all add: js_trim_def is_space_def code_def)
  moreover have "js_lower (to_string v) = to_string v"
    unfolding v by (cases b) (simp_all add: js_lower_def lower_char_def code_def)
  ultimately show ?thesis
    using assms(1) by (simp add: v shown_value_def rule_text_def read_value_def)
qed

lemma read_text:
  assumes "kind_of key \<notin> {''list'', ''int'', ''bool''}" "stored_value key v"
  shows "control_text (shown_value v) = rule_text key v \<and> js_trim (rule_text key v) = rule_text key v
    \<and> rule_text key v \<noteq> [] \<and> read_value key (rule_text key v) = Inr v"
proof -
  obtain s where v: "v = Str s" "s \<noteq> []" "js_trim s = s" "list_all (\<lambda>c. \<not> line_break c) s"
    using assms by (cases v) (auto simp: stored_value_def Let_def)
  then show ?thesis
    using assms(1) by (simp add: shown_value_def rule_text_def control_text_Str read_value_def)
qed

lemma read_stored:
  assumes "stored_value key v"
  shows "control_text (shown_value v) = rule_text key v" "js_trim (rule_text key v) = rule_text key v"
    "rule_text key v \<noteq> []" "read_value key (rule_text key v) = Inr v"
  using read_list [OF _ assms] read_int [OF _ assms] read_bool [OF _ assms] read_text [OF _ assms] by blast+

definition stored_rule :: "string list \<Rightarrow> string \<times> jsval \<Rightarrow> bool" where
  "stored_rule keys p \<longleftrightarrow> fst p \<in> set keys \<and> (\<exists>v b. snd p = rule_value v b \<and> stored_value (fst p) v)"

lemma read_drawn:
  assumes "stored_rule keys p"
  shows "\<exists>r. drawn_row keys p = Inr r \<and> r_key r = fst p \<and> js_trim (r_val r) \<noteq> []
    \<and> (\<exists>v. read_value (r_key r) (js_trim (r_val r)) = Inr v \<and> rule_value v (r_lock r) = snd p)"
proof -
  obtain k v b where p: "p = (k, rule_value v b)" "k \<in> set keys" "stored_value k v"
    using assms by (cases p) (auto simp: stored_rule_def)
  note stored = read_stored [OF p(3)]
  show ?thesis
    by (rule exI [of _ "\<lparr>r_key = k, r_val = rule_text k v, r_lock = b\<rparr>"])
      (use p(2) stored in \<open>simp add: p(1) drawn_row_rule select_value_def\<close>)
qed

lemma read_rules_drawn:
  assumes "list_all (stored_rule keys) rules" "distinct (map fst (out @ rules))"
  shows "\<exists>form. drawn_form keys rules = Inr form \<and> read_rules form out = Inr (out @ rules)"
  using assms
proof (induction rules arbitrary: out)
  case Nil
  then show ?case by (simp add: drawn_form_def mapM_Inr)
next
  case (Cons p rules)
  have "stored_rule keys p" using Cons.prems by simp
  then obtain r v where r: "drawn_row keys p = Inr r" "r_key r = fst p" "js_trim (r_val r) \<noteq> []"
    "read_value (r_key r) (js_trim (r_val r)) = Inr v" "rule_value v (r_lock r) = snd p"
    using read_drawn by blast
  obtain form where form: "drawn_form keys rules = Inr form" "read_rules form (out @ [p]) = Inr (out @ p # rules)"
    using Cons.IH [of "out @ [p]"] Cons.prems by auto
  have "obj_set (fst p) (snd p) out = out @ [p]"
    using Cons.prems(2) by (auto simp: obj_set_def)
  then have "read_rules (r # form) out = Inr (out @ p # rules)"
    using r form(2) by simp
  moreover have "drawn_form keys (p # rules) = Inr (r # form)"
    using r(1) form(1) by (simp add: drawn_form_def mapM_def)
  ultimately show ?case by blast
qed

subsection \<open>What a saved form can hold\<close>

text \<open>Every value that \<open>readRules\<close> lets through is of the kind of its key, and every key had a value.\<close>

definition kind_value :: "string \<Rightarrow> jsval \<Rightarrow> bool" where
  "kind_value key v =
     (let kind = kind_of key in
      if kind = ''list'' then (case v of Arr vs \<Rightarrow> list_all (\<lambda>x. x = Str (word_of x) \<and> list_word (word_of x)) vs | _ \<Rightarrow> False)
      else if kind = ''int'' then (case v of Num q \<Rightarrow> of_int \<lfloor>q\<rfloor> = q | _ \<Rightarrow> False)
      else if kind = ''bool'' then (case v of Bool b \<Rightarrow> True | _ \<Rightarrow> False)
      else (case v of Str s \<Rightarrow> s \<noteq> [] | _ \<Rightarrow> False))"

lemma list_all_takeWhile: "list_all Q (takeWhile Q s)"
  by (induction s) simp_all

lemma split_runs_chars: "w \<in> set (split_runs P s) \<Longrightarrow> list_all (\<lambda>c. \<not> P c) w"
proof (induction P s rule: split_runs.induct)
  case (1 P s)
  let ?r = "dropWhile (\<lambda>c. \<not> P c) s"
  have "split_runs P s = (if ?r = [] then [takeWhile (\<lambda>c. \<not> P c) s]
      else takeWhile (\<lambda>c. \<not> P c) s # split_runs P (dropWhile P ?r))"
    by (subst split_runs.simps) (simp add: Let_def del: dropWhile_eq_Nil_conv)
  then have "w = takeWhile (\<lambda>c. \<not> P c) s \<or> ?r \<noteq> [] \<and> w \<in> set (split_runs P (dropWhile P ?r))"
    using 1(2) by (simp del: dropWhile_eq_Nil_conv split: if_splits)
  then show ?case
    using 1(1) [OF refl refl] list_all_takeWhile by blast
qed

lemma read_value_kind: "read_value key raw = Inr v \<Longrightarrow> raw \<noteq> [] \<Longrightarrow> kind_value key v"
  using split_runs_chars [of _ is_list_sep raw]
  by (auto simp: read_value_def kind_value_def Let_def list_word_def list_all_iff split: if_splits option.splits)

lemma obj_set_names:
  "map fst (obj_set k v ps) = (if k \<in> fst ` set ps then map fst ps else map fst ps @ [k])"
  by (auto simp: obj_set_def)

lemma obj_set_keys: "fst ` set (obj_set k v ps) = insert k (fst ` set ps)"
  using arg_cong [OF obj_set_names [of k v ps], of set] by auto

lemma obj_set_distinct: "distinct (map fst ps) \<Longrightarrow> distinct (map fst (obj_set k v ps))"
  by (simp add: obj_set_names)

lemma obj_set_mem: "p \<in> set (obj_set k v ps) \<Longrightarrow> p = (k, v) \<or> p \<in> set ps"
  by (auto simp: obj_set_def split: if_splits)

definition saved_rule :: "string \<times> jsval \<Rightarrow> bool" where
  "saved_rule p \<longleftrightarrow> (\<exists>v b. snd p = rule_value v b \<and> kind_value (fst p) v)"

lemma read_rules_sound:
  "read_rules rows out = Inr res \<Longrightarrow> distinct (map fst out) \<Longrightarrow> \<forall>p \<in> set out. saved_rule p \<Longrightarrow>
     distinct (map fst res) \<and> fst ` set res = fst ` set out \<union> r_key ` set rows \<and> (\<forall>p \<in> set res. saved_rule p)"
proof (induction rows out rule: read_rules.induct)
  case (2 r rs out)
  from 2(2) obtain v where raw: "js_trim (r_val r) \<noteq> []" and v: "read_value (r_key r) (js_trim (r_val r)) = Inr v"
    and rest: "read_rules rs (obj_set (r_key r) (rule_value v (r_lock r)) out) = Inr res"
    by (auto simp: Let_def andThen_Inr split: if_splits)
  have "saved_rule (r_key r, rule_value v (r_lock r))"
    using read_value_kind [OF v raw] by (auto simp: saved_rule_def)
  then have "\<forall>p \<in> set (obj_set (r_key r) (rule_value v (r_lock r)) out). saved_rule p"
    using 2(4) obj_set_mem by blast
  with 2(1) [OF refl raw rest] obj_set_distinct [OF 2(3)] show ?case
    by (auto simp: obj_set_keys)
qed auto

lemma read_rules_total:
  "(\<exists>res. read_rules rows out = Inr res) \<longleftrightarrow>
     (\<forall>r \<in> set rows. js_trim (r_val r) \<noteq> [] \<and>
        (kind_of (r_key r) = ''int'' \<longrightarrow> (case str_number (js_trim (r_val r)) of Some q \<Rightarrow> of_int \<lfloor>q\<rfloor> = q | None \<Rightarrow> False)))"
proof (induction rows arbitrary: out)
  case (Cons r rows)
  have "(\<exists>v. read_value (r_key r) (js_trim (r_val r)) = Inr v) \<longleftrightarrow>
    (kind_of (r_key r) = ''int'' \<longrightarrow> (case str_number (js_trim (r_val r)) of Some q \<Rightarrow> of_int \<lfloor>q\<rfloor> = q | None \<Rightarrow> False))"
    by (auto simp: read_value_def Let_def split: option.split)
  then show ?case
    using Cons by (auto simp: andThen_Inr Let_def)
qed simp

subsection \<open>Rows of the same key\<close>

text \<open>The last row of a key, which decides what is saved for it.\<close>

definition last_row :: "string \<Rightarrow> rule_input list \<Rightarrow> rule_input option" where
  "last_row k form = find (\<lambda>r. r_key r = k) (rev form)"

definition row_rule :: "rule_input \<Rightarrow> jsval option" where
  "row_rule r = (case read_value (r_key r) (js_trim (r_val r)) of Inr v \<Rightarrow> Some (rule_value v (r_lock r)) | Inl e \<Rightarrow> None)"

lemma find_append: "find P (xs @ ys) = (case find P xs of Some x \<Rightarrow> Some x | None \<Rightarrow> find P ys)"
  by (induction xs) simp_all

lemma map_of_replace:
  "map_of (map (\<lambda>p. if fst p = k then (k, v) else p) ps) j = (if j = k \<and> k \<in> fst ` set ps then Some v else map_of ps j)"
  by (induction ps) (auto, force)

lemma map_of_obj_set: "map_of (obj_set k v ps) j = (if j = k then Some v else map_of ps j)"
proof (cases "k \<in> fst ` set ps")
  case True
  then show ?thesis by (simp add: obj_set_def map_of_replace)
next
  case False
  then have "map_of ps k = None" by (simp add: map_of_eq_None_iff)
  with False show ?thesis by (auto simp: obj_set_def map_add_def split: option.split)
qed

lemma read_rules_last:
  "read_rules rs out = Inr res \<Longrightarrow> map_of res k = (case last_row k rs of Some r \<Rightarrow> row_rule r | None \<Rightarrow> map_of out k)"
proof (induction rs arbitrary: out)
  case (Cons r rs)
  then obtain v where v: "read_value (r_key r) (js_trim (r_val r)) = Inr v"
      "read_rules rs (obj_set (r_key r) (rule_value v (r_lock r)) out) = Inr res"
    by (auto simp: Let_def andThen_Inr split: if_splits)
  have "last_row k (r # rs) = (case last_row k rs of Some x \<Rightarrow> Some x | None \<Rightarrow> if r_key r = k then Some r else None)"
    by (simp add: last_row_def find_append split: option.split)
  then show ?case
    using Cons.IH [OF v(2)] v(1) by (auto simp: map_of_obj_set row_rule_def split: option.split)
qed (simp add: last_row_def)

end
