(* ===== verification/Console_Overview.thy ===== *)
theory Console_Overview
  imports Console_Html
begin

section \<open>Tabs, overview, onboarding, inventory and approvals\<close>

text \<open>
  The views of \<open>loadOverview\<close>, \<open>loadOnboard\<close> and the credential forms, \<open>renderInv\<close> with its filter, and
  \<open>loadApprovals\<close>, from \<open>console.js\<close>.
\<close>

subsection \<open>Tabs and overview\<close>

definition TABS :: "(string \<times> string) list" where
  "TABS = [(''overview'', ''Overview''), (''onboard'', ''Onboard''), (''inventory'', ''Inventory''), (''approvals'', ''Approvals''),
     (''discovery'', ''Discovery''), (''provisioning'', ''Provisioning''), (''policy'', ''Policy''), (''issuers'', ''Issuers''),
     (''signing'', ''Signing''), (''sshkeys'', ''SSH keys''), (''audit'', ''Audit''), (''reports'', ''Reports'')]"

definition tab_button :: "string \<times> string \<Rightarrow> jsval res" where
  \<open>tab_button t =
    tmpl [''<button data-tab="'',
       ''">'',
       ''</button>'']
      [str (fst t),
       str (snd t)]\<close>

lemma tab_button_clean [view_clean]: "yields clean (tab_button t)"
  unfolding tab_button_def
  by (rule tmpl_clean [where hs = "[Quoted, Content]"], code_simp) (simp add: view_clean)

definition tabs_view :: "jsval res" where
  "tabs_view = tmpl [[], []] [andThen (mapM tab_button TABS) (\<lambda>ys. Inr (Arr ys))]"

lemma tabs_view_clean [view_clean]: "yields clean tabs_view"
proof -
  have "yields (\<lambda>ys. \<forall>y \<in> set ys. clean y) (mapM tab_button TABS)"
    by (rule yields_mapM) (rule tab_button_clean)
  then have "yields clean (andThen (mapM tab_button TABS) (\<lambda>ys. Inr (Arr ys)))"
    by (rule yields_bind) (simp add: clean_list)
  note this [view_clean]
  show ?thesis
    unfolding tabs_view_def
    by (rule tmpl_clean [where hs = "[Content]"], code_simp) (simp add: view_clean)
qed

text \<open>The mascot of the overview and the text of its bubble.\<close>

definition health_mood :: "jsval \<Rightarrow> string" where
  "health_mood h = (if h = Str ''critical'' then ''rolled'' else if h = Str ''warning'' then ''worried'' else [])"

definition mascot_src :: "jsval \<Rightarrow> string" where
  "mascot_src h = ''/static/dilly'' @ (if health_mood h = [] then [] else ''-'' @ health_mood h) @ ''.svg''"

definition percent :: "jsval \<Rightarrow> string" where
  "percent v = (case as_number v of None \<Rightarrow> ''NaN'' | Some q \<Rightarrow> num_str (of_int \<lfloor>q * 100 + 1 / 2\<rfloor>))"

definition bubble_text :: "jsval \<Rightarrow> jsval res" where
  "bubble_text s =
     andThen (field ''certificates'' s) (\<lambda>c. andThen (field ''alerts'' s) (\<lambda>a. andThen (field ''health'' s) (\<lambda>h.
       if h = Str ''critical'' then
         text_of [str (''I'' @ [CHR 0x27] @ ''ve rolled up. ''), field ''critical'' a, str '' critical alert'',
           andThen (field ''critical'' a) (\<lambda>n. str (if n = Num 1 then [] else ''s'')),
           str '' need someone now; start with the list below.'']
       else if h = Str ''warning'' then
         text_of [field ''warning'' a, str '' thing'', andThen (field ''warning'' a) (\<lambda>n. str (if n = Num 1 then [] else ''s'')),
           str '' to look at soon. Nothing is broken yet.'']
       else
         text_of [str ''All quiet. '', field ''active'' c, str '' active certificates, '',
           andThen (field ''automation_coverage'' s) (\<lambda>q. str (percent q)), str ''% issued through automation.''])))"

text \<open>One figure of the overview: a label, a value and the class that colours it.\<close>

definition flag :: "string \<Rightarrow> jsval res \<Rightarrow> jsval res" where
  "flag cl r = ite r (str cl) (str [])"

definition kpi_rows :: "jsval \<Rightarrow> jsval \<Rightarrow> jsval \<Rightarrow> (string \<times> jsval res \<times> jsval res) list" where
  "kpi_rows s c a =
     [(''Active certificates'', field ''active'' c, Inr Undefined),
      (''Renewal overdue (critical)'', field ''renewal_critical'' c, flag ''crit'' (field ''renewal_critical'' c)),
      (''Renewal window open'', field ''renewal_warning'' c, flag ''warn'' (field ''renewal_warning'' c)),
      (''Expired, still deployed'', field ''expired'' c, flag ''crit'' (field ''expired'' c)),
      (''Unmanaged (no owner)'', field ''unmanaged'' c, flag ''warn'' (field ''unmanaged'' c)),
      (''Critical alerts'', field ''critical'' a, flag ''crit'' (field ''critical'' a)),
      (''Pending approvals'', field ''pending_approvals'' s, Inr Undefined),
      (''Automated issuance'', andThen (field ''automation_coverage'' s) (\<lambda>q. str (percent q @ ''%'')), Inr Undefined),
      (''SSH certificates'', field ''ssh_certificates'' s, Inr Undefined),
      (''Teams'', field ''teams'' s, Inr Undefined)]"

definition kpi_view :: "string \<times> jsval res \<times> jsval res \<Rightarrow> jsval res" where
  \<open>kpi_view k = tmpl [''<div class="kpi '', ''"><b>'', ''</b><span>'', ''</span></div>'']
      [orElse (snd (snd k)) (str []), fst (snd k), str (fst k)]\<close>

lemma kpi_view_clean:
  assumes "yields plain (fst (snd k))" "yields plain (snd (snd k))"
  shows "yields clean (kpi_view k)"
  unfolding kpi_view_def
  by (rule tmpl_clean [where hs = "[Quoted, Content, Content]"], code_simp) (use assms in \<open>simp add: view_clean\<close>)

definition kpis_view :: "jsval \<Rightarrow> jsval res" where
  "kpis_view s = andThen (field ''certificates'' s) (\<lambda>c. andThen (field ''alerts'' s) (\<lambda>a.
     tmpl [[], []] [andThen (mapM kpi_view (kpi_rows s c a)) (\<lambda>ys. Inr (Arr ys))]))"

lemma kpi_rows_plain:
  assumes "plain s" "plain c" "plain a" "k \<in> set (kpi_rows s c a)"
  shows "yields plain (fst (snd k)) \<and> yields plain (snd (snd k))"
proof -
  have p: "yields plain (andThen r (\<lambda>q. str (f q)))" for r and f :: "jsval \<Rightarrow> string"
    by (rule yields_andThen) (rule str_plain)
  show ?thesis
    using assms by (auto simp: kpi_rows_def flag_def view_clean p)
qed

lemma kpis_view_clean [view_clean]:
  assumes "plain s"
  shows "yields clean (kpis_view s)"
proof -
  have "yields clean (tmpl [[], []] [andThen (mapM kpi_view (kpi_rows s c a)) (\<lambda>ys. Inr (Arr ys))])"
    if "plain c" "plain a" for c a
  proof -
    have "yields (\<lambda>ys. \<forall>y \<in> set ys. clean y) (mapM kpi_view (kpi_rows s c a))"
      by (rule yields_mapM) (use kpi_view_clean kpi_rows_plain [OF assms that] in blast)
    then have "yields clean (andThen (mapM kpi_view (kpi_rows s c a)) (\<lambda>ys. Inr (Arr ys)))"
      by (rule yields_bind) (simp add: clean_list)
    note this [view_clean]
    show ?thesis
      by (rule tmpl_clean [where hs = "[Content]"], code_simp) (simp add: view_clean)
  qed
  then show ?thesis
    unfolding kpis_view_def using assms
    by (intro yields_bind [OF plain_field]) auto
qed

definition alert_row :: "jsval \<Rightarrow> jsval res" where
  \<open>alert_row x =
    tmpl [''<tr><td>'',
       ''</td><td><b>'',
       ''</b><br>'',
       ''</td><td>'',
       ''</td></tr>'']
      [pill_of (field ''severity'' x),
       field ''rule'' x,
       field ''summary'' x,
       orElse (path [''labels'', ''team''] x) (str ''unowned'')]\<close>

lemma alert_row_clean [view_clean]:
  assumes "plain x"
  shows "yields clean (alert_row x)"
  unfolding alert_row_def
  by (rule tmpl_clean [where hs = "[Content, Content, Content, Content]"], code_simp) (use assms in \<open>simp add: view_clean\<close>)

definition alerts_table :: "jsval \<Rightarrow> jsval res" where
  \<open>alerts_table alerts =
    tmpl [''<table><tr><th>Severity</th><th>Alert</th><th>Owner</th></tr>'',
       ''</table>'']
      [andThen (slice0 ''alerts.slice'' 25 alerts) (map_html ''alerts.slice(...).map'' alert_row)]\<close>

lemma alerts_table_clean [view_clean]:
  assumes "plain alerts"
  shows "yields clean (alerts_table alerts)"
  unfolding alerts_table_def
  by (rule tmpl_clean [where hs = "[Content]"], code_simp) (use assms in \<open>simp add: view_clean\<close>)

definition alerts_empty :: "jsval res" where
  \<open>alerts_empty = tmpl [''No open alerts.'']
      []\<close>

lemma alerts_empty_clean [view_clean]: "yields clean alerts_empty"
  unfolding alerts_empty_def
  by (rule tmpl_clean [where hs = "[]"], code_simp) simp

definition alerts_view :: "jsval \<Rightarrow> jsval res" where
  \<open>alerts_view alerts =
    ite (field ''length'' alerts) (alerts_table alerts) alerts_empty\<close>

lemma alerts_view_clean [view_clean]:
  assumes "plain alerts"
  shows "yields clean (alerts_view alerts)"
  unfolding alerts_view_def
  by (use assms in \<open>simp add: view_clean\<close>)

definition expiring_row :: "jsval \<Rightarrow> jsval res" where
  \<open>expiring_row x =
    tmpl [''<tr><td>'',
       ''</td><td>'',
       ''</td><td class="num">'',
       ''</td></tr>'']
      [field ''common_name'' x,
       orElse (field ''location'' x) (field ''source'' x),
       time_left_text x]\<close>

lemma expiring_row_clean [view_clean]:
  assumes "plain x"
  shows "yields clean (expiring_row x)"
  unfolding expiring_row_def
  by (rule tmpl_clean [where hs = "[Content, Content, Content]"], code_simp) (use assms in \<open>simp add: view_clean\<close>)

definition expiring_table :: "jsval \<Rightarrow> jsval res" where
  \<open>expiring_table due =
    tmpl [''<table><tr><th>Name</th><th>Location</th><th class="num">Left</th></tr>'',
       ''</table>'']
      [andThen (slice0 ''exp.slice'' 25 due) (map_html ''exp.slice(...).map'' expiring_row)]\<close>

lemma expiring_table_clean [view_clean]:
  assumes "plain due"
  shows "yields clean (expiring_table due)"
  unfolding expiring_table_def
  by (rule tmpl_clean [where hs = "[Content]"], code_simp) (use assms in \<open>simp add: view_clean\<close>)

definition expiring_empty :: "jsval res" where
  \<open>expiring_empty = tmpl [''Nothing is inside its renewal window.'']
      []\<close>

lemma expiring_empty_clean [view_clean]: "yields clean expiring_empty"
  unfolding expiring_empty_def
  by (rule tmpl_clean [where hs = "[]"], code_simp) simp

definition expiring_view :: "jsval \<Rightarrow> jsval res" where
  \<open>expiring_view due =
    ite (field ''length'' due) (expiring_table due) expiring_empty\<close>

lemma expiring_view_clean [view_clean]:
  assumes "plain due"
  shows "yields clean (expiring_view due)"
  unfolding expiring_view_def
  by (use assms in \<open>simp add: view_clean\<close>)

subsection \<open>Onboarding\<close>

definition team_option :: "jsval \<Rightarrow> jsval res" where
  \<open>team_option x =
    tmpl [''<option value="'',
       ''">'',
       '' ('',
       '' apps)</option>'']
      [field ''id'' x,
       field ''name'' x,
       field ''apps'' x]\<close>

lemma team_option_clean [view_clean]:
  assumes "plain x"
  shows "yields clean (team_option x)"
  unfolding team_option_def
  by (rule tmpl_clean [where hs = "[Quoted, Content, Content]"], code_simp) (use assms in \<open>simp add: view_clean\<close>)

definition teams_list :: "jsval \<Rightarrow> jsval res" where
  \<open>teams_list teams =
    tmpl ['''',
       '''']
      [map_html ''teams.map'' team_option teams]\<close>

lemma teams_list_clean [view_clean]:
  assumes "plain teams"
  shows "yields clean (teams_list teams)"
  unfolding teams_list_def
  by (rule tmpl_clean [where hs = "[Content]"], code_simp) (use assms in \<open>simp add: view_clean\<close>)

definition no_teams :: "jsval res" where
  \<open>no_teams =
    tmpl [''<option value="">no teams yet</option>'']
      []\<close>

lemma no_teams_clean [view_clean]: "yields clean (no_teams)"
  unfolding no_teams_def
  by (rule tmpl_clean [where hs = "[]"], code_simp) (simp add: view_clean)

definition ob_team_view :: "jsval \<Rightarrow> jsval res" where
  \<open>ob_team_view teams =
    ite (field ''length'' teams) (teams_list teams) no_teams\<close>

lemma ob_team_view_clean [view_clean]:
  assumes "plain teams"
  shows "yields clean (ob_team_view teams)"
  unfolding ob_team_view_def
  by (use assms in \<open>simp add: view_clean\<close>)

definition profile_option :: "string \<times> jsval \<Rightarrow> jsval res" where
  \<open>profile_option p =
    tmpl [''<option value="'',
       ''">'',
       '': '',
       ''</option>'']
      [str (fst p),
       str (fst p),
       field ''description'' (snd p)]\<close>

lemma profile_option_clean [view_clean]:
  assumes "plain (snd p)"
  shows "yields clean (profile_option p)"
  unfolding profile_option_def
  by (rule tmpl_clean [where hs = "[Quoted, Content, Content]"], code_simp) (use assms in \<open>simp add: view_clean\<close>)

definition profiles_view :: "jsval \<Rightarrow> jsval res" where
  \<open>profiles_view profiles =
    tmpl ['''',
       '''']
      [map_entries profile_option profiles]\<close>

lemma profiles_view_clean [view_clean]:
  assumes "plain profiles"
  shows "yields clean (profiles_view profiles)"
  unfolding profiles_view_def
  by (rule tmpl_clean [where hs = "[Content]"], code_simp) (use assms in \<open>simp add: view_clean\<close>)

definition ob_status_view :: "jsval \<Rightarrow> jsval res" where
  \<open>ob_status_view a =
    tmpl ['''',
       '' is '',
       ''. Approval #'',
       '' must be approved by someone other than '',
       ''.'']
      [field ''name'' a,
       pill_of (field ''status'' a),
       orElse (field ''approval_id'' a) (str []),
       field ''created_by'' a]\<close>

lemma ob_status_view_clean [view_clean]:
  assumes "plain a"
  shows "yields clean (ob_status_view a)"
  unfolding ob_status_view_def
  by (rule tmpl_clean [where hs = "[Content, Content, Content, Content]"], code_simp) (use assms in \<open>simp add: view_clean\<close>)

definition cred_api_view :: "string \<Rightarrow> jsval \<Rightarrow> jsval res" where
  \<open>cred_api_view base c =
    tmpl [''<label>API key (store it in your secrets manager)</label><pre>'',
       ''</pre>\<newline>  <label>CLI: request and auto-renew</label><pre>export CERTADILLO_SERVER='',
       '' CERTADILLO_API_KEY='',
       ''\<newline>certadillo cert request --cn app.example --san app.example --out /etc/ssl/app\<newline>certadillo cert renew-if-due --dir /etc/ssl/app   # run from a systemd timer</pre>\<newline>  <label>EST (devices, appliances)</label><pre>curl --cacert root.pem -u client:'',
       ('' -H \'Content-Type: application/pkcs10\' '' @ [CHR 0x5C] @ ''\<newline>  --data-binary @csr.b64 ''),
       ''/.well-known/est/simpleenroll</pre>'']
      [field ''api_key'' c,
       str base,
       field ''api_key'' c,
       field ''api_key'' c,
       str base]\<close>

lemma cred_api_view_clean [view_clean]:
  assumes "plain c"
  shows "yields clean (cred_api_view base c)"
  unfolding cred_api_view_def
  by (rule tmpl_clean [where hs = "[Content, Content, Content, Content, Content]"], code_simp) (use assms in \<open>simp add: view_clean\<close>)

definition cred_eab_view :: "string \<Rightarrow> jsval \<Rightarrow> jsval res" where
  \<open>cred_eab_view base c =
    tmpl [''<label>ACME External Account Binding (single use)</label><pre>kid:  '',
       ''\<newline>hmac: '',
       ''</pre><label>certbot</label><pre>'',
       ''</pre>\<newline>  <label>cert-manager ClusterIssuer</label><pre>spec:\<newline>  acme:\<newline>    server: '',
       ''/acme/directory\<newline>    externalAccountBinding:\<newline>      keyID: '',
       ''\<newline>      keySecretRef: {name: certadillo-eab, key: secret}\<newline>    privateKeySecretRef: {name: certadillo-acme-account}\<newline>    solvers: [{http01: {ingress: {}}}]</pre>'']
      [field ''kid'' c,
       field ''hmac_key'' c,
       field ''example'' c,
       str base,
       field ''kid'' c]\<close>

lemma cred_eab_view_clean [view_clean]:
  assumes "plain c"
  shows "yields clean (cred_eab_view base c)"
  unfolding cred_eab_view_def
  by (rule tmpl_clean [where hs = "[Content, Content, Content, Content, Content]"], code_simp) (use assms in \<open>simp add: view_clean\<close>)

subsection \<open>Inventory and approvals\<close>

definition revoke_button :: "jsval \<Rightarrow> jsval res" where
  \<open>revoke_button x =
    tmpl [''<button data-revoke="'',
       ''">Revoke</button>'']
      [field ''id'' x]\<close>

lemma revoke_button_clean [view_clean]:
  assumes "plain x"
  shows "yields clean (revoke_button x)"
  unfolding revoke_button_def
  by (rule tmpl_clean [where hs = "[Quoted]"], code_simp) (use assms in \<open>simp add: view_clean\<close>)

definition inventory_row :: "jsval \<Rightarrow> jsval res" where
  \<open>inventory_row x =
    tmpl [''<tr><td>'',
       ''<br><span class="muted">'',
       (ellipsis @ ''</span></td><td>''),
       ''</td><td>'',
       '''',
       ''</td><td>'',
       ''</td><td>'',
       ''</td><td>'',
       ''</td><td class="num">'',
       ''</td>\<newline>    <td>'',
       ''</td></tr>'']
      [field ''common_name'' x,
       andThen (field ''serial'' x) (slice0 ''x.serial.slice'' 16),
       pill_of (field ''status'' x),
       field ''source'' x,
       ite (field ''protocol'' x) (text_of [str '' / '', field ''protocol'' x]) (str []),
       field ''key'' x,
       orElse (field ''profile'' x) (str []),
       orElse (field ''location'' x) (str []),
       time_left_text x,
       ite (andAlso (is_str (field ''status'' x) ''active'') (is_str (field ''source'' x) ''issued'')) (revoke_button x) (str [])]\<close>

lemma inventory_row_clean [view_clean]:
  assumes "plain x"
  shows "yields clean (inventory_row x)"
  unfolding inventory_row_def
  by (rule tmpl_clean [where hs = "[Content, Content, Content, Content, Content, Content, Content, Content, Content, Content]"], code_simp) (use assms in \<open>simp add: view_clean\<close>)

text \<open>The filter of \<open>renderInv\<close>: \<open>st\<close> and \<open>so\<close> are the chosen status and source, \<open>q\<close> the search text in lower case.\<close>

definition inventory_text :: "jsval \<Rightarrow> jsval res" where
  "inventory_text x = andThen (sequence [field ''common_name'' x, field ''serial'' x, field ''location'' x,
       andThen (orElse (field ''sans'' x) (Inr (Arr []))) (joined_with ''(x.sans || []).join'' '' '')])
     (\<lambda>vs. Inr (Str (join_text '' '' vs)))"

definition chosen :: "string \<Rightarrow> string \<Rightarrow> jsval \<Rightarrow> bool res" where
  "chosen k want x = (if want = [] then Inr True else andThen (field k x) (\<lambda>v. Inr (v = Str want)))"

definition inventory_match :: "string \<Rightarrow> string \<Rightarrow> string \<Rightarrow> jsval \<Rightarrow> bool res" where
  "inventory_match st so q x = andThen (chosen ''status'' st x) (\<lambda>a.
     if \<not> a then Inr False else andThen (chosen ''source'' so x) (\<lambda>b.
     if \<not> b then Inr False else if q = [] then Inr True
     else andThen (inventory_text x) (\<lambda>t. Inr (has_text q (js_lower (to_string t))))))"

definition inventory_rows :: "string \<Rightarrow> string \<Rightarrow> string \<Rightarrow> jsval list \<Rightarrow> jsval list res" where
  "inventory_rows st so q certs = andThen (mapM (inventory_match st so q) certs)
     (\<lambda>bs. Inr (map fst (filter snd (zip certs bs))))"

definition inventory_table :: "nat \<Rightarrow> jsval list \<Rightarrow> jsval res" where
  \<open>inventory_table n rows =
    tmpl [''<p class="muted">'',
       '' of '',
       ''</p><table><tr><th>Name</th><th>Status</th><th>Source</th><th>Key</th><th>Profile</th><th>Location</th><th class="num">Expires</th><th></th></tr>'',
       ''</table>'']
      [Inr (Num (of_nat (length rows))),
       Inr (Num (of_nat n)),
       map_html ''rows.map'' inventory_row (Arr rows)]\<close>

lemma inventory_table_clean [view_clean]:
  assumes "\<forall>x \<in> set rows. plain x"
  shows "yields clean (inventory_table n rows)"
  unfolding inventory_table_def
  by (rule tmpl_clean [where hs = "[Content, Content, Content]"], code_simp) (use assms in \<open>simp add: view_clean\<close>)

definition inventory_view :: "string \<Rightarrow> string \<Rightarrow> string \<Rightarrow> jsval list \<Rightarrow> jsval res" where
  "inventory_view st so q certs = andThen (inventory_rows st so (js_lower q) certs) (inventory_table (length certs))"

lemma inventory_rows_sub: "inventory_rows st so q certs = Inr rows \<Longrightarrow> set rows \<subseteq> set certs"
  by (auto simp: inventory_rows_def andThen_Inr) (meson set_zip_leftD)

lemma inventory_view_clean [view_clean]:
  "\<forall>x \<in> set certs. plain x \<Longrightarrow> yields clean (inventory_view st so q certs)"
  unfolding inventory_view_def
  by (rule yields_andThen, rule inventory_table_clean) (use inventory_rows_sub in blast)

definition decide_buttons :: "jsval \<Rightarrow> jsval res" where
  \<open>decide_buttons r =
    tmpl [''<button class="primary" data-ok="'',
       ''">Approve</button> <button data-no="'',
       ''">Reject</button>'']
      [field ''id'' r,
       field ''id'' r]\<close>

lemma decide_buttons_clean [view_clean]:
  assumes "plain r"
  shows "yields clean (decide_buttons r)"
  unfolding decide_buttons_def
  by (rule tmpl_clean [where hs = "[Quoted, Quoted]"], code_simp) (use assms in \<open>simp add: view_clean\<close>)

definition decided_by :: "jsval \<Rightarrow> jsval res" where
  \<open>decided_by r =
    tmpl [''<br>by '',
       '''']
      [field ''decided_by'' r]\<close>

lemma decided_by_clean [view_clean]:
  assumes "plain r"
  shows "yields clean (decided_by r)"
  unfolding decided_by_def
  by (rule tmpl_clean [where hs = "[Content]"], code_simp) (use assms in \<open>simp add: view_clean\<close>)

text \<open>\<open>JSON.stringify\<close> is the argument \<open>json\<close>: \<open>None\<close> where it returns \<open>undefined\<close>.\<close>

definition json_text :: "(jsval \<Rightarrow> string option) \<Rightarrow> jsval res \<Rightarrow> jsval res" where
  "json_text json r = andThen r (\<lambda>v. Inr (case json v of None \<Rightarrow> Undefined | Some s \<Rightarrow> Str s))"

lemma json_text_plain [view_clean]: "yields plain (json_text json r)"
  by (auto simp: json_text_def intro!: yields_andThen split: option.split)

definition approval_row :: "(jsval \<Rightarrow> string option) \<Rightarrow> jsval \<Rightarrow> jsval res" where
  \<open>approval_row json r =
    tmpl [''<tr><td>'',
       ''</td><td>'',
       ''</td><td><pre>'',
       ''</pre></td><td>'',
       ''</td><td>'',
       '''',
       ''</td>\<newline>    <td>'',
       ''</td></tr>'']
      [field ''id'' r,
       field ''action'' r,
       json_text json (field ''payload'' r),
       field ''requested_by'' r,
       pill_of (field ''status'' r),
       ite (field ''decided_by'' r) (decided_by r) (str []),
       ite (is_str (field ''status'' r) ''pending'') (decide_buttons r) (str [])]\<close>

lemma approval_row_clean [view_clean]:
  assumes "plain r"
  shows "yields clean (approval_row json r)"
  unfolding approval_row_def
  by (rule tmpl_clean [where hs = "[Content, Content, Content, Content, Content, Content, Content]"], code_simp) (use assms in \<open>simp add: view_clean\<close>)

definition approvals_table :: "(jsval \<Rightarrow> string option) \<Rightarrow> jsval \<Rightarrow> jsval res" where
  \<open>approvals_table json rows =
    tmpl [''<table><tr><th>#</th><th>Action</th><th>Details</th><th>Requested by</th><th>Status</th><th></th></tr>'',
       ''</table>'']
      [map_html ''rows.map'' (approval_row json) rows]\<close>

lemma approvals_table_clean [view_clean]:
  assumes "plain rows"
  shows "yields clean (approvals_table json rows)"
  unfolding approvals_table_def
  by (rule tmpl_clean [where hs = "[Content]"], code_simp) (use assms in \<open>simp add: view_clean\<close>)

definition approvals_empty :: "jsval res" where
  \<open>approvals_empty = tmpl [''No approval requests.'']
      []\<close>

lemma approvals_empty_clean [view_clean]: "yields clean approvals_empty"
  unfolding approvals_empty_def
  by (rule tmpl_clean [where hs = "[]"], code_simp) simp

definition approvals_view :: "(jsval \<Rightarrow> string option) \<Rightarrow> jsval \<Rightarrow> jsval res" where
  \<open>approvals_view json rows =
    ite (field ''length'' rows) (approvals_table json rows) approvals_empty\<close>

lemma approvals_view_clean [view_clean]:
  assumes "plain rows"
  shows "yields clean (approvals_view json rows)"
  unfolding approvals_view_def
  by (use assms in \<open>simp add: view_clean\<close>)

end
