(* ===== verification/Console_Estate.thy ===== *)
theory Console_Estate
  imports Console_Overview
begin

section \<open>Discovery and provisioning\<close>

text \<open>
  The views of \<open>loadDiscovery\<close>, \<open>loadProvisioning\<close> and \<open>showRuns\<close> from \<open>console.js\<close>.
\<close>

subsection \<open>Discovery\<close>

definition scan_error :: "jsval \<Rightarrow> jsval res" where
  \<open>scan_error x =
    tmpl [''<span class="muted">'',
       ''</span>'']
      [field ''error'' x]\<close>

lemma scan_error_clean [view_clean]:
  assumes "plain x"
  shows "yields clean (scan_error x)"
  unfolding scan_error_def
  by (rule tmpl_clean [where hs = "[Content]"], code_simp) (use assms in \<open>simp add: view_clean\<close>)

definition scan_found :: "jsval \<Rightarrow> jsval res" where
  \<open>scan_found x =
    tmpl ['''',
       '' '',
       ''<br><span class="muted">expires '',
       ''</span>'']
      [field ''common_name'' x,
       ite (field ''new'' x) (pill_of (str ''new'')) (str []),
       andThen (field ''not_after'' x) (slice0 ''x.not_after.slice'' 10)]\<close>

lemma scan_found_clean [view_clean]:
  assumes "plain x"
  shows "yields clean (scan_found x)"
  unfolding scan_found_def
  by (rule tmpl_clean [where hs = "[Content, Content, Content]"], code_simp) (use assms in \<open>simp add: view_clean\<close>)

definition finding_pill :: "jsval \<Rightarrow> jsval res" where
  \<open>finding_pill f =
    tmpl ['''',
       '' '']
      [pill_of (field ''rule'' f)]\<close>

lemma finding_pill_clean [view_clean]:
  assumes "plain f"
  shows "yields clean (finding_pill f)"
  unfolding finding_pill_def
  by (rule tmpl_clean [where hs = "[Content]"], code_simp) (use assms in \<open>simp add: view_clean\<close>)

definition scan_row :: "jsval \<Rightarrow> jsval res" where
  \<open>scan_row x =
    tmpl [''<tr><td>'',
       ''</td><td>'',
       ''</td><td>'',
       ''</td></tr>'']
      [field ''target'' x,
       ite (field ''error'' x) (scan_error x) (scan_found x),
       andThen (orElse (field ''findings'' x) (Inr (Arr []))) (map_html ''(x.findings || []).map'' finding_pill)]\<close>

lemma scan_row_clean [view_clean]:
  assumes "plain x"
  shows "yields clean (scan_row x)"
  unfolding scan_row_def
  by (rule tmpl_clean [where hs = "[Content, Content, Content]"], code_simp) (use assms in \<open>simp add: view_clean\<close>)

definition scan_view :: "jsval \<Rightarrow> jsval res" where
  \<open>scan_view r =
    tmpl [''<table><tr><th>Target</th><th>Result</th><th>Findings</th></tr>'',
       ''</table>'']
      [map_html ''r.map'' scan_row r]\<close>

lemma scan_view_clean [view_clean]:
  assumes "plain r"
  shows "yields clean (scan_view r)"
  unfolding scan_view_def
  by (rule tmpl_clean [where hs = "[Content]"], code_simp) (use assms in \<open>simp add: view_clean\<close>)

definition error_view :: "string \<Rightarrow> jsval res" where
  \<open>error_view msg =
    tmpl [''<p class="err">'',
       ''</p>'']
      [str msg]\<close>

lemma error_view_clean [view_clean]: "yields clean (error_view msg)"
  unfolding error_view_def
  by (rule tmpl_clean [where hs = "[Content]"], code_simp) (simp add: view_clean)

text \<open>What a discovery finding shows, by its kind.\<close>

definition comment_span :: "jsval \<Rightarrow> jsval res" where
  \<open>comment_span d =
    tmpl [''<span class="muted">'',
       ''</span>'']
      [field ''comment'' d]\<close>

lemma comment_span_clean [view_clean]:
  assumes "plain d"
  shows "yields clean (comment_span d)"
  unfolding comment_span_def
  by (rule tmpl_clean [where hs = "[Content]"], code_simp) (use assms in \<open>simp add: view_clean\<close>)

definition ssh_label :: "jsval \<Rightarrow> jsval res" where
  \<open>ssh_label d =
    tmpl ['''',
       '' '',
       '' '',
       ''<br><code>'',
       ''</code>'']
      [orElse (field ''key_type'' d) (str []),
       orElse (field ''bits'' d) (str []),
       ite (field ''comment'' d) (comment_span d) (str []),
       orElse (field ''fingerprint'' d) (str [])]\<close>

lemma ssh_label_clean [view_clean]:
  assumes "plain d"
  shows "yields clean (ssh_label d)"
  unfolding ssh_label_def
  by (rule tmpl_clean [where hs = "[Content, Content, Content, Content]"], code_simp) (use assms in \<open>simp add: view_clean\<close>)

definition public_cert_label :: "jsval \<Rightarrow> jsval res" where
  \<open>public_cert_label d =
    tmpl ['''',
       ''<br><span class="muted">'',
       ''</span>'']
      [andThen (orElse (field ''dns_names'' d) (Inr (Arr []))) (joined_with ''(d.dns_names || []).join'' '', ''),
       orElse (field ''issuer'' d) (str [])]\<close>

lemma public_cert_label_clean [view_clean]:
  assumes "plain d"
  shows "yields clean (public_cert_label d)"
  unfolding public_cert_label_def
  by (rule tmpl_clean [where hs = "[Content, Content]"], code_simp) (use assms in \<open>simp add: view_clean\<close>)

definition untracked_label :: "jsval \<Rightarrow> jsval res" where
  \<open>untracked_label d =
    tmpl ['''',
       ''<br><span class="muted">apps: '',
       ''</span>'']
      [field ''name'' d,
       orElse (andThen (orElse (field ''applications'' d) (Inr (Arr []))) (joined_with ''(d.applications || []).join'' '', '')) (str ''none linked'')]\<close>

lemma untracked_label_clean [view_clean]:
  assumes "plain d"
  shows "yields clean (untracked_label d)"
  unfolding untracked_label_def
  by (rule tmpl_clean [where hs = "[Content, Content]"], code_simp) (use assms in \<open>simp add: view_clean\<close>)

definition file_label :: "jsval \<Rightarrow> jsval res" where
  \<open>file_label d =
    tmpl [''mode '',
       '' owner '',
       '''']
      [orElse (field ''mode'' d) (str []),
       orElse (field ''owner'' d) (str [])]\<close>

lemma file_label_clean [view_clean]:
  assumes "plain d"
  shows "yields clean (file_label d)"
  unfolding file_label_def
  by (rule tmpl_clean [where hs = "[Content, Content]"], code_simp) (use assms in \<open>simp add: view_clean\<close>)

fun finding_kind :: "jsval \<Rightarrow> string res" where
  "finding_kind (Str s) = Inr s"
| "finding_kind Undefined = Inl (no_prop ''undefined'' ''startsWith'')"
| "finding_kind Null = Inl (no_prop ''null'' ''startsWith'')"
| "finding_kind _ = Inl (not_function ''f.kind.startsWith'')"

definition finding_label :: "jsval \<Rightarrow> jsval res" where
  \<open>finding_label f =
    andThen (orElse (field ''detail'' f) (Inr (Obj []))) (\<lambda>d. andThen (andThen (field ''kind'' f) finding_kind) (\<lambda>k.
      if starts_with ''ssh_'' k then ssh_label d
      else if k = ''unknown_public_cert'' then public_cert_label d
      else if k = ''untracked_certificate'' then untracked_label d
      else file_label d))\<close>

lemma finding_label_clean [view_clean]:
  assumes "plain f"
  shows "yields clean (finding_label f)"
proof -
  have d: "yields plain (orElse (field ''detail'' f) (Inr (Obj [])))"
    using assms by (simp add: view_clean)
  show ?thesis
    unfolding finding_label_def
    by (rule yields_bind [OF d]) (simp add: yields_andThen view_clean)
qed

definition finding_row :: "jsval \<Rightarrow> jsval res" where
  \<open>finding_row f =
    tmpl [''<tr><td>'',
       ''</td><td>'',
       ''</td><td>'',
       ''</td><td>'',
       ''</td><td><button class="act" data-ack="'',
       ''">Acknowledge</button></td></tr>'']
      [pill_of (field ''kind'' f),
       field ''location'' f,
       finding_label f,
       time_text (field ''first_seen'' f),
       field ''id'' f]\<close>

lemma finding_row_clean [view_clean]:
  assumes "plain f"
  shows "yields clean (finding_row f)"
  unfolding finding_row_def
  by (rule tmpl_clean [where hs = "[Content, Content, Content, Content, Quoted]"], code_simp) (use assms in \<open>simp add: view_clean\<close>)

definition findings_table :: "jsval \<Rightarrow> jsval res" where
  \<open>findings_table rows =
    tmpl [''<table><tr><th>Kind</th><th>Where</th><th>What</th><th>Since</th><th></th></tr>'',
       ''</table>'']
      [map_html ''rows.map'' finding_row rows]\<close>

lemma findings_table_clean [view_clean]:
  assumes "plain rows"
  shows "yields clean (findings_table rows)"
  unfolding findings_table_def
  by (rule tmpl_clean [where hs = "[Content]"], code_simp) (use assms in \<open>simp add: view_clean\<close>)

definition findings_empty :: "jsval res" where
  \<open>findings_empty = tmpl [''No open findings.'']
      []\<close>

lemma findings_empty_clean [view_clean]: "yields clean findings_empty"
  unfolding findings_empty_def
  by (rule tmpl_clean [where hs = "[]"], code_simp) simp

definition findings_view :: "jsval \<Rightarrow> jsval res" where
  \<open>findings_view rows =
    ite (field ''length'' rows) (findings_table rows) findings_empty\<close>

lemma findings_view_clean [view_clean]:
  assumes "plain rows"
  shows "yields clean (findings_view rows)"
  unfolding findings_view_def
  by (use assms in \<open>simp add: view_clean\<close>)

definition found_span :: "jsval \<Rightarrow> jsval res" where
  \<open>found_span last_run =
    tmpl [''<span class="muted">'',
       '' found, '',
       '' new</span>'']
      [field ''found'' last_run,
       field ''new'' last_run]\<close>

lemma found_span_clean [view_clean]:
  assumes "plain last_run"
  shows "yields clean (found_span last_run)"
  unfolding found_span_def
  by (rule tmpl_clean [where hs = "[Content, Content]"], code_simp) (use assms in \<open>simp add: view_clean\<close>)

definition run_error :: "jsval \<Rightarrow> jsval res" where
  \<open>run_error last_run =
    tmpl [''<br><span class="err">'',
       ''</span>'']
      [field ''error'' last_run]\<close>

lemma run_error_clean [view_clean]:
  assumes "plain last_run"
  shows "yields clean (run_error last_run)"
  unfolding run_error_def
  by (rule tmpl_clean [where hs = "[Content]"], code_simp) (use assms in \<open>simp add: view_clean\<close>)

text \<open>\<open>last.found != null\<close>.\<close>

definition present :: "jsval res \<Rightarrow> jsval res" where
  "present r = andThen r (\<lambda>v. Inr (Bool (v \<noteq> Undefined \<and> v \<noteq> Null)))"

definition source_cells :: "jsval \<Rightarrow> jsval \<Rightarrow> jsval res" where
  \<open>source_cells r last_run =
    tmpl [''<tr><td>'',
       ''</td><td>'',
       ''</td><td>'',
       ''</td><td>'',
       '' '',
       '''',
       ''</td>\<newline>      <td><button class="act" data-src="'',
       ''">Run now</button></td></tr>'']
      [field ''name'' r,
       field ''type'' r,
       time_text (field ''started_at'' last_run),
       ite (field ''status'' last_run) (pill_of (field ''status'' last_run)) (str []),
       ite (present (field ''found'' last_run)) (found_span last_run) (str []),
       ite (field ''error'' last_run) (run_error last_run) (str []),
       field ''name'' r]\<close>

lemma source_cells_clean [view_clean]:
  assumes "plain r" "plain last_run"
  shows "yields clean (source_cells r last_run)"
  unfolding source_cells_def
  by (rule tmpl_clean [where hs = "[Content, Content, Content, Content, Content, Content, Quoted]"], code_simp) (use assms in \<open>simp add: view_clean\<close>)

definition source_row :: "jsval \<Rightarrow> jsval res" where
  "source_row r = andThen (orElse (field ''last_run'' r) (Inr (Obj []))) (source_cells r)"

lemma source_row_clean [view_clean]:
  assumes "plain r"
  shows "yields clean (source_row r)"
proof -
  have "yields plain (orElse (field ''last_run'' r) (Inr (Obj [])))"
    using assms by (simp add: view_clean)
  then show ?thesis
    unfolding source_row_def by (rule yields_bind) (rule source_cells_clean [OF assms])
qed

definition sources_table :: "jsval \<Rightarrow> jsval res" where
  \<open>sources_table rows =
    tmpl [''<table><tr><th>Source</th><th>Type</th><th>Last run</th><th>Result</th><th></th></tr>'',
       ''</table>'']
      [map_html ''rows.map'' source_row rows]\<close>

lemma sources_table_clean [view_clean]:
  assumes "plain rows"
  shows "yields clean (sources_table rows)"
  unfolding sources_table_def
  by (rule tmpl_clean [where hs = "[Content]"], code_simp) (use assms in \<open>simp add: view_clean\<close>)

definition sources_empty :: "jsval res" where
  \<open>sources_empty = tmpl [''No scheduled sources configured (AWS ACM, Azure Key Vault, GCP Certificate Manager, Certificate Transparency).'']
      []\<close>

lemma sources_empty_clean [view_clean]: "yields clean sources_empty"
  unfolding sources_empty_def
  by (rule tmpl_clean [where hs = "[]"], code_simp) simp

definition sources_view :: "jsval \<Rightarrow> jsval res" where
  \<open>sources_view rows =
    ite (field ''length'' rows) (sources_table rows) sources_empty\<close>

lemma sources_view_clean [view_clean]:
  assumes "plain rows"
  shows "yields clean (sources_view rows)"
  unfolding sources_view_def
  by (use assms in \<open>simp add: view_clean\<close>)

subsection \<open>Provisioning\<close>

definition dirs_span :: "jsval \<Rightarrow> jsval res" where
  \<open>dirs_span x =
    tmpl [''<br><span class="muted">'',
       ''</span>'']
      [andThen (path [''config'', ''allowed_dirs''] x) (joined_with ''x.config.allowed_dirs.join'' '', '')]\<close>

lemma dirs_span_clean [view_clean]:
  assumes "plain x"
  shows "yields clean (dirs_span x)"
  unfolding dirs_span_def
  by (rule tmpl_clean [where hs = "[Content]"], code_simp) (use assms in \<open>simp add: view_clean\<close>)

definition target_row :: "jsval \<Rightarrow> jsval res" where
  \<open>target_row x =
    tmpl [''<tr><td>'',
       ''</td><td>'',
       ''</td><td>'',
       '''',
       ''</td><td>'',
       ''</td><td>'',
       ''</td></tr>'']
      [field ''name'' x,
       field ''kind'' x,
       orElse (path [''config'', ''host''] x) (orElse (path [''config'', ''api_server''] x) (orElse (path [''config'', ''region''] x) (str []))),
       ite (path [''config'', ''allowed_dirs''] x) (dirs_span x) (str []),
       orElse (field ''credential'' x) (str ''none''),
       pill_of (field ''status'' x)]\<close>

lemma target_row_clean [view_clean]:
  assumes "plain x"
  shows "yields clean (target_row x)"
  unfolding target_row_def
  by (rule tmpl_clean [where hs = "[Content, Content, Content, Content, Content, Content]"], code_simp) (use assms in \<open>simp add: view_clean\<close>)

definition targets_table :: "jsval \<Rightarrow> jsval res" where
  \<open>targets_table t =
    tmpl [''<table><tr><th>Name</th><th>Kind</th><th>Where</th><th>Credential</th><th>Status</th></tr>'',
       ''</table>'']
      [map_html ''t.map'' target_row t]\<close>

lemma targets_table_clean [view_clean]:
  assumes "plain t"
  shows "yields clean (targets_table t)"
  unfolding targets_table_def
  by (rule tmpl_clean [where hs = "[Content]"], code_simp) (use assms in \<open>simp add: view_clean\<close>)

definition targets_empty :: "jsval res" where
  \<open>targets_empty = tmpl [''No push targets yet. An admin adds them with POST /api/v1/targets.'']
      []\<close>

lemma targets_empty_clean [view_clean]: "yields clean targets_empty"
  unfolding targets_empty_def
  by (rule tmpl_clean [where hs = "[]"], code_simp) simp

definition targets_view :: "jsval \<Rightarrow> jsval res" where
  \<open>targets_view t =
    ite (field ''length'' t) (targets_table t) targets_empty\<close>

lemma targets_view_clean [view_clean]:
  assumes "plain t"
  shows "yields clean (targets_view t)"
  unfolding targets_view_def
  by (use assms in \<open>simp add: view_clean\<close>)

text \<open>The push targets by id, as \<open>TARGETS\<close> holds them.\<close>

definition target_name :: "(string \<Rightarrow> jsval option) \<Rightarrow> jsval \<Rightarrow> jsval res" where
  "target_name targets i = andThen (field ''target_id'' i) (\<lambda>t.
     orElse (case targets (to_string t) of None \<Rightarrow> Inr Undefined | Some x \<Rightarrow> field ''name'' x) (Inr t))"

lemma target_name_plain [view_clean]:
  assumes "plain i" "\<forall>k x. targets k = Some x \<longrightarrow> plain x"
  shows "yields plain (target_name targets i)"
  unfolding target_name_def
  by (rule yields_bind [OF plain_field [OF assms(1)]]) (use assms(2) in \<open>auto simp: view_clean split: option.split\<close>)

definition checks_span :: "jsval \<Rightarrow> jsval res" where
  \<open>checks_span i =
    tmpl [''<br><span class="muted">checks '',
       ''</span>'']
      [field ''validate_endpoint'' i]\<close>

lemma checks_span_clean [view_clean]:
  assumes "plain i"
  shows "yields clean (checks_span i)"
  unfolding checks_span_def
  by (rule tmpl_clean [where hs = "[Content]"], code_simp) (use assms in \<open>simp add: view_clean\<close>)

definition failures_span :: "jsval \<Rightarrow> jsval res" where
  \<open>failures_span i =
    tmpl [''<br><span class="err">'',
       '' failure(s): '',
       ''</span>'']
      [field ''failures'' i,
       orElse (field ''last_error'' i) (str [])]\<close>

lemma failures_span_clean [view_clean]:
  assumes "plain i"
  shows "yields clean (failures_span i)"
  unfolding failures_span_def
  by (rule tmpl_clean [where hs = "[Content, Content]"], code_simp) (use assms in \<open>simp add: view_clean\<close>)

definition install_row :: "(string \<Rightarrow> jsval option) \<Rightarrow> jsval \<Rightarrow> jsval res" where
  \<open>install_row targets i =
    tmpl [''<tr><td>'',
       '''',
       ''</td><td>'',
       ''</td><td>'',
       ''<br><span class="muted">'',
       ''</span></td>\<newline>        <td>'',
       '''',
       ''</td><td>'',
       ''</td>\<newline>        <td><button data-runs="'',
       ''">Runs</button> <button class="primary act" data-push="'',
       ''">Push now</button></td></tr>'']
      [field ''common_name'' i,
       ite (field ''validate_endpoint'' i) (checks_span i) (str []),
       target_name targets i,
       field ''key_type'' i,
       field ''key_location'' i,
       pill_of (field ''status'' i),
       ite (field ''failures'' i) (failures_span i) (str []),
       time_text (field ''next_attempt_at'' i),
       field ''id'' i,
       field ''id'' i]\<close>

lemma install_row_clean [view_clean]:
  assumes "plain i" "\<forall>k x. targets k = Some x \<longrightarrow> plain x"
  shows "yields clean (install_row targets i)"
  unfolding install_row_def
  by (rule tmpl_clean [where hs = "[Content, Content, Content, Content, Content, Content, Content, Content, Quoted, Quoted]"], code_simp) (use assms in \<open>simp add: view_clean\<close>)

definition installs_table :: "(string \<Rightarrow> jsval option) \<Rightarrow> jsval \<Rightarrow> jsval res" where
  \<open>installs_table targets rows =
    tmpl [''<table><tr><th>Name</th><th>Target</th><th>Key</th><th>Status</th><th>Next renewal check</th><th></th></tr>'',
       ''</table>'']
      [map_html ''rows.map'' (install_row targets) rows]\<close>

lemma installs_table_clean [view_clean]:
  assumes "plain rows" "\<forall>k x. targets k = Some x \<longrightarrow> plain x"
  shows "yields clean (installs_table targets rows)"
  unfolding installs_table_def
  by (rule tmpl_clean [where hs = "[Content]"], code_simp) (use assms in \<open>simp add: view_clean\<close>)

definition installs_empty :: "jsval res" where
  \<open>installs_empty =
    tmpl [''No installations yet.'']
      []\<close>

lemma installs_empty_clean [view_clean]: "yields clean (installs_empty)"
  unfolding installs_empty_def
  by (rule tmpl_clean [where hs = "[]"], code_simp) (simp add: view_clean)

definition installs_view :: "(string \<Rightarrow> jsval option) \<Rightarrow> jsval \<Rightarrow> jsval res" where
  \<open>installs_view targets rows =
    ite (field ''length'' rows) (installs_table targets rows) installs_empty\<close>

lemma installs_view_clean [view_clean]:
  assumes "plain rows" "\<forall>k x. targets k = Some x \<longrightarrow> plain x"
  shows "yields clean (installs_view targets rows)"
  unfolding installs_view_def
  by (use assms in \<open>simp add: view_clean\<close>)

definition step_item :: "jsval \<Rightarrow> jsval res" where
  \<open>step_item st =
    tmpl [''<li>'',
       ''</li>'']
      [Inr st]\<close>

lemma step_item_clean [view_clean]:
  assumes "plain st"
  shows "yields clean (step_item st)"
  unfolding step_item_def
  by (rule tmpl_clean [where hs = "[Content]"], code_simp) (use assms in \<open>simp add: view_clean\<close>)

definition run_error_line :: "jsval \<Rightarrow> jsval res" where
  \<open>run_error_line r =
    tmpl [''<p class="err">'',
       ''</p>'']
      [field ''error'' r]\<close>

lemma run_error_line_clean [view_clean]:
  assumes "plain r"
  shows "yields clean (run_error_line r)"
  unfolding run_error_line_def
  by (rule tmpl_clean [where hs = "[Content]"], code_simp) (use assms in \<open>simp add: view_clean\<close>)

definition run_view :: "jsval \<Rightarrow> jsval \<Rightarrow> jsval res" where
  \<open>run_view i r =
    tmpl [''<p><b>'',
       ''</b> run #'',
       '' '',
       '' by '',
       '' at '',
       ''</p><ol class="steps-list">'',
       ''</ol>'',
       '''']
      [field ''common_name'' i,
       field ''id'' r,
       pill_of (field ''status'' r),
       field ''actor'' r,
       time_text (field ''started_at'' r),
       andThen (orElse (field ''steps'' r) (Inr (Arr []))) (map_html ''(r.steps || []).map'' step_item),
       ite (field ''error'' r) (run_error_line r) (str [])]\<close>

lemma run_view_clean [view_clean]:
  assumes "plain i" "plain r"
  shows "yields clean (run_view i r)"
  unfolding run_view_def
  by (rule tmpl_clean [where hs = "[Content, Content, Content, Content, Content, Content, Content]"], code_simp) (use assms in \<open>simp add: view_clean\<close>)

definition no_runs :: "jsval \<Rightarrow> jsval res" where
  \<open>no_runs i =
    tmpl [''No runs yet for '',
       ''.'']
      [field ''common_name'' i]\<close>

lemma no_runs_clean [view_clean]:
  assumes "plain i"
  shows "yields clean (no_runs i)"
  unfolding no_runs_def
  by (rule tmpl_clean [where hs = "[Content]"], code_simp) (use assms in \<open>simp add: view_clean\<close>)

text \<open>\<open>(i.runs || [])[0]\<close>.\<close>

fun first_of :: "jsval \<Rightarrow> jsval" where
  "first_of (Arr (v # vs)) = v"
| "first_of (Str (c # s)) = Str [c]"
| "first_of _ = Undefined"

definition run_detail :: "jsval \<Rightarrow> jsval res" where
  "run_detail i = andThen (orElse (field ''runs'' i) (Inr (Arr []))) (\<lambda>rs.
     if is_true (first_of rs) then run_view i (first_of rs) else no_runs i)"

lemma first_of_plain: "plain v \<Longrightarrow> plain (first_of v)"
  by (cases v rule: first_of.cases) simp_all

lemma run_detail_clean [view_clean]:
  assumes "plain i"
  shows "yields clean (run_detail i)"
proof -
  have "yields plain (orElse (field ''runs'' i) (Inr (Arr [])))"
    using assms by (simp add: view_clean)
  then show ?thesis
    unfolding run_detail_def
    by (rule yields_bind) (use assms in \<open>simp add: view_clean first_of_plain\<close>)
qed

end
