(* ===== verification/Console_Governance.thy ===== *)
theory Console_Governance
  imports Console_Estate
begin

section \<open>Policy, signing, issuers, audit, reports and SSH keys\<close>

text \<open>
  The views of the policy, signing, issuers, audit, reports and SSH keys tabs of \<open>console.js\<close>.
\<close>

subsection \<open>Policy of one application\<close>

definition app_option :: "jsval \<Rightarrow> jsval res" where
  \<open>app_option a =
    tmpl [''<option value="'',
       ''">'',
       ''</option>'']
      [field ''id'' a,
       field ''name'' a]\<close>

lemma app_option_clean [view_clean]:
  assumes "plain a"
  shows "yields clean (app_option a)"
  unfolding app_option_def
  by (rule tmpl_clean [where hs = "[Quoted, Content]"], code_simp) (use assms in \<open>simp add: view_clean\<close>)

definition apps_select :: "jsval \<Rightarrow> jsval res" where
  \<open>apps_select apps =
    tmpl [''<option value="">pick an app</option>'',
       '''']
      [map_html ''apps.map'' app_option apps]\<close>

lemma apps_select_clean [view_clean]:
  assumes "plain apps"
  shows "yields clean (apps_select apps)"
  unfolding apps_select_def
  by (rule tmpl_clean [where hs = "[Content]"], code_simp) (use assms in \<open>simp add: view_clean\<close>)

text \<open>\<open>fmt\<close>: a list joined with commas, anything else as text.\<close>

definition fmt :: "jsval \<Rightarrow> jsval" where
  "fmt v = (case v of Arr vs \<Rightarrow> Str (join_text '', '' vs) | _ \<Rightarrow> Str (to_string v))"

lemma fmt_plain [view_clean]: "plain (fmt v)"
  by (simp add: fmt_def split: jsval.split)

lemma fmt_bind_plain [view_clean]: "yields plain (andThen r (\<lambda>v. Inr (fmt v)))"
  by (rule yields_andThen) (simp add: fmt_plain)

definition policy_rule_row :: "string \<times> jsval \<Rightarrow> jsval res" where
  \<open>policy_rule_row p =
    tmpl [''<tr><td>'',
       ''</td><td>'',
       ''</td><td>'',
       ''</td><td>'',
       ''</td></tr>'']
      [str (fst p),
       andThen (field ''value'' (snd p)) (\<lambda>v. Inr (fmt v)),
       field ''folder'' (snd p),
       ite (field ''locked'' (snd p)) (str ''yes'') (str [])]\<close>

lemma policy_rule_row_clean [view_clean]:
  assumes "plain (snd p)"
  shows "yields clean (policy_rule_row p)"
  unfolding policy_rule_row_def
  by (rule tmpl_clean [where hs = "[Content, Content, Content, Content]"], code_simp) (use assms in \<open>simp add: view_clean\<close>)

definition policy_rules_table :: "jsval \<Rightarrow> jsval res" where
  \<open>policy_rules_table rules =
    tmpl [''<table><tr><th>Rule</th><th>Value</th><th>Set at</th><th>Locked</th></tr>'',
       ''</table>'']
      [map_entries policy_rule_row rules]\<close>

lemma policy_rules_table_clean [view_clean]:
  assumes "plain rules"
  shows "yields clean (policy_rules_table rules)"
  unfolding policy_rules_table_def
  by (rule tmpl_clean [where hs = "[Content]"], code_simp) (use assms in \<open>simp add: view_clean\<close>)

definition no_policy_rules :: "jsval res" where
  \<open>no_policy_rules =
    tmpl [''<p class="muted">No folder rules; the profile alone applies.</p>'']
      []\<close>

lemma no_policy_rules_clean [view_clean]: "yields clean (no_policy_rules)"
  unfolding no_policy_rules_def
  by (rule tmpl_clean [where hs = "[]"], code_simp) (simp add: view_clean)

definition in_folder :: "jsval \<Rightarrow> jsval res" where
  \<open>in_folder r =
    tmpl ['' in <b>'',
       ''</b>'']
      [field ''folder'' r]\<close>

lemma in_folder_clean [view_clean]:
  assumes "plain r"
  shows "yields clean (in_folder r)"
  unfolding in_folder_def
  by (rule tmpl_clean [where hs = "[Content]"], code_simp) (use assms in \<open>simp add: view_clean\<close>)

definition has_entries :: "jsval \<Rightarrow> jsval res" where
  "has_entries v = andThen (entries v) (\<lambda>ps. Inr (Bool (ps \<noteq> [])))"

definition policy_cells :: "jsval \<Rightarrow> jsval \<Rightarrow> jsval res" where
  \<open>policy_cells r rules =
    tmpl [''<p>'',
       '' uses profile <b>'',
       ''</b>'',
       ''.</p>\<newline>      '',
       '''']
      [field ''app'' r,
       field ''profile'' r,
       ite (andAlso (field ''folder'' r) (andThen (field ''folder'' r) (\<lambda>f. Inr (Bool (f \<noteq> Str [CHR 0x5C]))))) (in_folder r) (str '' and sits in no policy folder''),
       ite (has_entries rules) (policy_rules_table rules) no_policy_rules]\<close>

lemma policy_cells_clean [view_clean]:
  assumes "plain r" "plain rules"
  shows "yields clean (policy_cells r rules)"
  unfolding policy_cells_def
  by (rule tmpl_clean [where hs = "[Content, Content, Content, Content]"], code_simp) (use assms in \<open>simp add: view_clean\<close>)

definition policy_view :: "jsval \<Rightarrow> jsval res" where
  "policy_view r = andThen (orElse (field ''folder_rules'' r) (Inr (Obj []))) (policy_cells r)"

lemma policy_view_clean [view_clean]:
  assumes "plain r"
  shows "yields clean (policy_view r)"
proof -
  have "yields plain (orElse (field ''folder_rules'' r) (Inr (Obj [])))"
    using assms by (simp add: view_clean)
  then show ?thesis
    unfolding policy_view_def by (rule yields_bind) (rule policy_cells_clean [OF assms])
qed

subsection \<open>Code signing\<close>

definition release_text :: "jsval res" where
  \<open>release_text =
    tmpl [''release <span class="muted">(approver per signature)</span>'']
      []\<close>

lemma release_text_clean [view_clean]: "yields clean (release_text)"
  unfolding release_text_def
  by (rule tmpl_clean [where hs = "[]"], code_simp) (simp add: view_clean)

definition sign_key_row :: "jsval \<Rightarrow> jsval res" where
  \<open>sign_key_row k =
    tmpl [''<tr><td>'',
       ''</td><td>'',
       ''</td><td>'',
       ''</td><td>'',
       ''</td><td>'',
       ''</td><td>'',
       ''</td></tr>'']
      [field ''name'' k,
       field ''app'' k,
       ite (is_str (field ''purpose'' k) ''release'') release_text (str ''test''),
       field ''signer'' k,
       andThen (orElse (field ''not_after'' k) (str [])) (slice0 ''(k.not_after || "").slice'' 10),
       pill_of (field ''status'' k)]\<close>

lemma sign_key_row_clean [view_clean]:
  assumes "plain k"
  shows "yields clean (sign_key_row k)"
  unfolding sign_key_row_def
  by (rule tmpl_clean [where hs = "[Content, Content, Content, Content, Content, Content]"], code_simp) (use assms in \<open>simp add: view_clean\<close>)

definition sign_keys_table :: "jsval \<Rightarrow> jsval res" where
  \<open>sign_keys_table keys =
    tmpl [''<table><tr><th>Key</th><th>App</th><th>Purpose</th><th>Held in</th><th>Certificate until</th><th>Status</th></tr>'',
       ''</table>'']
      [map_html ''keys.map'' sign_key_row keys]\<close>

lemma sign_keys_table_clean [view_clean]:
  assumes "plain keys"
  shows "yields clean (sign_keys_table keys)"
  unfolding sign_keys_table_def
  by (rule tmpl_clean [where hs = "[Content]"], code_simp) (use assms in \<open>simp add: view_clean\<close>)

definition sign_keys_empty :: "jsval res" where
  \<open>sign_keys_empty = tmpl [''No signing keys yet. Ask for one with POST /api/v1/signing/keys; an approver decides.'']
      []\<close>

lemma sign_keys_empty_clean [view_clean]: "yields clean sign_keys_empty"
  unfolding sign_keys_empty_def
  by (rule tmpl_clean [where hs = "[]"], code_simp) simp

definition sign_keys_view :: "jsval \<Rightarrow> jsval res" where
  \<open>sign_keys_view keys =
    ite (field ''length'' keys) (sign_keys_table keys) sign_keys_empty\<close>

lemma sign_keys_view_clean [view_clean]:
  assumes "plain keys"
  shows "yields clean (sign_keys_view keys)"
  unfolding sign_keys_view_def
  by (use assms in \<open>simp add: view_clean\<close>)

definition version_span :: "jsval \<Rightarrow> jsval res" where
  \<open>version_span r =
    tmpl ['' <span class="muted">'',
       ''</span>'']
      [path [''artifact'', ''version''] r]\<close>

lemma version_span_clean [view_clean]:
  assumes "plain r"
  shows "yields clean (version_span r)"
  unfolding version_span_def
  by (rule tmpl_clean [where hs = "[Content]"], code_simp) (use assms in \<open>simp add: view_clean\<close>)

definition approval_span :: "jsval \<Rightarrow> jsval res" where
  \<open>approval_span r =
    tmpl [''<br><span class="muted">approval #'',
       ''</span>'']
      [field ''approval_id'' r]\<close>

lemma approval_span_clean [view_clean]:
  assumes "plain r"
  shows "yields clean (approval_span r)"
  unfolding approval_span_def
  by (rule tmpl_clean [where hs = "[Content]"], code_simp) (use assms in \<open>simp add: view_clean\<close>)

definition sign_req_row :: "jsval \<Rightarrow> jsval res" where
  \<open>sign_req_row r =
    tmpl [''<tr><td>'',
       ''</td><td>'',
       '''',
       ''</td><td>'',
       ''</td><td>'',
       ''<br><span class="muted">'',
       ''</span></td>\<newline>        <td><code>'',
       '':'',
       (ellipsis @ ''</code></td><td>''),
       '''',
       ''</td></tr>'']
      [field ''id'' r,
       path [''artifact'', ''name''] r,
       ite (path [''artifact'', ''version''] r) (version_span r) (str []),
       field ''key'' r,
       field ''requested_by'' r,
       time_text (field ''created_at'' r),
       field ''digest_alg'' r,
       andThen (field ''digest'' r) (slice0 ''r.digest.slice'' 16),
       pill_of (field ''status'' r),
       ite (andAlso (is_str (field ''status'' r) ''pending'') (field ''approval_id'' r)) (approval_span r) (str [])]\<close>

lemma sign_req_row_clean [view_clean]:
  assumes "plain r"
  shows "yields clean (sign_req_row r)"
  unfolding sign_req_row_def
  by (rule tmpl_clean [where hs = "[Content, Content, Content, Content, Content, Content, Content, Content, Content, Content]"], code_simp) (use assms in \<open>simp add: view_clean\<close>)

definition sign_reqs_table :: "jsval \<Rightarrow> jsval res" where
  \<open>sign_reqs_table rows =
    tmpl [''<table><tr><th>#</th><th>Artifact</th><th>Key</th><th>Requested by</th><th>Digest</th><th>Status</th></tr>'',
       ''</table>'']
      [map_html ''rows.map'' sign_req_row rows]\<close>

lemma sign_reqs_table_clean [view_clean]:
  assumes "plain rows"
  shows "yields clean (sign_reqs_table rows)"
  unfolding sign_reqs_table_def
  by (rule tmpl_clean [where hs = "[Content]"], code_simp) (use assms in \<open>simp add: view_clean\<close>)

definition sign_reqs_empty :: "jsval res" where
  \<open>sign_reqs_empty = tmpl [''No signing requests yet.'']
      []\<close>

lemma sign_reqs_empty_clean [view_clean]: "yields clean sign_reqs_empty"
  unfolding sign_reqs_empty_def
  by (rule tmpl_clean [where hs = "[]"], code_simp) simp

definition sign_reqs_view :: "jsval \<Rightarrow> jsval res" where
  \<open>sign_reqs_view rows =
    ite (field ''length'' rows) (sign_reqs_table rows) sign_reqs_empty\<close>

lemma sign_reqs_view_clean [view_clean]:
  assumes "plain rows"
  shows "yields clean (sign_reqs_view rows)"
  unfolding sign_reqs_view_def
  by (use assms in \<open>simp add: view_clean\<close>)

subsection \<open>Issuers\<close>

definition setting_row :: "(jsval \<Rightarrow> string option) \<Rightarrow> string \<times> jsval \<Rightarrow> jsval res" where
  \<open>setting_row json p =
    tmpl [''<tr><td class="muted">'',
       ''</td><td>'',
       ''</td></tr>'']
      [str (fst p),
       (case snd p of Obj ps \<Rightarrow> json_text json (Inr (snd p)) | Arr vs \<Rightarrow> json_text json (Inr (snd p)) | v \<Rightarrow> str (to_string v))]\<close>

lemma setting_row_clean [view_clean]: "yields clean (setting_row json p)"
  unfolding setting_row_def
  by (rule tmpl_clean [where hs = "[Content, Content]"], code_simp) (simp add: view_clean split: jsval.split)

definition settings_rows :: "(jsval \<Rightarrow> string option) \<Rightarrow> jsval \<Rightarrow> jsval res" where
  "settings_rows json v = andThen (entries v) (\<lambda>ps.
     andThen (mapM (setting_row json) (filter (\<lambda>p. fst p \<noteq> ''cas'') ps)) (\<lambda>ys. Inr (Arr ys)))"

lemma settings_rows_clean [view_clean]: "yields clean (settings_rows json v)"
  unfolding settings_rows_def
  by (rule yields_andThen, rule yields_bind [OF yields_mapM]) (auto intro: setting_row_clean clean_list)

definition rule_span :: "jsval \<Rightarrow> jsval res" where
  \<open>rule_span x =
    tmpl [''<span class="rule">'',
       ''</span> '']
      [Inr x]\<close>

lemma rule_span_clean [view_clean]:
  assumes "plain x"
  shows "yields clean (rule_span x)"
  unfolding rule_span_def
  by (rule tmpl_clean [where hs = "[Content]"], code_simp) (use assms in \<open>simp add: view_clean\<close>)

definition none_span :: "jsval res" where
  \<open>none_span =
    tmpl [''<span class="muted">none</span>'']
      []\<close>

lemma none_span_clean [view_clean]: "yields clean (none_span)"
  unfolding none_span_def
  by (rule tmpl_clean [where hs = "[]"], code_simp) (simp add: view_clean)

definition profile_chips :: "jsval \<Rightarrow> jsval res" where
  \<open>profile_chips i =
    ite (path [''profiles'', ''length''] i) (andThen (field ''profiles'' i) (map_html ''i.profiles.map'' rule_span)) none_span\<close>

lemma profile_chips_clean [view_clean]:
  assumes "plain i"
  shows "yields clean (profile_chips i)"
  unfolding profile_chips_def
  by (use assms in \<open>simp add: view_clean\<close>)

definition folder_chips :: "jsval \<Rightarrow> jsval res" where
  \<open>folder_chips i =
    ite (path [''folders'', ''length''] i) (andThen (field ''folders'' i) (map_html ''i.folders.map'' rule_span)) none_span\<close>

lemma folder_chips_clean [view_clean]:
  assumes "plain i"
  shows "yields clean (folder_chips i)"
  unfolding folder_chips_def
  by (use assms in \<open>simp add: view_clean\<close>)

definition default_pill :: "jsval res" where
  \<open>default_pill =
    tmpl ['' '',
       '''']
      [pill_of (str ''default'')]\<close>

lemma default_pill_clean [view_clean]: "yields clean (default_pill)"
  unfolding default_pill_def
  by (rule tmpl_clean [where hs = "[Content]"], code_simp) (simp add: view_clean)

definition issuer_ca_row :: "jsval \<Rightarrow> jsval \<Rightarrow> jsval res" where
  \<open>issuer_ca_row d c =
    tmpl [''<tr><td>'',
       '''',
       ''</td><td>'',
       ''</td><td>'',
       ''</td><td>'',
       ''</td></tr>'']
      [field ''name'' c,
       ite (andThen (field ''name'' c) (\<lambda>n. Inr (Bool (same n d)))) default_pill (str []),
       ite (field ''root'' c) (str ''root'') (str ''issuing''),
       ite (is_str (field ''signer'' c) ''offline'') (pill_of (str ''offline'')) (field ''signer'' c),
       andThen (field ''not_after'' c) (slice0 ''c.not_after.slice'' 10)]\<close>

lemma issuer_ca_row_clean [view_clean]:
  assumes "plain c"
  shows "yields clean (issuer_ca_row d c)"
  unfolding issuer_ca_row_def
  by (rule tmpl_clean [where hs = "[Content, Content, Content, Content, Content]"], code_simp) (use assms in \<open>simp add: view_clean\<close>)

definition issuer_ca_rows :: "jsval \<Rightarrow> jsval \<Rightarrow> jsval res" where
  "issuer_ca_rows i cas = andThen (path [''config'', ''default_issuing_ca''] i)
     (\<lambda>d. map_html ''i.config.cas.map'' (issuer_ca_row d) cas)"

lemma issuer_ca_rows_clean [view_clean]: "yields plain r \<Longrightarrow> yields clean (andThen r (issuer_ca_rows i))"
  unfolding issuer_ca_rows_def
  by (erule yields_bind, rule yields_andThen) (simp add: map_html_clean1 issuer_ca_row_clean)

definition issuer_cas :: "jsval \<Rightarrow> jsval res" where
  \<open>issuer_cas i =
    tmpl [''<table><tr><th>CA</th><th>Role</th><th>Key</th><th>Expires</th></tr>'',
       ''</table>'']
      [andThen (path [''config'', ''cas''] i) (issuer_ca_rows i)]\<close>

lemma issuer_cas_clean [view_clean]:
  assumes "plain i"
  shows "yields clean (issuer_cas i)"
  unfolding issuer_cas_def
  by (rule tmpl_clean [where hs = "[Content]"], code_simp) (use assms in \<open>simp add: view_clean\<close>)

definition credential_row :: "string \<times> jsval \<Rightarrow> jsval res" where
  \<open>credential_row p =
    tmpl [''<tr><td class="muted">'',
       ''</td><td>'',
       ''</td></tr>'']
      [str (fst p),
       Inr (snd p)]\<close>

lemma credential_row_clean [view_clean]:
  assumes "plain (snd p)"
  shows "yields clean (credential_row p)"
  unfolding credential_row_def
  by (rule tmpl_clean [where hs = "[Content, Content]"], code_simp) (use assms in \<open>simp add: view_clean\<close>)

definition issuer_settings :: "(jsval \<Rightarrow> string option) \<Rightarrow> jsval \<Rightarrow> jsval res" where
  \<open>issuer_settings json i =
    tmpl [''<table>'',
       '''',
       ''</table>'']
      [andThen (orElse (field ''config'' i) (Inr (Obj []))) (settings_rows json),
       andThen (field ''credentials'' i) (map_entries credential_row)]\<close>

lemma issuer_settings_clean [view_clean]:
  assumes "plain i"
  shows "yields clean (issuer_settings json i)"
  unfolding issuer_settings_def
  by (rule tmpl_clean [where hs = "[Content, Content]"], code_simp) (use assms in \<open>simp add: view_clean yields_andThen settings_rows_clean\<close>)

definition issuer_figures :: "jsval \<Rightarrow> jsval res" where
  \<open>issuer_figures i =
    tmpl [''<div class="kpis small"><div class="kpi"><b>'',
       ''</b><span>active certificates</span></div><div class="kpi"><b>'',
       ''</b><span>issued in total</span></div><div class="kpi"><b>'',
       ''</b><span>last issued</span></div></div>'']
      [field ''active'' i,
       field ''issued'' i,
       ite (field ''last_issued'' i) (andThen (field ''last_issued'' i) (slice0 ''i.last_issued.slice'' 10)) (str ''never'')]\<close>

lemma issuer_figures_clean [view_clean]:
  assumes "plain i"
  shows "yields clean (issuer_figures i)"
  unfolding issuer_figures_def
  by (rule tmpl_clean [where hs = "[Content, Content, Content]"], code_simp) (use assms in \<open>simp add: view_clean\<close>)

definition issuer_card :: "(jsval \<Rightarrow> string option) \<Rightarrow> jsval \<Rightarrow> jsval res" where
  \<open>issuer_card json i =
    tmpl [''<div class="issuer">\<newline>    <h3>'',
       '' '',
       ''</h3>\<newline>    '',
       ''\<newline>    <p><span class="muted">Profiles:</span> '',
       ''\<newline>    <br><span class="muted">Policy folders:</span> '',
       ''</p>\<newline>    '',
       ''\<newline>  </div>'']
      [field ''name'' i,
       pill_of (field ''type'' i),
       issuer_figures i,
       profile_chips i,
       folder_chips i,
       ite (is_str (field ''type'' i) ''local'') (issuer_cas i) (issuer_settings json i)]\<close>

lemma issuer_card_clean [view_clean]:
  assumes "plain i"
  shows "yields clean (issuer_card json i)"
  unfolding issuer_card_def
  by (rule tmpl_clean [where hs = "[Content, Content, Content, Content, Content, Content]"], code_simp) (use assms in \<open>simp add: view_clean\<close>)

definition issuers_view :: "(jsval \<Rightarrow> string option) \<Rightarrow> jsval \<Rightarrow> jsval res" where
  \<open>issuers_view json rows =
    tmpl [''<div class="issuers">'',
       ''</div>'']
      [map_html ''rows.map'' (issuer_card json) rows]\<close>

lemma issuers_view_clean [view_clean]:
  assumes "plain rows"
  shows "yields clean (issuers_view json rows)"
  unfolding issuers_view_def
  by (rule tmpl_clean [where hs = "[Content]"], code_simp) (use assms in \<open>simp add: view_clean\<close>)

subsection \<open>Audit and reports\<close>

definition sink_row :: "jsval \<Rightarrow> jsval res" where
  \<open>sink_row r =
    tmpl [''<tr><td>'',
       ''</td><td class="num">'',
       ''</td><td>'',
       ''</td><td>'',
       '' '',
       ''</td><td class="muted">'',
       ''</td></tr>'']
      [field ''sink'' r,
       field ''behind'' r,
       time_text (field ''oldest_unsent'' r),
       ite (field ''failures'' r) (pill_of (str ''critical'')) (pill_of (str ''ok'')),
       orElse (field ''failures'' r) (str []),
       orElse (field ''last_error'' r) (str [])]\<close>

lemma sink_row_clean [view_clean]:
  assumes "plain r"
  shows "yields clean (sink_row r)"
  unfolding sink_row_def
  by (rule tmpl_clean [where hs = "[Content, Content, Content, Content, Content, Content]"], code_simp) (use assms in \<open>simp add: view_clean\<close>)

definition sinks_table :: "jsval \<Rightarrow> jsval res" where
  \<open>sinks_table ship =
    tmpl [''<table><tr><th>Sink</th><th class="num">Behind</th><th>Oldest unsent</th><th>Failures</th><th>Last error</th></tr>'',
       ''</table>'']
      [map_html ''ship.map'' sink_row ship]\<close>

lemma sinks_table_clean [view_clean]:
  assumes "plain ship"
  shows "yields clean (sinks_table ship)"
  unfolding sinks_table_def
  by (rule tmpl_clean [where hs = "[Content]"], code_simp) (use assms in \<open>simp add: view_clean\<close>)

definition no_sinks :: "jsval res" where
  \<open>no_sinks =
    tmpl [''<p>No sinks configured. Set CERTADILLO_AUDIT_SHIP to send every event, signed, to a SIEM or an S3 Object Lock bucket.</p>'']
      []\<close>

lemma no_sinks_clean [view_clean]: "yields clean (no_sinks)"
  unfolding no_sinks_def
  by (rule tmpl_clean [where hs = "[]"], code_simp) (simp add: view_clean)

definition signing_key_line :: "jsval \<Rightarrow> jsval res" where
  \<open>signing_key_line key =
    tmpl [''<p class="muted">Receivers verify records with the Ed25519 key <code>'',
       ''</code>.</p>'']
      [field ''key_id'' key]\<close>

lemma signing_key_line_clean [view_clean]:
  assumes "plain key"
  shows "yields clean (signing_key_line key)"
  unfolding signing_key_line_def
  by (rule tmpl_clean [where hs = "[Content]"], code_simp) (use assms in \<open>simp add: view_clean\<close>)

definition shipping_view :: "jsval \<Rightarrow> jsval \<Rightarrow> jsval res" where
  \<open>shipping_view ship key =
    tmpl ['''',
       ''\<newline>      '',
       '''']
      [ite (field ''length'' ship) (sinks_table ship) no_sinks,
       (if is_true key then signing_key_line key else str [])]\<close>

lemma shipping_view_clean [view_clean]:
  assumes "plain ship" "plain key"
  shows "yields clean (shipping_view ship key)"
  unfolding shipping_view_def
  by (rule tmpl_clean [where hs = "[Content, Content]"], code_simp) (use assms in \<open>simp add: view_clean\<close>)

definition chain_verified :: "jsval \<Rightarrow> jsval res" where
  \<open>chain_verified v =
    tmpl [''Hash chain verified over '',
       '' events. Head '',
       ellipsis]
      [field ''events'' v,
       andThen (field ''head'' v) (slice0 ''v.head.slice'' 16)]\<close>

lemma chain_verified_clean [view_clean]:
  assumes "plain v"
  shows "yields clean (chain_verified v)"
  unfolding chain_verified_def
  by (rule tmpl_clean [where hs = "[Content, Content]"], code_simp) (use assms in \<open>simp add: view_clean\<close>)

definition chain_broken :: "jsval \<Rightarrow> jsval res" where
  \<open>chain_broken v =
    tmpl [''<span class="err">Hash chain broken at event '',
       ''.</span>'']
      [field ''broken_at'' v]\<close>

lemma chain_broken_clean [view_clean]:
  assumes "plain v"
  shows "yields clean (chain_broken v)"
  unfolding chain_broken_def
  by (rule tmpl_clean [where hs = "[Content]"], code_simp) (use assms in \<open>simp add: view_clean\<close>)

definition verify_view :: "jsval \<Rightarrow> jsval res" where
  \<open>verify_view v =
    ite (field ''valid'' v) (chain_verified v) (chain_broken v)\<close>

lemma verify_view_clean [view_clean]:
  assumes "plain v"
  shows "yields clean (verify_view v)"
  unfolding verify_view_def
  by (use assms in \<open>simp add: view_clean\<close>)

text \<open>A target of more than 24 characters is cut; \<open>JSON.stringify(...).slice(0, 140)\<close>.\<close>

definition above :: "jsval \<Rightarrow> rat \<Rightarrow> bool" where
  "above v k = (case as_number v of None \<Rightarrow> False | Some n \<Rightarrow> k < n)"

definition audit_target :: "jsval \<Rightarrow> jsval res" where
  "audit_target e = andThen (field ''target'' e) (\<lambda>t. andThen (field ''length'' t) (\<lambda>n.
     if above n 24 then text_of [slice0 ''e.target.slice'' 24 t, str ellipsis] else Inr t))"

lemma audit_target_plain [view_clean]:
  assumes "plain e"
  shows "yields plain (audit_target e)"
  unfolding audit_target_def
  by (rule yields_bind [OF plain_field [OF assms]], rule yields_andThen) (simp add: text_of_plain)

definition audit_time :: "jsval \<Rightarrow> jsval res" where
  "audit_time e = andThen (andThen (field ''ts'' e) (slice0 ''e.ts.slice'' 19)) replace_T"

lemma audit_time_plain [view_clean]: "yields plain (audit_time e)"
  by (auto simp: audit_time_def intro!: yields_andThen replace_T_plain)

definition audit_row :: "(jsval \<Rightarrow> string option) \<Rightarrow> jsval \<Rightarrow> jsval res" where
  \<open>audit_row json e =
    tmpl [''<tr><td>'',
       ''</td><td>'',
       ''</td><td>'',
       ''</td><td>'',
       ''</td><td class="muted">'',
       ''</td></tr>'']
      [audit_time e,
       field ''actor'' e,
       field ''action'' e,
       audit_target e,
       andThen (json_text json (field ''details'' e)) (slice0 ''JSON.stringify(...).slice'' 140)]\<close>

lemma audit_row_clean [view_clean]:
  assumes "plain e"
  shows "yields clean (audit_row json e)"
  unfolding audit_row_def
  by (rule tmpl_clean [where hs = "[Content, Content, Content, Content, Content]"], code_simp) (use assms in \<open>simp add: view_clean\<close>)

definition audit_view :: "(jsval \<Rightarrow> string option) \<Rightarrow> jsval \<Rightarrow> jsval res" where
  \<open>audit_view json rows =
    tmpl [''<table><tr><th>Time (UTC)</th><th>Actor</th><th>Action</th><th>Target</th><th>Details</th></tr>'',
       ''</table>'']
      [map_html ''rows.map'' (audit_row json) rows]\<close>

lemma audit_view_clean [view_clean]:
  assumes "plain rows"
  shows "yields clean (audit_view json rows)"
  unfolding audit_view_def
  by (rule tmpl_clean [where hs = "[Content]"], code_simp) (use assms in \<open>simp add: view_clean\<close>)

definition offline_cell :: "jsval res" where
  \<open>offline_cell =
    tmpl ['''',
       '' <span class="muted">signed at the ceremony</span>'']
      [pill_of (str ''offline'')]\<close>

lemma offline_cell_clean [view_clean]: "yields clean (offline_cell)"
  unfolding offline_cell_def
  by (rule tmpl_clean [where hs = "[Content]"], code_simp) (simp add: view_clean)

definition ca_problems :: "jsval \<Rightarrow> jsval res" where
  \<open>ca_problems h =
    tmpl ['''',
       '' <span class="err">'',
       ''</span>'']
      [pill_of (str ''critical''),
       andThen (field ''problems'' h) (joined_with ''h.problems.join'' ''; '')]\<close>

lemma ca_problems_clean [view_clean]:
  assumes "plain h"
  shows "yields clean (ca_problems h)"
  unfolding ca_problems_def
  by (rule tmpl_clean [where hs = "[Content, Content]"], code_simp) (use assms in \<open>simp add: view_clean\<close>)

definition ca_health :: "jsval \<Rightarrow> jsval res" where
  \<open>ca_health h =
    ite (field ''ok'' h) (pill_of (str ''ok'')) (ca_problems h)\<close>

lemma ca_health_clean [view_clean]:
  assumes "plain h"
  shows "yields clean (ca_health h)"
  unfolding ca_health_def
  by (use assms in \<open>simp add: view_clean\<close>)

text \<open>The health of each CA key by CA name, as \<open>Object.fromEntries\<close> builds it: the last row of a name wins.\<close>

definition health_of :: "jsval list \<Rightarrow> string \<Rightarrow> jsval option" where
  "health_of keys n = map_of (rev (map (\<lambda>k. (case field ''ca'' k of Inr c \<Rightarrow> to_string c | Inl _ \<Rightarrow> [], k)) keys)) n"

lemma health_of_in: "health_of keys n = Some h \<Longrightarrow> h \<in> set keys"
  by (auto simp: health_of_def dest!: map_of_SomeD)

definition health_cell :: "jsval list \<Rightarrow> jsval \<Rightarrow> jsval res" where
  "health_cell keys c = andThen (field ''name'' c) (\<lambda>n.
     case health_of keys (to_string n) of None \<Rightarrow> str [] | Some h \<Rightarrow> if is_true h then ca_health h else str [])"

lemma health_cell_clean [view_clean]:
  assumes "\<forall>k \<in> set keys. plain k"
  shows "yields clean (health_cell keys c)"
proof -
  have s: "yields clean (str [])" by (simp add: str_def clean_def plain_clean)
  show ?thesis
    unfolding health_cell_def
    by (rule yields_andThen) (use assms s health_of_in ca_health_clean in \<open>auto split: option.split\<close>)
qed

definition ca_row :: "jsval list \<Rightarrow> jsval \<Rightarrow> jsval res" where
  \<open>ca_row keys c =
    tmpl [''<tr><td>'',
       ''<br><span class="muted">'',
       ''</span></td><td>'',
       ''</td><td>'',
       ''</td>\<newline>      <td>'',
       ''</td><td>'',
       ''</td><td class="num">'',
       ''</td></tr>'']
      [field ''name'' c,
       field ''subject'' c,
       ite (field ''root'' c) (str ''root'') (str ''issuing''),
       ite (is_str (field ''signer'' c) ''offline'') offline_cell (field ''signer'' c),
       health_cell keys c,
       andThen (field ''not_after'' c) (slice0 ''c.not_after.slice'' 10),
       field ''crl_number'' c]\<close>

lemma ca_row_clean [view_clean]:
  assumes "\<forall>k \<in> set keys. plain k" "plain c"
  shows "yields clean (ca_row keys c)"
  unfolding ca_row_def
  by (rule tmpl_clean [where hs = "[Content, Content, Content, Content, Content, Content, Content]"], code_simp) (use assms in \<open>simp add: view_clean\<close>)

definition cas_view :: "jsval list \<Rightarrow> jsval \<Rightarrow> jsval res" where
  \<open>cas_view keys cas =
    tmpl [''<table><tr><th>CA</th><th>Role</th><th>Key</th><th>Health</th><th>Expires</th><th class="num">CRL #</th></tr>'',
       ''</table>'']
      [map_html ''cas.map'' (ca_row keys) cas]\<close>

lemma cas_view_clean [view_clean]:
  assumes "\<forall>k \<in> set keys. plain k" "plain cas"
  shows "yields clean (cas_view keys cas)"
  unfolding cas_view_def
  by (rule tmpl_clean [where hs = "[Content]"], code_simp) (use assms in \<open>simp add: view_clean\<close>)

definition crypto_ca_row :: "jsval \<Rightarrow> jsval res" where
  \<open>crypto_ca_row c =
    tmpl [''<tr><td>'',
       ''</td><td>'',
       ''</td><td>'',
       ''</td><td>'',
       ''</td><td>'',
       ''</td></tr>'']
      [field ''ca'' c,
       field ''algorithm'' c,
       field ''signer'' c,
       andThen (field ''not_after'' c) (slice0 ''c.not_after.slice'' 10),
       ite (field ''outlives_2035_cutoff'' c) (pill_of (str ''warning'')) (pill_of (str ''ok''))]\<close>

lemma crypto_ca_row_clean [view_clean]:
  assumes "plain c"
  shows "yields clean (crypto_ca_row c)"
  unfolding crypto_ca_row_def
  by (rule tmpl_clean [where hs = "[Content, Content, Content, Content, Content]"], code_simp) (use assms in \<open>simp add: view_clean\<close>)

definition recommendation :: "jsval \<Rightarrow> jsval res" where
  \<open>recommendation x =
    tmpl [''<li>'',
       ''</li>'']
      [Inr x]\<close>

lemma recommendation_clean [view_clean]:
  assumes "plain x"
  shows "yields clean (recommendation x)"
  unfolding recommendation_def
  by (rule tmpl_clean [where hs = "[Content]"], code_simp) (use assms in \<open>simp add: view_clean\<close>)

definition crypto_figures :: "jsval \<Rightarrow> jsval res" where
  \<open>crypto_figures r =
    tmpl [''<div class="kpis"><div class="kpi"><b>'',
       ''</b><span>Active certificates</span></div><div class="kpi warn"><b>'',
       ''</b><span>RSA/ECC (quantum-vulnerable)</span></div><div class="kpi"><b>'',
       ''</b><span>PQC-signed</span></div><div class="kpi"><b>'',
       ''</b><span>Valid past 2030</span></div></div>'']
      [field ''active_certificates'' r,
       field ''quantum_vulnerable'' r,
       field ''pqc_signed'' r,
       field ''valid_past_2030_deprecation'' r]\<close>

lemma crypto_figures_clean [view_clean]:
  assumes "plain r"
  shows "yields clean (crypto_figures r)"
  unfolding crypto_figures_def
  by (rule tmpl_clean [where hs = "[Content, Content, Content, Content]"], code_simp) (use assms in \<open>simp add: view_clean\<close>)

definition crypto_view :: "jsval \<Rightarrow> jsval res" where
  \<open>crypto_view r =
    tmpl ['''',
       ''\<newline>  <table><tr><th>CA</th><th>Algorithm</th><th>Key custody</th><th>Expires</th><th>Outlives 2035 cutoff</th></tr>'',
       ''</table>\<newline>  <h2 class="recs-title">Recommendations</h2><ul>'',
       ''</ul>'']
      [crypto_figures r,
       andThen (field ''certificate_authorities'' r) (map_html ''r.certificate_authorities.map'' crypto_ca_row),
       andThen (field ''recommendations'' r) (map_html ''r.recommendations.map'' recommendation)]\<close>

lemma crypto_view_clean [view_clean]:
  assumes "plain r"
  shows "yields clean (crypto_view r)"
  unfolding crypto_view_def
  by (rule tmpl_clean [where hs = "[Content, Content, Content]"], code_simp) (use assms in \<open>simp add: view_clean\<close>)

subsection \<open>SSH keys\<close>

definition orphaned_pill :: "jsval res" where
  \<open>orphaned_pill =
    tmpl ['' '',
       '''']
      [pill_of (str ''orphaned'')]\<close>

lemma orphaned_pill_clean [view_clean]: "yields clean (orphaned_pill)"
  unfolding orphaned_pill_def
  by (rule tmpl_clean [where hs = "[Content]"], code_simp) (simp add: view_clean)

definition key_comment :: "jsval \<Rightarrow> jsval res" where
  \<open>key_comment k =
    tmpl [''<br><span class="muted">'',
       ''</span>'']
      [field ''comment'' k]\<close>

lemma key_comment_clean [view_clean]:
  assumes "plain k"
  shows "yields clean (key_comment k)"
  unfolding key_comment_def
  by (rule tmpl_clean [where hs = "[Content]"], code_simp) (use assms in \<open>simp add: view_clean\<close>)

definition ssh_option :: "string \<times> jsval \<Rightarrow> jsval res" where
  \<open>ssh_option p =
    tmpl [''<span class="rule">'',
       ''</span> '']
      [if snd p = Bool True then str (fst p) else text_of [str (fst p), str ''='', Inr (snd p)]]\<close>

lemma ssh_option_clean [view_clean]: "yields clean (ssh_option p)"
  unfolding ssh_option_def
  by (rule tmpl_clean [where hs = "[Content]"], code_simp) (simp add: view_clean)

definition unclaimed :: "jsval res" where
  \<open>unclaimed =
    tmpl [''<span class="muted">unclaimed</span>'']
      []\<close>

lemma unclaimed_clean [view_clean]: "yields clean (unclaimed)"
  unfolding unclaimed_def
  by (rule tmpl_clean [where hs = "[]"], code_simp) (simp add: view_clean)

definition owner_button :: "jsval \<Rightarrow> jsval res" where
  \<open>owner_button k =
    tmpl [''<button class="act" data-own="'',
       ''">Set owner</button>'']
      [field ''id'' k]\<close>

lemma owner_button_clean [view_clean]:
  assumes "plain k"
  shows "yields clean (owner_button k)"
  unfolding owner_button_def
  by (rule tmpl_clean [where hs = "[Quoted]"], code_simp) (use assms in \<open>simp add: view_clean\<close>)

definition ssh_restrictions :: "jsval \<Rightarrow> jsval res" where
  \<open>ssh_restrictions k =
    ite (andThen (orElse (field ''options'' k) (Inr (Obj []))) has_entries) (andThen (field ''options'' k) (map_entries ssh_option)) none_span\<close>

lemma ssh_restrictions_clean [view_clean]:
  assumes "plain k"
  shows "yields clean (ssh_restrictions k)"
  unfolding ssh_restrictions_def
  by (use assms in \<open>simp add: view_clean\<close>)

text \<open>\<open>k.owner || html`...`\<close>: escaped data or the tag's own output.\<close>

definition owner_cell :: "jsval \<Rightarrow> jsval res" where
  "owner_cell k = andThen (field ''owner'' k) (\<lambda>v. if is_true v then Inr v else unclaimed)"

lemma owner_cell_clean [view_clean]:
  assumes "plain k"
  shows "yields clean (owner_cell k)"
  unfolding owner_cell_def
  by (rule yields_bind [OF plain_field [OF assms]]) (simp add: view_clean clean_def)

definition ssh_row :: "jsval \<Rightarrow> jsval res" where
  \<open>ssh_row k =
    tmpl [''<tr><td>'',
       ''<br><span class="muted">'',
       ''</span></td><td>'',
       '''',
       ''</td>\<newline>    <td>'',
       '' '',
       ''<br><code>'',
       ''</code>'',
       ''</td>\<newline>    <td>'',
       ''</td>\<newline>    <td>'',
       ''</td><td>'',
       ''</td>\<newline>    <td>'',
       ''</td></tr>'']
      [field ''host'' k,
       field ''kind'' k,
       orElse (field ''account'' k) (str ''(host key)''),
       ite (field ''account_exists'' k) (str []) orphaned_pill,
       field ''key_type'' k,
       orElse (field ''bits'' k) (str []),
       field ''fingerprint'' k,
       ite (field ''comment'' k) (key_comment k) (str []),
       ssh_restrictions k,
       andThen (orElse (field ''file_mtime'' k) (str [])) (slice0 ''(k.file_mtime || "").slice'' 10),
       owner_cell k,
       ite (is_str (field ''status'' k) ''present'') (owner_button k) (pill_of (field ''status'' k))]\<close>

lemma ssh_row_clean [view_clean]:
  assumes "plain k"
  shows "yields clean (ssh_row k)"
  unfolding ssh_row_def
  by (rule tmpl_clean [where hs = "[Content, Content, Content, Content, Content, Content, Content, Content, Content, Content, Content, Content]"], code_simp) (use assms in \<open>simp add: view_clean\<close>)

text \<open>The search of \<open>renderSsh\<close>.\<close>

definition ssh_match :: "string \<Rightarrow> jsval \<Rightarrow> bool res" where
  "ssh_match q k = (if q = [] then Inr True
     else andThen (sequence [field ''host'' k, field ''account'' k, field ''comment'' k, field ''fingerprint'' k, field ''owner'' k])
       (\<lambda>vs. Inr (has_text q (js_lower (join_text '' '' vs)))))"

definition ssh_rows :: "string \<Rightarrow> jsval list \<Rightarrow> jsval list res" where
  "ssh_rows q keys = andThen (mapM (ssh_match q) keys) (\<lambda>bs. Inr (map fst (filter snd (zip keys bs))))"

definition ssh_table :: "nat \<Rightarrow> jsval list \<Rightarrow> jsval res" where
  \<open>ssh_table n rows =
    tmpl [''<p class="muted">'',
       '' of '',
       ''</p><table><tr><th>Host</th><th>Account</th><th>Key</th><th>Restrictions</th><th>Last change</th><th>Owner</th><th></th></tr>'',
       ''</table>'']
      [Inr (Num (of_nat (length rows))),
       Inr (Num (of_nat n)),
       map_html ''rows.map'' ssh_row (Arr rows)]\<close>

lemma ssh_table_clean [view_clean]:
  assumes "\<forall>x \<in> set rows. plain x"
  shows "yields clean (ssh_table n rows)"
  unfolding ssh_table_def
  by (rule tmpl_clean [where hs = "[Content, Content, Content]"], code_simp) (use assms in \<open>simp add: view_clean\<close>)

definition ssh_view :: "string \<Rightarrow> jsval list \<Rightarrow> jsval res" where
  "ssh_view q keys = andThen (ssh_rows (js_lower q) keys) (ssh_table (length keys))"

lemma ssh_rows_sub: "ssh_rows q keys = Inr rows \<Longrightarrow> set rows \<subseteq> set keys"
  by (auto simp: ssh_rows_def andThen_Inr) (meson set_zip_leftD)

lemma ssh_view_clean [view_clean]: "\<forall>x \<in> set keys. plain x \<Longrightarrow> yields clean (ssh_view q keys)"
  unfolding ssh_view_def
  by (rule yields_andThen, rule ssh_table_clean) (use ssh_rows_sub in blast)

end
