(* ===== verification/Policy_Tree.thy ===== *)
theory Policy_Tree
  imports Policy_Rules Console_Governance
begin

section \<open>The policy tree\<close>

text \<open>
  The folder tree of the policy tab (\<open>console.js\<close>, lines 386 to 401).  \<open>node\<close> draws a folder and calls
  itself on the folder's children; nothing in the code bounds that recursion, so the model gives it a
  stack of \<open>n\<close> frames and the engine's error when they are used up.  The last section shows that the
  stack is never used up when the identifiers of the folders are distinct: a chain of folders from
  the top level down cannot meet a folder twice.
\<close>

definition stack_overflow :: js_error where
  "stack_overflow = PlainError ''Maximum call stack size exceeded''"

subsection \<open>Drawing the tree\<close>

text \<open>\<open>fs.filter(f => f.parent_id === id)\<close>.\<close>

definition kids :: "jsval list \<Rightarrow> jsval \<Rightarrow> jsval list res" where
  "kids fs i = andThen (mapM (field ''parent_id'') fs) (\<lambda>ps.
     Inr (map fst (filter (\<lambda>p. same (snd p) i) (zip fs ps))))"

definition rule_chip :: "string \<times> jsval \<Rightarrow> jsval res" where
  \<open>rule_chip p =
    tmpl [''<span class="rule '',
       ''" title="'',
       ''">'',
       '': '',
       ''</span>'']
      [ite (field ''locked'' (snd p)) (str ''locked'') (str []),
       ite (field ''locked'' (snd p)) (str ''cannot be changed below this folder'') (str ''set here''),
       str (fst p),
       andThen (field ''value'' (snd p)) (\<lambda>v. Inr (fmt v))]\<close>

definition folder_chips_of :: "jsval \<Rightarrow> jsval res" where
  "folder_chips_of f = andThen (orElse (field ''settings'' f) (Inr (Obj []))) (map_entries rule_chip)"

definition tree_list :: "(jsval \<Rightarrow> jsval res) \<Rightarrow> jsval list \<Rightarrow> jsval res" where
  \<open>tree_list node ks =
    tmpl [''<ul class="tree">'',
       ''</ul>'']
      [andThen (mapM node ks) (\<lambda>ys. Inr (Arr ys))]\<close>

definition folder_item :: "(jsval \<Rightarrow> jsval res) \<Rightarrow> jsval \<Rightarrow> jsval res" where
  \<open>folder_item sub f =
    tmpl [''<li><b>'',
       ''</b> <span class="muted">'',
       '' app'',
       ''</span> <button class="adm small" data-edit="'',
       ''">Edit rules</button>\<newline>      <div class="rules">'',
       ''</div>\<newline>      '',
       ''</li>'']
      [field ''name'' f,
       field ''apps'' f,
       andThen (field ''apps'' f) (\<lambda>a. str (if same a (Num 1) then [] else ''s'')),
       field ''id'' f,
       folder_chips_of f,
       andThen (field ''id'' f) sub]\<close>

fun tree_node :: "nat \<Rightarrow> jsval list \<Rightarrow> jsval \<Rightarrow> jsval res" where
  "tree_node 0 fs f = Inl stack_overflow"
| "tree_node (Suc n) fs f = folder_item (\<lambda>i. andThen (kids fs i) (\<lambda>ks.
     if ks = [] then str [] else tree_list (tree_node n fs) ks)) f"

definition no_folders :: "jsval res" where
  \<open>no_folders = tmpl [''No folders yet. Apps use their profile\'s rules only.''] []\<close>

definition tree_view :: "nat \<Rightarrow> jsval list \<Rightarrow> jsval res" where
  "tree_view n fs = (if fs = [] then no_folders else andThen (kids fs Null) (tree_list (tree_node n fs)))"

text \<open>The button \<open>data-edit\<close>: \<open>FOLDERS.find(f => f.id === +b.dataset.edit)\<close>.\<close>

fun find_folder :: "jsval list \<Rightarrow> string \<Rightarrow> jsval res" where
  "find_folder [] t = Inr Undefined"
| "find_folder (f # fs) t = andThen (field ''id'' f) (\<lambda>i.
     if (case str_number t of Some q \<Rightarrow> same i (Num q) | None \<Rightarrow> False) then Inr f else find_folder fs t)"

subsection \<open>The markup of the tree\<close>

lemma kids_subset: "kids fs i = Inr ks \<Longrightarrow> g \<in> set ks \<Longrightarrow> g \<in> set fs \<and> (\<exists>q. field ''parent_id'' g = Inr q \<and> same q i)"
proof -
  assume k: "kids fs i = Inr ks" "g \<in> set ks"
  then obtain ps where ps: "map (field ''parent_id'') fs = map Inr ps"
    "ks = map fst (filter (\<lambda>p. same (snd p) i) (zip fs ps))"
    by (auto simp: kids_def andThen_Inr mapM_Inr)
  with k(2) obtain q where q: "(g, q) \<in> set (zip fs ps)" "same q i" by auto
  then obtain j where "j < length fs" "fs ! j = g" "ps ! j = q" "j < length ps" by (auto simp: set_zip)
  with ps(1) have "field ''parent_id'' g = Inr q" "g \<in> set fs"
    by (metis nth_map, metis nth_mem)
  with q(2) show ?thesis by blast
qed

lemma rule_chip_clean [view_clean]:
  assumes "plain (snd p)"
  shows "yields clean (rule_chip p)"
  unfolding rule_chip_def
  by (rule tmpl_clean [where hs = "[Quoted, Quoted, Content, Content]"], code_simp) (use assms in \<open>simp add: view_clean\<close>)

lemma folder_chips_of_clean:
  assumes "plain f"
  shows "yields clean (folder_chips_of f)"
  unfolding folder_chips_of_def
  by (rule map_entries_clean) (use assms in \<open>simp_all add: view_clean\<close>)

lemma tree_list_clean:
  assumes "\<And>g. g \<in> set ks \<Longrightarrow> yields clean (node g)"
  shows "yields clean (tree_list node ks)"
proof -
  have "yields (clean_at Content) (andThen (mapM node ks) (\<lambda>ys. Inr (Arr ys)))"
    by (rule yields_bind [OF yields_mapM [OF assms]]) (simp_all add: clean_def clean_Arr)
  note sub = this
  show ?thesis
    unfolding tree_list_def
    by (rule tmpl_clean [where hs = "[Content]"], code_simp) (simp add: sub)
qed

lemma folder_item_clean:
  assumes "plain f" "\<And>i. yields clean (sub i)"
  shows "yields clean (folder_item sub f)"
proof -
  have sub: "yields (clean_at Content) (andThen (field ''id'' f) sub)"
    using assms(2) by (intro yields_andThen yields_clean_at)
  have plural: "yields (clean_at Content) (andThen (field ''apps'' f) (\<lambda>a. str (if same a (Num 1) then [] else ''s'')))"
    by (intro yields_andThen) (simp add: view_clean)
  show ?thesis
    unfolding folder_item_def
    by (rule tmpl_clean [where hs = "[Content, Content, Content, Quoted, Content, Content]"], code_simp)
      (use assms(1) sub plural in \<open>simp add: view_clean folder_chips_of_clean\<close>)
qed

lemma str_clean: "yields clean (str s)"
  by (simp add: str_def clean_def plain_clean)

lemma tree_node_clean: "\<forall>f \<in> set fs. plain f \<Longrightarrow> plain f \<Longrightarrow> yields clean (tree_node n fs f)"
proof (induction n arbitrary: f)
  case (Suc n)
  have "yields clean (andThen (kids fs i) (\<lambda>ks. if ks = [] then str [] else tree_list (tree_node n fs) ks))" for i
    using Suc.IH Suc.prems(1) kids_subset by (intro yields_andThen) (auto intro!: tree_list_clean str_clean)
  then show ?case using Suc.prems(2) by (simp add: folder_item_clean)
qed simp

lemma no_folders_clean: "yields clean no_folders"
  unfolding no_folders_def by (rule tmpl_clean [where hs = "[]"], code_simp) simp

lemma tree_view_clean:
  assumes "\<forall>f \<in> set fs. plain f"
  shows "yields clean (tree_view n fs)"
  unfolding tree_view_def
  using assms kids_subset
  by (auto intro!: yields_andThen tree_list_clean tree_node_clean no_folders_clean)

subsection \<open>The recursion ends\<close>

text \<open>The identifiers of the folders: distinct numbers.\<close>

definition distinct_ids :: "jsval list \<Rightarrow> bool" where
  "distinct_ids fs \<longleftrightarrow> (\<exists>ns. map (field ''id'') fs = map (\<lambda>n. Inr (Num n)) ns \<and> distinct ns)"

text \<open>A folder and its ancestors up to the top level.\<close>

fun lineage :: "jsval list \<Rightarrow> jsval list \<Rightarrow> bool" where
  "lineage fs [] = False"
| "lineage fs [f] = (f \<in> set fs \<and> field ''parent_id'' f = Inr Null)"
| "lineage fs (g # f # p) = (g \<in> set fs \<and> field ''parent_id'' g = field ''id'' f \<and> lineage fs (f # p))"

lemma lineage_subset: "lineage fs p \<Longrightarrow> set p \<subseteq> set fs"
  by (induction fs p rule: lineage.induct) auto

lemma lineage_suffix: "lineage fs (a @ g # b) \<Longrightarrow> lineage fs (g # b)"
proof (induction a)
  case (Cons x a)
  then show ?case by (cases "a @ g # b") auto
qed simp

lemma distinct_ids_num: "distinct_ids fs \<Longrightarrow> f \<in> set fs \<Longrightarrow> \<exists>n. field ''id'' f = Inr (Num n)"
proof -
  assume "distinct_ids fs" "f \<in> set fs"
  then obtain ns where "map (field ''id'') fs = map (\<lambda>n. Inr (Num n)) ns"
    by (auto simp: distinct_ids_def)
  then have "field ''id'' ` set fs = (\<lambda>n. Inr (Num n)) ` set ns"
    by (metis list.set_map)
  with \<open>f \<in> set fs\<close> show ?thesis by blast
qed

lemma distinct_ids_inj: "distinct_ids fs \<Longrightarrow> distinct fs \<and> inj_on (field ''id'') (set fs)"
proof -
  assume "distinct_ids fs"
  then obtain ns where ns: "map (field ''id'') fs = map (\<lambda>n. Inr (Num n)) ns" "distinct ns"
    by (auto simp: distinct_ids_def)
  then have "distinct (map (field ''id'') fs)" by (simp add: distinct_map inj_on_def)
  then show ?thesis by (simp add: distinct_map)
qed

lemma lineage_unique:
  assumes "distinct_ids fs"
  shows "lineage fs (f # p) \<Longrightarrow> lineage fs (f # q) \<Longrightarrow> p = q"
proof (induction p arbitrary: f q)
  case Nil
  then show ?case
    using distinct_ids_num [OF assms] lineage_subset [OF Nil.prems(2)] by (cases q) force+
next
  case (Cons g p)
  then obtain h q' where q: "q = h # q'"
    using distinct_ids_num [OF assms] lineage_subset [OF Cons.prems(1)] by (cases q) force+
  with Cons.prems have "field ''id'' g = field ''id'' h" by simp
  moreover have "g \<in> set fs" "h \<in> set fs"
    using lineage_subset [OF Cons.prems(1)] lineage_subset [OF Cons.prems(2)] q by auto
  ultimately have "g = h" using distinct_ids_inj [OF assms] by (auto dest: inj_onD)
  with Cons q show ?case by auto
qed

lemma lineage_distinct:
  assumes "distinct_ids fs"
  shows "lineage fs p \<Longrightarrow> distinct p"
proof (induction p)
  case (Cons f p)
  have "f \<notin> set p"
  proof
    assume "f \<in> set p"
    then obtain a b where p: "p = a @ f # b" by (auto simp: in_set_conv_decomp)
    then have "lineage fs (f # b)" using lineage_suffix [of fs "f # a"] Cons.prems by simp
    then have "p = b" using lineage_unique [OF assms Cons.prems] by blast
    with p show False by simp
  qed
  moreover have "distinct p" using Cons by (cases p) auto
  ultimately show ?case by simp
qed simp

lemma lineage_length: "distinct_ids fs \<Longrightarrow> lineage fs p \<Longrightarrow> length p \<le> length fs"
  using lineage_distinct lineage_subset distinct_ids_inj
  by (metis card_mono distinct_card List.finite_set)

text \<open>Expressions that do not use up the stack.\<close>

definition sane :: "'a res \<Rightarrow> bool" where
  "sane r \<longleftrightarrow> r \<noteq> Inl stack_overflow"

lemma sane_simps [simp]: "sane (Inr v)" "sane (Inl (TypeError m))"
  by (simp_all add: sane_def stack_overflow_def)

lemma sane_andThen: "sane r \<Longrightarrow> (\<And>v. r = Inr v \<Longrightarrow> sane (f v)) \<Longrightarrow> sane (andThen r f)"
  by (cases r) (simp_all add: sane_def)

lemma sane_sequence: "\<forall>r \<in> set rs. sane r \<Longrightarrow> sane (sequence rs)"
  by (induction rs) (auto intro!: sane_andThen)

lemma sane_mapM: "(\<And>x. x \<in> set xs \<Longrightarrow> sane (f x)) \<Longrightarrow> sane (mapM f xs)"
  unfolding mapM_def by (rule sane_sequence) auto

lemma sane_tmpl: "\<forall>r \<in> set rs. sane r \<Longrightarrow> sane (tmpl strs rs)"
  unfolding tmpl_def by (rule sane_andThen [OF sane_sequence]) simp_all

lemma sane_field: "sane (field k v)"
  by (cases v) (simp_all add: no_prop_def)

lemma sane_ite: "sane a \<Longrightarrow> sane b \<Longrightarrow> sane c \<Longrightarrow> sane (ite c a b)"
  unfolding ite_def by (rule sane_andThen) simp_all

lemma sane_orElse: "sane a \<Longrightarrow> sane b \<Longrightarrow> sane (orElse a b)"
  unfolding orElse_def by (rule sane_andThen) simp_all

lemma sane_str: "sane (str s)"
  by (simp add: str_def)

lemma sane_entries: "sane (entries v)"
  by (cases v) simp_all

lemmas sane_parts = sane_field sane_str sane_ite sane_entries

lemma sane_chips: "sane (folder_chips_of f)"
proof -
  have "sane (rule_chip p)" for p
    unfolding rule_chip_def by (rule sane_tmpl) (auto intro!: sane_andThen simp: sane_parts)
  then have "sane (map_entries rule_chip v)" for v
    unfolding map_entries_def by (intro sane_andThen sane_mapM sane_entries) simp_all
  then show ?thesis
    unfolding folder_chips_of_def by (intro sane_andThen sane_orElse sane_field) simp_all
qed

lemma sane_kids: "sane (kids fs i)"
  unfolding kids_def by (intro sane_andThen sane_mapM sane_field) simp_all

lemma sane_tree_list: "(\<And>g. g \<in> set ks \<Longrightarrow> sane (node g)) \<Longrightarrow> sane (tree_list node ks)"
  unfolding tree_list_def by (rule sane_tmpl) (auto intro!: sane_andThen sane_mapM)

lemma sane_folder_item: "(\<And>i. field ''id'' f = Inr i \<Longrightarrow> sane (sub i)) \<Longrightarrow> sane (folder_item sub f)"
  unfolding folder_item_def by (rule sane_tmpl) (auto intro!: sane_andThen simp: sane_parts sane_chips)

lemma mapM_cong: "(\<And>x. x \<in> set xs \<Longrightarrow> f x = g x) \<Longrightarrow> mapM f xs = mapM g xs"
  unfolding mapM_def by (metis map_cong)

lemma tree_list_cong: "(\<And>g. g \<in> set ks \<Longrightarrow> f g = h g) \<Longrightarrow> tree_list f ks = tree_list h ks"
  unfolding tree_list_def by (simp add: mapM_cong [of ks f h])

lemma folder_item_cong: "(\<And>i. field ''id'' f = Inr i \<Longrightarrow> sub i = sub' i) \<Longrightarrow> folder_item sub f = folder_item sub' f"
  unfolding folder_item_def by (cases "field ''id'' f") simp_all

lemma tree_node_enough:
  assumes "distinct_ids fs"
  shows "lineage fs (f # p) \<Longrightarrow> length fs \<le> n + length p \<Longrightarrow>
    tree_node (n + m) fs f = tree_node n fs f \<and> sane (tree_node n fs f)"
proof (induction n arbitrary: f p)
  case 0
  with lineage_length [OF assms 0(1)] show ?case by simp
next
  case (Suc n)
  obtain i where i: "field ''id'' f = Inr (Num i)"
    using distinct_ids_num [OF assms] lineage_subset [OF Suc.prems(1)] by auto
  have sub: "tree_node (n + m) fs g = tree_node n fs g \<and> sane (tree_node n fs g)"
    if "kids fs (Num i) = Inr ks" "g \<in> set ks" for g ks
  proof (rule Suc.IH)
    have "g \<in> set fs" "field ''parent_id'' g = Inr (Num i)"
      using kids_subset [OF that] by (auto elim!: same.elims)
    then show "lineage fs (g # f # p)" using Suc.prems(1) i by simp
    show "length fs \<le> n + length (f # p)" using Suc.prems(2) by simp
  qed
  let ?sub = "\<lambda>n i. andThen (kids fs i) (\<lambda>ks. if ks = [] then str [] else tree_list (tree_node n fs) ks)"
  have "?sub (n + m) (Num i) = ?sub n (Num i)"
  proof (cases "kids fs (Num i)")
    case (Inr ks)
    then show ?thesis using sub [OF Inr] by (simp add: tree_list_cong [of ks "tree_node (n + m) fs" "tree_node n fs"])
  qed simp
  moreover have "sane (?sub n (Num i))"
    using sub by (intro sane_andThen sane_kids) (auto intro!: sane_tree_list simp: sane_str)
  ultimately show ?case
    using folder_item_cong [of f "?sub (n + m)" "?sub n"] sane_folder_item [of f "?sub n"] i by simp
qed

lemma tree_view_enough:
  assumes "distinct_ids fs" "length fs \<le> n"
  shows "tree_view n fs = tree_view (length fs) fs" "sane (tree_view n fs)"
proof -
  obtain m where n: "n = length fs + m" using assms(2) le_Suc_ex by blast
  have root: "tree_node n fs g = tree_node (length fs) fs g \<and> sane (tree_node (length fs) fs g)"
    if "kids fs Null = Inr ks" "g \<in> set ks" for g ks
  proof -
    have "lineage fs [g]"
      using kids_subset [OF that] by (auto elim!: same.elims)
    then show ?thesis using tree_node_enough [OF assms(1), of g "[]" "length fs" m] n by simp
  qed
  show eq: "tree_view n fs = tree_view (length fs) fs"
  proof (cases "kids fs Null")
    case (Inr ks)
    then show ?thesis
      using root [OF Inr] by (simp add: tree_view_def tree_list_cong [of ks "tree_node n fs" "tree_node (length fs) fs"])
  qed (simp add: tree_view_def)
  have "sane (tree_view (length fs) fs)"
    unfolding tree_view_def no_folders_def using root
    by (auto intro!: sane_andThen sane_kids sane_tree_list sane_tmpl)
  then show "sane (tree_view n fs)" using eq by simp
qed

lemma find_folder_id:
  assumes "distinct_ids fs" "f \<in> set fs" "field ''id'' f = Inr (Num (of_nat k))"
  shows "find_folder fs (nat_str k) = Inr f"
  using assms
proof (induction fs)
  case (Cons g fs)
  have inj: "g = f \<longleftrightarrow> field ''id'' g = field ''id'' f"
    using distinct_ids_inj [OF Cons.prems(1)] Cons.prems(2) by (auto dest: inj_onD)
  obtain n where n: "field ''id'' g = Inr (Num n)"
    using distinct_ids_num [OF Cons.prems(1)] by auto
  have "distinct_ids fs"
    using Cons.prems(1) unfolding distinct_ids_def by (auto simp: Cons_eq_map_conv)
  then show ?case
    using Cons inj n by (auto simp: str_number_nat)
qed simp

end
