(* ===== verification/Console_Page.thy ===== *)
theory Console_Page
  imports Event_Machine Console_Api Policy_Tree
begin

section \<open>The state of the console and its tabs\<close>

text \<open>
  The page record of \<open>console.js\<close>: the global variables of the script, the session storage, and what
  the script writes into the document (markup by \<open>render\<close>, texts, classes, visibility).  A handler is
  an action on this record; the code after an \<open>await\<close> is a handler of its own that gets the answer.
  \<open>sent\<close> is the list of the requests made so far.  This theory holds the shared actions, the tabs and
  the connection; the loaders, the wizard and the forms follow in their own theories.
\<close>

record console =
  origin :: string
  KEY :: string
  storage :: "string \<Rightarrow> string option"
  blocked :: bool
  hidden :: "string \<Rightarrow> bool"
  lit :: "string \<Rightarrow> bool"
  ro :: bool
  noadmin :: bool
  markup :: document
  texts :: "string \<Rightarrow> string"
  classes :: "string \<Rightarrow> string"
  inputs :: "string \<Rightarrow> string"
  disabled :: "string \<Rightarrow> bool"
  sent :: "request list"
  alerted :: "string list"
  OB_team :: "rat option"
  OB_app :: jsval
  OB_profiles :: jsval
  INV :: jsval
  TARGETS :: "(string \<times> jsval) list"
  FOLDERS :: jsval
  SETTINGS :: jsval
  EDITING :: jsval
  rows :: "rule_input list"
  titles :: "string list"
  unfolded :: bool
  pressed :: "string list"
  saved_files :: "(string \<times> string) list"
  SSH :: jsval

subsection \<open>Shared actions\<close>

definition set_text :: "string \<Rightarrow> string \<Rightarrow> console \<Rightarrow> console" where
  "set_text el t s = s\<lparr>texts := (texts s)(el := t)\<rparr>"

definition set_input :: "string \<Rightarrow> string \<Rightarrow> console \<Rightarrow> console" where
  "set_input el t s = s\<lparr>inputs := (inputs s)(el := t)\<rparr>"

text \<open>\<open>render($(el), expression)\<close>: the expression may throw, and so may \<open>render\<close>.\<close>

definition paint :: "string \<Rightarrow> jsval res \<Rightarrow> console act" where
  "paint el r s = (case r of
     Inl e \<Rightarrow> (Some e, s)
   | Inr v \<Rightarrow> (case render el v (markup s) of (e, d) \<Rightarrow> (e, s\<lparr>markup := d\<rparr>)))"

text \<open>An action that reads the state first.\<close>

definition with_state :: "(console \<Rightarrow> console act) \<Rightarrow> console act" where
  "with_state f s = f s s"

text \<open>An expression whose value decides what happens next.\<close>

definition with_value :: "'a res \<Rightarrow> ('a \<Rightarrow> console act) \<Rightarrow> console act" where
  "with_value r f s = (case r of Inl e \<Rightarrow> (Some e, s) | Inr v \<Rightarrow> f v s)"

definition toast :: "string \<Rightarrow> console \<Rightarrow> console" where
  "toast msg = set_text ''who'' (take 120 msg)"

definition say :: "string \<Rightarrow> string \<Rightarrow> bool \<Rightarrow> console \<Rightarrow> console" where
  "say el msg good s = (set_text el msg s)\<lparr>classes := (classes s)(el := (if good then ''okmsg'' else ''err''))\<rparr>"

text \<open>\<open>try { body } catch (e) { handler }\<close>; \<open>part403\<close> shows the message in the section.\<close>

definition catching :: "console act \<Rightarrow> (js_error \<Rightarrow> console act) \<Rightarrow> console act" where
  "catching body handler s = (case body s of (None, t) \<Rightarrow> (None, t) | (Some e, t) \<Rightarrow> handler e t)"

definition part403 :: "string \<Rightarrow> console act \<Rightarrow> console act" where
  "part403 el body = catching body (\<lambda>e. paint el (denied_view (error_message e)))"

definition toasting :: "console act \<Rightarrow> console act" where
  "toasting body = catching body (\<lambda>e. pure_act (toast (error_message e)))"

definition send :: "string \<Rightarrow> api_options \<Rightarrow> console \<Rightarrow> console" where
  "send url opts s = s\<lparr>sent := sent s @ [api_request (KEY s) url opts]\<rparr>"

definition get_item :: "string \<Rightarrow> console \<Rightarrow> string option" where
  "get_item k s = (if blocked s then None else storage s k)"

definition set_item :: "string \<Rightarrow> string \<Rightarrow> console \<Rightarrow> console" where
  "set_item k v s = (if blocked s then s else s\<lparr>storage := (storage s)(k \<mapsto> v)\<rparr>)"

text \<open>The small functions of the forms.\<close>

definition parseJson :: "(string \<Rightarrow> jsval option) \<Rightarrow> string \<Rightarrow> string \<Rightarrow> jsval res" where
  "parseJson parse t what =
     (if js_trim t = [] then Inr (Obj [])
      else (case parse t of
          Some (Obj ps) \<Rightarrow> Inr (Obj ps)
        | _ \<Rightarrow> Inl (PlainError (what @ '' must be a JSON object''))))"

definition outcome :: "jsval \<Rightarrow> string \<Rightarrow> string res" where
  "outcome r finished = (if is_true r
     then andThen (field ''approval_id'' r) (\<lambda>a. Inr (if is_true a
       then ''Sent: approval #'' @ to_string a @ '' is waiting for an approver.'' else finished))
     else Inr finished)"

subsection \<open>Tabs\<close>

definition tab_keys :: "string list" where
  "tab_keys = map fst TABS"

definition view_id :: "string \<Rightarrow> string" where
  "view_id k = ''view-'' @ k"

definition currentTab :: "console \<Rightarrow> string" where
  "currentTab s = (case get_item ''cdl_tab'' s of Some t \<Rightarrow> if t = [] then ''overview'' else t | None \<Rightarrow> ''overview'')"

text \<open>The requests a loader makes before its first \<open>await\<close>.\<close>

definition findings_url :: "string \<Rightarrow> string" where
  "findings_url kind = ''/api/v1/discovery/findings'' @ (if kind = [] then [] else ''?kind='' @ encodeURIComponent kind)"

definition ssh_url :: "string \<Rightarrow> string" where
  "ssh_url f = ''/api/v1/ssh-keys'' @ (if f = ''none'' then ''?owner=none'' else if f = ''removed'' then ''?status=removed'' else [])"

definition first_urls :: "console \<Rightarrow> string \<Rightarrow> string list" where
  "first_urls s tab =
     (if tab = ''overview'' then [''/api/v1/reports/summary'', ''/api/v1/alerts'', ''/api/v1/certificates?status=active&renewal_due=true'']
      else if tab = ''onboard'' then [''/api/v1/teams'', ''/api/v1/profiles'']
      else if tab = ''inventory'' then [''/api/v1/certificates?limit=5000'']
      else if tab = ''approvals'' then [''/api/v1/approvals'']
      else if tab = ''discovery'' then [findings_url (inputs s ''fd-kind''), ''/api/v1/discovery/sources'']
      else if tab = ''provisioning'' then [''/api/v1/targets'']
      else if tab = ''policy'' then [''/api/v1/folders/settings'']
      else if tab = ''issuers'' then [''/api/v1/issuers'']
      else if tab = ''signing'' then (if ro s then [] else [''/api/v1/apps'']) @ [''/api/v1/signing/keys'']
      else if tab = ''sshkeys'' then [ssh_url (inputs s ''sk-filter'')]
      else if tab = ''audit'' then [''/api/v1/audit/shipping'', ''/api/v1/audit/signing-key'', ''/api/v1/audit/verify'', ''/api/v1/audit?limit=200'']
      else if tab = ''reports'' then [''/api/v1/cas'', ''/api/v1/cas/keys'', ''/api/v1/reports/crypto'']
      else [])"

text \<open>\<open>loadSigning\<close> first shows the address of the time stamping service.\<close>

definition load_prefix :: "string \<Rightarrow> console \<Rightarrow> console" where
  "load_prefix tab s = (if tab = ''signing'' then set_text ''tsa-url'' (origin s @ ''/tsa'') s else s)"

definition send_all :: "string list \<Rightarrow> console \<Rightarrow> console" where
  "send_all urls s = fold (\<lambda>u. send u no_options) urls s"

definition show_tab :: "string \<Rightarrow> console \<Rightarrow> console" where
  "show_tab tab s =
     (let s1 = s\<lparr>hidden := (\<lambda>el. if el \<in> set (map view_id tab_keys) then el \<noteq> view_id tab else hidden s el),
                lit := (\<lambda>k. if k \<in> set tab_keys then k = tab else lit s k)\<rparr>;
          s2 = set_item ''cdl_tab'' tab s1
      in if KEY s2 \<noteq> [] then send_all (first_urls s2 tab) (load_prefix tab s2) else s2)"

subsection \<open>Connecting\<close>

definition connect :: "console \<Rightarrow> console" where
  "connect s =
     (let k = js_trim (inputs s ''apikey'');
          s1 = set_item ''cdl_key'' k (s\<lparr>KEY := k\<rparr>)
      in send ''/api/v1/me'' no_options s1)"

definition me_answered :: "jsval \<Rightarrow> console act" where
  "me_answered me = catching
     (with_value (andThen (field ''name'' me) (\<lambda>n. andThen (field ''role'' me) (\<lambda>r. Inr (n, r)))) (\<lambda>(n, r).
        do_all [pure_act (set_text ''who'' (to_string n @ '' ('' @ to_string r @ '')'')),
                pure_act (\<lambda>s. s\<lparr>ro := r \<notin> {Str ''admin'', Str ''operator''}\<rparr>),
                pure_act (\<lambda>s. s\<lparr>noadmin := r \<noteq> Str ''admin''\<rparr>),
                pure_act (\<lambda>s. show_tab (currentTab s) s)]))
     (\<lambda>e. pure_act (set_text ''who'' ''invalid key''))"

definition me_failed :: "console \<Rightarrow> console" where
  "me_failed = set_text ''who'' ''invalid key''"

text \<open>The last lines of the script: the stored key fills its field, the stored tab is shown, a stored key connects.\<close>

definition start_page :: "console \<Rightarrow> console" where
  "start_page s =
     (let k = (case get_item ''cdl_key'' s of Some k \<Rightarrow> k | None \<Rightarrow> []);
          s1 = set_input ''apikey'' k (s\<lparr>KEY := k\<rparr>);
          s2 = show_tab (currentTab s1) s1
      in if KEY s2 \<noteq> [] then connect s2 else s2)"

subsection \<open>One tab at a time\<close>

text \<open>The tab \<open>k\<close> is shown: its section is the only visible one, its button the only lit one.\<close>

definition showing :: "string \<Rightarrow> console \<Rightarrow> bool" where
  "showing k s \<longleftrightarrow> k \<in> set tab_keys \<and> (\<forall>t \<in> set tab_keys. hidden s (view_id t) = (t \<noteq> k) \<and> lit s t = (t = k))"

text \<open>
  What every handler keeps: one tab is shown, and the stored one is a tab; where nothing may be
  changed, nothing may be administered.
\<close>

definition tabs_ok :: "console \<Rightarrow> bool" where
  "tabs_ok s \<longleftrightarrow> (\<exists>k. showing k s) \<and> (storage s ''cdl_tab'' \<in> {None, Some []} \<or> the (storage s ''cdl_tab'') \<in> set tab_keys)
     \<and> (ro s \<longrightarrow> noadmin s)"

text \<open>The parts of the state that only the tabs and the connection change.\<close>

definition tab_part :: "console \<Rightarrow> (string \<Rightarrow> bool) \<times> (string \<Rightarrow> bool) \<times> string option \<times> bool \<times> bool" where
  "tab_part s = (\<lambda>t. hidden s (view_id t), lit s, storage s ''cdl_tab'', ro s, noadmin s)"

lemma tabs_ok_same: "tab_part t = tab_part s \<Longrightarrow> tabs_ok t = tabs_ok s"
  by (simp add: tabs_ok_def showing_def tab_part_def fun_eq_iff)

lemma view_id_eq [simp]: "view_id a = view_id b \<longleftrightarrow> a = b"
  by (simp add: view_id_def)

lemma set_text_simps [simp]:
  "hidden (set_text el t s) = hidden s" "lit (set_text el t s) = lit s" "storage (set_text el t s) = storage s"
  "ro (set_text el t s) = ro s" "noadmin (set_text el t s) = noadmin s" "markup (set_text el t s) = markup s"
  "KEY (set_text el t s) = KEY s" "blocked (set_text el t s) = blocked s" "sent (set_text el t s) = sent s"
  by (simp_all add: set_text_def)

lemma set_item_simps [simp]:
  "hidden (set_item k v s) = hidden s" "lit (set_item k v s) = lit s" "ro (set_item k v s) = ro s"
  "noadmin (set_item k v s) = noadmin s" "markup (set_item k v s) = markup s" "KEY (set_item k v s) = KEY s"
  "blocked (set_item k v s) = blocked s" "sent (set_item k v s) = sent s" "inputs (set_item k v s) = inputs s"
  "storage (set_item k v s) = (if blocked s then storage s else (storage s)(k \<mapsto> v))"
  by (simp_all add: set_item_def)

lemma send_simps [simp]:
  "hidden (send u opts s) = hidden s" "lit (send u opts s) = lit s" "ro (send u opts s) = ro s" "storage (send u opts s) = storage s"
  "noadmin (send u opts s) = noadmin s" "markup (send u opts s) = markup s" "KEY (send u opts s) = KEY s"
  "blocked (send u opts s) = blocked s" "inputs (send u opts s) = inputs s"
  "sent (send u opts s) = sent s @ [api_request (KEY s) u opts]"
  by (simp_all add: send_def)

lemma send_all_simps [simp]:
  "hidden (send_all us s) = hidden s" "lit (send_all us s) = lit s" "ro (send_all us s) = ro s" "storage (send_all us s) = storage s"
  "noadmin (send_all us s) = noadmin s" "markup (send_all us s) = markup s" "KEY (send_all us s) = KEY s"
  "blocked (send_all us s) = blocked s" "inputs (send_all us s) = inputs s"
  "sent (send_all us s) = sent s @ map (\<lambda>u. api_request (KEY s) u no_options) us"
  by (induction us arbitrary: s) (simp_all add: send_all_def)

lemma load_prefix_simps [simp]:
  "hidden (load_prefix k s) = hidden s" "lit (load_prefix k s) = lit s" "storage (load_prefix k s) = storage s"
  "ro (load_prefix k s) = ro s" "noadmin (load_prefix k s) = noadmin s" "markup (load_prefix k s) = markup s"
  "KEY (load_prefix k s) = KEY s" "blocked (load_prefix k s) = blocked s" "sent (load_prefix k s) = sent s"
  by (simp_all add: load_prefix_def)

lemma show_tab_simps [simp]:
  "ro (show_tab k s) = ro s" "noadmin (show_tab k s) = noadmin s" "markup (show_tab k s) = markup s" "KEY (show_tab k s) = KEY s"
  "storage (show_tab k s) = (if blocked s then storage s else (storage s)(''cdl_tab'' \<mapsto> k))"
  by (simp_all add: show_tab_def Let_def)

lemma show_tab_shows: "k \<in> set tab_keys \<Longrightarrow> showing k (show_tab k s)"
  by (simp add: showing_def show_tab_def Let_def inj_image_mem_iff [OF injI])

lemma show_tab_requests: "sent (show_tab k s) = sent s @
    (if KEY s = [] then [] else map (\<lambda>u. api_request (KEY s) u no_options) (first_urls s k))"
  by (simp add: show_tab_def Let_def first_urls_def)

lemma currentTab_ok: "tabs_ok s \<Longrightarrow> currentTab s \<in> set tab_keys"
  by (auto simp: currentTab_def get_item_def tabs_ok_def tab_keys_def TABS_def split: option.splits)

lemma show_tab_ok: "tabs_ok s \<Longrightarrow> k \<in> set tab_keys \<Longrightarrow> tabs_ok (show_tab k s)"
  using show_tab_shows [of k s] by (simp add: tabs_ok_def) blast

lemma connect_ok: "tabs_ok s \<Longrightarrow> tabs_ok (connect s)"
  by (subst tabs_ok_same [of _ s]) (simp_all add: tab_part_def connect_def Let_def)

end
