(* ===== verification/Console_Wizard.thy ===== *)
theory Console_Wizard
  imports Console_Page
begin

section \<open>The onboarding wizard\<close>

text \<open>
  The four steps of the onboard tab (\<open>console.js\<close>, lines 114 to 187): team, application, approval,
  credentials.  Each button and each answer of the server is a handler; the invariant \<open>wizard_ok\<close>
  says that one step is open, that step 2 is open only with a team and that the credentials step is
  open only for an active application.
\<close>

subsection \<open>Steps and hints\<close>

definition ob_id :: "nat \<Rightarrow> string" where
  "ob_id i = ''ob-'' @ nat_str i"

definition ob_ids :: "string list" where
  "ob_ids = map ob_id [1, 2, 3, 4]"

definition step :: "nat \<Rightarrow> console \<Rightarrow> console" where
  "step n s = set_text ''ob-err'' []
     (s\<lparr>hidden := (\<lambda>el. if el \<in> set ob_ids then el \<noteq> ob_id n else hidden s el),
        lit := (\<lambda>el. if el \<in> set ob_ids then el = ob_id n else lit s el)\<rparr>)"

definition hint_text :: "jsval \<Rightarrow> string \<Rightarrow> string \<Rightarrow> string res" where
  "hint_text profiles prof env =
     andThen (orElse (field prof profiles) (Inr (Obj []))) (\<lambda>p.
     andThen (ite (field ''max_validity_hours'' p) (text_of [field ''max_validity_hours'' p, str ''h''])
       (text_of [field ''max_validity_days'' p, str ''d''])) (\<lambda>lim.
     andThen (field ''dual_control'' p) (\<lambda>dual.
       Inr (''Max validity '' @ to_string lim @ ''.''
         @ (if is_true dual then '' Every issuance needs a second approver.'' else [])
         @ (if env = ''prod'' then '' Production onboarding needs a second approver.'' else [])))))"

definition hint :: "console act" where
  "hint = with_state (\<lambda>s. with_value (hint_text (OB_profiles s) (inputs s ''a-profile'') (inputs s ''a-env''))
     (\<lambda>t. pure_act (set_text ''a-hint'' t)))"

text \<open>Drawing the options of a \<open>select\<close> leaves it on the first one.\<close>

definition first_value :: "string list \<Rightarrow> string" where
  "first_value vs = (case vs of [] \<Rightarrow> [] | v # _ \<Rightarrow> v)"

definition team_values :: "jsval \<Rightarrow> string list res" where
  "team_values teams = (case teams of
     Arr ts \<Rightarrow> andThen (mapM (field ''id'') ts) (\<lambda>is. Inr (map to_string is))
   | _ \<Rightarrow> Inr [])"

definition loadOnboard :: "jsval \<Rightarrow> jsval \<Rightarrow> console act" where
  "loadOnboard teams profiles = do_all
     [pure_act (\<lambda>s. s\<lparr>OB_profiles := profiles\<rparr>),
      paint ''ob-team'' (ob_team_view teams),
      with_value (team_values teams) (\<lambda>vs. pure_act (set_input ''ob-team'' (first_value vs))),
      paint ''a-profile'' (profiles_view profiles),
      with_value (entries profiles) (\<lambda>ps. pure_act (set_input ''a-profile'' (first_value (map fst ps)))),
      hint,
      pure_act (step 1)]"

subsection \<open>Buttons and answers\<close>

definition ob_fail :: "js_error \<Rightarrow> console act" where
  "ob_fail e = pure_act (set_text ''ob-err'' (error_message e))"

definition or_null :: "string \<Rightarrow> jsval" where
  "or_null t = (if t = [] then Null else Str t)"

text \<open>A number in a request body: \<open>JSON.stringify\<close> writes \<open>NaN\<close> as \<open>null\<close>.\<close>

definition json_number :: "rat option \<Rightarrow> jsval" where
  "json_number n = (case n of Some q \<Rightarrow> Num q | None \<Rightarrow> Null)"

definition team_body :: "console \<Rightarrow> jsval" where
  "team_body s = Obj [(''name'', Str (inputs s ''t-name'')), (''contact_email'', Str (inputs s ''t-email'')),
     (''chat_channel'', or_null (inputs s ''t-chat'')), (''webhook_url'', or_null (inputs s ''t-hook'')),
     (''cost_center'', or_null (inputs s ''t-cc''))]"

definition t_create :: "console \<Rightarrow> console" where
  "t_create s = send ''/api/v1/teams'' (post (team_body s)) s"

definition team_created :: "jsval res \<Rightarrow> console act" where
  "team_created ans = catching
     (with_value ans (\<lambda>t. pure_act (send_all [''/api/v1/teams'', ''/api/v1/profiles'']))) ob_fail"

text \<open>\<open>select.value = t.id\<close> chooses the option with that value, or none.\<close>

definition pick_option :: "string \<Rightarrow> string list \<Rightarrow> string \<Rightarrow> console \<Rightarrow> console" where
  "pick_option el vs v = set_input el (if v \<in> set vs then v else [])"

definition team_listed :: "jsval \<Rightarrow> jsval res \<Rightarrow> jsval res \<Rightarrow> console act" where
  "team_listed t teams profiles = catching
     (with_value teams (\<lambda>ts. with_value profiles (\<lambda>ps. do_all
        [loadOnboard ts ps,
         with_value (field ''id'' t) (\<lambda>i. with_value (team_values ts) (\<lambda>vs. pure_act (pick_option ''ob-team'' vs (to_string i))))])))
     ob_fail"

definition ob_next1 :: "console \<Rightarrow> console" where
  "ob_next1 s = (let t = str_number (inputs s ''ob-team''); s1 = s\<lparr>OB_team := t\<rparr>
     in if t \<noteq> None \<and> t \<noteq> Some 0 then step 2 s1 else set_text ''ob-err'' ''Pick or create a team first.'' s1)"

definition ob_back2 :: "console \<Rightarrow> console" where
  "ob_back2 = step 1"

definition app_body :: "console \<Rightarrow> jsval" where
  "app_body s = Obj [(''team_id'', json_number (OB_team s)), (''name'', Str (js_trim (inputs s ''a-name''))),
     (''environment'', Str (inputs s ''a-env'')), (''profile'', Str (inputs s ''a-profile'')),
     (''data_classification'', Str (inputs s ''a-class'')),
     (''allowed_domains'', Arr (map Str (words_of (inputs s ''a-domains''))))]"

definition ob_next2 :: "console \<Rightarrow> console" where
  "ob_next2 s = send ''/api/v1/apps'' (post (app_body s)) s"

definition app_url :: "jsval \<Rightarrow> string \<Rightarrow> string" where
  "app_url i rest = ''/api/v1/apps/'' @ encodeURIComponent (to_string i) @ rest"

definition obStatus :: "console act" where
  "obStatus = with_state (\<lambda>s. with_value (field ''id'' (OB_app s)) (\<lambda>i. pure_act (send (app_url i []) no_options)))"

definition app_created :: "jsval res \<Rightarrow> console act" where
  "app_created ans = catching
     (with_value ans (\<lambda>app. do_all
        [pure_act (\<lambda>s. s\<lparr>OB_app := app\<rparr>),
         with_value (field ''status'' app) (\<lambda>st.
           if st = Str ''active'' then pure_act (step 4) else do_all [pure_act (step 3), obStatus])])) ob_fail"

definition status_answered :: "jsval res \<Rightarrow> console act" where
  "status_answered ans = with_value ans (\<lambda>a. do_all
     [pure_act (\<lambda>s. s\<lparr>OB_app := a\<rparr>),
      with_value (field ''status'' a) (\<lambda>st.
        if st = Str ''active'' then pure_act (step 4) else paint ''ob-status'' (ob_status_view a))])"

definition cred_request :: "string \<Rightarrow> console act" where
  "cred_request rest = catching
     (with_state (\<lambda>s. with_value (field ''id'' (OB_app s)) (\<lambda>i. pure_act (send (app_url i rest) post_empty)))) ob_fail"

definition cred_api :: "console act" where
  "cred_api = cred_request ''/credentials''"

definition cred_eab :: "console act" where
  "cred_eab = cred_request ''/acme-eab''"

definition cred_api_answered :: "jsval res \<Rightarrow> console act" where
  "cred_api_answered ans = catching (with_value ans (\<lambda>c. with_state (\<lambda>s. paint ''cred-out'' (cred_api_view (origin s) c)))) ob_fail"

definition cred_eab_answered :: "jsval res \<Rightarrow> console act" where
  "cred_eab_answered ans = catching (with_value ans (\<lambda>c. with_state (\<lambda>s. paint ''cred-out'' (cred_eab_view (origin s) c)))) ob_fail"

subsection \<open>One step at a time\<close>

definition app_active :: "console \<Rightarrow> bool" where
  "app_active s \<longleftrightarrow> field ''status'' (OB_app s) = Inr (Str ''active'')"

definition at_step :: "nat \<Rightarrow> console \<Rightarrow> bool" where
  "at_step n s \<longleftrightarrow> n \<in> {1, 2, 3, 4} \<and> (\<forall>i \<in> {1, 2, 3, 4}. hidden s (ob_id i) = (i \<noteq> n))"

definition team_chosen :: "console \<Rightarrow> bool" where
  "team_chosen s \<longleftrightarrow> OB_team s \<noteq> None \<and> OB_team s \<noteq> Some 0"

definition wizard_ok :: "console \<Rightarrow> bool" where
  "wizard_ok s \<longleftrightarrow> (\<exists>n. at_step n s \<and> (n = 2 \<longrightarrow> team_chosen s) \<and> (n = 4 \<longrightarrow> app_active s))"

lemma ob_id_eq [simp]: "ob_id a = ob_id b \<longleftrightarrow> a = b"
  by (simp add: ob_id_def)

lemma at_step_unique: "at_step m s \<Longrightarrow> at_step n s \<Longrightarrow> m = n"
  by (auto simp: at_step_def)

lemma step_simps [simp]:
  "storage (step n s) = storage s" "ro (step n s) = ro s" "noadmin (step n s) = noadmin s" "markup (step n s) = markup s"
  "KEY (step n s) = KEY s" "OB_team (step n s) = OB_team s" "OB_app (step n s) = OB_app s" "texts (step n s) ''ob-err'' = []"
  "sent (step n s) = sent s"
  by (simp_all add: step_def set_text_def)

lemma step_at: "n \<in> {1, 2, 3, 4} \<Longrightarrow> at_step n (step n s)"
  by (auto simp: at_step_def step_def ob_ids_def)

lemma app_active_step [simp]: "app_active (step n s) = app_active s"
  by (simp add: app_active_def)

lemma team_chosen_step [simp]: "team_chosen (step n s) = team_chosen s"
  by (simp add: team_chosen_def)

lemma view_not_ob [simp]: "view_id a \<noteq> ob_id i" "ob_id i \<noteq> view_id a"
  by (simp_all add: view_id_def ob_id_def)

text \<open>The tab buttons are none of the wizard's elements.\<close>

lemma ob_not_tab: "ob_id i \<notin> set tab_keys"
  by (simp add: tab_keys_def TABS_def ob_id_def)

lemma step_tabs: "tab_part (step n s) = (\<lambda>t. hidden s (view_id t), lit (step n s), storage s ''cdl_tab'', ro s, noadmin s)"
  by (auto simp: tab_part_def step_def ob_ids_def fun_eq_iff)

lemma step_tabs_ok [simp]: "tabs_ok (step n s) = tabs_ok s"
proof -
  have "lit (step n s) t = lit s t" if "t \<in> set tab_keys" for t
    using that ob_not_tab by (auto simp: step_def ob_ids_def)
  then have "showing k (step n s) = showing k s" for k
    by (auto simp: showing_def step_def ob_ids_def)
  then show ?thesis by (simp add: tabs_ok_def)
qed

end
