(* ===== verification/Console_Loaders.thy ===== *)
theory Console_Loaders
  imports Console_Wizard
begin

section \<open>The loaders\<close>

text \<open>
  What the console does with each answer of the server: the loaders of the tabs in the order of
  \<open>console.js\<close>.  An answer is a \<open>jsval res\<close>, the result of \<open>api\<close>.  \<open>arrive\<close> runs the code after the
  \<open>await\<close>; who catches its exceptions (\<open>show\<close> with a toast, \<open>part403\<close> with a message in the section,
  nobody after a form was saved) is a parameter of the event.
\<close>

text \<open>The functions of the browser that the loaders call: \<open>JSON.stringify\<close>, \<open>JSON.parse\<close>, and the depth of the stack.\<close>

record browser =
  js_stringify :: "jsval \<Rightarrow> string option"
  js_pretty :: "jsval \<Rightarrow> string"
  js_parse :: "string \<Rightarrow> jsval option"
  js_stack :: nat

subsection \<open>Helpers\<close>

text \<open>\<open>api(...).catch(() => d)\<close>.\<close>

definition or_default :: "jsval \<Rightarrow> jsval res \<Rightarrow> jsval" where
  "or_default d r = (case r of Inl e \<Rightarrow> d | Inr v \<Rightarrow> v)"

definition option_values :: "jsval \<Rightarrow> (jsval \<Rightarrow> jsval res) \<Rightarrow> string list res" where
  "option_values xs value = (case xs of
     Arr vs \<Rightarrow> andThen (mapM value vs) (\<lambda>is. Inr (map to_string is))
   | _ \<Rightarrow> Inr [])"

text \<open>\<open>render($(el), options(rows, label, value, first))\<close>.\<close>

definition paint_options :: "string \<Rightarrow> jsval \<Rightarrow> (jsval \<Rightarrow> jsval res) \<Rightarrow> (jsval \<Rightarrow> jsval res) \<Rightarrow> string option \<Rightarrow> console act" where
  "paint_options el xs label value first = do_all
     [paint el (options_view xs label value first),
      with_value (option_values xs value) (\<lambda>vs. pure_act (set_input el (if first = None then first_value vs else [])))]"

text \<open>\<open>Object.keys(SETTINGS)\<close>, which each row of the table asks for; \<open>wireRules\<close> gives each selector its tooltip.\<close>

definition setting_keys :: "console \<Rightarrow> string list res" where
  "setting_keys s = andThen (entries (SETTINGS s)) (\<lambda>ps. Inr (map fst ps))"

definition row_keys :: "(string \<times> jsval) list \<Rightarrow> console \<Rightarrow> string list res" where
  "row_keys rules s = (if rules = [] then Inr [] else setting_keys s)"

definition rule_title :: "jsval \<Rightarrow> string \<Rightarrow> string res" where
  "rule_title settings k = andThen (orElse (field k settings) (str [])) (\<lambda>v. Inr (to_string v))"

definition wireRules :: "console act" where
  "wireRules = with_state (\<lambda>s. with_value (mapM (rule_title (SETTINGS s)) (map r_key (rows s))) (\<lambda>ts.
     pure_act (\<lambda>s. s\<lparr>titles := ts\<rparr>)))"

definition draw_rules :: "(string \<times> jsval) list \<Rightarrow> console act" where
  "draw_rules rules = with_state (\<lambda>s. with_value (row_keys rules s) (\<lambda>keys. do_all
     [paint ''fe-rules'' (drawRules keys rules),
      with_value (drawn_form keys rules) (\<lambda>form. pure_act (\<lambda>s. s\<lparr>rows := form\<rparr>)),
      wireRules]))"

text \<open>\<open>Object.fromEntries\<close>, and \<open>Object.values\<close>, which lists integer keys in ascending order first.\<close>

definition from_entries :: "(string \<times> jsval) list \<Rightarrow> (string \<times> jsval) list" where
  "from_entries ps = foldl (\<lambda>out p. obj_set (fst p) (snd p) out) [] ps"

definition index_key :: "string \<Rightarrow> bool" where
  "index_key k \<longleftrightarrow> k \<noteq> [] \<and> list_all is_digit k \<and> nat_str (read_nat k) = k"

definition object_values :: "(string \<times> jsval) list \<Rightarrow> jsval list" where
  "object_values ps = map snd (sort_key (\<lambda>p. read_nat (fst p)) (filter (\<lambda>p. index_key (fst p)) ps)
     @ filter (\<lambda>p. \<not> index_key (fst p)) ps)"

definition TARGET_TEMPLATES :: "(string \<times> jsval) list" where
  "TARGET_TEMPLATES =
     [(''ssh'', Obj [(''host'', Str ''web1.pay.bank.internal''), (''username'', Str ''certadillo''),
         (''host_key'', Str ''ssh-ed25519 AAAA... (from ssh-keyscan, not a first connection)''),
         (''allowed_dirs'', Arr [Str ''/etc/nginx/tls'']), (''reload_command'', Str ''sudo systemctl reload nginx'')]),
      (''kubernetes'', Obj [(''api_server'', Str ''https://aks-prod.bank.internal:443''), (''namespaces'', Arr [Str ''payments'']),
         (''ca_cert'', Str ''-----BEGIN CERTIFICATE-----...'')]),
      (''f5'', Obj [(''host'', Str ''https://bigip-dc1.bank.internal''), (''username'', Str ''certadillo''), (''partition'', Str ''Payments'')]),
      (''aws-acm'', Obj [(''region'', Str ''us-east-1'')])]"

definition template_of :: "string \<Rightarrow> jsval" where
  "template_of kind = (case map_of TARGET_TEMPLATES kind of Some v \<Rightarrow> v | None \<Rightarrow> Obj [])"

subsection \<open>Overview, inventory, approvals\<close>

definition loadOverview :: "jsval \<Rightarrow> jsval \<Rightarrow> jsval \<Rightarrow> console act" where
  "loadOverview sm alerts expiring = do_all
     [with_value (field ''health'' sm) (\<lambda>h. pure_act (set_text ''mascot'' (mascot_src h))),
      with_value (bubble_text sm) (\<lambda>t. pure_act (set_text ''bubble'' (to_string t))),
      paint ''kpis'' (kpis_view sm),
      paint ''alerts'' (alerts_view alerts),
      paint ''expiring'' (expiring_view expiring)]"

definition renderInv :: "console act" where
  "renderInv = with_state (\<lambda>s. with_value (elements ''INV.filter'' ''filter'' (INV s)) (\<lambda>cs.
     paint ''inv'' (inventory_view (inputs s ''f-status'') (inputs s ''f-source'') (inputs s ''f-q'') cs)))"

definition loadInventory :: "jsval \<Rightarrow> console act" where
  "loadInventory certs = do_all [pure_act (\<lambda>s. s\<lparr>INV := certs\<rparr>), renderInv]"

definition loadApprovals :: "browser \<Rightarrow> jsval \<Rightarrow> console act" where
  "loadApprovals b rs = paint ''appr'' (approvals_view (js_stringify b) rs)"

subsection \<open>Discovery\<close>

definition scan_answered :: "jsval res \<Rightarrow> console act" where
  "scan_answered ans = catching (with_value ans (\<lambda>r. paint ''d-out'' (scan_view r)))
     (\<lambda>e. paint ''d-out'' (error_view (error_message e)))"

definition loadFindings :: "jsval \<Rightarrow> console act" where
  "loadFindings rs = paint ''findings'' (findings_view rs)"

text \<open>
  A pressed button is disabled until its table is drawn anew.  \<open>pressed\<close> holds such buttons, by their
  kind and identifier.
\<close>

definition run_button :: "string \<Rightarrow> string" where
  "run_button i = ''src:'' @ i"

definition push_button :: "string \<Rightarrow> string" where
  "push_button i = ''push:'' @ i"

definition fresh_buttons :: "string \<Rightarrow> console \<Rightarrow> console" where
  "fresh_buttons kind s = s\<lparr>pressed := filter (\<lambda>x. \<not> starts_with kind x) (pressed s)\<rparr>"

definition loadSources :: "jsval \<Rightarrow> console act" where
  "loadSources rs = do_all [paint ''sources'' (sources_view rs), pure_act (fresh_buttons ''src:'')]"

subsection \<open>Provisioning\<close>

definition targets_of :: "jsval \<Rightarrow> (string \<times> jsval) list res" where
  "targets_of t = andThen (elements ''t.map'' ''map'' t) (\<lambda>xs. andThen (mapM (field ''id'') xs) (\<lambda>is.
     Inr (from_entries (zip (map to_string is) xs))))"

definition targets_answered :: "jsval res \<Rightarrow> console act" where
  "targets_answered ans = do_all
     [part403 ''targets'' (with_value ans (\<lambda>t. with_value (targets_of t) (\<lambda>ts. do_all
        [pure_act (\<lambda>s. s\<lparr>TARGETS := ts\<rparr>), paint ''targets'' (targets_view t)]))),
      pure_act (send ''/api/v1/installations'' no_options)]"

definition installs_answered :: "jsval res \<Rightarrow> console act" where
  "installs_answered ans = part403 ''installs'' (with_value ans (\<lambda>rs. do_all
     [with_state (\<lambda>s. paint ''installs'' (installs_view (map_of (TARGETS s)) rs)),
      pure_act (fresh_buttons ''push:''),
      pure_act (\<lambda>s. if ro s then s
        else send_all [''/api/v1/apps'', ''/api/v1/teams'', ''/api/v1/provisioning/kinds''] s)]))"

definition target_label :: "jsval \<Rightarrow> jsval res" where
  "target_label t = text_of [field ''name'' t, str '' ('', field ''kind'' t, str '')'']"

definition first_kind :: "jsval \<Rightarrow> string" where
  "first_kind kinds = (case kinds of Arr (k # ks) \<Rightarrow> to_string k | _ \<Rightarrow> ''undefined'')"

definition loadProvisioningForms :: "browser \<Rightarrow> jsval res \<Rightarrow> jsval res \<Rightarrow> jsval res \<Rightarrow> console act" where
  "loadProvisioningForms b apps teams kinds = catching
     (with_value kinds (\<lambda>ks. do_all
        [paint_options ''in-app'' (or_default (Arr []) apps) (field ''name'') (field ''id'') None,
         with_state (\<lambda>s. paint_options ''in-target'' (Arr (object_values (TARGETS s))) target_label (field ''id'') None),
         paint_options ''tg-team'' (or_default (Arr []) teams) (field ''name'') (field ''id'') None,
         paint_options ''tg-kind'' ks Inr Inr None,
         pure_act (\<lambda>s. if inputs s ''tg-config'' = [] then set_input ''tg-config'' (js_pretty b (template_of (first_kind ks))) s else s)]))
     (\<lambda>e. pure_act (set_text ''in-err'' (error_message e)))"

definition tg_kind_changed :: "browser \<Rightarrow> console \<Rightarrow> console" where
  "tg_kind_changed b s = set_input ''tg-config'' (js_pretty b (template_of (inputs s ''tg-kind''))) s"

definition showRuns :: "jsval \<Rightarrow> console act" where
  "showRuns i = paint ''run-detail'' (run_detail i)"

text \<open>After a push the runs are shown, and then \<open>loadProvisioning\<close> is called again.\<close>

definition pushed_runs :: "jsval res \<Rightarrow> console act" where
  "pushed_runs ans = with_value ans (\<lambda>i. do_all [showRuns i, pure_act (send ''/api/v1/targets'' no_options)])"

subsection \<open>Policy\<close>

definition settings_answered :: "jsval res \<Rightarrow> console act" where
  "settings_answered ans = do_all
     [pure_act (\<lambda>s. s\<lparr>SETTINGS := or_default (Obj []) ans\<rparr>), pure_act (send ''/api/v1/folders'' no_options)]"

definition folders_answered :: "browser \<Rightarrow> jsval res \<Rightarrow> console act" where
  "folders_answered b ans = do_all
     [part403 ''tree'' (with_value ans (\<lambda>fs. do_all
        [pure_act (\<lambda>s. s\<lparr>FOLDERS := fs\<rparr>),
         paint_options ''fe-parent'' fs (field ''path'') (field ''id'') (Some ''(top level)''),
         paint_options ''mv-folder'' fs (field ''path'') (field ''id'') (Some ''(no folder: profile rules only)''),
         with_state (\<lambda>s. if is_true (EDITING s) then pure_act id else draw_rules []),
         with_value (elements ''fs.filter'' ''filter'' fs) (\<lambda>xs. paint ''tree'' (tree_view (js_stack b) xs))])),
      pure_act (send ''/api/v1/apps'' no_options)]"

definition pol_app_changed :: "console \<Rightarrow> console" where
  "pol_app_changed s = (if inputs s ''pol-app'' = [] then s
     else send (app_url (Str (inputs s ''pol-app'')) ''/policy'') no_options s)"

definition policy_apps_answered :: "jsval res \<Rightarrow> console act" where
  "policy_apps_answered ans = part403 ''pol-out'' (with_value ans (\<lambda>apps.
     with_state (\<lambda>s. let keep = inputs s ''pol-app'' in do_all
        [paint ''pol-app'' (apps_select apps),
         pure_act (set_input ''pol-app'' []),
         with_value (option_values apps (field ''id'')) (\<lambda>vs.
           if keep = [] then pure_act id
           else do_all [pure_act (pick_option ''pol-app'' ([] # vs) keep), pure_act pol_app_changed])])))"

definition policy_answered :: "jsval res \<Rightarrow> console act" where
  "policy_answered ans = catching (with_value ans (\<lambda>r. paint ''pol-out'' (policy_view r)))
     (\<lambda>e. paint ''pol-out'' (error_view (error_message e)))"

subsection \<open>Signing, issuers, SSH keys\<close>

definition signing_apps_answered :: "jsval res \<Rightarrow> console act" where
  "signing_apps_answered ans = catching
     (with_value ans (\<lambda>apps. paint_options ''sg-app'' apps (field ''name'') (field ''id'') None)) (\<lambda>e. pure_act id)"

definition sign_keys_answered :: "jsval res \<Rightarrow> console act" where
  "sign_keys_answered ans = do_all
     [part403 ''sign-keys'' (with_value ans (\<lambda>ks. paint ''sign-keys'' (sign_keys_view ks))),
      pure_act (send ''/api/v1/signing/requests'' no_options)]"

definition sign_reqs_answered :: "jsval res \<Rightarrow> console act" where
  "sign_reqs_answered ans = part403 ''sign-reqs'' (with_value ans (\<lambda>rs. paint ''sign-reqs'' (sign_reqs_view rs)))"

definition loadIssuers :: "browser \<Rightarrow> jsval \<Rightarrow> console act" where
  "loadIssuers b rs = paint ''issuers'' (issuers_view (js_stringify b) rs)"

definition renderSsh :: "console act" where
  "renderSsh = with_state (\<lambda>s. with_value (elements ''SSH.filter'' ''filter'' (SSH s)) (\<lambda>ks.
     paint ''sshkeys'' (ssh_view (inputs s ''sk-q'') ks)))"

definition loadSshKeys :: "jsval \<Rightarrow> console act" where
  "loadSshKeys ks = do_all [pure_act (\<lambda>s. s\<lparr>SSH := ks\<rparr>), renderSsh]"

subsection \<open>Audit and reports\<close>

definition shipping_answered :: "jsval res \<Rightarrow> jsval res \<Rightarrow> console act" where
  "shipping_answered ship key = part403 ''audit-ship'' (with_value ship (\<lambda>v.
     paint ''audit-ship'' (shipping_view v (or_default Null key))))"

definition loadAudit :: "browser \<Rightarrow> jsval \<Rightarrow> jsval \<Rightarrow> console act" where
  "loadAudit b v rs = do_all [paint ''audit-verify'' (verify_view v), paint ''audit'' (audit_view (js_stringify b) rs)]"

definition cas_answered :: "jsval res \<Rightarrow> jsval res \<Rightarrow> console act" where
  "cas_answered cas keys = part403 ''cas'' (with_value cas (\<lambda>cs.
     with_value (elements ''keys.map'' ''map'' (or_default (Arr []) keys)) (\<lambda>ks.
     with_value (mapM (field ''ca'') ks) (\<lambda>names. paint ''cas'' (cas_view ks cs)))))"

definition loadReports :: "jsval \<Rightarrow> console act" where
  "loadReports r = paint ''crypto'' (crypto_view r)"

subsection \<open>Answers\<close>

datatype arrival =
    Overview "jsval res" "jsval res" "jsval res"
  | Onboard "jsval res" "jsval res"
  | Team_Created "jsval res"
  | Team_Listed jsval "jsval res" "jsval res"
  | App_Created "jsval res"
  | App_Status "jsval res"
  | Api_Credential "jsval res"
  | Eab_Credential "jsval res"
  | Inventory "jsval res"
  | Approvals "jsval res"
  | Scan "jsval res"
  | Findings "jsval res"
  | Sources "jsval res"
  | Targets "jsval res"
  | Installs "jsval res"
  | Provisioning_Forms "jsval res" "jsval res" "jsval res"
  | Runs "jsval res"
  | Pushed_Runs "jsval res"
  | Settings "jsval res"
  | Folders "jsval res"
  | Policy_Apps "jsval res"
  | Policy "jsval res"
  | Signing_Apps "jsval res"
  | Sign_Keys "jsval res"
  | Sign_Reqs "jsval res"
  | Issuers "jsval res"
  | Ssh_Keys "jsval res"
  | Shipping "jsval res" "jsval res"
  | Audit "jsval res" "jsval res"
  | Cas "jsval res" "jsval res"
  | Crypto "jsval res"

fun arrive :: "browser \<Rightarrow> arrival \<Rightarrow> console act" where
  "arrive b (Overview s a e) = with_value s (\<lambda>s. with_value a (\<lambda>a. with_value e (loadOverview s a)))"
| "arrive b (Onboard t p) = with_value t (\<lambda>t. with_value p (loadOnboard t))"
| "arrive b (Team_Created r) = team_created r"
| "arrive b (Team_Listed t ts ps) = team_listed t ts ps"
| "arrive b (App_Created r) = app_created r"
| "arrive b (App_Status r) = status_answered r"
| "arrive b (Api_Credential r) = cred_api_answered r"
| "arrive b (Eab_Credential r) = cred_eab_answered r"
| "arrive b (Inventory r) = with_value r loadInventory"
| "arrive b (Approvals r) = with_value r (loadApprovals b)"
| "arrive b (Scan r) = scan_answered r"
| "arrive b (Findings r) = with_value r loadFindings"
| "arrive b (Sources r) = with_value r loadSources"
| "arrive b (Targets r) = targets_answered r"
| "arrive b (Installs r) = installs_answered r"
| "arrive b (Provisioning_Forms a t k) = loadProvisioningForms b a t k"
| "arrive b (Runs r) = with_value r showRuns"
| "arrive b (Pushed_Runs r) = pushed_runs r"
| "arrive b (Settings r) = settings_answered r"
| "arrive b (Folders r) = folders_answered b r"
| "arrive b (Policy_Apps r) = policy_apps_answered r"
| "arrive b (Policy r) = policy_answered r"
| "arrive b (Signing_Apps r) = signing_apps_answered r"
| "arrive b (Sign_Keys r) = sign_keys_answered r"
| "arrive b (Sign_Reqs r) = sign_reqs_answered r"
| "arrive b (Issuers r) = with_value r (loadIssuers b)"
| "arrive b (Ssh_Keys r) = with_value r loadSshKeys"
| "arrive b (Shipping s k) = shipping_answered s k"
| "arrive b (Audit v r) = with_value v (\<lambda>v. with_value r (loadAudit b v))"
| "arrive b (Cas c k) = cas_answered c k"
| "arrive b (Crypto r) = with_value r loadReports"

fun answers :: "arrival \<Rightarrow> jsval res list" where
  "answers (Overview s a e) = [s, a, e]"
| "answers (Onboard t p) = [t, p]"
| "answers (Team_Listed t ts ps) = [Inr t, ts, ps]"
| "answers (Provisioning_Forms a t k) = [a, t, k]"
| "answers (Shipping s k) = [s, k]"
| "answers (Audit v r) = [v, r]"
| "answers (Cas c k) = [c, k]"
| "answers (Team_Created r) = [r]"
| "answers (App_Created r) = [r]"
| "answers (App_Status r) = [r]"
| "answers (Api_Credential r) = [r]"
| "answers (Eab_Credential r) = [r]"
| "answers (Inventory r) = [r]"
| "answers (Approvals r) = [r]"
| "answers (Scan r) = [r]"
| "answers (Findings r) = [r]"
| "answers (Sources r) = [r]"
| "answers (Targets r) = [r]"
| "answers (Installs r) = [r]"
| "answers (Runs r) = [r]"
| "answers (Pushed_Runs r) = [r]"
| "answers (Settings r) = [r]"
| "answers (Folders r) = [r]"
| "answers (Policy_Apps r) = [r]"
| "answers (Policy r) = [r]"
| "answers (Signing_Apps r) = [r]"
| "answers (Sign_Keys r) = [r]"
| "answers (Sign_Reqs r) = [r]"
| "answers (Issuers r) = [r]"
| "answers (Ssh_Keys r) = [r]"
| "answers (Crypto r) = [r]"

text \<open>Who catches an exception of the code that follows an \<open>await\<close>.\<close>

datatype catcher = Nobody | Toast | Section string

fun caught_by :: "catcher \<Rightarrow> console act \<Rightarrow> console act" where
  "caught_by Nobody a = a"
| "caught_by Toast a = toasting a"
| "caught_by (Section el) a = part403 el a"

end
