(* ===== verification/Console_Forms.thy ===== *)
theory Console_Forms
  imports Console_Loaders
begin

section \<open>Forms and actions\<close>

text \<open>
  The forms of the console and the buttons in its tables (\<open>console.js\<close>, lines 174 to 180, 188 to 195,
  201 to 204, 230 to 234, 247 to 251, 271 to 291, 307 to 314, 336 to 385, 418 to 425 and 485 to 490): the
  rules editor around the form of \<open>Policy_Rules\<close>, the request each form sends, and what its answer
  does.  A form that is refused before it is sent shows the reason next to its button.
\<close>

subsection \<open>The rules editor\<close>

definition editFolder :: "jsval \<Rightarrow> console act" where
  "editFolder f = do_all
     [pure_act (\<lambda>s. s\<lparr>EDITING := f\<rparr>),
      with_value (if is_true f then text_of [str ''Edit rules of '', field ''path'' f] else str ''New folder'')
        (\<lambda>t. pure_act (set_text ''fe-title'' (to_string t))),
      with_value (if is_true f then field ''name'' f else str [])
        (\<lambda>n. pure_act (set_input ''fe-name'' (if n = Null then [] else to_string n))),
      pure_act (\<lambda>s. s\<lparr>disabled := (disabled s)(''fe-name'' := is_true f, ''fe-parent'' := is_true f)\<rparr>),
      with_value (if is_true f then andThen (orElse (field ''settings'' f) (Inr (Obj []))) entries else Inr []) draw_rules,
      pure_act (set_text ''fe-err'' []),
      pure_act (\<lambda>s. if is_true f then s\<lparr>unfolded := True\<rparr> else s)]"

definition edit_clicked :: "string \<Rightarrow> console act" where
  "edit_clicked t = with_state (\<lambda>s. with_value (elements ''FOLDERS.find'' ''find'' (FOLDERS s)) (\<lambda>fs.
     with_value (find_folder fs t) editFolder))"

definition fe_add :: "console act" where
  "fe_add = with_state (\<lambda>s. with_value (setting_keys s) (\<lambda>keys. draw_rules (feAdd keys (rows s))))"

definition fe_reset :: "console act" where
  "fe_reset = editFolder Null"

definition row_deleted :: "nat \<Rightarrow> console \<Rightarrow> console" where
  "row_deleted i s = s\<lparr>rows := take i (rows s) @ drop (Suc i) (rows s)\<rparr>"

definition row_typed :: "nat \<Rightarrow> rule_input \<Rightarrow> console \<Rightarrow> console" where
  "row_typed i r s = s\<lparr>rows := (rows s)[i := r]\<rparr>"

subsection \<open>What a form sends\<close>

datatype form = Rules_Form | Move_Form | Signing_Form | Target_Form | Install_Form

definition number_or_null :: "string \<Rightarrow> jsval" where
  "number_or_null t = (if t = [] then Null else json_number (str_number t))"

definition rules_request :: "console \<Rightarrow> (string \<times> api_options) res" where
  "rules_request s = andThen (readRules (rows s)) (\<lambda>settings.
     if is_true (EDITING s)
     then andThen (field ''id'' (EDITING s)) (\<lambda>i.
       Inr (''/api/v1/folders/'' @ encodeURIComponent (to_string i) @ ''/settings'', put (Obj [(''settings'', Obj settings)])))
     else Inr (''/api/v1/folders'', post (Obj [(''name'', Str (js_trim (inputs s ''fe-name''))),
       (''parent_id'', number_or_null (inputs s ''fe-parent'')), (''settings'', Obj settings)])))"

definition move_request :: "console \<Rightarrow> string \<times> api_options" where
  "move_request s = (app_url (Str (inputs s ''pol-app'')) ''/move'',
     post (Obj [(''folder_id'', number_or_null (inputs s ''mv-folder''))]))"

definition signing_request :: "console \<Rightarrow> string \<times> api_options" where
  "signing_request s = (''/api/v1/signing/keys'', post (Obj [(''name'', Str (js_trim (inputs s ''sg-name''))),
     (''app_id'', json_number (str_number (inputs s ''sg-app''))), (''purpose'', Str (inputs s ''sg-purpose'')),
     (''alg'', Str (inputs s ''sg-alg''))]))"

definition target_request :: "browser \<Rightarrow> console \<Rightarrow> (string \<times> api_options) res" where
  "target_request b s = andThen (parseJson (js_parse b) (inputs s ''tg-config'') ''Configuration'') (\<lambda>config.
     Inr (''/api/v1/targets'', post (Obj [(''name'', Str (js_trim (inputs s ''tg-name''))), (''kind'', Str (inputs s ''tg-kind'')),
       (''team_id'', json_number (str_number (inputs s ''tg-team''))), (''config'', config),
       (''credential_ref'', or_null (js_trim (inputs s ''tg-cred'')))])))"

definition install_request :: "browser \<Rightarrow> console \<Rightarrow> (string \<times> api_options) res" where
  "install_request b s = andThen (parseJson (js_parse b) (inputs s ''in-params'') ''Placement'') (\<lambda>params.
     Inr (''/api/v1/installations'', post (Obj [(''app_id'', json_number (str_number (inputs s ''in-app''))),
       (''target_id'', json_number (str_number (inputs s ''in-target''))), (''common_name'', Str (js_trim (inputs s ''in-cn''))),
       (''sans'', Arr (map Str (words_of (inputs s ''in-sans'')))), (''key_type'', Str (inputs s ''in-key'')),
       (''key_location'', Str (inputs s ''in-loc'')), (''params'', params),
       (''validate_endpoint'', or_null (js_trim (inputs s ''in-check''))), (''auto_renew'', Bool (inputs s ''in-auto'' = ''true''))])))"

fun form_request :: "browser \<Rightarrow> form \<Rightarrow> console \<Rightarrow> (string \<times> api_options) res" where
  "form_request b Rules_Form s = rules_request s"
| "form_request b Move_Form s = Inr (move_request s)"
| "form_request b Signing_Form s = Inr (signing_request s)"
| "form_request b Target_Form s = target_request b s"
| "form_request b Install_Form s = install_request b s"

fun form_message :: "form \<Rightarrow> string" where
  "form_message Rules_Form = ''fe-err''"
| "form_message Move_Form = ''mv-err''"
| "form_message Signing_Form = ''sg-err''"
| "form_message Target_Form = ''tg-err''"
| "form_message Install_Form = ''in-err''"

fun form_outcome :: "form \<Rightarrow> jsval \<Rightarrow> string res" where
  "form_outcome Rules_Form r = outcome r ''Applied.''"
| "form_outcome Move_Form r = outcome r ''Moved.''"
| "form_outcome Signing_Form r = outcome r ''Created.''"
| "form_outcome Target_Form r = Inr ''Target added.''"
| "form_outcome Install_Form r = Inr ''Installation added. Push it now from the list.''"

fun form_tab :: "form \<Rightarrow> string" where
  "form_tab Rules_Form = ''policy''"
| "form_tab Move_Form = ''policy''"
| "form_tab Signing_Form = ''signing''"
| "form_tab Target_Form = ''provisioning''"
| "form_tab Install_Form = ''provisioning''"

text \<open>Calling a loader again: its first requests.\<close>

definition reload :: "string \<Rightarrow> console \<Rightarrow> console" where
  "reload tab s = send_all (first_urls s tab) (load_prefix tab s)"

definition say_error :: "string \<Rightarrow> js_error \<Rightarrow> console act" where
  "say_error el e = pure_act (say el (error_message e) False)"

definition form_submitted :: "browser \<Rightarrow> form \<Rightarrow> console act" where
  "form_submitted b f = do_all
     [pure_act (say (form_message f) [] False),
      catching (with_state (\<lambda>s. with_value (form_request b f s) (\<lambda>(url, opts). pure_act (send url opts)))) (say_error (form_message f))]"

definition form_answered :: "form \<Rightarrow> jsval res \<Rightarrow> console act" where
  "form_answered f ans = catching
     (with_value ans (\<lambda>r. with_value (form_outcome f r) (\<lambda>t. do_all
        [pure_act (say (form_message f) t True), pure_act (reload (form_tab f))])))
     (say_error (form_message f))"

text \<open>\<open>d-run\<close>: the targets of a scan.\<close>

definition d_run :: "console \<Rightarrow> console" where
  "d_run s = send ''/api/v1/discovery/scan'' (post (Obj [(''targets'', Arr (map Str (words_of (inputs s ''d-targets''))))]))
     (set_text ''d-out'' (''Scanning'' @ ellipsis) s)"

subsection \<open>Buttons of the tables\<close>

text \<open>A button of a table with what the user answered to its prompts; \<open>None\<close> is a cancelled prompt.\<close>

datatype action =
    Revoke string "string option" "string option"
  | Decide "string option" "string option"
  | Acknowledge string "string option"
  | Run_Source string
  | Push string
  | Own string "string option" "string option"
  | Show_Runs string

definition answered :: "string option \<Rightarrow> bool" where
  "answered t \<longleftrightarrow> t \<noteq> None \<and> t \<noteq> Some []"

definition prompt_or_null :: "string option \<Rightarrow> jsval" where
  "prompt_or_null t = (case t of Some s \<Rightarrow> or_null s | None \<Rightarrow> Null)"

definition item_url :: "string \<Rightarrow> string \<Rightarrow> string \<Rightarrow> string" where
  "item_url collection i rest = ''/api/v1/'' @ collection @ ''/'' @ encodeURIComponent i @ rest"

text \<open>\<open>dataset.ok || dataset.no\<close> and the verb.\<close>

definition decided :: "string option \<Rightarrow> string option \<Rightarrow> string \<times> string" where
  "decided yes no = (if answered yes then (the yes, ''approve'')
     else ((case no of Some i \<Rightarrow> i | None \<Rightarrow> ''undefined''), ''reject''))"

definition revoke_request :: "string \<Rightarrow> string option \<Rightarrow> string option \<Rightarrow> (string \<times> api_options) option" where
  [simp]: "revoke_request i reason change = (if answered reason
     then Some (item_url ''certificates'' i ''/revoke'',
       post (Obj [(''reason'', Str (the reason)), (''change_ref'', prompt_or_null change)]))
     else None)"

definition decide_request :: "string option \<Rightarrow> string option \<Rightarrow> (string \<times> api_options) option" where
  [simp]: "decide_request yes no = (case decided yes no of (i, verb) \<Rightarrow>
     Some (item_url ''approvals'' i (''/'' @ verb), post (Obj [(''comment'', Null)])))"

definition acknowledge_request :: "string \<Rightarrow> string option \<Rightarrow> (string \<times> api_options) option" where
  [simp]: "acknowledge_request i comment = (if answered comment
     then Some (item_url ''discovery/findings'' i ''/acknowledge'', post (Obj [(''comment'', Str (the comment))]))
     else None)"

definition run_request :: "string \<Rightarrow> (string \<times> api_options) option" where
  [simp]: "run_request i = Some (item_url ''discovery/sources'' i ''/run'', post_empty)"

definition push_request :: "string \<Rightarrow> (string \<times> api_options) option" where
  [simp]: "push_request i = Some (item_url ''installations'' i ''/provision'', post_empty)"

definition own_request :: "string \<Rightarrow> string option \<Rightarrow> string option \<Rightarrow> (string \<times> api_options) option" where
  [simp]: "own_request i owner note = (if answered owner
     then Some (item_url ''ssh-keys'' i ''/owner'', put (Obj [(''owner'', Str (the owner)), (''note'', prompt_or_null note)]))
     else None)"

fun action_request :: "action \<Rightarrow> (string \<times> api_options) option" where
  "action_request (Revoke i reason change) = revoke_request i reason change"
| "action_request (Decide yes no) = decide_request yes no"
| "action_request (Acknowledge i comment) = acknowledge_request i comment"
| "action_request (Run_Source i) = run_request i"
| "action_request (Push i) = push_request i"
| "action_request (Own i owner note) = own_request i owner note"
| "action_request (Show_Runs i) = Some (item_url ''installations'' i [], no_options)"

fun action_button :: "action \<Rightarrow> string option" where
  "action_button (Run_Source i) = Some (run_button i)"
| "action_button (Push i) = Some (push_button i)"
| "action_button _ = None"

definition press :: "string option \<Rightarrow> console \<Rightarrow> console" where
  "press x s = (case x of Some b \<Rightarrow> s\<lparr>pressed := b # pressed s\<rparr> | None \<Rightarrow> s)"

definition push_label :: "console \<Rightarrow> string \<Rightarrow> string" where
  "push_label s i = (if push_button i \<in> set (pressed s) then ''Pushing'' @ ellipsis else ''Push now'')"

definition action_taken :: "action \<Rightarrow> console \<Rightarrow> console" where
  "action_taken a s = (case action_request a of None \<Rightarrow> s | Some (url, opts) \<Rightarrow> send url opts (press (action_button a) s))"

text \<open>The download buttons: the answer becomes a file whatever its status is.\<close>

definition download :: "string \<Rightarrow> console \<Rightarrow> console" where
  "download url s = s\<lparr>sent := sent s @ [\<lparr>rq_method = ''GET'', rq_path = url, rq_headers = [(''X-API-Key'', KEY s)], rq_body = None\<rparr>]\<rparr>"

definition downloaded :: "string \<Rightarrow> response \<Rightarrow> console \<Rightarrow> console" where
  "downloaded name r s = s\<lparr>saved_files := saved_files s @ [(name, rs_text r)]\<rparr>"

definition alert :: "js_error \<Rightarrow> console act" where
  "alert e = pure_act (\<lambda>s. s\<lparr>alerted := alerted s @ [error_message e]\<rparr>)"

definition then_reload :: "jsval res \<Rightarrow> (console \<Rightarrow> console) \<Rightarrow> console act" where
  "then_reload ans again = catching (with_value ans (\<lambda>r. pure_act again)) alert"

fun action_answered :: "action \<Rightarrow> jsval res \<Rightarrow> console act" where
  "action_answered (Revoke i reason change) ans = then_reload ans (reload ''inventory'')"
| "action_answered (Decide yes no) ans = then_reload ans (reload ''approvals'')"
| "action_answered (Acknowledge i comment) ans =
     then_reload ans (\<lambda>s. send (findings_url (inputs s ''fd-kind'')) no_options s)"
| "action_answered (Run_Source i) ans = do_all
     [then_reload ans id, pure_act (send ''/api/v1/discovery/sources'' no_options)]"
| "action_answered (Push i) ans = pure_act (send (item_url ''installations'' i []) no_options)"
| "action_answered (Own i owner note) ans = then_reload ans (reload ''sshkeys'')"
| "action_answered (Show_Runs i) ans = with_value ans showRuns"

subsection \<open>Request paths\<close>

text \<open>The segments of a path: what lies between two slashes.\<close>

fun segments :: "string \<Rightarrow> string list" where
  "segments [] = [[]]"
| "segments (c # s) = (if c = CHR ''/'' then [] # segments s else (case segments s of w # ws \<Rightarrow> (c # w) # ws | [] \<Rightarrow> [[c]]))"

lemma segments_nonempty [simp]: "segments s \<noteq> []"
  by (induction s) (auto split: list.split)

lemma segments_plain: "CHR ''/'' \<notin> set w \<Longrightarrow> segments w = [w]"
  by (induction w) auto

lemma segments_append_slash: "segments (s @ CHR ''/'' # t) = segments s @ segments t"
  by (induction s) (auto split: list.split)

lemma encode_no_slash: "CHR ''/'' \<notin> set (encodeURIComponent s)"
  using encode_safe [of "CHR ''/''" s] by auto

lemma item_segments:
  assumes "CHR ''/'' \<notin> set rest" "rest' = (if slash then CHR ''/'' # rest else [])"
  shows "segments (item_url collection i rest')
    = segments (''/api/v1/'' @ collection) @ encodeURIComponent i # (if slash then [rest] else [])"
proof -
  have "item_url collection i rest' = (''/api/v1/'' @ collection) @ CHR ''/'' # encodeURIComponent i @ rest'"
    by (simp add: item_url_def)
  then have "segments (item_url collection i rest') = segments (''/api/v1/'' @ collection) @ segments (encodeURIComponent i @ rest')"
    by (simp only: segments_append_slash)
  then show ?thesis
    using assms by (simp add: segments_append_slash segments_plain encode_no_slash)
qed

lemma app_url_item: "app_url i rest = item_url ''apps'' (to_string i) rest"
  by (simp add: app_url_def item_url_def)

subsection \<open>Saving what was opened\<close>

lemma catching_quiet: "body s = (None, t) \<Longrightarrow> catching body handler s = (None, t)"
  by (simp add: catching_def)

lemma with_value_simps [simp]: "with_value (Inr v) f = f v" "with_value (Inl e) f s = (Some e, s)"
  by (simp_all add: with_value_def fun_eq_iff)

lemma readRules_drawn:
  assumes "list_all (stored_rule keys) rules" "distinct (map fst rules)"
  shows "\<exists>form. drawn_form keys rules = Inr form \<and> readRules form = Inr rules"
  using read_rules_drawn [of keys rules "[]"] assms by (simp add: readRules_def)

lemma drawRules_stored:
  assumes "list_all (stored_rule keys) rules"
  obtains m where "drawRules keys rules = Inr (Safe m)"
proof -
  have "rule_of_entry keys p = Inr (ruleRow keys (fst p) (get_value p) (Bool (get_lock p)))"
    if "p \<in> set rules" "snd p = rule_value (get_value p) (get_lock p)" for p get_value get_lock
    using that by (simp add: rule_of_entry_def rule_value_def)
  then have "\<forall>p \<in> set rules. \<exists>y. rule_of_entry keys p = Inr y"
    using assms by (fastforce simp: list_all_iff stored_rule_def rule_of_entry_def rule_value_def)
  then obtain f where "\<And>p. p \<in> set rules \<Longrightarrow> rule_of_entry keys p = Inr (f p)" by metis
  then have "mapM (rule_of_entry keys) rules = Inr (map f rules)" by (rule mapM_all)
  then show thesis using that by (simp add: drawRules_def html_def)
qed

lemma digit_unreserved: "is_digit c \<Longrightarrow> unreserved c"
  by (simp add: is_digit_def unreserved_def)

lemma concat_singles: "\<forall>c \<in> set t. f c = [c] \<Longrightarrow> concat (map f t) = t"
  by (induction t) simp_all

lemma encode_nat: "encodeURIComponent (nat_str k) = nat_str k"
  unfolding encodeURIComponent_def
  using nat_str_is_digit digit_unreserved by (intro concat_singles) (simp add: encode_char_def)

text \<open>The settings the server offers: an object of descriptions by key.\<close>

lemma rule_titles:
  assumes "SETTINGS s = Obj ps"
  shows "\<exists>ts. mapM (rule_title (SETTINGS s)) ks = Inr ts"
  by (induction ks)
    (auto simp: assms mapM_def rule_title_def orElse_def str_def split: option.split)

lemma draw_rules_stored:
  assumes "SETTINGS s = Obj ps" "list_all (stored_rule (map fst ps)) rules" "distinct (map fst rules)"
  shows "\<exists>m form ts. draw_rules rules s = (None, s\<lparr>markup := m, rows := form, titles := ts\<rparr>) \<and> readRules form = Inr rules"
proof -
  obtain keys where keys: "row_keys rules s = Inr keys" "list_all (stored_rule keys) rules"
    using assms(1,2) by (cases "rules = []") (auto simp: row_keys_def setting_keys_def)
  obtain h where h: "drawRules keys rules = Inr (Safe h)" using drawRules_stored [OF keys(2)] .
  obtain form where form: "drawn_form keys rules = Inr form" "readRules form = Inr rules"
    using readRules_drawn [OF keys(2) assms(3)] by blast
  obtain ts where ts: "mapM (rule_title (Obj ps)) (map r_key form) = Inr ts"
    using rule_titles [OF assms(1)] assms(1) by auto
  show ?thesis
    by (intro exI [of _ "(markup s)(''fe-rules'' := h)"] exI [of _ form] exI [of _ ts])
      (simp add: draw_rules_def with_state_def keys h form paint_def render_def do_all.simps(2) wireRules_def assms(1) ts)
qed

lemma editFolder_stored:
  assumes "map_of ps ''settings'' = Some (Obj rules)" "SETTINGS s = Obj qs" "list_all (stored_rule (map fst qs)) rules" "distinct (map fst rules)"
  shows "\<exists>t. editFolder (Obj ps) s = (None, t) \<and> EDITING t = Obj ps \<and> readRules (rows t) = Inr rules \<and> KEY t = KEY s \<and> sent t = sent s"
proof -
  define s1 where "s1 = s\<lparr>EDITING := Obj ps\<rparr>"
  obtain x where x: "text_of [str ''Edit rules of '', field ''path'' (Obj ps)] = Inr x" "x = Str (to_string x)"
    by (simp add: text_of_def str_def)
  define s2 where "s2 = set_text ''fe-title'' (to_string x) s1"
  obtain y where y: "field ''name'' (Obj ps) = Inr y" by simp
  define s3 where "s3 = set_input ''fe-name'' (if y = Null then [] else to_string y) s2"
  define s4 where "s4 = s3\<lparr>disabled := (disabled s3)(''fe-name'' := True, ''fe-parent'' := True)\<rparr>"
  have "SETTINGS s4 = Obj qs"
    using assms(2) by (simp add: s4_def s3_def s2_def s1_def set_input_def set_text_def)
  from draw_rules_stored [OF this assms(3,4)] obtain m form ts where
    d: "draw_rules rules s4 = (None, s4\<lparr>markup := m, rows := form, titles := ts\<rparr>)" "readRules form = Inr rules"
    by blast
  have settings: "field ''settings'' (Obj ps) = Inr (Obj rules)"
    using assms(1) by simp
  have "editFolder (Obj ps) s = (None, (set_text ''fe-err'' [] (s4\<lparr>markup := m, rows := form, titles := ts\<rparr>))\<lparr>unfolded := True\<rparr>)"
    unfolding editFolder_def
    using x(1) y d(1) settings
    by (simp add: do_all.simps(2) s1_def [symmetric] s2_def [symmetric] s3_def [symmetric] s4_def [symmetric] orElse_def del: field.simps) 
  moreover have "EDITING s4 = Obj ps" "KEY s4 = KEY s" "sent s4 = sent s"
    by (simp_all add: s4_def s3_def s2_def s1_def set_input_def set_text_def)
  ultimately show ?thesis using d(2) by (simp add: set_text_def)
qed

lemma rules_submitted:
  assumes "readRules (rows s) = Inr rules" "EDITING s = Obj ps" "map_of ps ''id'' = Some (Num (of_nat k))"
  shows "sent (snd (form_submitted b Rules_Form s)) = sent s @
    [api_request (KEY s) (''/api/v1/folders/'' @ nat_str k @ ''/settings'') (put (Obj [(''settings'', Obj rules)]))]"
proof -
  have "form_request b Rules_Form t = Inr (''/api/v1/folders/'' @ nat_str k @ ''/settings'', put (Obj [(''settings'', Obj rules)]))"
    if "rows t = rows s" "EDITING t = EDITING s" for t
    using assms that by (simp add: rules_request_def num_str_nat encode_nat)
  then show ?thesis
    by (simp add: form_submitted_def do_all.simps(2) catching_def with_state_def say_def set_text_def send_def)
qed

end
