(* ===== verification/Console_Machine.thy ===== *)
theory Console_Machine
  imports Console_Forms
begin

section \<open>The console as a machine\<close>

text \<open>
  Every listener of the page and every answer of the server as one event, and what all of them keep:
  the markup in the document is clean (\<open>document_ok\<close>), one tab is shown (\<open>tabs_ok\<close>) and the wizard is at
  one step (\<open>wizard_ok\<close>).  Answers come in any order and at any time.
\<close>

datatype event =
    Typed string string
  | Tab_Clicked string
  | Connect_Clicked
  | Me_Arrived "jsval res"
  | Arrived catcher arrival
  | Inventory_Filtered
  | Findings_Filtered
  | Ssh_Owner_Filtered
  | Ssh_Filtered
  | Hint_Changed
  | Team_Submitted
  | Next1
  | Back2
  | Next2
  | Status_Clicked
  | Cred_Api
  | Cred_Eab
  | Scan_Clicked
  | Kind_Changed
  | App_Chosen
  | Edit_Clicked string
  | Rule_Added
  | Editor_Reset
  | Row_Deleted nat
  | Row_Typed nat rule_input
  | Submitted form
  | Form_Answered form "jsval res"
  | Action_Taken action
  | Action_Answered action "jsval res"
  | Download_Clicked string
  | Downloaded string response

definition me_arrived :: "jsval res \<Rightarrow> console act" where
  "me_arrived ans = (case ans of Inl e \<Rightarrow> pure_act me_failed | Inr me \<Rightarrow> me_answered me)"

fun handle :: "browser \<Rightarrow> event \<Rightarrow> console act" where
  "handle b (Typed el v) = pure_act (set_input el v)"
| "handle b (Tab_Clicked k) = pure_act (show_tab k)"
| "handle b Connect_Clicked = pure_act connect"
| "handle b (Me_Arrived ans) = me_arrived ans"
| "handle b (Arrived c a) = caught_by c (arrive b a)"
| "handle b Inventory_Filtered = renderInv"
| "handle b Findings_Filtered = pure_act (\<lambda>s. send (findings_url (inputs s ''fd-kind'')) no_options s)"
| "handle b Ssh_Owner_Filtered = pure_act (reload ''sshkeys'')"
| "handle b Ssh_Filtered = renderSsh"
| "handle b Hint_Changed = hint"
| "handle b Team_Submitted = pure_act t_create"
| "handle b Next1 = pure_act ob_next1"
| "handle b Back2 = pure_act ob_back2"
| "handle b Next2 = pure_act ob_next2"
| "handle b Status_Clicked = obStatus"
| "handle b Cred_Api = cred_api"
| "handle b Cred_Eab = cred_eab"
| "handle b Scan_Clicked = pure_act d_run"
| "handle b Kind_Changed = pure_act (tg_kind_changed b)"
| "handle b App_Chosen = pure_act pol_app_changed"
| "handle b (Edit_Clicked t) = edit_clicked t"
| "handle b Rule_Added = fe_add"
| "handle b Editor_Reset = fe_reset"
| "handle b (Row_Deleted i) = pure_act (row_deleted i)"
| "handle b (Row_Typed i r) = pure_act (row_typed i r)"
| "handle b (Submitted f) = form_submitted b f"
| "handle b (Form_Answered f ans) = form_answered f ans"
| "handle b (Action_Taken a) = pure_act (action_taken a)"
| "handle b (Action_Answered a ans) = action_answered a ans"
| "handle b (Download_Clicked url) = pure_act (download url)"
| "handle b (Downloaded name r) = pure_act (downloaded name r)"

subsection \<open>Rules for what an action saves\<close>

named_theorems saves_intros

lemma saves_pure [saves_intros]: "(\<And>s. P s \<Longrightarrow> P (f s)) \<Longrightarrow> saves P (pure_act f)"
  by (rule saves_pureI)

lemma saves_Nil [saves_intros]: "saves P (do_all [])"
  by (simp add: saves_def)

lemma saves_Cons [saves_intros]: "saves P a \<Longrightarrow> saves P (do_all as) \<Longrightarrow> saves P (do_all (a # as))"
proof (rule savesI)
  fix s assume a: "saves P a" and as: "saves P (do_all as)" and "P s"
  then have "P (snd (a s))" using savesD [OF a] by blast
  then show "P (snd (do_all (a # as) s))"
    using savesD [OF as] by (cases "a s"; cases "fst (a s)") (auto simp: do_all.simps(2))
qed

lemma saves_with_any: "(\<And>v. saves P (f v)) \<Longrightarrow> saves P (with_value r f)"
  by (cases r) (simp_all add: saves_def)

lemma saves_with_plain: "yields Q r \<Longrightarrow> (\<And>v. Q v \<Longrightarrow> saves P (f v)) \<Longrightarrow> saves P (with_value r f)"
  by (cases r) (simp_all add: saves_def)

lemma catching_at: "P (snd (a s)) \<Longrightarrow> (\<And>e. saves P (h e)) \<Longrightarrow> P (snd (catching a h s))"
  by (auto simp: catching_def saves_def split: prod.split option.split)

lemma saves_catching [saves_intros]: "saves P a \<Longrightarrow> (\<And>e. saves P (h e)) \<Longrightarrow> saves P (catching a h)"
  using catching_at [of P a] by (simp add: saves_def)

lemma saves_state [saves_intros]: "(\<And>t. P t \<Longrightarrow> saves P (A t)) \<Longrightarrow> saves P (with_state A)"
  by (simp add: saves_def with_state_def)

lemma saves_if [saves_intros]: "saves P a \<Longrightarrow> saves P b \<Longrightarrow> saves P (if c then a else b)"
  by simp

lemma saves_let: "saves P (f x) \<Longrightarrow> saves P (let y = x in f y)"
  by simp

subsection \<open>The contract of an invariant of the page\<close>

text \<open>
  What an invariant of the page has to survive: the changes the handlers make directly.  Inside the
  locale every handler of the page is shown to survive with it.
\<close>

definition object_answer :: "jsval res \<Rightarrow> bool" where
  "object_answer ans \<longleftrightarrow> (case ans of Inr (Obj ps) \<Rightarrow> True | Inr v \<Rightarrow> False | Inl e \<Rightarrow> True)"

definition active_answer :: "jsval res \<Rightarrow> bool" where
  "active_answer ans \<longleftrightarrow> (case ans of Inr v \<Rightarrow> field ''status'' v = Inr (Str ''active'') | Inl e \<Rightarrow> True)"

text \<open>
  When an event can happen: a tab button names a tab, a disabled button is not pressed, an answer is plain data (no \<open>SafeHtml\<close> comes out
  of \<open>JSON.parse\<close>), an application is an object.  The wizard adds what its visible buttons and the
  server guarantee: the first Next is not clicked in step 2, and an application that was active when
  the credentials step opened is still active in a later answer.
\<close>

fun allowed :: "event \<Rightarrow> console \<Rightarrow> bool" where
  "allowed (Tab_Clicked k) s = (k \<in> set tab_keys)"
| "allowed (Arrived c a) s = ((\<forall>r \<in> set (answers a). yields plain r) \<and>
     (case a of
        App_Created r \<Rightarrow> object_answer r
      | App_Status r \<Rightarrow> object_answer r \<and> (at_step 4 s \<longrightarrow> active_answer r)
      | _ \<Rightarrow> True))"
| "allowed (Action_Taken a) s = (case action_button a of Some b \<Rightarrow> b \<notin> set (pressed s) | None \<Rightarrow> True)"
| "allowed (Action_Answered a r) s = yields plain r"
| "allowed Next1 s = (\<not> at_step 2 s)"
| "allowed _ s = True"

text \<open>The variables that are drawn again later hold plain data.\<close>

definition data_ok :: "console \<Rightarrow> bool" where
  "data_ok s \<longleftrightarrow> plain (INV s) \<and> plain (SSH s) \<and> plain (FOLDERS s) \<and> (\<forall>q \<in> set (TARGETS s). plain (snd q))"

definition core :: "console \<Rightarrow> ((string \<Rightarrow> string option) \<times> (string \<Rightarrow> bool) \<times> (string \<Rightarrow> bool) \<times> bool \<times> bool \<times> document)
    \<times> rat option \<times> jsval \<times> jsval \<times> jsval \<times> jsval \<times> (string \<times> jsval) list" where
  "core s = ((storage s, hidden s, lit s, ro s, noadmin s, markup s), OB_team s, OB_app s, INV s, SSH s, FOLDERS s, TARGETS s)"

locale page_contract =
  fixes P :: "console \<Rightarrow> bool"
  assumes same_core: "core t = core s \<Longrightarrow> P s \<Longrightarrow> P t"
    and data: "P s \<Longrightarrow> data_ok s"
    and INV_set: "P s \<Longrightarrow> plain v \<Longrightarrow> P (s\<lparr>INV := v\<rparr>)"
    and SSH_set: "P s \<Longrightarrow> plain v \<Longrightarrow> P (s\<lparr>SSH := v\<rparr>)"
    and FOLDERS_set: "P s \<Longrightarrow> plain v \<Longrightarrow> P (s\<lparr>FOLDERS := v\<rparr>)"
    and TARGETS_set: "P s \<Longrightarrow> \<forall>q \<in> set ts. plain (snd q) \<Longrightarrow> P (s\<lparr>TARGETS := ts\<rparr>)"
    and paint_saves: "yields clean r \<Longrightarrow> saves P (paint el r)"
    and show_saves: "P s \<Longrightarrow> k \<in> set tab_keys \<Longrightarrow> P (show_tab k s)"
    and connect_saves: "P s \<Longrightarrow> P (connect s)"
    and me_saves: "saves P (me_answered me)"
    and step1_saves: "P s \<Longrightarrow> P (step 1 s)"
    and next1_saves: "P s \<Longrightarrow> \<not> at_step 2 s \<Longrightarrow> P (ob_next1 s)"
    and created_saves: "P s \<Longrightarrow> object_answer ans \<Longrightarrow> P (snd (app_created ans s))"
    and status_saves: "P s \<Longrightarrow> object_answer ans \<Longrightarrow> yields plain ans \<Longrightarrow> at_step 4 s \<longrightarrow> active_answer ans \<Longrightarrow> P (snd (status_answered ans s))"
begin

end

lemma core_simps [simp]:
  "core (set_text el t s) = core s" "core (set_input el t s) = core s" "core (send u opts s) = core s"
  "core (say el t g s) = core s" "core (s\<lparr>rows := rs\<rparr>) = core s" "core (s\<lparr>EDITING := v\<rparr>) = core s"
  "core (s\<lparr>SETTINGS := v\<rparr>) = core s" "core (s\<lparr>OB_profiles := v\<rparr>) = core s" "core (s\<lparr>disabled := di\<rparr>) = core s"
  "core (s\<lparr>alerted := al\<rparr>) = core s" "core (s\<lparr>titles := ts\<rparr>) = core s" "core (s\<lparr>unfolded := uf\<rparr>) = core s"
  "core (fresh_buttons k s) = core s" "core (press x s) = core s" "core (download url s) = core s" "core (downloaded n r s) = core s"
  by (simp_all add: core_def set_text_def set_input_def send_def say_def fresh_buttons_def press_def download_def downloaded_def split: option.split)

lemma core_send_all [simp]: "core (send_all us s) = core s"
  by (induction us arbitrary: s) (simp_all add: send_all_def)

lemma core_prefix [simp]: "core (load_prefix k s) = core s"
  by (simp add: load_prefix_def)

lemma core_reload [simp]: "core (reload k s) = core s"
  by (simp add: reload_def)

lemma core_toast [simp]: "core (toast m s) = core s"
  by (simp add: toast_def)

context page_contract
begin

lemma quiet: "(\<And>s. core (f s) = core s) \<Longrightarrow> saves P (pure_act f)"
  using same_core by (intro saves_pureI) blast

lemma toasting_saves: "saves P a \<Longrightarrow> saves P (toasting a)"
  unfolding toasting_def by (intro saves_catching quiet) simp_all

lemma part403_saves: "saves P a \<Longrightarrow> saves P (part403 el a)"
  unfolding part403_def by (intro saves_catching paint_saves) (simp_all add: denied_view_clean)

lemma options_saves:
  assumes "plain xs" "\<And>x. plain x \<Longrightarrow> yields plain (label x)" "\<And>x. plain x \<Longrightarrow> yields plain (value x)"
  shows "saves P (paint_options el xs label value first)"
  unfolding paint_options_def
  by (intro saves_intros saves_with_any paint_saves options_view_clean assms quiet) simp_all

lemma draw_rules_saves:
  assumes "\<forall>p \<in> set rules. plain (snd p)"
  shows "saves P (draw_rules rules)"
  unfolding draw_rules_def wireRules_def
  by (intro saves_state saves_intros saves_with_any paint_saves drawRules_clean assms quiet) simp_all

lemma hint_saves: "saves P hint"
  unfolding hint_def by (intro saves_intros saves_with_any quiet) simp

lemma loadOnboard_saves: "plain teams \<Longrightarrow> plain profiles \<Longrightarrow> saves P (loadOnboard teams profiles)"
  unfolding loadOnboard_def
  by (intro saves_intros saves_with_any paint_saves ob_team_view_clean profiles_view_clean hint_saves quiet step1_saves) simp_all

lemma ob_fail_saves: "saves P (ob_fail e)"
  unfolding ob_fail_def by (intro quiet) simp

lemma team_created_saves: "saves P (team_created ans)"
  unfolding team_created_def by (intro saves_intros saves_with_any ob_fail_saves quiet) simp_all

lemma team_listed_saves:
  assumes "yields plain teams" "yields plain profiles"
  shows "saves P (team_listed t teams profiles)"
  unfolding team_listed_def
  by (rule saves_catching, rule saves_with_plain [OF assms(1)], rule saves_with_plain [OF assms(2)])
    (intro saves_intros saves_with_any loadOnboard_saves ob_fail_saves quiet; simp add: pick_option_def)+

lemma obStatus_saves: "saves P obStatus"
  unfolding obStatus_def by (intro saves_intros saves_with_any quiet) simp

lemma cred_request_saves: "saves P (cred_request rest)"
  unfolding cred_request_def by (intro saves_intros saves_with_any ob_fail_saves quiet) simp

lemma credential_saves:
  assumes "yields plain ans"
  shows "saves P (cred_api_answered ans)" "saves P (cred_eab_answered ans)"
  unfolding cred_api_answered_def cred_eab_answered_def
  by (intro saves_catching saves_with_plain [OF assms] saves_state paint_saves cred_api_view_clean cred_eab_view_clean ob_fail_saves; assumption)+

lemma loadOverview_saves: "plain sm \<Longrightarrow> plain al \<Longrightarrow> plain ex \<Longrightarrow> saves P (loadOverview sm al ex)"
  unfolding loadOverview_def
  by (intro saves_intros saves_with_any paint_saves kpis_view_clean alerts_view_clean expiring_view_clean quiet) simp_all

lemma elements_plain: "plain v \<Longrightarrow> yields (\<lambda>xs. \<forall>x \<in> set xs. plain x) (elements w m v)"
  by (rule plain_elements)

lemma renderInv_saves: "saves P renderInv"
  unfolding renderInv_def
  by (intro saves_state saves_with_plain [OF elements_plain] paint_saves inventory_view_clean) (auto dest: data simp: data_ok_def)

lemma loadInventory_saves: "plain certs \<Longrightarrow> saves P (loadInventory certs)"
  unfolding loadInventory_def by (intro saves_intros renderInv_saves INV_set)

lemma renderSsh_saves: "saves P renderSsh"
  unfolding renderSsh_def
  by (intro saves_state saves_with_plain [OF elements_plain] paint_saves ssh_view_clean) (auto dest: data simp: data_ok_def)

lemma loadSshKeys_saves: "plain ks \<Longrightarrow> saves P (loadSshKeys ks)"
  unfolding loadSshKeys_def by (intro saves_intros renderSsh_saves SSH_set)

lemma loadApprovals_saves: "plain rs \<Longrightarrow> saves P (loadApprovals b rs)"
  unfolding loadApprovals_def by (intro paint_saves approvals_view_clean)

lemma loadFindings_saves: "plain rs \<Longrightarrow> saves P (loadFindings rs)"
  unfolding loadFindings_def by (intro paint_saves findings_view_clean)

lemma loadSources_saves: "plain rs \<Longrightarrow> saves P (loadSources rs)"
  unfolding loadSources_def by (intro saves_intros paint_saves sources_view_clean) (auto intro: same_core [rotated])

lemma showRuns_saves: "plain i \<Longrightarrow> saves P (showRuns i)"
  unfolding showRuns_def by (intro paint_saves run_detail_clean)

lemma pushed_runs_saves: "yields plain ans \<Longrightarrow> saves P (pushed_runs ans)"
  unfolding pushed_runs_def by (intro saves_with_plain [of plain ans] saves_intros showRuns_saves) (auto intro: same_core [rotated])

lemma loadIssuers_saves: "plain rs \<Longrightarrow> saves P (loadIssuers b rs)"
  unfolding loadIssuers_def by (intro paint_saves issuers_view_clean)

lemma loadAudit_saves: "plain v \<Longrightarrow> plain rs \<Longrightarrow> saves P (loadAudit b v rs)"
  unfolding loadAudit_def by (intro saves_intros paint_saves verify_view_clean audit_view_clean)

lemma loadReports_saves: "plain r \<Longrightarrow> saves P (loadReports r)"
  unfolding loadReports_def by (intro paint_saves crypto_view_clean)

lemma scan_answered_saves: "yields plain ans \<Longrightarrow> saves P (scan_answered ans)"
  unfolding scan_answered_def
  by (intro saves_catching paint_saves error_view_clean) (rule saves_with_plain, assumption, intro paint_saves scan_view_clean)

lemma targets_of_plain: "plain t \<Longrightarrow> yields (\<lambda>ts. \<forall>q \<in> set ts. plain (snd q)) (targets_of t)"
proof -
  assume t: "plain t"
  have set: "\<forall>q \<in> set (foldl (\<lambda>out p. obj_set (fst p) (snd p) out) out ps). plain (snd q)"
    if "\<forall>q \<in> set ps. plain (snd q)" "\<forall>q \<in> set out. plain (snd q)" for ps out :: "(string \<times> jsval) list"
    using that
  proof (induction ps arbitrary: out)
    case (Cons p ps)
    have "\<forall>q \<in> set (obj_set (fst p) (snd p) out). plain (snd q)"
      using Cons.prems obj_set_mem by fastforce
    then show ?case using Cons by simp
  qed simp
  show ?thesis
    unfolding targets_of_def from_entries_def
  proof (rule yields_bind [OF plain_elements [OF t]])
    fix xs assume xs: "\<forall>x \<in> set xs. plain x"
    have "\<forall>q \<in> set (zip ks xs). plain (snd q)" for ks :: "string list"
      using xs by (auto dest: set_zip_rightD)
    then show "yields (\<lambda>ts. \<forall>q \<in> set ts. plain (snd q)) (andThen (mapM (field ''id'') xs)
        (\<lambda>is. Inr (foldl (\<lambda>out p. obj_set (fst p) (snd p) out) [] (zip (map to_string is) xs))))"
      by (intro yields_andThen) (unfold yields_Inr, rule set, simp_all)
  qed
qed

lemma targets_answered_saves: "yields plain ans \<Longrightarrow> saves P (targets_answered ans)"
  unfolding targets_answered_def
  by (intro saves_intros part403_saves quiet saves_with_plain [of plain ans] saves_with_plain [OF targets_of_plain]
      TARGETS_set paint_saves targets_view_clean) simp_all

lemma targets_data: "P s \<Longrightarrow> \<forall>q \<in> set (TARGETS s). plain (snd q)"
  using data [of s] by (simp add: data_ok_def)

lemma targets_map_plain: "P s \<Longrightarrow> \<forall>k x. map_of (TARGETS s) k = Some x \<longrightarrow> plain x"
  using targets_data by (fastforce dest: map_of_SomeD)

lemma installs_answered_saves: "yields plain ans \<Longrightarrow> saves P (installs_answered ans)"
  unfolding installs_answered_def
  by (intro part403_saves saves_with_plain [of plain ans] saves_intros paint_saves installs_view_clean targets_map_plain)
    (auto intro: same_core [rotated])

lemma target_label_plain: "yields plain (target_label x)"
  by (simp add: target_label_def text_of_plain)

lemma or_default_plain: "yields plain r \<Longrightarrow> plain d \<Longrightarrow> plain (or_default d r)"
  by (cases r) (simp_all add: or_default_def)

lemma object_values_plain: "\<forall>q \<in> set ts. plain (snd q) \<Longrightarrow> plain (Arr (object_values ts))"
  by (auto simp: object_values_def)

lemma loadProvisioningForms_saves:
  assumes "yields plain apps" "yields plain teams" "yields plain kinds"
  shows "saves P (loadProvisioningForms b apps teams kinds)"
  unfolding loadProvisioningForms_def
proof (rule saves_catching, rule saves_with_plain [OF assms(3)])
  show "saves P (pure_act (set_text ''in-err'' (error_message e)))" for e
    by (intro quiet) simp
  show "saves P (do_all
        [paint_options ''in-app'' (or_default (Arr []) apps) (field ''name'') (field ''id'') None,
         with_state (\<lambda>s. paint_options ''in-target'' (Arr (object_values (TARGETS s))) target_label (field ''id'') None),
         paint_options ''tg-team'' (or_default (Arr []) teams) (field ''name'') (field ''id'') None,
         paint_options ''tg-kind'' ks Inr Inr None,
         pure_act (\<lambda>s. if inputs s ''tg-config'' = [] then set_input ''tg-config'' (js_pretty b (template_of (first_kind ks))) s else s)])"
    if "plain ks" for ks
    by (intro saves_intros options_saves or_default_plain assms target_label_plain plain_field object_values_plain targets_data that)
      (auto intro: same_core [rotated])
qed

lemma settings_answered_saves: "saves P (settings_answered ans)"
  unfolding settings_answered_def by (intro saves_intros quiet) simp_all

lemma folders_answered_saves: "yields plain ans \<Longrightarrow> saves P (folders_answered b ans)"
  unfolding folders_answered_def
  by (intro saves_intros part403_saves saves_with_plain [of plain ans] FOLDERS_set options_saves plain_field
      draw_rules_saves saves_with_plain [OF elements_plain] paint_saves tree_view_clean quiet) simp_all

lemma pol_app_changed_core: "core (pol_app_changed s) = core s"
  by (simp add: pol_app_changed_def)

lemma policy_apps_answered_saves: "yields plain ans \<Longrightarrow> saves P (policy_apps_answered ans)"
  unfolding policy_apps_answered_def Let_def
  by (intro part403_saves saves_with_plain [of plain ans] saves_intros saves_with_any paint_saves apps_select_clean quiet)
    (simp_all add: pick_option_def pol_app_changed_core)

lemma policy_answered_saves: "yields plain ans \<Longrightarrow> saves P (policy_answered ans)"
  unfolding policy_answered_def
  by (intro saves_catching paint_saves error_view_clean) (rule saves_with_plain, assumption, intro paint_saves policy_view_clean)

lemma signing_saves:
  assumes "yields plain ans"
  shows "saves P (signing_apps_answered ans)" "saves P (sign_keys_answered ans)" "saves P (sign_reqs_answered ans)"
  unfolding signing_apps_answered_def sign_keys_answered_def sign_reqs_answered_def
  by (intro saves_intros part403_saves saves_with_plain [OF assms] options_saves plain_field paint_saves
      sign_keys_view_clean sign_reqs_view_clean quiet; simp)+

lemma shipping_answered_saves: "yields plain ship \<Longrightarrow> yields plain key \<Longrightarrow> saves P (shipping_answered ship key)"
  unfolding shipping_answered_def
  by (intro part403_saves saves_with_plain [of plain ship] paint_saves shipping_view_clean or_default_plain) simp_all

lemma cas_answered_saves: "yields plain cas \<Longrightarrow> yields plain keys \<Longrightarrow> saves P (cas_answered cas keys)"
  unfolding cas_answered_def
  by (intro part403_saves saves_with_plain [of plain cas] saves_with_plain [OF elements_plain] saves_with_any paint_saves cas_view_clean or_default_plain)
    simp_all

subsection \<open>Every event\<close>

lemma caught_saves: "saves P a \<Longrightarrow> saves P (caught_by c a)"
  by (cases c) (simp_all add: toasting_saves part403_saves)

lemma caught_at: "P (snd (a s)) \<Longrightarrow> P (snd (caught_by c a s))"
proof (cases c)
  case Toast
  assume "P (snd (a s))"
  then show ?thesis
    unfolding Toast caught_by.simps toasting_def by (rule catching_at) (intro quiet, simp)
next
  case (Section el)
  assume "P (snd (a s))"
  then show ?thesis
    unfolding Section caught_by.simps part403_def by (rule catching_at) (intro paint_saves denied_view_clean)
qed simp

lemma arrive_saves:
  assumes "\<forall>r \<in> set (answers a). yields plain r" "\<forall>r. a \<noteq> App_Created r \<and> a \<noteq> App_Status r"
  shows "saves P (arrive b a)"
  using assms
  by (cases a)
    (simp_all add: saves_with_plain [of plain] loadOverview_saves loadOnboard_saves team_created_saves team_listed_saves
      credential_saves loadInventory_saves loadApprovals_saves scan_answered_saves loadFindings_saves loadSources_saves
      targets_answered_saves installs_answered_saves loadProvisioningForms_saves showRuns_saves pushed_runs_saves settings_answered_saves
      folders_answered_saves policy_apps_answered_saves policy_answered_saves signing_saves loadIssuers_saves
      loadSshKeys_saves shipping_answered_saves loadAudit_saves cas_answered_saves loadReports_saves)

lemma folder_rules_saves:
  assumes "plain f"
  shows "saves P (with_value (if is_true f then andThen (orElse (field ''settings'' f) (Inr (Obj []))) entries else Inr []) draw_rules)"
proof (rule saves_with_plain)
  show "yields (\<lambda>ps. \<forall>p \<in> set ps. plain (snd p))
      (if is_true f then andThen (orElse (field ''settings'' f) (Inr (Obj []))) entries else Inr [])"
    using yields_bind [OF yields_orElse [OF plain_field [OF assms]] plain_entries, of "Inr (Obj [])"] by simp
qed (rule draw_rules_saves)

lemma editFolder_saves:
  assumes "plain f"
  shows "saves P (editFolder f)"
  unfolding editFolder_def
  by (intro saves_intros folder_rules_saves [OF assms] saves_with_any quiet) simp_all

lemma find_folder_plain: "\<forall>f \<in> set fs. plain f \<Longrightarrow> yields plain (find_folder fs t)"
  by (induction fs) (auto intro!: yields_andThen split: option.split)

lemma edit_clicked_saves: "saves P (edit_clicked t)"
  unfolding edit_clicked_def
  by (intro saves_state saves_with_plain [OF elements_plain] saves_with_plain [OF find_folder_plain] editFolder_saves)
    (auto dest: data simp: data_ok_def)

lemma fe_add_saves: "saves P fe_add"
  unfolding fe_add_def
  by (intro saves_state saves_with_any draw_rules_saves) (auto simp: feAdd_def typed_rule_def rule_value_def)

lemma say_error_saves: "saves P (say_error el e)"
  unfolding say_error_def by (intro quiet) simp

lemma form_saves: "saves P (form_submitted b f)" "saves P (form_answered f ans)"
  unfolding form_submitted_def form_answered_def
  by (intro saves_intros saves_with_any say_error_saves quiet; clarsimp intro!: quiet)+

lemma action_taken_core: "core (action_taken a s) = core s"
  by (simp add: action_taken_def split: option.split prod.split)

lemma alert_saves: "saves P (alert e)"
  unfolding alert_def by (intro quiet) simp

lemma then_reload_saves: "(\<And>s. core (f s) = core s) \<Longrightarrow> saves P (then_reload ans f)"
  unfolding then_reload_def by (intro saves_catching saves_with_any alert_saves quiet)

lemma action_answered_saves: "yields plain ans \<Longrightarrow> saves P (action_answered a ans)"
  by (cases a)
    (auto intro!: saves_intros then_reload_saves quiet saves_with_plain [of plain ans] showRuns_saves simp: saves_pure)

lemma me_arrived_saves: "saves P (me_arrived ans)"
  unfolding me_arrived_def by (cases ans) (auto intro!: quiet me_saves simp: me_failed_def)

lemma quiet_at: "core (f s) = core s \<Longrightarrow> P s \<Longrightarrow> P (snd (pure_act f s))"
  using same_core by simp

lemma event_saves:
  assumes "P s" "allowed e s"
  shows "P (snd (handle b e s))"
proof (cases e)
  case (Arrived c a)
  have "P (snd (arrive b a s))"
  proof (cases "\<forall>r. a \<noteq> App_Created r \<and> a \<noteq> App_Status r")
    case True
    then show ?thesis
      using assms Arrived savesD [OF arrive_saves] by auto
  next
    case False
    then show ?thesis
      using assms Arrived by (auto intro: created_saves status_saves)
  qed
  then show ?thesis unfolding Arrived handle.simps by (rule caught_at)
next
  case Next1
  then show ?thesis using assms next1_saves by simp
next
  case (Tab_Clicked k)
  then show ?thesis using assms show_saves by simp
next
  case Connect_Clicked
  then show ?thesis using assms connect_saves by simp
next
  case (Me_Arrived ans)
  then show ?thesis using savesD [OF me_arrived_saves] assms by simp
next
  case Back2
  then show ?thesis using assms step1_saves by (simp add: ob_back2_def)
next
  case (Action_Answered a ans)
  then show ?thesis using savesD [OF action_answered_saves] assms by simp
qed (use assms in \<open>auto intro!: quiet_at savesD [OF renderInv_saves] savesD [OF renderSsh_saves] savesD [OF hint_saves]
       savesD [OF obStatus_saves] savesD [OF cred_request_saves] savesD [OF edit_clicked_saves] savesD [OF fe_add_saves]
       savesD [OF editFolder_saves] savesD [OF form_saves(1)] savesD [OF form_saves(2)]
       simp: cred_api_def cred_eab_def fe_reset_def t_create_def ob_next2_def d_run_def tg_kind_changed_def
         pol_app_changed_core action_taken_core row_deleted_def row_typed_def simp del: pure_act_apply\<close>)

end

end
