(* ===== verification/Console_Invariants.thy ===== *)
theory Console_Invariants
  imports Console_Machine
begin

section \<open>Three invariants of the console\<close>

text \<open>
  The locale \<open>page_contract\<close> on the model: the document holds only clean markup, one tab is shown, the
  wizard is at one step.  Each interpretation proves the laws of the locale for the handlers that
  write the part of the state the invariant speaks of, and with it that every event keeps the
  invariant; \<open>event_keeper\<close> then carries it through any sequence of events.
\<close>

subsection \<open>What the direct handlers do\<close>

lemma paint_state: "\<exists>m. snd (paint el r s) = s\<lparr>markup := m\<rparr>"
proof (cases r)
  case (Inl e)
  then show ?thesis by (intro exI [of _ "markup s"]) (simp add: paint_def)
next
  case (Inr v)
  then show ?thesis by (auto simp: paint_def split: prod.split)
qed

definition me_view :: "jsval \<Rightarrow> jsval \<Rightarrow> console \<Rightarrow> console" where
  "me_view n r s = (set_text ''who'' (to_string n @ '' ('' @ to_string r @ '')'') s)
     \<lparr>ro := r \<notin> {Str ''admin'', Str ''operator''}, noadmin := r \<noteq> Str ''admin''\<rparr>"

lemma me_answered_result:
  "me_answered me s = (case andThen (field ''name'' me) (\<lambda>n. andThen (field ''role'' me) (\<lambda>r. Inr (n, r))) of
     Inl e \<Rightarrow> (None, set_text ''who'' ''invalid key'' s)
   | Inr (n, r) \<Rightarrow> (None, show_tab (currentTab (me_view n r s)) (me_view n r s)))"
  unfolding me_answered_def
  by (cases "andThen (field ''name'' me) (\<lambda>n. andThen (field ''role'' me) (\<lambda>r. Inr (n, r)))")
    (auto simp: catching_def me_view_def do_all.simps(2) split: prod.split)

lemma app_created_result:
  assumes "ans = Inr (Obj ps)"
  shows "snd (app_created ans s) =
    (let t = s\<lparr>OB_app := Obj ps\<rparr> in
     if field ''status'' (Obj ps) = Inr (Str ''active'') then step 4 t
     else send (app_url (case map_of ps ''id'' of Some v \<Rightarrow> v | None \<Rightarrow> Undefined) []) no_options (step 3 t))"
  using assms by (simp add: app_created_def catching_def obStatus_def with_state_def do_all.simps(2) Let_def)

lemma app_created_failed: "snd (app_created (Inl e) s) = set_text ''ob-err'' (error_message e) s"
  by (simp add: app_created_def catching_def ob_fail_def)

lemma status_answered_result:
  assumes "ans = Inr (Obj ps)"
  shows "snd (status_answered ans s) =
    (let t = s\<lparr>OB_app := Obj ps\<rparr> in
     if field ''status'' (Obj ps) = Inr (Str ''active'') then step 4 t
     else snd (paint ''ob-status'' (ob_status_view (Obj ps)) t))"
  using assms by (simp add: status_answered_def Let_def)

lemma object_answer_cases:
  assumes "object_answer ans"
  obtains e where "ans = Inl e" | ps where "ans = Inr (Obj ps)"
  using assms by (cases ans) (auto simp: object_answer_def split: jsval.splits)

subsection \<open>The document\<close>

definition document_ok :: "console \<Rightarrow> bool" where
  "document_ok s \<longleftrightarrow> (\<forall>el. clean (Safe (markup s el))) \<and> data_ok s"

definition drawn_part :: "console \<Rightarrow> document \<times> jsval \<times> jsval \<times> jsval \<times> (string \<times> jsval) list" where
  "drawn_part s = (markup s, INV s, SSH s, FOLDERS s, TARGETS s)"

lemma document_ok_same: "drawn_part t = drawn_part s \<Longrightarrow> document_ok t = document_ok s"
  by (simp add: document_ok_def drawn_part_def data_ok_def)

lemma core_drawn: "core t = core s \<Longrightarrow> drawn_part t = drawn_part s"
  by (simp add: core_def drawn_part_def)

lemma drawn_simps [simp]:
  "drawn_part (set_text el x s) = drawn_part s" "drawn_part (set_item k x s) = drawn_part s" "drawn_part (step n s) = drawn_part s"
  "drawn_part (send u opts s) = drawn_part s" "drawn_part (s\<lparr>hidden := h, lit := l\<rparr>) = drawn_part s"
  "drawn_part (s\<lparr>OB_app := a\<rparr>) = drawn_part s" "drawn_part (s\<lparr>OB_team := tm\<rparr>) = drawn_part s" "drawn_part (s\<lparr>KEY := key\<rparr>) = drawn_part s"
  "drawn_part (s\<lparr>ro := a1, noadmin := a2\<rparr>) = drawn_part s"
  by (simp_all add: drawn_part_def set_text_def set_item_def send_def step_def)

lemma drawn_send_all [simp]: "drawn_part (send_all us s) = drawn_part s"
  by (induction us arbitrary: s) (simp_all add: send_all_def)

lemma drawn_show [simp]: "drawn_part (show_tab k s) = drawn_part s"
  by (simp add: show_tab_def Let_def load_prefix_def)

lemma drawn_me [simp]: "drawn_part (snd (me_answered me s)) = drawn_part s"
  by (simp add: me_answered_result me_view_def split: sum.split prod.split)

lemma drawn_next1 [simp]: "drawn_part (ob_next1 s) = drawn_part s"
  by (simp add: ob_next1_def Let_def)

lemma drawn_created: "object_answer ans \<Longrightarrow> drawn_part (snd (app_created ans s)) = drawn_part s"
  by (erule object_answer_cases) (simp_all add: app_created_result app_created_failed Let_def)

lemma document_paint: "yields clean r \<Longrightarrow> saves document_ok (paint el r)"
proof (rule savesI)
  fix s assume r: "yields clean r" and s: "document_ok s"
  show "document_ok (snd (paint el r s))"
  proof (cases "\<exists>m. r = Inr (Safe m)")
    case True
    then show ?thesis using r s by (auto simp: paint_def render_def document_ok_def data_ok_def)
  next
    case False
    then have "snd (paint el r s) = s"
      by (auto simp: paint_def render_def split: sum.split jsval.split)
    then show ?thesis using s by simp
  qed
qed

lemma document_keep: "document_ok s \<Longrightarrow> drawn_part t = drawn_part s \<Longrightarrow> document_ok t"
  by (simp add: document_ok_same [of t s])

lemma document_status:
  assumes s: "document_ok s" and o: "object_answer ans" and p: "yields plain ans"
  shows "document_ok (snd (status_answered ans s))"
  using o
proof (cases rule: object_answer_cases)
  case (2 ps)
  have t: "document_ok (s\<lparr>OB_app := Obj ps\<rparr>)"
    using s by (rule document_keep) simp
  from 2 have "yields clean (ob_status_view (Obj ps))" using p by (intro ob_status_view_clean) simp
  from savesD [OF document_paint [OF this] t] show ?thesis
    using document_keep [OF t drawn_simps(3)] by (simp add: status_answered_result [OF 2] Let_def)
qed (use s in \<open>simp add: status_answered_def\<close>)

lemma document_contract: "page_contract document_ok"
proof
  show "document_ok s \<Longrightarrow> data_ok s" for s
    by (simp add: document_ok_def)
  show "core t = core s \<Longrightarrow> document_ok s \<Longrightarrow> document_ok t" for t s
    using document_keep core_drawn by blast
  show "document_ok s \<Longrightarrow> plain v \<Longrightarrow> document_ok (s\<lparr>INV := v\<rparr>)"
    "document_ok s \<Longrightarrow> plain v \<Longrightarrow> document_ok (s\<lparr>SSH := v\<rparr>)"
    "document_ok s \<Longrightarrow> plain v \<Longrightarrow> document_ok (s\<lparr>FOLDERS := v\<rparr>)"
    "document_ok s \<Longrightarrow> \<forall>q \<in> set ts. plain (snd q) \<Longrightarrow> document_ok (s\<lparr>TARGETS := ts\<rparr>)" for s v ts
    by (simp_all add: document_ok_def data_ok_def)
  show "document_ok s \<Longrightarrow> document_ok (show_tab k s)" for k s
    by (erule document_keep) simp
  show "document_ok s \<Longrightarrow> document_ok (connect s)" for s
    by (erule document_keep) (simp add: connect_def Let_def)
  show "saves document_ok (me_answered me)" for me
    by (rule savesI, erule document_keep) simp
  show "document_ok s \<Longrightarrow> document_ok (step 1 s)" for s
    by (erule document_keep) simp
  show "document_ok s \<Longrightarrow> document_ok (ob_next1 s)" for s
    by (erule document_keep) simp
  show "document_ok s \<Longrightarrow> object_answer ans \<Longrightarrow> document_ok (snd (app_created ans s))" for ans s
    by (erule document_keep) (rule drawn_created)
qed (simp_all add: document_paint document_status)

interpretation documents: page_contract document_ok
  by (rule document_contract)

interpretation document_events: event_keeper "handle b" allowed document_ok for b
  by unfold_locales (rule documents.event_saves)

subsection \<open>The tabs\<close>

definition tab_view_ok :: "console \<Rightarrow> bool" where
  "tab_view_ok s \<longleftrightarrow> tabs_ok s \<and> data_ok s"

definition tab_data :: "console \<Rightarrow> ((string \<Rightarrow> bool) \<times> (string \<Rightarrow> bool) \<times> string option \<times> bool \<times> bool) \<times> jsval \<times> jsval \<times> jsval \<times> (string \<times> jsval) list" where
  "tab_data s = (tab_part s, INV s, SSH s, FOLDERS s, TARGETS s)"

lemma tab_keep: "tab_view_ok s \<Longrightarrow> tab_data t = tab_data s \<Longrightarrow> tab_view_ok t"
  using tabs_ok_same [of t s] by (simp add: tab_view_ok_def data_ok_def tab_data_def)

lemma data_drawn: "drawn_part t = drawn_part s \<Longrightarrow> data_ok t = data_ok s"
  by (simp add: drawn_part_def data_ok_def)

lemma tab_view_ok_step [simp]: "tab_view_ok (step n s) = tab_view_ok s"
  using data_drawn [OF drawn_simps(3)] by (simp add: tab_view_ok_def)

lemma tab_me:
  assumes "tab_view_ok s"
  shows "tab_view_ok (snd (me_answered me s))"
proof (cases "andThen (field ''name'' me) (\<lambda>n. andThen (field ''role'' me) (\<lambda>r. Inr (n, r)))")
  case (Inl e)
  then show ?thesis
    using assms by (simp add: me_answered_result) (erule tab_keep, simp add: tab_data_def tab_part_def set_text_def)
next
  case (Inr nr)
  obtain n r where nr: "nr = (n, r)" by (cases nr)
  have "tabs_ok (me_view n r s)"
    using assms by (auto simp: tab_view_ok_def tabs_ok_def me_view_def showing_def)
  then have "tabs_ok (show_tab (currentTab (me_view n r s)) (me_view n r s))"
    using show_tab_ok currentTab_ok by blast
  moreover have "data_ok (snd (me_answered me s))"
    using assms data_drawn [OF drawn_me] by (simp add: tab_view_ok_def)
  ultimately show ?thesis using Inr nr by (simp add: tab_view_ok_def me_answered_result)
qed

lemma tab_app: "tab_view_ok s \<Longrightarrow> tab_view_ok (s\<lparr>OB_app := a\<rparr>)"
  by (erule tab_keep) (simp add: tab_data_def tab_part_def)

lemma tab_paint: "tab_view_ok s \<Longrightarrow> tab_view_ok (snd (paint el r s))"
  using paint_state [of el r s] by (elim exE) (erule tab_keep, simp add: tab_data_def tab_part_def)

lemma tab_text: "tab_view_ok s \<Longrightarrow> tab_view_ok (set_text el x s)" "tab_view_ok s \<Longrightarrow> tab_view_ok (send u opts s)"
  by (erule tab_keep, simp add: tab_data_def tab_part_def set_text_def send_def)+

lemma tab_contract: "page_contract tab_view_ok"
proof
  show "core t = core s \<Longrightarrow> tab_view_ok s \<Longrightarrow> tab_view_ok t" for t s
    by (rule tab_keep) (simp_all add: core_def tab_data_def tab_part_def)
  show "tab_view_ok s \<Longrightarrow> k \<in> set tab_keys \<Longrightarrow> tab_view_ok (show_tab k s)" for k s
    using show_tab_ok [of s k] data_drawn [OF drawn_show [of k s]] by (simp add: tab_view_ok_def)
  show "tab_view_ok s \<Longrightarrow> tab_view_ok (connect s)" for s
    by (erule tab_keep) (simp add: tab_data_def tab_part_def connect_def Let_def set_item_def send_def)
  show "tab_view_ok s \<Longrightarrow> object_answer ans \<Longrightarrow> tab_view_ok (snd (app_created ans s))" for ans s
    by (erule object_answer_cases) (simp_all add: app_created_result app_created_failed Let_def tab_app tab_text)
  show "tab_view_ok s \<Longrightarrow> object_answer ans \<Longrightarrow> tab_view_ok (snd (status_answered ans s))" for ans s
    by (erule object_answer_cases) (simp_all add: status_answered_result Let_def tab_app tab_paint, simp add: status_answered_def)
  show "tab_view_ok s \<Longrightarrow> tab_view_ok (ob_next1 s)" for s
  proof -
    assume "tab_view_ok s"
    then have "tab_view_ok (s\<lparr>OB_team := t\<rparr>)" for t
      by (rule tab_keep) (simp add: tab_data_def tab_part_def)
    then show ?thesis by (simp add: ob_next1_def Let_def tab_text)
  qed
  show "saves tab_view_ok (paint el r)" for el r
    by (rule savesI) (rule tab_paint)
  show "saves tab_view_ok (me_answered me)" for me
    by (rule savesI) (rule tab_me)
  show "tab_view_ok s \<Longrightarrow> plain v \<Longrightarrow> tab_view_ok (s\<lparr>INV := v\<rparr>)"
    "tab_view_ok s \<Longrightarrow> plain v \<Longrightarrow> tab_view_ok (s\<lparr>SSH := v\<rparr>)"
    "tab_view_ok s \<Longrightarrow> plain v \<Longrightarrow> tab_view_ok (s\<lparr>FOLDERS := v\<rparr>)"
    "tab_view_ok s \<Longrightarrow> \<forall>q \<in> set ts. plain (snd q) \<Longrightarrow> tab_view_ok (s\<lparr>TARGETS := ts\<rparr>)" for s v ts
    by (simp_all add: tab_view_ok_def data_ok_def tabs_ok_def showing_def)
  show "tab_view_ok s \<Longrightarrow> data_ok s" for s
    by (simp add: tab_view_ok_def)
qed simp_all

interpretation tabs: page_contract tab_view_ok
  by (rule tab_contract)

interpretation tab_events: event_keeper "handle b" allowed tab_view_ok for b
  by unfold_locales (rule tabs.event_saves)

subsection \<open>The wizard\<close>

definition wizard_view_ok :: "console \<Rightarrow> bool" where
  "wizard_view_ok s \<longleftrightarrow> wizard_ok s \<and> data_ok s"

definition wizard_data :: "console \<Rightarrow> (nat \<Rightarrow> bool) \<times> rat option \<times> jsval \<times> jsval \<times> jsval \<times> jsval \<times> (string \<times> jsval) list" where
  "wizard_data s = (\<lambda>i. hidden s (ob_id i), OB_team s, OB_app s, INV s, SSH s, FOLDERS s, TARGETS s)"

lemma wizard_keep: "wizard_view_ok s \<Longrightarrow> wizard_data t = wizard_data s \<Longrightarrow> wizard_view_ok t"
proof -
  assume s: "wizard_view_ok s" and eq: "wizard_data t = wizard_data s"
  then have h: "hidden t (ob_id i) = hidden s (ob_id i)" for i
    by (simp add: wizard_data_def fun_eq_iff)
  then have "at_step n t = at_step n s" for n
    by (simp add: at_step_def)
  with s eq show ?thesis
    by (simp add: wizard_view_ok_def wizard_ok_def data_ok_def wizard_data_def team_chosen_def app_active_def)
qed

lemma wizard_step:
  assumes "data_ok s" "n \<in> {1, 2, 3, 4}" "n = 2 \<longrightarrow> team_chosen s" "n = 4 \<longrightarrow> app_active s"
  shows "wizard_view_ok (step n s)"
  using step_at [OF assms(2), of s] data_drawn [OF drawn_simps(3), of n s] assms
  by (auto simp: wizard_view_ok_def wizard_ok_def)

lemma wizard_paint: "wizard_view_ok s \<Longrightarrow> wizard_view_ok (snd (paint el r s))"
  using paint_state [of el r s] by (elim exE) (erule wizard_keep, simp add: wizard_data_def)

lemma wizard_text: "wizard_view_ok s \<Longrightarrow> wizard_view_ok (set_text el x s)" "wizard_view_ok s \<Longrightarrow> wizard_view_ok (send u opts s)"
  by (erule wizard_keep, simp add: wizard_data_def set_text_def send_def)+

lemma wizard_data_show [simp]: "wizard_data (show_tab k s) = wizard_data s"
proof -
  have "wizard_data (send_all us t) = wizard_data t" for us t
    by (induction us arbitrary: t) (simp_all add: send_all_def wizard_data_def send_def)
  then show ?thesis
    by (simp add: show_tab_def Let_def load_prefix_def)
      (auto simp: wizard_data_def set_item_def set_text_def fun_eq_iff)
qed

lemma wizard_data_me [simp]: "wizard_data (snd (me_answered me s)) = wizard_data s"
proof -
  have "wizard_data (me_view n r s) = wizard_data s" "wizard_data (set_text el x s) = wizard_data s" for n r el x
    by (simp_all add: wizard_data_def me_view_def set_text_def)
  then show ?thesis
    by (simp add: me_answered_result split: sum.split prod.split)
qed

lemma data_app: "data_ok (s\<lparr>OB_app := a\<rparr>) = data_ok s" "data_ok (s\<lparr>OB_team := t\<rparr>) = data_ok s"
  by (simp_all add: data_ok_def)

lemma wizard_created:
  assumes "wizard_view_ok s" "object_answer ans"
  shows "wizard_view_ok (snd (app_created ans s))"
  using assms(2)
proof (cases rule: object_answer_cases)
  case (1 e)
  then show ?thesis using assms(1) by (simp add: app_created_failed wizard_text)
next
  case (2 ps)
  then show ?thesis
    using assms(1) by (simp add: app_created_result Let_def wizard_text wizard_step data_app app_active_def wizard_view_ok_def [of s])
qed

lemma wizard_status:
  assumes s: "wizard_view_ok s" and "object_answer ans" "at_step 4 s \<longrightarrow> active_answer ans"
  shows "wizard_view_ok (snd (status_answered ans s))"
  using assms(2)
proof (cases rule: object_answer_cases)
  case (1 e)
  then show ?thesis using s by (simp add: status_answered_def)
next
  case (2 ps)
  show ?thesis
  proof (cases "field ''status'' (Obj ps) = Inr (Str ''active'')")
    case True
    then show ?thesis
      using s unfolding status_answered_result [OF 2] Let_def
      by (simp add: wizard_step data_app app_active_def wizard_view_ok_def [of s] del: field.simps)
  next
    case False
    obtain n where n: "at_step n s" "n = 2 \<longrightarrow> team_chosen s" "data_ok s"
      using s by (auto simp: wizard_view_ok_def wizard_ok_def)
    then have "n \<noteq> 4" using assms(3) False 2 by (auto simp: active_answer_def)
    then have "wizard_view_ok (s\<lparr>OB_app := Obj ps\<rparr>)"
      using n unfolding wizard_view_ok_def wizard_ok_def
      by (intro conjI exI [of _ n]) (simp_all add: data_app at_step_def team_chosen_def)
    then show ?thesis
      using False unfolding status_answered_result [OF 2] Let_def by (simp add: wizard_paint del: field.simps)
  qed
qed

lemma wizard_next1:
  assumes s: "wizard_view_ok s" and "\<not> at_step 2 s"
  shows "wizard_view_ok (ob_next1 s)"
proof (cases "str_number (inputs s ''ob-team'') \<noteq> None \<and> str_number (inputs s ''ob-team'') \<noteq> Some 0")
  case True
  then show ?thesis
    using s unfolding ob_next1_def Let_def
    by (simp add: wizard_step data_app team_chosen_def wizard_view_ok_def [of s])
next
  case False
  obtain n where n: "at_step n s" "n = 4 \<longrightarrow> app_active s" "data_ok s"
    using s by (auto simp: wizard_view_ok_def wizard_ok_def)
  let ?t = "s\<lparr>OB_team := str_number (inputs s ''ob-team'')\<rparr>"
  have "n \<noteq> 2" using n(1) assms(2) by blast
  moreover have "at_step n ?t" "n = 4 \<longrightarrow> app_active ?t" "data_ok ?t"
    using n by (simp_all add: data_app at_step_def app_active_def)
  ultimately have "wizard_view_ok ?t"
    unfolding wizard_view_ok_def wizard_ok_def by blast
  moreover have "ob_next1 s = set_text ''ob-err'' ''Pick or create a team first.'' ?t"
    using False by (auto simp: ob_next1_def Let_def)
  ultimately show ?thesis by (simp add: wizard_text)
qed

lemma wizard_contract: "page_contract wizard_view_ok"
proof
  show "core t = core s \<Longrightarrow> wizard_view_ok s \<Longrightarrow> wizard_view_ok t" for t s
    by (rule wizard_keep) (simp_all add: core_def wizard_data_def)
  show "wizard_view_ok s \<Longrightarrow> wizard_view_ok (show_tab k s)" for k s
    by (erule wizard_keep) simp
  show "wizard_view_ok s \<Longrightarrow> wizard_view_ok (connect s)" for s
    by (erule wizard_keep) (simp add: wizard_data_def connect_def Let_def set_item_def send_def)
  show "saves wizard_view_ok (me_answered me)" for me
    by (rule savesI, erule wizard_keep) simp
  show "wizard_view_ok s \<Longrightarrow> wizard_view_ok (step 1 s)" for s
    using wizard_step [of s 1] by (simp add: wizard_view_ok_def [of s])
  show "saves wizard_view_ok (paint el r)" for el r
    by (rule savesI) (rule wizard_paint)
  show "wizard_view_ok s \<Longrightarrow> plain v \<Longrightarrow> wizard_view_ok (s\<lparr>INV := v\<rparr>)"
    "wizard_view_ok s \<Longrightarrow> plain v \<Longrightarrow> wizard_view_ok (s\<lparr>SSH := v\<rparr>)"
    "wizard_view_ok s \<Longrightarrow> plain v \<Longrightarrow> wizard_view_ok (s\<lparr>FOLDERS := v\<rparr>)"
    "wizard_view_ok s \<Longrightarrow> \<forall>q \<in> set ts. plain (snd q) \<Longrightarrow> wizard_view_ok (s\<lparr>TARGETS := ts\<rparr>)" for s v ts
    by (simp_all add: wizard_view_ok_def data_ok_def wizard_ok_def at_step_def team_chosen_def app_active_def)
qed (simp_all add: wizard_created wizard_status wizard_next1, simp add: wizard_view_ok_def)

interpretation wizard: page_contract wizard_view_ok
  by (rule wizard_contract)

interpretation wizard_events: event_keeper "handle b" allowed wizard_view_ok for b
  by unfold_locales (rule wizard.event_saves)

end
