(* ===== verification/Console_Properties.thy ===== *)
theory Console_Properties
  imports Console_Invariants
begin

section \<open>Properties of the console\<close>

text \<open>
  The properties of \<open>console.js\<close> over the theories \<open>Markup\<close> to \<open>Console_Invariants\<close>, each with an
  instance on concrete data.
\<close>

subsection \<open>Opening the page\<close>













subsection \<open>Everything the page shows\<close>











subsection \<open>Markup\<close>

text \<open>C14: Escaping loses nothing and lets nothing through: a browser reads the escaped text back as the text, and none of
  the characters that delimit markup is left, in each of the three escaping functions.\<close>

theorem escaping_round_trip:
  "decode (escText (Str s)) = s \<and> decode (kb_esc (Str s)) = s \<and> decode (scene_esc (Str s)) = s
   \<and> set (escText (Str s) @ kb_esc (Str s) @ scene_esc (Str s)) \<inter> set special = {}"
  using console.decode_escape kb.decode_escape chrome.decode_escape console.no_special kb.no_special chrome.no_special
  by auto

text \<open>Data is never markup.  A value without \<open>SafeHtml\<close> in it adds no token wherever a template may put it, and
  \<open>render\<close> refuses it and leaves the document alone.\<close>

theorem data_is_never_markup:
  assumes "plain v" "harmless q"
  shows "scan q (part v) = (q, []) \<and> render el v doc = (Some (TypeError ''render() only accepts html`...` output''), doc)"
  using scan_plain [OF assms] assms(1) by (cases v) (simp_all add: render_def)

theorem data_is_never_markup_witness:
  \<open>scan Quoted (part (Arr [Str ''"><script>'', Obj [(''k'', Str ''<b>'')]])) = (Quoted, [])\<close>
  using data_is_never_markup [of \<open>Arr [Str ''"><script>'', Obj [(''k'', Str ''<b>'')]]\<close> Quoted] by simp

subsection \<open>The rules editor\<close>



definition some_rules :: "(string \<times> jsval) list" where
  \<open>some_rules =
     [(''allowed_zones'', rule_value (Arr [Str ''a.bank'', Str ''*.b.bank'']) True),
      (''max_validity_days'', rule_value (Num 90) False),
      (''dual_control'', rule_value (Bool True) False),
      (''issuing_ca'', rule_value (Str ''R&D <"issuing">'') True)]\<close>



text \<open>Why a row is refused.\<close>

definition row_error :: "rule_input \<Rightarrow> js_error option" where
  "row_error r = (let raw = js_trim (r_val r) in
     if raw = [] then Some (PlainError (r_key r @ '' needs a value''))
     else if kind_of (r_key r) = ''int'' \<and> (case str_number raw of Some q \<Rightarrow> of_int \<lfloor>q\<rfloor> \<noteq> q | None \<Rightarrow> True)
     then Some (PlainError (r_key r @ '' must be a whole number'')) else None)"

lemma read_value_total:
  "\<not> (kind_of key = ''int'' \<and> (case str_number raw of Some q \<Rightarrow> of_int \<lfloor>q\<rfloor> \<noteq> q | None \<Rightarrow> True)) \<Longrightarrow> \<exists>v. read_value key raw = Inr v"
  by (auto simp: read_value_def Let_def split: option.splits)

lemma read_rules_error:
  "case find (\<lambda>r. row_error r \<noteq> None) rs of
     Some r \<Rightarrow> read_rules rs out = Inl (the (row_error r)) | None \<Rightarrow> \<exists>res. read_rules rs out = Inr res"
proof (induction rs arbitrary: out)
  case (Cons r rs)
  show ?case
  proof (cases "row_error r")
    case None
    then have raw: "js_trim (r_val r) \<noteq> []"
      "\<not> (kind_of (r_key r) = ''int'' \<and> (case str_number (js_trim (r_val r)) of Some q \<Rightarrow> of_int \<lfloor>q\<rfloor> \<noteq> q | None \<Rightarrow> True))"
      by (simp_all add: row_error_def Let_def split: if_splits)
    then obtain v where "read_value (r_key r) (js_trim (r_val r)) = Inr v"
      using read_value_total by blast
    with raw(1) have "\<exists>out'. read_rules (r # rs) out = read_rules rs out'"
      by (simp add: Let_def) blast
    then obtain out' where "read_rules (r # rs) out = read_rules rs out'" by blast
    with None Cons.IH [of out'] show ?thesis by (simp del: read_rules.simps split: option.splits)
  next
    case (Some e)
    then have "read_rules (r # rs) out = Inl e"
      by (auto simp: row_error_def read_value_def Let_def split: if_splits option.splits)
    with Some show ?thesis by simp
  qed
qed simp


text \<open>C28: What a form yields is well typed and each row is read: one entry for each key that occurs in it, each value of the
  kind of its key, and each entry is what the last row with that key says, its value and its lock.\<close>

theorem saved_rules_are_typed:
  assumes "readRules form = Inr res"
  shows "distinct (map fst res) \<and> set (map fst res) = set (map r_key form) \<and> list_all saved_rule res
    \<and> (\<forall>k. map_of res k = (case last_row k form of Some r \<Rightarrow> row_rule r | None \<Rightarrow> None))"
  using read_rules_sound [of form "[]" res] read_rules_last [of form "[]" res] assms by (simp add: readRules_def list_all_iff cong: option.case_cong)

definition some_form :: "rule_input list" where
  "some_form = [\<lparr>r_key = ''ec_curves'', r_val = ''p256, p384'', r_lock = False\<rparr>,
     \<lparr>r_key = ''issuing_ca'', r_val = '' internal '', r_lock = True\<rparr>]"

theorem saved_rules_are_typed_witness:
  "\<exists>res. readRules some_form = Inr res \<and> list_all saved_rule res"
proof -
  have "\<forall>r \<in> set some_form. row_error r = None"
    by (simp add: some_form_def row_error_def Let_def js_trim_def is_space_def code_def kind_of_def SETTING_KIND_def)
  then have "find (\<lambda>r. row_error r \<noteq> None) some_form = None" by (simp add: find_None_iff)
  then obtain res where "readRules some_form = Inr res"
    using read_rules_error [of some_form "[]"] by (auto simp: readRules_def)
  then show ?thesis using saved_rules_are_typed by blast
qed


definition some_folder :: "(string \<times> jsval) list" where
  "some_folder = [(''id'', Num (of_nat 12)), (''name'', Str ''Payments''), (''path'', Str ''Root/Payments''), (''parent_id'', Null),
     (''apps'', Num 2), (''settings'', Obj some_rules)]"




subsection \<open>The policy tree\<close>

text \<open>C18: Drawing the policy tree ends.  When the folders have distinct identifiers, the recursion is never deeper than the
  number of folders, so a larger stack draws the same tree and the stack does not overflow, whatever the
  parents are.\<close>

theorem tree_recursion_ends:
  assumes "distinct_ids fs" "length fs \<le> n"
  shows "tree_view n fs = tree_view (length fs) fs \<and> tree_view n fs \<noteq> Inl stack_overflow"
  using tree_view_enough [OF assms] by (simp add: sane_def)

definition odd_folders :: "jsval list" where
  "odd_folders = [Obj some_folder, Obj [(''id'', Num 13), (''parent_id'', Num 12)], Obj [(''id'', Num 14), (''parent_id'', Num 14)]]"

theorem tree_recursion_ends_witness: "tree_view 9 odd_folders \<noteq> Inl stack_overflow"
proof -
  have "distinct_ids odd_folders"
    unfolding distinct_ids_def by (intro exI [of _ "[12, 13, 14]"]) (simp add: odd_folders_def some_folder_def)
  moreover have "length odd_folders \<le> 9" by (simp add: odd_folders_def)
  ultimately show ?thesis by (rule tree_recursion_ends [THEN conjunct2])
qed

subsection \<open>The API\<close>






text \<open>The path of an action: its collection, its item, its verb.\<close>

fun action_path :: "action \<Rightarrow> string list \<times> string \<times> string list" where
  "action_path (Revoke i reason change) = ([''certificates''], i, [''revoke''])"
| "action_path (Decide yes no) = ([''approvals''], fst (decided yes no), [snd (decided yes no)])"
| "action_path (Acknowledge i comment) = ([''discovery'', ''findings''], i, [''acknowledge''])"
| "action_path (Run_Source i) = ([''discovery'', ''sources''], i, [''run''])"
| "action_path (Push i) = ([''installations''], i, [''provision''])"
| "action_path (Own i owner note) = ([''ssh-keys''], i, [''owner''])"
| "action_path (Show_Runs i) = ([''installations''], i, [])"

text \<open>C6: The request of a table button keeps its shape for every identifier: the identifier stays one path segment, adds
  no query or fragment, and the server reads its UTF-8 bytes back from that segment.\<close>

theorem request_paths_keep_their_shape:
  assumes "action_request a = Some (url, opts)" "action_path a = (collection, i, verb)"
  shows "segments url = [[], ''api'', ''v1''] @ collection @ [encodeURIComponent i] @ verb
    \<and> percent_decode (encodeURIComponent i) = concat (map utf8_char i)
    \<and> set (encodeURIComponent i) \<inter> set ''/?#&='' = {}"
proof -
  have item: "segments (item_url c j (CHR ''/'' # v)) = segments (''/api/v1/'' @ c) @ [encodeURIComponent j, v]"
    if "CHR ''/'' \<notin> set v" for c j v
    using item_segments [OF that, of "CHR ''/'' # v" True c j] by simp
  have bare: "segments (item_url c j []) = segments (''/api/v1/'' @ c) @ [encodeURIComponent j]" for c j
    using item_segments [of "[]" "[]" False c j] by simp
  have "segments url = [[], ''api'', ''v1''] @ collection @ [encodeURIComponent i] @ verb"
  proof (cases a)
    case (Decide yes no)
    have "CHR ''/'' \<notin> set (snd (decided yes no))" by (simp add: decided_def)
    then show ?thesis using assms Decide by (auto simp: item split: prod.splits)
  qed (use assms in \<open>auto simp: item bare split: if_splits\<close>)
  then show ?thesis
    using percent_decode_encode [of i] encode_safe [of _ i] by auto
qed

theorem request_paths_keep_their_shape_witness:
  "segments (item_url ''discovery/sources'' ''aws/prod?x'' ''/run'')
     = [[], ''api'', ''v1'', ''discovery'', ''sources'', encodeURIComponent ''aws/prod?x'', ''run'']"
  using request_paths_keep_their_shape [of "Run_Source ''aws/prod?x''" "item_url ''discovery/sources'' ''aws/prod?x'' ''/run''" post_empty
      "[''discovery'', ''sources'']" "''aws/prod?x''" "[''run'']"] by simp

subsection \<open>The inventory\<close>











subsection \<open>Answers out of order\<close>

text \<open>
  No answer is matched with the choice it was asked for: when the answers for two applications come in the
  other order, the policy of the first stays on the page under a selector that says the second.
\<close>

lemma paint_safe: "r = Inr (Safe h) \<Longrightarrow> paint el r s = (None, s\<lparr>markup := (markup s)(el := h)\<rparr>)"
  by (simp add: paint_def render_def)

lemma late_policy_answer_wins:
  assumes "policy_view ra = Inr (Safe ha)" "policy_view rb = Inr (Safe hb)" "a \<noteq> []" "c \<noteq> []"
    "t = run_all (handle b) [Typed ''pol-app'' a, App_Chosen, Typed ''pol-app'' c, App_Chosen,
           Arrived Nobody (Policy (Inr rb)), Arrived Nobody (Policy (Inr ra))] s"
  shows "inputs t ''pol-app'' = c" "markup t ''pol-out'' = ha"
    "sent t = sent s @ [api_request (KEY s) (app_url (Str a) ''/policy'') no_options, api_request (KEY s) (app_url (Str c) ''/policy'') no_options]"
  using assms(3,4)
  by (simp_all add: assms(5) pol_app_changed_def set_input_def send_def policy_answered_def catching_def paint_safe [OF assms(1)] paint_safe [OF assms(2)])

end
