(* ===== verification/Kb_App.thy ===== *)
theory Kb_App
  imports Html_Context Event_Machine
begin

section \<open>The knowledge base shell\<close>

text \<open>
  \<open>kb-app.js\<close>: the page index, the navigation, hash routing, the page markup with its pager, and the
  scene view of a page.  The pages are the argument \<open>pages\<close>, in the order of \<open>window.KB_PAGES\<close>; the
  position of a page in that list is its \<open>index\<close> property.
\<close>

record page =
  slug :: string
  title :: string
  nav :: "string option"
  grp :: string
  is_hidden :: bool
  scene :: "string option"
  body :: string
  pre :: string
  post :: string

subsection \<open>Finding a page\<close>

text \<open>
  \<open>bySlug[slug] || pages[0]\<close>.  \<open>bySlug\<close> is an ordinary object, so a slug that is the name of an
  inherited property finds that property's value, a function or \<open>Object.prototype\<close> itself, in which
  none of the page's properties is set.
\<close>

definition inherited_names :: "string list" where
  "inherited_names = [''constructor'', ''toString'', ''valueOf'', ''toLocaleString'', ''hasOwnProperty'', ''isPrototypeOf'',
     ''propertyIsEnumerable'', ''__proto__'', ''__defineGetter__'', ''__defineSetter__'', ''__lookupGetter__'', ''__lookupSetter__'']"

datatype target = Page nat | Inherited

fun last_index :: "page list \<Rightarrow> string \<Rightarrow> nat option" where
  "last_index [] k = None"
| "last_index (p # ps) k = (case last_index ps k of
     Some i \<Rightarrow> Some (Suc i)
   | None \<Rightarrow> if slug p = k then Some 0 else None)"

definition find_page :: "page list \<Rightarrow> string \<Rightarrow> target" where
  "find_page pages k = (case last_index pages k of
     Some i \<Rightarrow> Page i
   | None \<Rightarrow> if k \<in> set inherited_names then Inherited else Page 0)"

definition opt_str :: "string option \<Rightarrow> jsval" where
  "opt_str x = (case x of Some s \<Rightarrow> Str s | None \<Rightarrow> Undefined)"

definition page_props :: "page \<Rightarrow> (string \<times> jsval) list" where
  "page_props p = [(''slug'', Str (slug p)), (''title'', Str (title p)), (''nav'', opt_str (nav p)), (''group'', Str (grp p)),
     (''hidden'', Bool (is_hidden p)), (''scene'', opt_str (scene p)), (''html'', Str (body p)), (''pre'', Str (pre p)), (''post'', Str (post p))]"

definition props_of :: "page list \<Rightarrow> target \<Rightarrow> jsval" where
  "props_of pages t = Obj (case t of Page i \<Rightarrow> page_props (pages ! i) | Inherited \<Rightarrow> [])"

definition get :: "string \<Rightarrow> jsval \<Rightarrow> jsval" where
  "get k v = (case field k v of Inr x \<Rightarrow> x | Inl e \<Rightarrow> Undefined)"

subsection \<open>Navigation\<close>

definition visible_pages :: "page list \<Rightarrow> page list" where
  "visible_pages pages = filter (\<lambda>p. \<not> is_hidden p) pages"

text \<open>Groups in the order of their first page, each with its pages in order.\<close>

fun add_to_group :: "page \<Rightarrow> (string \<times> page list) list \<Rightarrow> (string \<times> page list) list" where
  "add_to_group p [] = [(grp p, [p])]"
| "add_to_group p ((g, items) # gs) = (if g = grp p then (g, items @ [p]) # gs else (g, items) # add_to_group p gs)"

definition groups :: "page list \<Rightarrow> (string \<times> page list) list" where
  "groups pages = foldl (\<lambda>gs p. if is_hidden p then gs else add_to_group p gs) [] pages"

text \<open>\<open>p.nav || p.title\<close>.\<close>

definition nav_label :: "page \<Rightarrow> string" where
  "nav_label p = (case or_else (nav p) (Some (title p)) of Some s \<Rightarrow> s | None \<Rightarrow> [])"

definition esc :: "string \<Rightarrow> string" where
  "esc s = kb_esc (Str s)"

definition nav_item :: "page \<Rightarrow> string" where
  \<open>nav_item p = ''<a href="#'' @ esc (slug p) @ ''" data-slug="'' @ esc (slug p) @ ''">'' @ esc (nav_label p)
     @ (if truthy (scene p) then ''<span class="tag">3D</span>'' else []) @ ''</a>''\<close>

definition nav_group :: "string \<times> page list \<Rightarrow> string" where
  "nav_group g = ''<h3>'' @ esc (fst g) @ ''</h3>'' @ concat (map nav_item (snd g))"

definition nav_html :: "page list \<Rightarrow> string" where
  "nav_html pages = concat (map nav_group (groups pages))"

subsection \<open>The pager\<close>

text \<open>The nearest visible page before and after position \<open>i\<close>.\<close>

fun prev_page :: "page list \<Rightarrow> nat \<Rightarrow> nat option" where
  "prev_page pages 0 = None"
| "prev_page pages (Suc i) = (if i < length pages then (if is_hidden (pages ! i) then prev_page pages i else Some i) else None)"

function next_page :: "page list \<Rightarrow> nat \<Rightarrow> nat option" where
  "next_page pages i = (if Suc i < length pages
     then (if is_hidden (pages ! Suc i) then next_page pages (Suc i) else Some (Suc i)) else None)"
  by pat_completeness auto
termination by (relation "measure (\<lambda>(pages, i). length pages - i)") auto

declare next_page.simps [simp del]

definition neighbours :: "page list \<Rightarrow> target \<Rightarrow> nat option \<times> nat option" where
  "neighbours pages t = (case t of Page i \<Rightarrow> (prev_page pages i, next_page pages i) | Inherited \<Rightarrow> (None, None))"

definition pager_prev :: "page list \<Rightarrow> nat option \<Rightarrow> string" where
  \<open>pager_prev pages x = (case x of
     Some i \<Rightarrow> ''<a href="#'' @ esc (slug (pages ! i)) @ ''"><small>Previous</small>'' @ esc (nav_label (pages ! i)) @ ''</a>''
   | None \<Rightarrow> ''<span></span>'')\<close>

definition pager_next :: "page list \<Rightarrow> nat option \<Rightarrow> string" where
  \<open>pager_next pages x = (case x of
     Some i \<Rightarrow> ''<a href="#'' @ esc (slug (pages ! i)) @ ''" style="text-align:right"><small>Next</small>'' @ esc (nav_label (pages ! i)) @ ''</a>''
   | None \<Rightarrow> ''<span></span>'')\<close>

definition pager :: "page list \<Rightarrow> target \<Rightarrow> string" where
  \<open>pager pages t = ''<nav class="kb-pager" aria-label="Previous and next">''
     @ pager_prev pages (fst (neighbours pages t)) @ pager_next pages (snd (neighbours pages t)) @ ''</nav>''\<close>

subsection \<open>The markup of a page\<close>

definition legend :: string where
  \<open>legend = ''<div class="kb-legend"><span><i style="background:#14b8a6"></i>request</span><span><i style="background:#f2b233"></i>response</span>''
     @ ''<span><i style="background:#8b5cf6"></i>encrypted or secret</span><span><i style="background:#e5484d"></i>rejected or alert</span>''
     @ ''<span><i style="background:#3b82f6"></i>local step</span><span><i style="background:linear-gradient(#2dd4bf,#f2b233)"></i>audit chain block</span></div></div>''\<close>

definition eyebrow :: "jsval \<Rightarrow> string" where
  \<open>eyebrow p = ''<div class="kb-prose"><div class="kb-eyebrow">'' @ kb_esc (get ''group'' p) @ ''</div>''\<close>

definition page_html :: "page list \<Rightarrow> target \<Rightarrow> string" where
  \<open>page_html pages t = (let p = props_of pages t in
     if get ''slug'' p = Str ''home'' then to_string (get ''html'' p)
     else ''<article class="kb-page">''
       @ (if is_true (get ''scene'' p)
          then eyebrow p @ to_string (get ''pre'' p) @ ''</div>''
            @ ''<div class="kb-scene-wrap"><div class="kb-scene" data-scene="'' @ kb_esc (get ''scene'' p) @ ''"></div>'' @ legend
            @ ''<div class="kb-prose">'' @ to_string (get ''post'' p) @ ''</div>''
          else eyebrow p @ to_string (get ''html'' p) @ ''</div>'')
       @ pager pages t @ ''</article>'')\<close>

definition page_title :: "jsval \<Rightarrow> string" where
  "page_title p = (if get ''slug'' p = Str ''home'' then [] else to_string (get ''title'' p) @ '' '' @ [CHR 0xB7] @ '' '') @ ''Certadillo knowledge base''"

text \<open>The scene a page mounts: the \<open>data-scene\<close> attribute of its holder, read back by the browser.\<close>

definition scene_of :: "jsval \<Rightarrow> string option" where
  "scene_of p = (if get ''slug'' p \<noteq> Str ''home'' \<and> is_true (get ''scene'' p)
     then Some (decode (kb_esc (get ''scene'' p))) else None)"

subsection \<open>State and routing\<close>

record kb =
  current :: "target option"
  doc_title :: string
  main_html :: string
  lit_links :: "bool list"
  nav_open :: bool
  scene_view :: "string option"
  live_views :: "string list"
  hash :: string
  kb_last :: "string option"
  storage_blocked :: bool
  pendingAnchor :: "string option"
  scrolled_to :: "string option"
  query :: string
  in_search :: bool
  results_hidden :: bool
  results_html :: string
  result_links :: "string list"

text \<open>
  What the shell calls outside: \<open>has_id anchor html\<close> says whether the document with this page has an
  element of that identifier, \<open>mounts id\<close> whether \<open>CertadilloScenes.mount\<close> makes a view for it.
\<close>

record surroundings =
  has_id :: "string \<Rightarrow> string \<Rightarrow> bool"
  mounts :: "string \<Rightarrow> bool"
  text_of_html :: "string \<Rightarrow> string"

text \<open>The links of the navigation, in document order.\<close>

definition nav_slugs :: "page list \<Rightarrow> string list" where
  "nav_slugs pages = concat (map (\<lambda>g. map slug (snd g)) (groups pages))"

definition dispose_view :: "kb \<Rightarrow> kb" where
  "dispose_view s = (case scene_view s of
     Some x \<Rightarrow> s\<lparr>scene_view := None, live_views := remove1 x (live_views s)\<rparr>
   | None \<Rightarrow> s)"

definition mount_view :: "surroundings \<Rightarrow> jsval \<Rightarrow> kb \<Rightarrow> kb" where
  "mount_view env p s = (case scene_of p of
     Some x \<Rightarrow> if mounts env x then s\<lparr>scene_view := Some x, live_views := live_views s @ [x]\<rparr> else s\<lparr>scene_view := None\<rparr>
   | None \<Rightarrow> s)"

definition show_page :: "page list \<Rightarrow> surroundings \<Rightarrow> target \<Rightarrow> kb \<Rightarrow> kb" where
  "show_page pages env t s =
     (let p = props_of pages t;
          s1 = dispose_view s;
          s2 = s1\<lparr>current := Some t, doc_title := page_title p, main_html := page_html pages t\<rparr>;
          s3 = mount_view env p s2
      in s3\<lparr>lit_links := map (\<lambda>k. Str k = get ''slug'' p) (nav_slugs pages), nav_open := False\<rparr>)"

definition finish_page :: "surroundings \<Rightarrow> jsval \<Rightarrow> string option \<Rightarrow> kb \<Rightarrow> kb" where
  "finish_page env p anchor s =
     (if truthy anchor \<and> has_id env (the anchor) (main_html s) then s\<lparr>scrolled_to := anchor\<rparr>
      else let s1 = s\<lparr>scrolled_to := None\<rparr> in
        if storage_blocked s then s1 else s1\<lparr>kb_last := Some (to_string (get ''slug'' p))\<rparr>)"

definition render_page :: "page list \<Rightarrow> surroundings \<Rightarrow> string \<Rightarrow> string option \<Rightarrow> kb \<Rightarrow> kb" where
  "render_page pages env k anchor s =
     (let t = find_page pages k in finish_page env (props_of pages t) anchor (show_page pages env t s))"

definition hash_slug :: "string \<Rightarrow> string" where
  "hash_slug h = (case h of c # r \<Rightarrow> if c = CHR ''#'' then r else h | [] \<Rightarrow> [])"

definition route_slug :: "kb \<Rightarrow> string" where
  "route_slug s = (let k = hash_slug (hash s) in
     if k \<noteq> [] then k
     else if storage_blocked s then ''home''
     else (case kb_last s of Some l \<Rightarrow> if l = [] then ''home'' else l | None \<Rightarrow> ''home''))"

definition route :: "page list \<Rightarrow> surroundings \<Rightarrow> kb \<Rightarrow> kb" where
  "route pages env s = render_page pages env (route_slug s) (pendingAnchor s) (s\<lparr>pendingAnchor := None\<rparr>)"

text \<open>A click on a link with \<open>data-anchor\<close>: on the page itself it scrolls, otherwise the anchor waits for the route.\<close>

definition anchor_clicked :: "page list \<Rightarrow> surroundings \<Rightarrow> string \<Rightarrow> string \<Rightarrow> kb \<Rightarrow> kb" where
  "anchor_clicked pages env k anchor s =
     (if (case current s of Some t \<Rightarrow> get ''slug'' (props_of pages t) = Str k | None \<Rightarrow> False)
      then (if has_id env anchor (main_html s) then s\<lparr>scrolled_to := Some anchor\<rparr> else s)
      else s\<lparr>pendingAnchor := Some anchor\<rparr>)"

end
