(* ===== verification/Kb_Search.thy ===== *)
theory Kb_Search
  imports Kb_App
begin

section \<open>Search\<close>

text \<open>
  The search box of \<open>kb-app.js\<close> (lines 112 to 137): the text index, the score of a page, the ranked
  list of at most eight results and its markup, and the listeners around the box.
\<close>

subsection \<open>Scores\<close>

text \<open>\<open>text.split(w).length - 1\<close>: the occurrences of \<open>w\<close> from left to right, without overlap.\<close>

function occurrences :: "string \<Rightarrow> string \<Rightarrow> nat" where
  "occurrences w s = (if w = [] then length s - 1
     else if starts_with w s then Suc (occurrences w (drop (length w) s))
     else (case s of [] \<Rightarrow> 0 | _ # t \<Rightarrow> occurrences w t))"
  by pat_completeness auto
termination
proof (relation "measure (\<lambda>(w, s). length s)")
  fix w s :: string
  assume "w \<noteq> []" "starts_with w s"
  then have "s \<noteq> []" "0 < length w" by auto
  then show "((w, drop (length w) s), w, s) \<in> measure (\<lambda>(w, s). length s)" by simp
qed auto

declare occurrences.simps [simp del]

record index_entry =
  e_page :: page
  e_text :: string

definition index_pages :: "surroundings \<Rightarrow> page list \<Rightarrow> index_entry list" where
  "index_pages env pages = map (\<lambda>p. \<lparr>e_page = p, e_text = js_lower (title p @ '' '' @ text_of_html env (body p))\<rparr>) (visible_pages pages)"

definition word_score :: "index_entry \<Rightarrow> string \<Rightarrow> int" where
  "word_score e w = (let n = int (occurrences w (e_text e)) in
     n + (if has_text w (js_lower (title (e_page e))) then 20 else 0) - (if n = 0 then 1000 else 0))"

definition score_of :: "string list \<Rightarrow> index_entry \<Rightarrow> int" where
  "score_of words e = sum_list (map (word_score e) words)"

definition query_words :: "string \<Rightarrow> string list" where
  "query_words q = split_runs is_space q"

text \<open>\<open>filter\<close>, the stable \<open>sort\<close> by descending score, \<open>slice(0, 8)\<close>.\<close>

definition hits :: "index_entry list \<Rightarrow> string list \<Rightarrow> index_entry list" where
  "hits index words = take 8 (sort_key (\<lambda>e. - score_of words e) (filter (\<lambda>e. score_of words e > 0) index))"

subsection \<open>The list of results\<close>

text \<open>\<open>text.slice(Math.max(0, i - 40), i + 80)\<close> for \<open>i = text.indexOf(w)\<close>, blanks merged.\<close>

function merge_blanks :: "string \<Rightarrow> string" where
  "merge_blanks [] = []"
| "merge_blanks (c # s) = (if is_space c then CHR '' '' # merge_blanks (dropWhile is_space s) else c # merge_blanks s)"
  by pat_completeness auto
termination by (relation "measure length") (auto simp: less_Suc_eq_le length_dropWhile_le)

definition snippet :: "string \<Rightarrow> string \<Rightarrow> string" where
  "snippet w t = merge_blanks (case index_of w t of
     Some i \<Rightarrow> drop (i - 40) (take (i + 80) t)
   | None \<Rightarrow> take 79 t)"

definition result_item :: "string list \<Rightarrow> index_entry \<Rightarrow> string" where
  \<open>result_item words e = ''<a href="#'' @ esc (slug (e_page e)) @ ''">'' @ esc (title (e_page e)) @ ''<small>'' @ ellipsis
     @ esc (snippet (hd words) (e_text e)) @ ellipsis @ ''</small></a>''\<close>

definition no_results :: string where
  \<open>no_results = ''<a href="#home">No matches<small>Try "SCEP challenge", "revoke", "EAB"</small></a>''\<close>

definition results_markup :: "string list \<Rightarrow> index_entry list \<Rightarrow> string" where
  "results_markup words hs = (if hs = [] then no_results else concat (map (result_item words) hs))"

definition links_of :: "index_entry list \<Rightarrow> string list" where
  "links_of hs = (if hs = [] then [''#home''] else map (\<lambda>e. CHR ''#'' # slug (e_page e)) hs)"

definition search :: "page list \<Rightarrow> surroundings \<Rightarrow> string \<Rightarrow> kb \<Rightarrow> kb" where
  "search pages env raw s =
     (let q = js_lower (js_trim raw) in
      if length q < 2 then s\<lparr>results_hidden := True\<rparr>
      else let words = query_words q; hs = hits (index_pages env pages) words in
        s\<lparr>results_html := results_markup words hs, result_links := links_of hs, results_hidden := False\<rparr>)"

subsection \<open>Counting\<close>

lemma occurrences_pos: "w \<noteq> [] \<Longrightarrow> 0 < occurrences w s \<longleftrightarrow> has_text w s"
proof (induction w s rule: occurrences.induct)
  case (1 w s)
  show ?case
  proof (cases "starts_with w s")
    case True
    then have "has_text w s"
      using has_text_append [of w "[]" "drop (length w) s"] by (metis append_Nil append_take_drop_id starts_with.simps)
    with True 1(3) show ?thesis by (subst occurrences.simps) simp
  next
    case False
    show ?thesis
    proof (cases s)
      case Nil
      with False 1(3) show ?thesis
        by (subst occurrences.simps) (auto simp: has_text_iff)
    next
      case (Cons c t)
      have "has_text w (c # t) \<longleftrightarrow> has_text w t"
        using False Cons by (auto simp: has_text_def index_of_def index_from.simps [of 0 w "c # t"] index_from_shift [of "Suc 0"])
      then show ?thesis
        using 1(2) [OF 1(3) False Cons] 1(3) False Cons by (subst occurrences.simps) simp
    qed
  qed
qed

lemma occurrences_bound: "w \<noteq> [] \<Longrightarrow> occurrences w s \<le> length s"
proof (induction w s rule: occurrences.induct)
  case (1 w s)
  show ?case
  proof (cases "starts_with w s")
    case True
    then have "length w \<le> length s"
      by (metis starts_with.simps length_take min.absorb_iff2 min_def)
    moreover have "0 < length w" using 1(3) by simp
    moreover have "occurrences w s = Suc (occurrences w (drop (length w) s))"
      using 1(3) True by (subst occurrences.simps) simp
    moreover have "occurrences w (drop (length w) s) \<le> length s - length w"
      using 1(1) [OF 1(3) True 1(3)] by simp
    ultimately show ?thesis by arith
  next
    case False
    then show ?thesis
      using 1(2) [OF 1(3) False] 1(3) by (subst occurrences.simps) (auto split: list.split)
  qed
qed

lemma word_score_cases:
  assumes "w \<noteq> []"
  shows "word_score e w = (if has_text w (e_text e) then int (occurrences w (e_text e)) else -1000)
    + (if has_text w (js_lower (title (e_page e))) then 20 else 0)"
  using occurrences_pos [OF assms, of "e_text e"] by (cases "occurrences w (e_text e)") (simp_all add: word_score_def Let_def)

subsection \<open>The ranked list\<close>

lemma hits_index: "e \<in> set (hits index words) \<Longrightarrow> e \<in> set index \<and> score_of words e > 0"
  by (auto simp: hits_def dest!: in_set_takeD)

lemma hits_sorted: "sorted_wrt (\<lambda>a b. score_of words a \<ge> score_of words b) (hits index words)"
proof -
  let ?k = "\<lambda>e. - score_of words e"
  have "sorted_wrt (\<lambda>a b. ?k a \<le> ?k b) (sort_key ?k (filter (\<lambda>e. score_of words e > 0) index))"
    using sorted_sort_key [of ?k] by (simp add: sorted_map)
  then show ?thesis
    unfolding hits_def by (simp add: sorted_wrt_take)
qed

lemma hits_left_out:
  assumes "a \<in> set index" "score_of words a > 0" "a \<notin> set (hits index words)"
  shows "length (hits index words) = 8"
proof (rule ccontr)
  let ?s = "sort_key (\<lambda>e. - score_of words e) (filter (\<lambda>e. score_of words e > 0) index)"
  assume "length (hits index words) \<noteq> 8"
  then have "hits index words = ?s" by (simp add: hits_def)
  then show False using assms by simp
qed

lemma hits_all:
  assumes "length index \<le> 8"
  shows "set (hits index words) = {e \<in> set index. score_of words e > 0}"
proof -
  have "length (filter (\<lambda>e. score_of words e > 0) index) \<le> 8"
    using assms length_filter_le [of _ index] le_trans by blast
  then show ?thesis by (simp add: hits_def)
qed

lemma index_page: "e \<in> set (index_pages env pages) \<Longrightarrow> e_page e \<in> set pages \<and> \<not> is_hidden (e_page e)"
  by (auto simp: index_pages_def visible_pages_def)

text \<open>A page that lacks the second of two words.\<close>

lemma score_missing:
  assumes "v \<noteq> []" "w \<noteq> []" "has_text v (e_text e)" "\<not> has_text w (e_text e)" "\<not> has_text w (js_lower (title (e_page e)))"
  shows "score_of [v, w] e = int (occurrences v (e_text e)) + (if has_text v (js_lower (title (e_page e))) then 20 else 0) - 1000"
  using assms(3-5) by (simp add: score_of_def word_score_cases [OF assms(1)] word_score_cases [OF assms(2)])

lemma index_title: "e \<in> set (index_pages env pages) \<Longrightarrow> has_text w (js_lower (title (e_page e))) \<Longrightarrow> has_text w (e_text e)"
  by (auto simp: index_pages_def js_lower_def has_text_iff) (metis append_assoc)

lemma hits_best:
  assumes "a \<in> set index" "score_of words a > 0" "a \<notin> set (hits index words)" "b \<in> set (hits index words)"
  shows "score_of words a \<le> score_of words b \<and> length (hits index words) = 8"
proof -
  let ?k = "\<lambda>e. - score_of words e"
  let ?s = "sort_key ?k (filter (\<lambda>e. score_of words e > 0) index)"
  have a: "a \<in> set (drop 8 ?s)"
  proof -
    have "a \<in> set (take 8 ?s @ drop 8 ?s)" using assms(1,2) by simp
    then show ?thesis using assms(3) unfolding hits_def set_append by blast
  qed
  have "sorted_wrt (\<lambda>a b. ?k a \<le> ?k b) (take 8 ?s @ drop 8 ?s)"
    using sorted_sort_key [of ?k] by (simp add: sorted_map)
  then have "?k b \<le> ?k a"
    using a assms(4) unfolding sorted_wrt_append hits_def by blast
  moreover have "8 < length ?s" using a by (cases "8 < length ?s") auto
  ultimately show ?thesis by (simp add: hits_def)
qed

lemma hits_stable: "filter (\<lambda>e. score_of words e = n) (sort_key (\<lambda>e. - score_of words e) xs) = filter (\<lambda>e. score_of words e = n) xs"
  using sort_key_stable [of "\<lambda>e. - score_of words e" "- n" xs] by simp

end
