(* ===== verification/Kb_Machine.thy ===== *)
theory Kb_Machine
  imports Kb_Search
begin

section \<open>The knowledge base as a machine\<close>

text \<open>
  The listeners of \<open>kb-app.js\<close> as events, and the lemmas about what they show: the groups of the
  navigation, the neighbours of the pager, the page a hash leads to, the markup of the lists and the
  invariant that the document shows the current page and its one scene view.
\<close>

datatype kb_event =
    Hash_Changed string
  | Anchor_Clicked string string
  | Query_Typed string
  | Key_Escape
  | Key_Enter
  | Results_Clicked
  | Outside_Clicked
  | Menu_Clicked
  | Slash_Pressed bool
  | Focus_Moved bool

text \<open>Assigning \<open>location.hash\<close> runs the route when the hash changes.\<close>

definition go_hash :: "page list \<Rightarrow> surroundings \<Rightarrow> string \<Rightarrow> kb \<Rightarrow> kb" where
  "go_hash pages env h s = (if h = hash s then s else route pages env (s\<lparr>hash := h\<rparr>))"

definition enter :: "page list \<Rightarrow> surroundings \<Rightarrow> kb \<Rightarrow> kb" where
  "enter pages env s = (case result_links s of
     [] \<Rightarrow> s
   | l # _ \<Rightarrow> go_hash pages env l (s\<lparr>results_hidden := True\<rparr>))"

text \<open>The slash key puts the cursor into the search field, unless \<open>typing\<close> says that the key was typed into one.\<close>

definition slash_pressed :: "bool \<Rightarrow> kb \<Rightarrow> kb" where
  "slash_pressed typing s = (if \<not> in_search s \<and> \<not> typing then s\<lparr>in_search := True\<rparr> else s)"

lemma slash_view [simp]: "current (slash_pressed b s) = current s" "main_html (slash_pressed b s) = main_html s"
  "doc_title (slash_pressed b s) = doc_title s" "lit_links (slash_pressed b s) = lit_links s"
  "scene_view (slash_pressed b s) = scene_view s" "live_views (slash_pressed b s) = live_views s"
  by (simp_all add: slash_pressed_def)

fun kb_handle :: "page list \<Rightarrow> surroundings \<Rightarrow> kb_event \<Rightarrow> kb \<Rightarrow> kb" where
  "kb_handle pages env (Hash_Changed h) s = go_hash pages env h s"
| "kb_handle pages env (Anchor_Clicked k a) s = anchor_clicked pages env k a s"
| "kb_handle pages env (Query_Typed q) s = search pages env q (s\<lparr>query := q\<rparr>)"
| "kb_handle pages env Key_Escape s = s\<lparr>results_hidden := True, in_search := False\<rparr>"
| "kb_handle pages env Key_Enter s = enter pages env s"
| "kb_handle pages env Results_Clicked s = s\<lparr>results_hidden := True, query := []\<rparr>"
| "kb_handle pages env Outside_Clicked s = s\<lparr>results_hidden := True\<rparr>"
| "kb_handle pages env (Slash_Pressed typing) s = slash_pressed typing s"
| "kb_handle pages env (Focus_Moved b) s = s\<lparr>in_search := b\<rparr>"
| "kb_handle pages env Menu_Clicked s = s\<lparr>nav_open := \<not> nav_open s\<rparr>"

text \<open>The state before the script runs: nothing shown, the stored page and the hash of the address.\<close>

definition kb_blank :: "string option \<Rightarrow> bool \<Rightarrow> string \<Rightarrow> kb" where
  "kb_blank l bl h = \<lparr>current = None, doc_title = [], main_html = [], lit_links = [], nav_open = False, scene_view = None,
     live_views = [], hash = h, kb_last = l, storage_blocked = bl, pendingAnchor = None, scrolled_to = None, query = [], in_search = False,
     results_hidden = True, results_html = [], result_links = []\<rparr>"

subsection \<open>The groups of the navigation\<close>

fun first_names :: "string list \<Rightarrow> string list" where
  "first_names [] = []"
| "first_names (g # gs) = g # filter (\<lambda>h. h \<noteq> g) (first_names gs)"

lemma first_names_set [simp]: "set (first_names gs) = set gs"
  by (induction gs) auto

lemma first_names_distinct: "distinct (first_names gs)"
  by (induction gs) auto

lemma first_names_snoc: "first_names (gs @ [g]) = (if g \<in> set gs then first_names gs else first_names gs @ [g])"
  by (induction gs) auto

text \<open>The reference: the group names in the order of their first page, each with its visible pages.\<close>

definition groups_spec :: "page list \<Rightarrow> (string \<times> page list) list" where
  "groups_spec ps = map (\<lambda>g. (g, filter (\<lambda>p. grp p = g) ps)) (first_names (map grp ps))"

lemma add_to_group_known:
  assumes "distinct names" "grp p \<in> set names"
  shows "add_to_group p (map (\<lambda>g. (g, f g)) names) = map (\<lambda>g. (g, if g = grp p then f g @ [p] else f g)) names"
  using assms by (induction names) auto

lemma add_to_group_new:
  "grp p \<notin> set names \<Longrightarrow> add_to_group p (map (\<lambda>g. (g, f g)) names) = map (\<lambda>g. (g, f g)) names @ [(grp p, [p])]"
  by (induction names) auto

lemma add_to_group_spec: "add_to_group p (groups_spec ps) = groups_spec (ps @ [p])"
proof (cases "grp p \<in> set (map grp ps)")
  case True
  have "add_to_group p (groups_spec ps) = map (\<lambda>g. (g, if g = grp p then filter (\<lambda>q. grp q = g) ps @ [p] else filter (\<lambda>q. grp q = g) ps)) (first_names (map grp ps))"
    unfolding groups_spec_def by (rule add_to_group_known) (use True first_names_distinct in simp_all)
  also have "\<dots> = groups_spec (ps @ [p])"
    using True unfolding groups_spec_def map_append list.map first_names_snoc by simp
  finally show ?thesis .
next
  case False
  then have "filter (\<lambda>q. grp q = grp p) ps = []" by (auto simp: filter_empty_conv intro: rev_image_eqI)
  moreover have "map (\<lambda>g. (g, filter (\<lambda>q. grp q = g) (ps @ [p]))) (first_names (map grp ps))
      = map (\<lambda>g. (g, filter (\<lambda>q. grp q = g) ps)) (first_names (map grp ps))"
    using False by auto
  ultimately show ?thesis
    using False add_to_group_new [of p "first_names (map grp ps)" "\<lambda>g. filter (\<lambda>q. grp q = g) ps"]
    unfolding groups_spec_def map_append list.map first_names_snoc by simp
qed

lemma groups_eq: "groups pages = groups_spec (visible_pages pages)"
proof -
  have "foldl (\<lambda>gs p. if is_hidden p then gs else add_to_group p gs) (groups_spec qs) pages = groups_spec (qs @ visible_pages pages)" for qs
    by (induction pages arbitrary: qs) (simp_all add: visible_pages_def add_to_group_spec)
  from this [of "[]"] show ?thesis by (simp add: groups_def groups_spec_def)
qed

lemma nav_slugs_set: "set (nav_slugs pages) = slug ` set (visible_pages pages)"
  by (auto simp: nav_slugs_def groups_eq groups_spec_def)

subsection \<open>The pager\<close>

lemma prev_page_Some: "prev_page pages i = Some j \<Longrightarrow>
    j < i \<and> j < length pages \<and> \<not> is_hidden (pages ! j) \<and> (\<forall>k. j < k \<and> k < i \<longrightarrow> is_hidden (pages ! k))"
  by (induction pages i rule: prev_page.induct) (auto split: if_splits simp: less_Suc_eq)

lemma prev_page_None: "i \<le> length pages \<Longrightarrow> prev_page pages i = None \<longleftrightarrow> (\<forall>k < i. is_hidden (pages ! k))"
  by (induction pages i rule: prev_page.induct) (auto simp: less_Suc_eq)

lemma next_page_Some: "next_page pages i = Some j \<Longrightarrow>
    i < j \<and> j < length pages \<and> \<not> is_hidden (pages ! j) \<and> (\<forall>k. i < k \<and> k < j \<longrightarrow> is_hidden (pages ! k))"
proof (induction pages i rule: next_page.induct)
  case (1 pages i)
  show ?case
  proof (cases "Suc i < length pages \<and> is_hidden (pages ! Suc i)")
    case True
    with 1(2) have "next_page pages (Suc i) = Some j" by (subst (asm) next_page.simps) simp
    with 1(1) True show ?thesis by (metis Suc_lessD Suc_lessI)
  next
    case False
    with 1(2) have "Suc i < length pages" "j = Suc i" "\<not> is_hidden (pages ! Suc i)"
      by (subst (asm) next_page.simps, auto split: if_splits)+
    then show ?thesis by auto
  qed
qed

lemma next_page_None: "next_page pages i = None \<longleftrightarrow> (\<forall>k. i < k \<and> k < length pages \<longrightarrow> is_hidden (pages ! k))"
proof (induction pages i rule: next_page.induct)
  case (1 pages i)
  show ?case
  proof (cases "Suc i < length pages \<and> is_hidden (pages ! Suc i)")
    case True
    then have "next_page pages i = next_page pages (Suc i)" by (subst next_page.simps) simp
    with 1 True show ?thesis by (metis Suc_lessI Suc_lessD)
  next
    case False
    then show ?thesis by (subst next_page.simps) (auto split: if_splits dest: Suc_lessI)
  qed
qed

lemma prev_page_iff:
  assumes "j \<le> length pages" "i < length pages" "\<not> is_hidden (pages ! i)"
  shows "prev_page pages j = Some i \<longleftrightarrow> i < j \<and> (\<forall>k. i < k \<and> k < j \<longrightarrow> is_hidden (pages ! k))"
proof (cases "prev_page pages j")
  case None
  then show ?thesis using prev_page_None [OF assms(1)] assms(3) by auto
next
  case (Some m)
  then show ?thesis using prev_page_Some [OF Some] assms(3) by (auto simp: not_less_iff_gr_or_eq) (metis linorder_neqE_nat)+
qed

lemma next_page_iff:
  assumes "j < length pages" "\<not> is_hidden (pages ! j)"
  shows "next_page pages i = Some j \<longleftrightarrow> i < j \<and> (\<forall>k. i < k \<and> k < j \<longrightarrow> is_hidden (pages ! k))"
proof (cases "next_page pages i")
  case None
  then show ?thesis using next_page_None [of pages i] assms by auto
next
  case (Some m)
  then show ?thesis using next_page_Some [OF Some] assms by (auto simp: not_less_iff_gr_or_eq) (metis linorder_neqE_nat)+
qed

subsection \<open>Finding a page\<close>

lemma last_index_Some: "last_index ps k = Some i \<Longrightarrow> i < length ps \<and> slug (ps ! i) = k"
  by (induction ps arbitrary: i) (auto split: option.splits if_splits)

lemma last_index_None: "last_index ps k = None \<longleftrightarrow> k \<notin> slug ` set ps"
  by (induction ps) (auto split: option.splits)

lemma last_index_distinct:
  assumes "distinct (map slug ps)" "i < length ps"
  shows "last_index ps (slug (ps ! i)) = Some i"
proof (cases "last_index ps (slug (ps ! i))")
  case None
  then show ?thesis using assms(2) by (simp add: last_index_None)
next
  case (Some j)
  with last_index_Some have "j < length ps" "slug (ps ! j) = slug (ps ! i)" by blast+
  with assms have "j = i" by (metis distinct_conv_nth length_map nth_map)
  with Some show ?thesis by simp
qed

lemma get_slug [simp]: "get ''slug'' (props_of pages (Page i)) = Str (slug (pages ! i))"
  by (simp add: get_def props_of_def page_props_def)

subsection \<open>The markup of the lists\<close>

lemma scan_esc: "harmless q \<Longrightarrow> scan q (esc s) = (q, [])"
  by (simp add: esc_def kb_esc_def scan_escaped)

definition link_tokens :: "bool \<Rightarrow> token list" where
  "link_tokens tagged = [Tag ''a'', Attr ''href'', Attr ''data-slug'']
     @ (if tagged then [Tag ''span'', Attr ''class'', Tag ''/span''] else []) @ [Tag ''/a'']"

lemma nav_literals:
  \<open>scan Content ''<a href="#'' = (Quoted, [Tag ''a'', Attr ''href''])\<close>
  \<open>scan Quoted ''" data-slug="'' = (Quoted, [Attr ''data-slug''])\<close>
  \<open>scan Quoted ''">'' = (Content, [])\<close>
  \<open>scan Content ''<span class="tag">3D</span>'' = (Content, [Tag ''span'', Attr ''class'', Tag ''/span''])\<close>
  \<open>scan Content ''</a>'' = (Content, [Tag ''/a''])\<close>
  \<open>scan Content ''<h3>'' = (Content, [Tag ''h3''])\<close>
  \<open>scan Content ''</h3>'' = (Content, [Tag ''/h3''])\<close>
  \<open>scan Content ''<small>'' = (Content, [Tag ''small''])\<close>
  \<open>scan Content ''</small></a>'' = (Content, [Tag ''/small'', Tag ''/a''])\<close>
  by code_simp+

lemma scan_nav_item: "scan Content (nav_item p) = (Content, link_tokens (truthy (scene p)))"
  unfolding nav_item_def scan_append nav_literals
  by (cases "truthy (scene p)") (simp_all add: nav_literals scan_esc link_tokens_def del: scan.simps(2))

lemma scan_map:
  assumes "\<And>x. x \<in> set xs \<Longrightarrow> scan Content (f x) = (Content, g x)"
  shows "scan Content (concat (map f xs)) = (Content, concat (map g xs))"
  using assms by (induction xs) (simp_all add: scan_append)

definition group_tokens :: "string \<times> page list \<Rightarrow> token list" where
  "group_tokens g = Tag ''h3'' # Tag ''/h3'' # concat (map (\<lambda>p. link_tokens (truthy (scene p))) (snd g))"

lemma scan_nav: "scan Content (nav_html pages) = (Content, concat (map group_tokens (groups_spec (visible_pages pages))))"
proof -
  have "scan Content (nav_group g) = (Content, group_tokens g)" for g
    unfolding nav_group_def scan_append
    by (simp add: nav_literals scan_esc scan_map [OF scan_nav_item] group_tokens_def del: scan.simps)
  then show ?thesis
    unfolding nav_html_def groups_eq by (rule scan_map)
qed

lemma scan_ellipsis: "scan Content ellipsis = (Content, [])"
  by (rule scan_inert) (simp_all add: ellipsis_def)

lemma scan_result:
  "scan Content (result_item words e) = (Content, [Tag ''a'', Attr ''href'', Tag ''small'', Tag ''/small'', Tag ''/a''])"
  unfolding result_item_def scan_append
  by (simp add: nav_literals scan_esc scan_ellipsis del: scan.simps)

lemma scan_results:
  "scan Content (results_markup words hs)
     = (Content, concat (replicate (max 1 (length hs)) [Tag ''a'', Attr ''href'', Tag ''small'', Tag ''/small'', Tag ''/a'']))"
proof (cases hs)
  case Nil
  have "scan Content no_results = (Content, [Tag ''a'', Attr ''href'', Tag ''small'', Tag ''/small'', Tag ''/a''])"
    by code_simp
  with Nil show ?thesis by (simp add: results_markup_def)
next
  case (Cons e es)
  then show ?thesis
    using scan_map [of hs "result_item words", OF scan_result] by (simp add: results_markup_def map_replicate_const)
qed

subsection \<open>The document shows the current page\<close>

text \<open>
  What the page and its surroundings agree on once the first route has run: title, markup and lit
  links are those of the current page, and the scene view of that page is the only one alive.
\<close>

definition wanted_view :: "page list \<Rightarrow> surroundings \<Rightarrow> target \<Rightarrow> string option" where
  "wanted_view pages env t = (case scene_of (props_of pages t) of
     Some x \<Rightarrow> if mounts env x then Some x else None | None \<Rightarrow> None)"

definition views_ok :: "kb \<Rightarrow> bool" where
  "views_ok s \<longleftrightarrow> live_views s = (case scene_view s of Some x \<Rightarrow> [x] | None \<Rightarrow> [])"

definition showing_page :: "page list \<Rightarrow> surroundings \<Rightarrow> target \<Rightarrow> kb \<Rightarrow> bool" where
  "showing_page pages env t s \<longleftrightarrow>
     current s = Some t \<and> (case t of Page i \<Rightarrow> i < length pages | Inherited \<Rightarrow> True) \<and>
     main_html s = page_html pages t \<and> doc_title s = page_title (props_of pages t) \<and>
     lit_links s = map (\<lambda>k. Str k = get ''slug'' (props_of pages t)) (nav_slugs pages) \<and>
     scene_view s = wanted_view pages env t \<and> views_ok s"

definition kb_ok :: "page list \<Rightarrow> surroundings \<Rightarrow> kb \<Rightarrow> bool" where
  "kb_ok pages env s \<longleftrightarrow> (\<exists>t. showing_page pages env t s)"

definition view_part :: "kb \<Rightarrow> target option \<times> string \<times> string \<times> bool list \<times> string option \<times> string list" where
  "view_part s = (current s, main_html s, doc_title s, lit_links s, scene_view s, live_views s)"

lemma showing_same: "view_part s' = view_part s \<Longrightarrow> showing_page pages env t s' = showing_page pages env t s"
  by (simp add: showing_page_def view_part_def views_ok_def)

lemma kb_ok_same: "view_part s' = view_part s \<Longrightarrow> kb_ok pages env s' = kb_ok pages env s"
  using showing_same [of s' s] by (simp add: kb_ok_def)

lemma find_page_valid: "pages \<noteq> [] \<Longrightarrow> (case find_page pages k of Page i \<Rightarrow> i < length pages | Inherited \<Rightarrow> True)"
  using last_index_Some [of pages k] by (auto simp: find_page_def split: option.split)

lemma dispose_views: "views_ok s \<Longrightarrow> scene_view (dispose_view s) = None \<and> live_views (dispose_view s) = []"
  by (cases "scene_view s") (simp_all add: views_ok_def dispose_view_def)

lemma mount_views:
  assumes "scene_view s = None" "live_views s = []"
  shows "scene_view (mount_view env (props_of pages t) s) = wanted_view pages env t \<and> views_ok (mount_view env (props_of pages t) s)"
  using assms by (cases "scene_of (props_of pages t)") (simp_all add: mount_view_def wanted_view_def views_ok_def)

lemma mount_fields [simp]:
  "current (mount_view env p s) = current s" "main_html (mount_view env p s) = main_html s" "doc_title (mount_view env p s) = doc_title s"
  by (simp_all add: mount_view_def split: option.split)

lemma show_page_showing:
  assumes "views_ok s" "case t of Page i \<Rightarrow> i < length pages | Inherited \<Rightarrow> True"
  shows "showing_page pages env t (show_page pages env t s)"
proof -
  let ?s2 = "(dispose_view s)\<lparr>current := Some t, doc_title := page_title (props_of pages t), main_html := page_html pages t\<rparr>"
  have "scene_view ?s2 = None" "live_views ?s2 = []" using dispose_views [OF assms(1)] by simp_all
  from mount_views [OF this, of env pages t] show ?thesis
    using assms(2) by (simp add: showing_page_def show_page_def Let_def views_ok_def)
qed

lemma finish_view: "view_part (finish_page env p a s) = view_part s"
  by (simp add: finish_page_def view_part_def Let_def)

lemma route_showing:
  assumes "views_ok s" "pages \<noteq> []"
  shows "showing_page pages env (find_page pages (route_slug s)) (route pages env s)"
proof -
  have "views_ok (s\<lparr>pendingAnchor := None\<rparr>)" using assms(1) by (simp add: views_ok_def)
  from show_page_showing [OF this find_page_valid [OF assms(2)]] show ?thesis
    by (simp add: route_def render_page_def Let_def showing_same [OF finish_view])
qed

lemma kb_views: "kb_ok pages env s \<Longrightarrow> views_ok s"
  by (auto simp: kb_ok_def showing_page_def)

lemma search_view: "view_part (search pages env q s) = view_part s"
  by (simp add: search_def view_part_def Let_def)

lemma anchor_view: "view_part (anchor_clicked pages env k a s) = view_part s"
  by (simp add: anchor_clicked_def view_part_def split: option.split)

lemma go_hash_ok: "pages \<noteq> [] \<Longrightarrow> kb_ok pages env s \<Longrightarrow> kb_ok pages env (go_hash pages env h s)"
  using route_showing [of "s\<lparr>hash := h\<rparr>" pages env] kb_views [of pages env s]
  by (auto simp: go_hash_def kb_ok_def views_ok_def)

lemma kb_handle_ok:
  assumes "pages \<noteq> []" "kb_ok pages env s"
  shows "kb_ok pages env (kb_handle pages env e s)"
proof (cases e)
  case Key_Enter
  have "kb_ok pages env (s\<lparr>results_hidden := True\<rparr>)"
    using assms(2) by (subst kb_ok_same [of _ s]) (simp_all add: view_part_def)
  then show ?thesis
    using assms Key_Enter by (simp add: enter_def go_hash_ok split: list.split)
next
  case (Query_Typed q)
  then show ?thesis
    using assms(2) by (subst kb_ok_same [of _ s]) (simp_all add: search_view, simp add: view_part_def)
next
  case (Anchor_Clicked k a)
  then show ?thesis using assms(2) by (simp add: kb_ok_same [OF anchor_view])
next
  case (Hash_Changed h)
  then show ?thesis using assms by (simp add: go_hash_ok)
qed (use assms(2) in \<open>simp_all add: kb_ok_def showing_page_def views_ok_def slash_pressed_def\<close>)

interpretation shell: event_system "\<lambda>e. pure_act (kb_handle pages env e)" "\<lambda>e s. pages \<noteq> []" "kb_ok pages env"
    "\<lambda>s. \<exists>l bl h. pages \<noteq> [] \<and> s = route pages env (kb_blank l bl h)" for pages env
proof
  fix s
  assume "\<exists>l bl h. pages \<noteq> [] \<and> s = route pages env (kb_blank l bl h)"
  then show "kb_ok pages env s"
  proof (elim exE conjE)
    fix l bl h
    assume s: "pages \<noteq> []" "s = route pages env (kb_blank l bl h)"
    have "views_ok (kb_blank l bl h)" by (simp add: views_ok_def kb_blank_def)
    from route_showing [OF this s(1)] s(2) show ?thesis by (auto simp: kb_ok_def)
  qed
qed (simp add: kb_handle_ok)

subsection \<open>Coming back\<close>

lemma show_page_fields [simp]:
  "storage_blocked (show_page pages env t s) = storage_blocked s" "hash (show_page pages env t s) = hash s"
  "main_html (show_page pages env t s) = page_html pages t"
  by (cases "scene_view s"; cases "scene_of (props_of pages t)";
      simp add: show_page_def dispose_view_def mount_view_def Let_def)+

lemma finish_page_fields [simp]:
  "storage_blocked (finish_page env p a s) = storage_blocked s" "hash (finish_page env p a s) = hash s"
  by (simp_all add: finish_page_def Let_def)

lemma route_fields [simp]:
  "storage_blocked (route pages env s) = storage_blocked s" "hash (route pages env s) = hash s"
  by (simp_all add: route_def render_page_def Let_def)

lemma finish_page_shows [simp]:
  "current (finish_page env p a s) = current s" "main_html (finish_page env p a s) = main_html s"
  by (simp_all add: finish_page_def Let_def)

lemma show_page_current [simp]: "current (show_page pages env t s) = Some t"
  by (simp add: show_page_def Let_def)

lemma current_route: "current (route pages env s) = Some (find_page pages (route_slug s))"
  by (simp add: route_def render_page_def Let_def)

lemma main_route: "main_html (route pages env s) = page_html pages (find_page pages (route_slug s))"
  by (simp add: route_def render_page_def Let_def)

lemma kb_last_route:
  assumes "\<not> storage_blocked s"
    "\<not> (truthy (pendingAnchor s) \<and> has_id env (the (pendingAnchor s)) (page_html pages (find_page pages (route_slug s))))"
  shows "kb_last (route pages env s) = Some (to_string (get ''slug'' (props_of pages (find_page pages (route_slug s)))))"
proof -
  have "kb_last (finish_page env p (pendingAnchor s) t) = Some (to_string (get ''slug'' p))"
    if "\<not> storage_blocked t" "main_html t = page_html pages (find_page pages (route_slug s))" for p t
    using assms(2) that by (auto simp: finish_page_def Let_def)
  then show ?thesis
    using assms(1) by (simp add: route_def render_page_def Let_def)
qed

end
