(* ===== verification/Kb_Properties.thy ===== *)
theory Kb_Properties
  imports Kb_Machine
begin

section \<open>Properties of the knowledge base\<close>

text \<open>
  The properties of \<open>kb-app.js\<close> over the theories \<open>Kb_App\<close>, \<open>Kb_Search\<close> and \<open>Kb_Machine\<close>, each with an
  instance on a small knowledge base of five pages.
\<close>

definition plain_page :: "string \<Rightarrow> string \<Rightarrow> string \<Rightarrow> page" where
  "plain_page k t g = \<lparr>slug = k, title = t, nav = None, grp = g, is_hidden = False, scene = None, body = t, pre = [], post = []\<rparr>"

definition some_pages :: "page list" where
  "some_pages = [plain_page ''home'' ''Welcome'' ''Start'', plain_page ''acme'' ''ACME <v2>'' ''Protocols'',
     (plain_page ''draft'' ''Draft'' ''Protocols'')\<lparr>is_hidden := True\<rparr>,
     (plain_page ''est'' ''EST'' ''Protocols'')\<lparr>scene := Some ''estlb'', nav := Some ''EST & TLS''\<rparr>,
     plain_page ''api'' ''API'' ''Start'']"

definition some_env :: surroundings where
  "some_env = \<lparr>has_id = (\<lambda>a h. a = ''top''), mounts = (\<lambda>x. x = ''estlb''), text_of_html = id\<rparr>"

subsection \<open>Routing\<close>

text \<open>C7: The document shows the current page.  After any events title, markup and lit links are those of one page, and
  the scene view of that page is the only one alive: every other view has been disposed of.\<close>

theorem kb_shows_current_page:
  assumes "pages \<noteq> []" "s = run_all (\<lambda>e. pure_act (kb_handle pages env e)) es (route pages env (kb_blank l bl h))"
  shows "\<exists>t. current s = Some t \<and> main_html s = page_html pages t \<and> doc_title s = page_title (props_of pages t)
    \<and> lit_links s = map (\<lambda>k. Str k = get ''slug'' (props_of pages t)) (nav_slugs pages)
    \<and> live_views s = (case wanted_view pages env t of Some x \<Rightarrow> [x] | None \<Rightarrow> [])"
proof -
  have "all_allowed (\<lambda>e s. pages \<noteq> []) (\<lambda>e. pure_act (kb_handle pages env e)) es (route pages env (kb_blank l bl h))"
    using assms(1) by (simp add: all_allowed_const)
  then have "kb_ok pages env s"
    unfolding assms(2) using assms(1) by (intro shell.started_keeps) blast+
  then obtain t where "showing_page pages env t s" by (auto simp: kb_ok_def)
  then show ?thesis
    by (intro exI [of _ t]) (simp add: showing_page_def views_ok_def)
qed

theorem kb_shows_current_page_witness:
  "\<exists>t. current (run_all (\<lambda>e. pure_act (kb_handle some_pages some_env e)) [Hash_Changed ''#est'', Query_Typed ''acme'', Key_Enter]
     (route some_pages some_env (kb_blank None False []))) = Some t"
  using kb_shows_current_page [OF _ refl, of some_pages some_env
      "[Hash_Changed ''#est'', Query_Typed ''acme'', Key_Enter]" None False "[]"]
  by (auto simp: some_pages_def)

text \<open>C25: Where a hash leads.  A known slug shows its page; an unknown one shows the first page, except the name of a
  property every object inherits: that shows a page whose title and text are \<open>undefined\<close>.\<close>

theorem hash_leads_to_its_page:
  assumes "distinct (map slug pages)" "pages \<noteq> []" "hash s = CHR ''#'' # k" "k \<noteq> []"
  shows "current (route pages env s) = Some (find_page pages k)
    \<and> (\<forall>i < length pages. slug (pages ! i) = k \<longrightarrow> find_page pages k = Page i)
    \<and> (k \<notin> slug ` set pages \<longrightarrow> find_page pages k = (if k \<in> set inherited_names then Inherited else Page 0))
    \<and> page_title (props_of pages Inherited) = ''undefined '' @ [CHR 0xB7] @ '' Certadillo knowledge base''
    \<and> scene_of (props_of pages Inherited) = None"
proof -
  have "route_slug s = k" using assms(3,4) by (simp add: route_slug_def hash_slug_def)
  then have "current (route pages env s) = Some (find_page pages k)" by (simp add: current_route)
  moreover have "\<forall>i < length pages. slug (pages ! i) = k \<longrightarrow> find_page pages k = Page i"
    using last_index_distinct [OF assms(1)] by (auto simp: find_page_def)
  moreover have "k \<notin> slug ` set pages \<longrightarrow> find_page pages k = (if k \<in> set inherited_names then Inherited else Page 0)"
    by (auto simp: find_page_def last_index_None [THEN iffD2])
  ultimately show ?thesis
    by (simp add: page_title_def scene_of_def get_def props_of_def)
qed

theorem hash_leads_to_its_page_witness:
  "current (route some_pages some_env (kb_blank None False ''#constructor'')) = Some Inherited"
  using hash_leads_to_its_page [of some_pages "kb_blank None False ''#constructor''" "''constructor''" some_env]
  by (auto simp: some_pages_def plain_page_def kb_blank_def inherited_names_def)



subsection \<open>Navigation\<close>

text \<open>C33: The navigation lists every visible page once, grouped: the groups in the order of their first page, the pages of
  a group in their order; and whatever the titles hold, its markup is one heading for a group and one link
  for a page, with the badge on the pages that have a scene.\<close>

theorem navigation_lists_visible_pages:
  "groups pages = groups_spec (visible_pages pages) \<and> set (nav_slugs pages) = slug ` set (visible_pages pages)
   \<and> scan Content (nav_html pages) = (Content, concat (map group_tokens (groups_spec (visible_pages pages))))"
  using groups_eq nav_slugs_set scan_nav by simp

text \<open>C32: The links of the pager lead to the nearest visible page on either side, and back: from a visible page the next
  page is \<open>j\<close> exactly when the previous page of \<open>j\<close> is the page itself.\<close>

theorem pager_leads_back:
  assumes "i < length pages" "j < length pages" "\<not> is_hidden (pages ! i)" "\<not> is_hidden (pages ! j)"
  shows "(next_page pages i = Some j \<longleftrightarrow> i < j \<and> (\<forall>k. i < k \<and> k < j \<longrightarrow> is_hidden (pages ! k)))
    \<and> (next_page pages i = Some j \<longleftrightarrow> prev_page pages j = Some i)"
proof -
  have n: "next_page pages i = Some j \<longleftrightarrow> i < j \<and> (\<forall>k. i < k \<and> k < j \<longrightarrow> is_hidden (pages ! k))"
    using next_page_iff [OF assms(2,4)] .
  moreover have "prev_page pages j = Some i \<longleftrightarrow> i < j \<and> (\<forall>k. i < k \<and> k < j \<longrightarrow> is_hidden (pages ! k))"
    using prev_page_iff [of j pages i] assms by simp
  ultimately show ?thesis by simp
qed

theorem pager_leads_back_witness: "next_page some_pages 1 = Some 3 \<and> prev_page some_pages 3 = Some 1"
proof -
  have p: "prev_page some_pages 3 = Some 1"
    by (simp add: some_pages_def plain_page_def numeral_3_eq_3)
  then show ?thesis
    using pager_leads_back [of 1 some_pages 3] by (simp add: some_pages_def plain_page_def)
qed

subsection \<open>Search\<close>

definition result_tokens :: "token list" where
  "result_tokens = [Tag ''a'', Attr ''href'', Tag ''small'', Tag ''/small'', Tag ''/a'']"

text \<open>C24: The results are the best eight pages, best first, ties in the order of the pages; every result is a visible page
  with a positive score, a page is left out only for eight at least as good, and the markup is one link for
  a result whatever the pages hold.\<close>

theorem search_lists_the_best:
  assumes "hs = hits (index_pages env pages) words"
  shows "length hs \<le> 8 \<and> sorted_wrt (\<lambda>a b. score_of words a \<ge> score_of words b) hs
    \<and> (\<forall>e \<in> set hs. e_page e \<in> set pages \<and> \<not> is_hidden (e_page e) \<and> score_of words e > 0)
    \<and> (\<forall>a \<in> set (index_pages env pages). score_of words a > 0 \<longrightarrow> a \<notin> set hs \<longrightarrow>
         length hs = 8 \<and> (\<forall>b \<in> set hs. score_of words a \<le> score_of words b))
    \<and> scan Content (results_markup words hs) = (Content, concat (replicate (max 1 (length hs)) result_tokens))"
proof -
  have "length hs \<le> 8" by (simp add: assms hits_def)
  moreover have "\<forall>e \<in> set hs. e_page e \<in> set pages \<and> \<not> is_hidden (e_page e) \<and> score_of words e > 0"
    using hits_index [of _ "index_pages env pages" words] index_page [of _ env pages] unfolding assms by blast
  moreover have "\<forall>a \<in> set (index_pages env pages). score_of words a > 0 \<longrightarrow> a \<notin> set hs \<longrightarrow>
      length hs = 8 \<and> (\<forall>b \<in> set hs. score_of words a \<le> score_of words b)"
    using hits_best [of _ "index_pages env pages" words] hits_left_out [of _ "index_pages env pages" words] unfolding assms by blast
  moreover have "scan Content (results_markup words hs) = (Content, concat (replicate (max 1 (length hs)) result_tokens))"
    using scan_results [of words hs] by (simp add: result_tokens_def)
  ultimately show ?thesis using hits_sorted [of words "index_pages env pages"] assms by simp
qed

theorem search_lists_the_best_witness:
  "length (hits (index_pages some_env some_pages) [''est'']) \<le> 8"
  using search_lists_the_best [OF refl, of some_env some_pages "[''est'']"] by simp






end
