(* ===== verification/Kb_Enhance.thy ===== *)
theory Kb_Enhance
  imports Event_Machine
begin

section \<open>Tables and copy buttons of the knowledge base\<close>

text \<open>
  \<open>enhance\<close> of \<open>kb-src/kb-app.js\<close> on the document of a page: each table of the prose gets a frame that
  scrolls, each code block a button that copies it, and the copy button with its clipboard, its
  timers and the selection it falls back to.  Elements have an identity, because the code holds on to
  the elements it has queried while it changes the tree around them.  \<open>innerText\<close> of the browser is the
  parameter \<open>inner\<close>.
\<close>

subsection \<open>Documents\<close>

datatype dom = Text string | Element nat string "string list" "dom list"

fun own_id :: "dom \<Rightarrow> nat option" where
  "own_id (Text t) = None"
| "own_id (Element i tag cls ns) = Some i"

fun ids :: "dom \<Rightarrow> nat list" where
  "ids (Text t) = []"
| "ids (Element i tag cls ns) = i # concat (map ids ns)"

fun text_content :: "dom \<Rightarrow> string" where
  "text_content (Text t) = t"
| "text_content (Element i tag cls ns) = concat (map text_content ns)"

text \<open>\<open>root.querySelectorAll(".kb-prose tag")\<close>: descendants in document order; \<open>pr\<close> is true below the prose.\<close>

fun matched :: "string \<Rightarrow> bool \<Rightarrow> dom \<Rightarrow> nat list" where
  "matched t pr (Text s) = []"
| "matched t pr (Element i tag cls ns) =
     (if pr \<and> tag = t then [i] else []) @ concat (map (matched t (pr \<or> ''kb-prose'' \<in> set cls)) ns)"

definition below :: "string \<Rightarrow> bool \<Rightarrow> dom list \<Rightarrow> nat list" where
  "below t pr ns = concat (map (matched t pr) ns)"

fun query_prose :: "string \<Rightarrow> dom \<Rightarrow> nat list" where
  "query_prose t (Text s) = []"
| "query_prose t (Element i tag cls ns) = below t (''kb-prose'' \<in> set cls) ns"

text \<open>The classes of the parent element of \<open>k\<close>.\<close>

fun parent_classes :: "nat \<Rightarrow> dom \<Rightarrow> string list" where
  "parent_classes k (Text t) = []"
| "parent_classes k (Element i tag cls ns) =
     (if Some k \<in> set (map own_id ns) then cls else concat (map (parent_classes k) ns))"

text \<open>\<open>insertBefore(w, t); w.appendChild(t)\<close> with a new \<open>div\<close> of class \<open>kb-table\<close>.\<close>

definition table_frame :: "nat \<Rightarrow> dom \<Rightarrow> dom" where
  "table_frame w n = Element w ''div'' [''kb-table''] [n]"

fun wrap_at :: "nat \<Rightarrow> nat \<Rightarrow> dom \<Rightarrow> dom" where
  "wrap_at k w (Text t) = Text t"
| "wrap_at k w (Element i tag cls ns) = Element i tag cls
     (map (\<lambda>n. if own_id n = Some k then table_frame w n else wrap_at k w n) ns)"

text \<open>The loop over the tables; \<open>w\<close> is the identity of the next element that is created.\<close>

fun wrap_tables :: "nat list \<Rightarrow> nat \<Rightarrow> dom \<Rightarrow> nat \<times> dom" where
  "wrap_tables [] w d = (w, d)"
| "wrap_tables (k # ks) w d = (if ''kb-table'' \<in> set (parent_classes k d) then wrap_tables ks w d
     else wrap_tables ks (Suc w) (wrap_at k w d))"

text \<open>The loop over the code blocks: a button at the end of each.\<close>

definition copy_node :: "nat \<Rightarrow> dom" where
  "copy_node b = Element b ''button'' [''kb-copy''] [Text ''Copy'']"

fun append_at :: "nat \<Rightarrow> dom \<Rightarrow> dom \<Rightarrow> dom" where
  "append_at k n (Text t) = Text t"
| "append_at k n (Element i tag cls ns) = Element i tag cls
     (map (append_at k n) ns @ (if i = k then [n] else []))"

fun add_buttons :: "nat list \<Rightarrow> nat \<Rightarrow> dom \<Rightarrow> nat \<times> dom" where
  "add_buttons [] b d = (b, d)"
| "add_buttons (k # ks) b d = add_buttons ks (Suc b) (append_at k (copy_node b) d)"

definition enhance :: "nat \<Rightarrow> dom \<Rightarrow> dom" where
  "enhance w d = (case wrap_tables (query_prose ''table'' d) w d of
     (b, e) \<Rightarrow> snd (add_buttons (query_prose ''pre'' e) b e))"

text \<open>What a copy button copies: the first \<open>code\<close> of its block, else the block with the button in it.\<close>

fun elements_of :: "string \<Rightarrow> dom \<Rightarrow> dom list" where
  "elements_of t (Text s) = []"
| "elements_of t (Element i tag cls ns) = (if tag = t then [Element i tag cls ns] else []) @ concat (map (elements_of t) ns)"

fun inside_of :: "string \<Rightarrow> dom \<Rightarrow> dom list" where
  "inside_of t (Text s) = []"
| "inside_of t (Element i tag cls ns) = concat (map (elements_of t) ns)"

definition first_inside :: "string \<Rightarrow> dom \<Rightarrow> dom option" where
  "first_inside t d = (case inside_of t d of [] \<Rightarrow> None | e # _ \<Rightarrow> Some e)"

definition copied_text :: "(dom \<Rightarrow> string) \<Rightarrow> dom \<Rightarrow> string" where
  "copied_text inner pre = (case first_inside ''code'' pre of Some c \<Rightarrow> inner c | None \<Rightarrow> inner pre)"

lemma framed_example:
  "enhance 9 (Element 0 ''main'' [] [Element 1 ''div'' [''kb-prose'']
      [Element 2 ''table'' [] [], Element 3 ''div'' [''kb-table''] [Element 4 ''table'' [] []],
       Element 5 ''pre'' [] [Element 6 ''code'' [] [Text ''ls'']]], Element 7 ''table'' [] []])
   = Element 0 ''main'' [] [Element 1 ''div'' [''kb-prose'']
      [Element 9 ''div'' [''kb-table''] [Element 2 ''table'' [] []], Element 3 ''div'' [''kb-table''] [Element 4 ''table'' [] []],
       Element 5 ''pre'' [] [Element 6 ''code'' [] [Text ''ls''], Element 10 ''button'' [''kb-copy''] [Text ''Copy'']]], Element 7 ''table'' [] []]"
  by code_simp

subsection \<open>Framing a set of tables at once\<close>

fun framed :: "nat set \<Rightarrow> (nat \<Rightarrow> nat) \<Rightarrow> dom \<Rightarrow> dom" where
  "framed K g (Text t) = Text t"
| "framed K g (Element i tag cls ns) = Element i tag cls
     (map (\<lambda>n. case own_id n of Some k \<Rightarrow> if k \<in> K then table_frame (g k) (framed K g n) else framed K g n | None \<Rightarrow> n) ns)"

definition cover :: "nat set \<Rightarrow> (nat \<Rightarrow> nat) \<Rightarrow> dom \<Rightarrow> dom" where
  "cover K g n = (case own_id n of Some k \<Rightarrow> if k \<in> K then table_frame (g k) (framed K g n) else framed K g n | None \<Rightarrow> n)"

lemma framed_Element [simp]: "framed K g (Element i tag cls ns) = Element i tag cls (map (cover K g) ns)"
  by (simp add: cover_def cong: map_cong)

declare framed.simps(2) [simp del]

lemma own_framed [simp]: "own_id (framed K g n) = own_id n"
  by (cases n) simp_all

lemma own_wrap [simp]: "own_id (wrap_at k w n) = own_id n"
  by (cases n) simp_all

lemma framed_none: "framed {} g d = d"
  by (induction d) (auto simp: framed_Element cover_def intro!: map_idI split: option.split)

lemma cover_Text [simp]: "cover K g (Text t) = Text t"
  by (simp add: cover_def)

lemma cover_Element: "cover K g (Element i tag cls ns)
    = (if i \<in> K then table_frame (g i) (framed K g (Element i tag cls ns)) else framed K g (Element i tag cls ns))"
  by (simp add: cover_def)

lemma frame_sel [simp]: "own_id (table_frame w n) = Some w" "ids (table_frame w n) = w # ids n"
  "text_content (table_frame w n) = text_content n" "wrap_at k v (table_frame w n) = table_frame w (if own_id n = Some k then table_frame v n else wrap_at k v n)"
  by (simp_all add: table_frame_def)

lemma framed_cong:
  assumes "\<And>j. Some j \<noteq> own_id d \<Longrightarrow> j \<in> set (ids d) \<Longrightarrow> (j \<in> K) = (j \<in> L) \<and> g j = h j" "distinct (ids d)"
  shows "framed K g d = framed L h d"
  using assms
proof (induction d)
  case (Element i tag cls ns)
  have "cover K g n = cover L h n" if n: "n \<in> set ns" for n
  proof (cases n)
    case (Element j t c ms)
    have d: "distinct (ids n)" "i \<notin> set (ids n)" "set (ids n) \<subseteq> set (ids (Element i tag cls ns))"
      using Element.prems(2) n by (auto simp: distinct_concat_iff)
    have agree: "(k \<in> K) = (k \<in> L) \<and> g k = h k" if "k \<in> set (ids n)" for k
      using Element.prems(1) [of k] d that by auto
    have "framed K g n = framed L h n"
      by (rule Element.IH [OF n _ d(1)]) (rule agree)
    with agree [of j] show ?thesis by (simp add: cover_def Element del: framed_Element)
  qed simp
  then show ?case by (simp add: framed_Element)
qed simp

lemma ids_sub: "n \<in> set ns \<Longrightarrow> set (ids n) \<subseteq> set (ids (Element i tag cls ns))"
  by auto

lemma distinct_sub: "distinct (ids (Element i tag cls ns)) \<Longrightarrow> n \<in> set ns \<Longrightarrow> distinct (ids n) \<and> i \<notin> set (ids n)"
  by (auto simp: distinct_concat_iff)

text \<open>Framing one more table.\<close>

lemma wrap_framed:
  assumes "k \<notin> K" "k \<notin> g ` K" "distinct (ids d)" "h k = w" "\<And>j. j \<noteq> k \<Longrightarrow> h j = g j"
  shows "wrap_at k w (framed K g d) = framed (insert k K) h d"
  using assms(3)
proof (induction d)
  case (Element i tag cls ns)
  have "(if own_id (cover K g n) = Some k then table_frame w (cover K g n) else wrap_at k w (cover K g n))
      = cover (insert k K) h n" if n: "n \<in> set ns" for n
  proof (cases n)
    case (Element j t c ms)
    have d: "distinct (ids n)" using distinct_sub [OF Element.prems n] by simp
    note IH = Element.IH [OF n d]
    have other: "framed (insert k K) h n = framed K g n" if "j = k"
      by (rule framed_cong [OF _ d]) (use that Element assms(5) in auto)
    show ?thesis
      using IH other assms(1,2,4,5) by (auto simp: cover_def Element simp del: framed_Element)
  qed simp
  then show ?case by simp
qed simp

lemma parent_framed:
  assumes "k \<notin> K" "k \<notin> g ` K"
  shows "parent_classes k (framed K g d) = parent_classes k d"
proof (induction d)
  case (Element i tag cls ns)
  have own: "own_id (cover K g n) = Some k \<longleftrightarrow> own_id n = Some k" for n
    using assms by (cases n) (auto simp: cover_Element)
  have sub: "parent_classes k (cover K g n) = parent_classes k n" if n: "n \<in> set ns" for n
    using Element.IH [OF n] assms by (cases n) (auto simp: cover_Element table_frame_def)
  have "Some k \<in> set (map own_id (map (cover K g) ns)) \<longleftrightarrow> Some k \<in> set (map own_id ns)"
    using own by (auto simp: image_iff) metis+
  with sub show ?case by (simp add: framed_Element cong: map_cong)
qed simp

lemma parent_covered:
  assumes "k \<in> K" "k \<notin> g ` K" "own_id d \<noteq> Some k" "k \<in> set (ids d)"
  shows "''kb-table'' \<in> set (parent_classes k (framed K g d))"
  using assms(3,4)
proof (induction d)
  case (Element i tag cls ns)
  then obtain n where n: "n \<in> set ns" "k \<in> set (ids n)" by auto
  have own: "own_id (cover K g m) \<noteq> Some k" for m
    using assms(1,2) by (cases m) (auto simp: cover_Element)
  have "''kb-table'' \<in> set (parent_classes k (cover K g n))"
  proof (cases "own_id n = Some k")
    case True
    then have "cover K g n = table_frame (g k) (framed K g n)" using assms(1) by (simp add: cover_def)
    with True show ?thesis by (simp add: table_frame_def)
  next
    case False
    with Element.IH [OF n(1)] n(2) have "''kb-table'' \<in> set (parent_classes k (framed K g n))" by simp
    then show ?thesis
      using False by (cases n) (auto simp: cover_Element table_frame_def)
  qed
  moreover have "Some k \<notin> set (map own_id (map (cover K g) ns))"
    using own by (auto simp: image_iff) metis
  ultimately show ?case using n(1) by (auto simp: framed_Element)
qed simp

lemma text_framed: "text_content (framed K g d) = text_content d"
proof (induction d)
  case (Element i tag cls ns)
  then have "text_content (cover K g n) = text_content n" if "n \<in> set ns" for n
    using that by (auto simp: cover_def split: option.split)
  then show ?case by (simp add: comp_def cong: map_cong)
qed simp

lemma matched_framed: "t \<noteq> ''div'' \<Longrightarrow> matched t pr (framed K g d) = matched t pr d"
proof (induction d arbitrary: pr)
  case (Element i tag cls ns)
  then have "matched t q (cover K g n) = matched t q n" if "n \<in> set ns" for n q
    using that by (auto simp: cover_def table_frame_def split: option.split)
  then show ?case by (simp add: comp_def cong: map_cong)
qed simp

lemma query_framed: "t \<noteq> ''div'' \<Longrightarrow> query_prose t (framed K g d) = query_prose t d"
proof (cases d)
  case (Element i tag cls ns)
  assume t: "t \<noteq> ''div''"
  have "matched t q (cover K g n) = matched t q n" for n q
    using matched_framed [OF t] t by (auto simp: cover_def table_frame_def split: option.split)
  then show ?thesis by (simp add: framed_Element Element below_def comp_def)
qed simp

subsection \<open>The loops\<close>

definition fresh_ids :: "nat \<Rightarrow> nat set \<Rightarrow> (nat \<Rightarrow> nat) \<Rightarrow> nat \<Rightarrow> bool" where
  "fresh_ids lo K g w \<longleftrightarrow> lo \<le> w \<and> (\<forall>j \<in> K. lo \<le> g j \<and> g j < w) \<and> inj_on g K"

lemma fresh_none: "fresh_ids lo {} g lo"
  by (simp add: fresh_ids_def)

lemma fresh_more: "fresh_ids lo K g w \<Longrightarrow> k \<notin> K \<Longrightarrow> fresh_ids lo (insert k K) (g(k := w)) (Suc w)"
  by (auto simp: fresh_ids_def inj_on_def less_Suc_eq)

lemma fresh_apart: "fresh_ids lo K g w \<Longrightarrow> k < lo \<Longrightarrow> k \<notin> g ` K"
  by (auto simp: fresh_ids_def)

definition bare :: "nat list \<Rightarrow> dom \<Rightarrow> nat set" where
  "bare ks d = {k \<in> set ks. ''kb-table'' \<notin> set (parent_classes k d)}"

lemma wrap_tables_framed:
  assumes "distinct ks" "set ks \<inter> K = {}" "fresh_ids lo K g w" "distinct (ids d)" "\<forall>k \<in> set ks. k < lo"
  shows "\<exists>h v. wrap_tables ks w (framed K g d) = (v, framed (K \<union> bare ks d) h d) \<and> fresh_ids lo (K \<union> bare ks d) h v"
  using assms(1-3,5)
proof (induction ks arbitrary: K g w)
  case Nil
  then show ?case by (auto simp: bare_def)
next
  case (Cons k ks)
  have k: "k \<notin> K" "k \<notin> g ` K" "k \<notin> set ks" using Cons.prems fresh_apart [OF Cons.prems(3), of k] by auto
  show ?case
  proof (cases "''kb-table'' \<in> set (parent_classes k d)")
    case True
    then have "bare (k # ks) d = bare ks d" by (auto simp: bare_def)
    with Cons True parent_framed [OF k(1,2)] show ?thesis by auto
  next
    case False
    then have b: "K \<union> bare (k # ks) d = insert k K \<union> bare ks d" by (auto simp: bare_def)
    have "wrap_at k w (framed K g d) = framed (insert k K) (g(k := w)) d"
      by (rule wrap_framed [OF k(1,2) assms(4)]) simp_all
    moreover have "\<exists>h v. wrap_tables ks (Suc w) (framed (insert k K) (g(k := w)) d)
        = (v, framed (insert k K \<union> bare ks d) h d) \<and> fresh_ids lo (insert k K \<union> bare ks d) h v"
      using Cons.prems k by (intro Cons.IH fresh_more) auto
    ultimately show ?thesis
      unfolding b using False parent_framed [OF k(1,2), of d] by simp
  qed
qed

text \<open>The buttons of a set of code blocks.\<close>

fun buttoned :: "nat set \<Rightarrow> (nat \<Rightarrow> nat) \<Rightarrow> dom \<Rightarrow> dom" where
  "buttoned B h (Text t) = Text t"
| "buttoned B h (Element i tag cls ns) = Element i tag cls
     (map (buttoned B h) ns @ (if i \<in> B then [copy_node (h i)] else []))"

lemma append_other: "i \<notin> set (ids n) \<Longrightarrow> append_at i m n = n"
  by (induction n) (auto intro!: map_idI)

lemma append_buttoned:
  assumes "k \<notin> B" "k \<notin> h ` B" "f k = b" "\<And>j. j \<noteq> k \<Longrightarrow> f j = h j"
  shows "append_at k (copy_node b) (buttoned B h d) = buttoned (insert k B) f d"
proof (induction d)
  case (Element i tag cls ns)
  have "append_at k (copy_node b) (copy_node (h i)) = copy_node (h i)" if "i \<in> B"
    by (rule append_other) (use assms(2) that in \<open>auto simp: copy_node_def\<close>)
  with Element assms show ?case by auto
qed simp

lemma buttoned_none: "buttoned {} h d = d"
  by (induction d) (auto intro!: map_idI)

lemma add_buttons_buttoned:
  assumes "distinct ks" "set ks \<inter> B = {}" "fresh_ids lo B h b" "\<forall>k \<in> set ks. k < lo"
  shows "\<exists>f v. add_buttons ks b (buttoned B h d) = (v, buttoned (B \<union> set ks) f d) \<and> fresh_ids lo (B \<union> set ks) f v"
  using assms
proof (induction ks arbitrary: B h b)
  case Nil
  then show ?case by auto
next
  case (Cons k ks)
  have k: "k \<notin> B" "k \<notin> h ` B" using Cons.prems fresh_apart [OF Cons.prems(3), of k] by auto
  have "append_at k (copy_node b) (buttoned B h d) = buttoned (insert k B) (h(k := b)) d"
    by (rule append_buttoned [OF k]) simp_all
  moreover have "\<exists>f v. add_buttons ks (Suc b) (buttoned (insert k B) (h(k := b)) d)
      = (v, buttoned (insert k B \<union> set ks) f d) \<and> fresh_ids lo (insert k B \<union> set ks) f v"
    using Cons.prems k by (intro Cons.IH fresh_more) auto
  ultimately show ?case by simp
qed

subsection \<open>What the page looks like afterwards\<close>

lemma matched_ids: "set (matched t pr d) \<subseteq> set (ids d)"
  by (induction d arbitrary: pr) auto

lemma distinct_concat_map:
  assumes "distinct (concat (map f xs))" "\<And>x. x \<in> set xs \<Longrightarrow> set (g x) \<subseteq> set (f x) \<and> distinct (g x)"
  shows "distinct (concat (map g xs))"
  using assms
proof (induction xs)
  case (Cons x xs)
  then show ?case by (auto simp: disjoint_iff) blast
qed simp

lemma matched_distinct: "distinct (ids d) \<Longrightarrow> distinct (matched t pr d)"
proof (induction d arbitrary: pr)
  case (Element i tag cls ns)
  have "distinct (concat (map (matched t q) ns))" for q
    by (rule distinct_concat_map [where f = ids])
      (use Element matched_ids in \<open>auto simp: distinct_concat_iff\<close>)
  moreover have "i \<notin> set (concat (map (matched t q) ns))" for q
    using Element.prems matched_ids [of t q] by auto
  ultimately show ?case by auto
qed simp

lemma query_below: "query_prose t (Element i tag cls ns) = concat (map (matched t (''kb-prose'' \<in> set cls)) ns)"
  by (simp add: below_def)

lemma query_distinct: "distinct (ids d) \<Longrightarrow> distinct (query_prose t d)"
  using matched_distinct [of d t False] matched_distinct [of d t True]
  by (cases d) (auto simp: below_def split: if_splits)

lemma query_ids: "set (query_prose t d) \<subseteq> set (ids d)"
  using matched_ids by (cases d) (fastforce simp: below_def)+

text \<open>
  \<open>enhance\<close> frames exactly the tables of the prose that have no frame, and gives every code block of
  the prose exactly one button; every new element has an identity of its own.
\<close>

lemma enhance_spec:
  assumes "distinct (ids d)" "\<forall>i \<in> set (ids d). i < w"
  obtains g h v u where
    "wrap_tables (query_prose ''table'' d) w d = (v, framed (bare (query_prose ''table'' d) d) g d)"
    "enhance w d = buttoned (set (query_prose ''pre'' d)) h (framed (bare (query_prose ''table'' d) d) g d)"
    "fresh_ids w (bare (query_prose ''table'' d) d) g v" "fresh_ids v (set (query_prose ''pre'' d)) h u"
proof -
  have low: "\<forall>k \<in> set (query_prose t d). k < w" for t
    using assms(2) query_ids [of t d] by blast
  from wrap_tables_framed [OF query_distinct [OF assms(1)] _ fresh_none assms(1) low, of "''table''" id]
  obtain g v where g: "wrap_tables (query_prose ''table'' d) w d = (v, framed (bare (query_prose ''table'' d) d) g d)"
      "fresh_ids w (bare (query_prose ''table'' d) d) g v"
    by (auto simp: framed_none)
  then have "\<forall>k \<in> set (query_prose ''pre'' d). k < v"
    using low by (auto simp: fresh_ids_def intro: less_le_trans)
  from add_buttons_buttoned [OF query_distinct [OF assms(1)] _ fresh_none this, of id "framed (bare (query_prose ''table'' d) d) g d"]
  obtain h u where h: "add_buttons (query_prose ''pre'' d) v (framed (bare (query_prose ''table'' d) d) g d)
      = (u, buttoned (set (query_prose ''pre'' d)) h (framed (bare (query_prose ''table'' d) d) g d))"
      "fresh_ids v (set (query_prose ''pre'' d)) h u"
    by (auto simp: buttoned_none)
  have "enhance w d = buttoned (set (query_prose ''pre'' d)) h (framed (bare (query_prose ''table'' d) d) g d)"
    using g(1) h(1) by (simp add: enhance_def query_framed)
  from that [OF g(1) this g(2) h(2)] show thesis .
qed

lemma matched_buttoned: "t \<noteq> ''button'' \<Longrightarrow> matched t pr (buttoned B h d) = matched t pr d"
proof (induction d arbitrary: pr)
  case (Element i tag cls ns)
  then show ?case by (simp add: copy_node_def comp_def cong: map_cong)
qed simp

lemma query_buttoned: "t \<noteq> ''button'' \<Longrightarrow> query_prose t (buttoned B h d) = query_prose t d"
  by (cases d) (simp_all add: below_def comp_def matched_buttoned copy_node_def)

lemma own_buttoned [simp]: "own_id (buttoned B h d) = own_id d"
  by (cases d) simp_all

lemma parent_buttoned: "k \<notin> h ` B \<Longrightarrow> parent_classes k (buttoned B h d) = parent_classes k d"
proof (induction d)
  case (Element i tag cls ns)
  have "parent_classes k (copy_node b) = []" for b by (simp add: copy_node_def)
  with Element show ?case by (auto simp: comp_def copy_node_def image_image cong: map_cong)
qed simp

lemma fresh_low: "fresh_ids lo K g w \<Longrightarrow> k < lo \<Longrightarrow> k \<notin> g ` K"
  by (auto simp: fresh_ids_def)

lemma query_not_root: "distinct (ids d) \<Longrightarrow> k \<in> set (query_prose t d) \<Longrightarrow> own_id d \<noteq> Some k"
  using matched_ids by (cases d) (fastforce simp: below_def)+

text \<open>Every table of the prose has a frame, and enhancing again would frame none.\<close>

lemma tables_framed:
  assumes "distinct (ids d)" "\<forall>i \<in> set (ids d). i < w" "k \<in> set (query_prose ''table'' d)"
  shows "''kb-table'' \<in> set (parent_classes k (enhance w d))"
proof -
  let ?T = "bare (query_prose ''table'' d) d"
  obtain g h v u where s: "enhance w d = buttoned (set (query_prose ''pre'' d)) h (framed ?T g d)"
      "fresh_ids w ?T g v" "fresh_ids v (set (query_prose ''pre'' d)) h u"
    using enhance_spec [OF assms(1,2)] by metis
  have k: "k \<in> set (ids d)" "k < w" "k < v"
    using assms(2,3) query_ids s(2) by (force simp: fresh_ids_def)+
  have "''kb-table'' \<in> set (parent_classes k (framed ?T g d))"
  proof (cases "k \<in> ?T")
    case True
    then show ?thesis
      using parent_covered [OF True fresh_low [OF s(2) k(2)] query_not_root [OF assms(1,3)] k(1)] by simp
  next
    case False
    with assms(3) parent_framed [OF False fresh_low [OF s(2) k(2)]] show ?thesis by (simp add: bare_def)
  qed
  then show ?thesis
    using parent_buttoned [OF fresh_low [OF s(3) k(3)]] by (simp add: s(1))
qed

lemma query_enhance:
  assumes "distinct (ids d)" "\<forall>i \<in> set (ids d). i < w" "t \<noteq> ''div''" "t \<noteq> ''button''"
  shows "query_prose t (enhance w d) = query_prose t d"
  using enhance_spec [OF assms(1,2)] query_framed [OF assms(3)] query_buttoned [OF assms(4)] by metis

lemma wrap_framed_tables: "\<forall>k \<in> set ks. ''kb-table'' \<in> set (parent_classes k d) \<Longrightarrow> wrap_tables ks w d = (w, d)"
  by (induction ks) simp_all

lemma enhanced_again:
  assumes "distinct (ids d)" "\<forall>i \<in> set (ids d). i < w"
  shows "wrap_tables (query_prose ''table'' (enhance w d)) v (enhance w d) = (v, enhance w d)"
  using tables_framed [OF assms] by (intro wrap_framed_tables) (simp add: query_enhance [OF assms])

subsection \<open>What a copy button copies\<close>

text \<open>The elements with an identity; one at most when identities differ.\<close>

fun having :: "nat \<Rightarrow> dom \<Rightarrow> dom list" where
  "having k (Text t) = []"
| "having k (Element i tag cls ns) = (if i = k then [Element i tag cls ns] else []) @ concat (map (having k) ns)"

lemma concat_cover: "(\<And>n. n \<in> set ns \<Longrightarrow> f (cover K g n) = map m (f n)) \<Longrightarrow> concat (map f (map (cover K g) ns)) = map m (concat (map f ns))"
  by (simp add: map_concat comp_def cong: map_cong)

lemma frame_lists [simp]:
  "having k (table_frame w n) = (if w = k then [table_frame w n] else []) @ having k n"
  "t \<noteq> ''div'' \<Longrightarrow> elements_of t (table_frame w n) = elements_of t n"
  by (simp_all add: table_frame_def)

lemma having_framed: "k \<notin> g ` K \<Longrightarrow> having k (framed K g d) = map (framed K g) (having k d)"
proof (induction d)
  case (Element i tag cls ns)
  have "having k (cover K g n) = map (framed K g) (having k n)" if "n \<in> set ns" for n
    using Element that by (cases "own_id n"; cases n) (auto simp: cover_def image_iff simp del: framed_Element having.simps(2) elements_of.simps(2))
  from concat_cover [of ns "having k", OF this] show ?case by simp
qed simp

lemma having_buttoned: "k \<notin> h ` B \<Longrightarrow> having k (buttoned B h d) = map (buttoned B h) (having k d)"
proof (induction d)
  case (Element i tag cls ns)
  have "concat (map (having k) (map (buttoned B h) ns)) = map (buttoned B h) (concat (map (having k) ns))"
    using Element by (simp add: map_concat comp_def cong: map_cong)
  with Element.prems show ?case by (auto simp: copy_node_def)
qed simp

lemma elements_framed: "t \<noteq> ''div'' \<Longrightarrow> elements_of t (framed K g d) = map (framed K g) (elements_of t d)"
proof (induction d)
  case (Element i tag cls ns)
  have "elements_of t (cover K g n) = map (framed K g) (elements_of t n)" if "n \<in> set ns" for n
    using Element that by (cases "own_id n"; cases n) (auto simp: cover_def image_iff simp del: framed_Element having.simps(2) elements_of.simps(2))
  from concat_cover [of ns "elements_of t", OF this] show ?case by simp
qed simp

lemma elements_buttoned: "t \<noteq> ''button'' \<Longrightarrow> elements_of t (buttoned B h d) = map (buttoned B h) (elements_of t d)"
proof (induction d)
  case (Element i tag cls ns)
  have "concat (map (elements_of t) (map (buttoned B h) ns)) = map (buttoned B h) (concat (map (elements_of t) ns))"
    using Element by (simp add: map_concat comp_def cong: map_cong)
  with Element.prems show ?case by (auto simp: copy_node_def)
qed simp


text \<open>The tags of the elements, by identity.\<close>

fun tags :: "dom \<Rightarrow> (nat \<times> string) list" where
  "tags (Text t) = []"
| "tags (Element i tag cls ns) = (i, tag) # concat (map tags ns)"

lemma tags_ids: "map fst (tags d) = ids d"
  by (induction d) (simp_all add: map_concat comp_def cong: map_cong)

lemma matched_tags: "k \<in> set (matched t pr d) \<Longrightarrow> (k, t) \<in> set (tags d)"
  by (induction d arbitrary: pr) (auto split: if_splits)

lemma query_tags: "k \<in> set (query_prose t d) \<Longrightarrow> (k, t) \<in> set (tags d)"
  using matched_tags by (cases d) (fastforce simp: below_def)+

lemma having_tags: "e \<in> set (having k d) \<Longrightarrow> set (tags e) \<subseteq> set (tags d)"
  by (induction d) auto

lemma having_own: "e \<in> set (having k d) \<Longrightarrow> own_id e = Some k"
  by (induction d) (auto split: if_splits)

lemma elements_tags: "e \<in> set (elements_of t d) \<Longrightarrow> set (tags e) \<subseteq> set (tags d)"
  by (induction d) auto

lemma first_inside_tags: "first_inside t d = Some e \<Longrightarrow> set (tags e) \<subseteq> set (tags d)"
proof (cases d)
  case (Element i tag cls ns)
  assume "first_inside t d = Some e"
  then obtain es where "concat (map (elements_of t) ns) = e # es"
    by (auto simp: first_inside_def Element split: list.splits)
  then have "e \<in> set (concat (map (elements_of t) ns))"
    by (metis list.set_intros(1))
  then show ?thesis using elements_tags [of e t] by (auto simp: Element)
qed (simp add: first_inside_def)

lemma tags_unique: "distinct (ids d) \<Longrightarrow> (k, s) \<in> set (tags d) \<Longrightarrow> (k, t) \<in> set (tags d) \<Longrightarrow> s = t"
  using eq_key_imp_eq_value [of "tags d" k s t] by (simp add: tags_ids)

lemma framed_inert: "K \<inter> set (ids d) = {} \<Longrightarrow> framed K g d = d"
proof (induction d)
  case (Element i tag cls ns)
  have "cover K g n = n" if n: "n \<in> set ns" for n
  proof -
    have k: "K \<inter> set (ids n) = {}" using Element.prems n by auto
    with Element.IH [OF n] show ?thesis by (cases n) (auto simp: cover_def simp del: framed_Element)
  qed
  then show ?case by (simp add: map_idI)
qed simp

lemma buttoned_inert: "B \<inter> set (ids d) = {} \<Longrightarrow> buttoned B h d = d"
  by (induction d) (auto simp: disjoint_iff intro!: map_idI)

lemma inside_framed: "t \<noteq> ''div'' \<Longrightarrow> inside_of t (framed K g d) = map (framed K g) (inside_of t d)"
proof (cases d)
  case (Element i tag cls ns)
  assume t: "t \<noteq> ''div''"
  have "elements_of t (cover K g n) = map (framed K g) (elements_of t n)" for n
    using elements_framed [OF t] t by (cases "own_id n"; cases n) (auto simp: cover_def simp del: framed_Element elements_of.simps(2))
  with concat_cover [of ns "elements_of t"] show ?thesis by (simp add: Element)
qed simp

lemma inside_buttoned: "t \<noteq> ''button'' \<Longrightarrow> inside_of t (buttoned B h d) = map (buttoned B h) (inside_of t d)"
  using elements_buttoned [of t B h] by (cases d) (simp_all add: map_concat comp_def copy_node_def)

lemma first_inside_map: "inside_of t e = map f (inside_of t d) \<Longrightarrow> first_inside t e = map_option f (first_inside t d)"
  by (simp add: first_inside_def split: list.split)

lemmas first_inside_framed = first_inside_map [OF inside_framed]
  and first_inside_buttoned = first_inside_map [OF inside_buttoned]

text \<open>
  The button of a block copies its code as the page had it: neither the frames nor the label of the
  button are in it.
\<close>

lemma code_is_copied:
  assumes "distinct (ids d)" "\<forall>i \<in> set (ids d). i < w" "k \<in> set (query_prose ''pre'' d)" "having k d = [pre]"
    "first_inside ''code'' pre = Some c" "\<forall>t \<in> snd ` set (tags c). t \<noteq> ''table'' \<and> t \<noteq> ''pre''"
  obtains pre' b i tag cls ns where "having k (enhance w d) = [pre']" "pre' = Element i tag cls (ns @ [copy_node b])" "w \<le> b"
    "copied_text inner pre' = inner c"
proof -
  let ?T = "bare (query_prose ''table'' d) d" and ?P = "set (query_prose ''pre'' d)"
  obtain g h v u where s: "enhance w d = buttoned ?P h (framed ?T g d)"
      "fresh_ids w ?T g v" "fresh_ids v ?P h u"
    using enhance_spec [OF assms(1,2)] by metis
  have k: "k < w" "k < v"
    using assms(2,3) query_ids s(2) by (force simp: fresh_ids_def)+
  have here: "having k (enhance w d) = [buttoned ?P h (framed ?T g pre)]"
    using having_framed [OF fresh_low [OF s(2) k(1)], of d] having_buttoned [OF fresh_low [OF s(3) k(2)], of "framed ?T g d"] assms(4)
    by (simp add: s(1))
  have tags: "set (tags c) \<subseteq> set (tags d)"
    using having_tags [of pre k d] first_inside_tags [OF assms(5)] assms(4) by auto
  have apart: "set (query_prose t d) \<inter> set (ids c) = {}" if "t = ''table'' \<or> t = ''pre''" for t
  proof -
    have False if q: "j \<in> set (query_prose t d)" and i: "j \<in> set (ids c)" for j
    proof -
      obtain t' where t': "(j, t') \<in> set (tags c)" using i by (auto simp flip: tags_ids)
      then have "t' = t" using tags_unique [OF assms(1)] query_tags [OF q] tags by blast
      with t' assms(6) \<open>t = ''table'' \<or> t = ''pre''\<close> show False by force
    qed
    then show ?thesis by blast
  qed
  have "?T \<inter> set (ids c) = {}" using apart [of "''table''"] by (auto simp: bare_def)
  then have "buttoned ?P h (framed ?T g c) = c"
    using apart [of "''pre''"] by (simp add: framed_inert buttoned_inert)
  then have "first_inside ''code'' (buttoned ?P h (framed ?T g pre)) = Some c"
    by (simp add: first_inside_framed first_inside_buttoned assms(5))
  then have copied: "copied_text inner (buttoned ?P h (framed ?T g pre)) = inner c"
    by (simp add: copied_text_def)
  obtain tag cls ns where "pre = Element k tag cls ns"
    using assms(4,5) having_own [of pre k d] by (cases pre) (auto simp: first_inside_def)
  then have "buttoned ?P h (framed ?T g pre) = Element k tag cls (map (buttoned ?P h) (map (cover ?T g) ns) @ [copy_node (h k)])"
    using assms(3) by simp
  moreover have "w \<le> h k" using s(2,3) assms(3) by (auto simp: fresh_ids_def)
  ultimately show thesis using that [OF here _ _ copied] by blast
qed

subsection \<open>A copy button\<close>

text \<open>
  The button of one block: \<open>written\<close> is the clipboard, \<open>writing\<close> the writes the browser has not answered
  yet, \<open>resets\<close> the timers of 1400 ms that put the label back, \<open>chosen\<close> whether the block is selected.
\<close>

record copier =
  label :: string
  writing :: "string list"
  resets :: nat
  written :: "string option"
  chosen :: bool

definition fresh_copier :: copier where
  "fresh_copier = \<lparr>label = ''Copy'', writing = [], resets = 0, written = None, chosen = False\<rparr>"

datatype copy_event =
    Copy_Clicked bool
  | Write_Done nat
  | Write_Refused nat
  | Reset_Due

text \<open>\<open>can\<close> says whether the browser has \<open>navigator.clipboard.writeText\<close>; \<open>t\<close> is the text of the block.\<close>

definition copy_clicked :: "bool \<Rightarrow> string \<Rightarrow> copier \<Rightarrow> copier" where
  "copy_clicked can t c = (if can then c\<lparr>writing := writing c @ [t]\<rparr> else c\<lparr>chosen := True\<rparr>)"

definition copy_done :: "copier \<Rightarrow> copier" where
  "copy_done c = c\<lparr>label := ''Copied'', resets := Suc (resets c)\<rparr>"

definition reset_label :: "copier \<Rightarrow> copier" where
  "reset_label c = c\<lparr>label := ''Copy'', resets := resets c - 1\<rparr>"

definition settled :: "nat \<Rightarrow> copier \<Rightarrow> copier" where
  "settled i c = c\<lparr>writing := take i (writing c) @ drop (Suc i) (writing c)\<rparr>"

fun copy_handle :: "string \<Rightarrow> copy_event \<Rightarrow> copier \<Rightarrow> copier" where
  "copy_handle t (Copy_Clicked can) c = copy_clicked can t c"
| "copy_handle t (Write_Done i) c = copy_done (settled i (c\<lparr>written := Some (writing c ! i)\<rparr>))"
| "copy_handle t (Write_Refused i) c = (settled i c)\<lparr>chosen := True\<rparr>"
| "copy_handle t Reset_Due c = reset_label c"

fun copy_allowed :: "copy_event \<Rightarrow> copier \<Rightarrow> bool" where
  "copy_allowed (Copy_Clicked can) c = True"
| "copy_allowed (Write_Done i) c = (i < length (writing c))"
| "copy_allowed (Write_Refused i) c = (i < length (writing c))"
| "copy_allowed Reset_Due c = (0 < resets c)"

text \<open>
  The label says \<open>Copied\<close> only while a timer will put it back, and only the text of the block is ever
  written.
\<close>

definition copier_ok :: "string \<Rightarrow> copier \<Rightarrow> bool" where
  "copier_ok t c \<longleftrightarrow> (label c = ''Copy'' \<or> label c = ''Copied'' \<and> 0 < resets c \<and> written c = Some t)
     \<and> set (writing c) \<subseteq> {t} \<and> (written c = None \<or> written c = Some t)"

lemma settled_sub: "set (writing (settled i c)) \<subseteq> set (writing c)"
  using set_take_subset [of i "writing c"] set_drop_subset [of "Suc i" "writing c"] by (auto simp: settled_def)

lemma settled_sel [simp]: "label (settled i c) = label c" "resets (settled i c) = resets c"
  "written (settled i c) = written c" "chosen (settled i c) = chosen c"
  by (simp_all add: settled_def)

lemma copy_keeps:
  assumes "copier_ok t c" "copy_allowed e c"
  shows "copier_ok t (copy_handle t e c)"
proof (cases e)
  case (Write_Done i)
  then have "writing c ! i \<in> set (writing c)" using assms(2) by simp
  then have "writing c ! i = t" using assms(1) by (auto simp: copier_ok_def)
  then show ?thesis
    using Write_Done assms(1) settled_sub [of i "c\<lparr>written := Some t\<rparr>"] by (auto simp: copier_ok_def copy_done_def)
next
  case (Write_Refused i)
  then show ?thesis using assms(1) settled_sub [of i c] by (auto simp: copier_ok_def)
qed (use assms in \<open>auto simp: copier_ok_def copy_clicked_def reset_label_def\<close>)

interpretation copying: event_system "\<lambda>e. pure_act (copy_handle t e)" copy_allowed "copier_ok t" "\<lambda>c. c = fresh_copier" for t
  by unfold_locales (simp_all add: copy_keeps, simp add: copier_ok_def fresh_copier_def)

text \<open>When the timers have run the label is \<open>Copy\<close> again.\<close>

lemma resets_label: "copier_ok t c \<Longrightarrow> resets c = n \<Longrightarrow> label (run_all (\<lambda>e. pure_act (copy_handle t e)) (replicate n Reset_Due) c) = ''Copy''"
proof (induction n arbitrary: c)
  case (Suc n)
  then have "copier_ok t (reset_label c)" using copy_keeps [of t c Reset_Due] by simp
  with Suc show ?case by (simp add: reset_label_def)
qed (auto simp: copier_ok_def)

end
