(* ===== verification/Enhance_Properties.thy ===== *)
theory Enhance_Properties
  imports Kb_Enhance
begin

section \<open>Properties of enhanced pages\<close>

text \<open>
  What a reader of the knowledge base gets from \<open>enhance\<close>: code blocks that can be copied and tables that
  have a frame, with instances on a small page.
\<close>

definition copy_listener :: "(dom \<Rightarrow> string) \<Rightarrow> dom \<Rightarrow> copy_event \<Rightarrow> copier act" where
  "copy_listener inner block = (\<lambda>e. pure_act (copy_handle (copied_text inner block) e))"

lemma copier_run:
  assumes "all_allowed copy_allowed (copy_listener inner block) es fresh_copier"
  shows "copier_ok (copied_text inner block) (run_all (copy_listener inner block) es fresh_copier)"
  using copying.started_keeps [OF refl] assms by (simp add: copy_listener_def)

text \<open>C11: A copy button copies its code.  After \<open>enhance\<close> each code block of the prose ends with its own new button; whatever
  the clicks, answers of the clipboard and timers, it only ever writes the text of the code as the page had it, says
  \<open>Copied\<close> only once that has been written, and says \<open>Copy\<close> again when its timers have run.\<close>

theorem copy_button_copies_its_code:
  assumes "distinct (ids d)" "\<forall>i \<in> set (ids d). i < w" "k \<in> set (query_prose ''pre'' d)" "having k d = [pre]"
    "first_inside ''code'' pre = Some c" "\<forall>t \<in> snd ` set (tags c). t \<noteq> ''table'' \<and> t \<noteq> ''pre''"
    "having k (enhance w d) = [block]" "all_allowed copy_allowed (copy_listener inner block) es fresh_copier"
    "s = run_all (copy_listener inner block) es fresh_copier"
  shows "(\<exists>i tag cls ns b. block = Element i tag cls (ns @ [copy_node b]) \<and> w \<le> b)
    \<and> (written s = None \<or> written s = Some (inner c)) \<and> (label s = ''Copied'' \<longrightarrow> written s = Some (inner c))
    \<and> label (run_all (copy_listener inner block) (replicate (resets s) Reset_Due) s) = ''Copy''"
proof -
  have block: "\<exists>i tag cls ns b. block = Element i tag cls (ns @ [copy_node b]) \<and> w \<le> b" and copied: "copied_text inner block = inner c"
    using code_is_copied [OF assms(1-6), of inner] assms(7) by (metis list.inject)+
  have ok: "copier_ok (inner c) s"
    using copier_run [OF assms(8)] by (simp add: copied assms(9))
  from resets_label [OF this refl]
  have "label (run_all (copy_listener inner block) (replicate (resets s) Reset_Due) s) = ''Copy''"
    by (simp add: copy_listener_def copied)
  with ok block show ?thesis by (auto simp: copier_ok_def)
qed

definition some_document :: dom where
  "some_document = Element 0 ''main'' [''kb-main''] [Element 1 ''article'' [''kb-page''] [Element 2 ''div'' [''kb-prose'']
     [Element 3 ''table'' [] [Element 4 ''tr'' [] [Text ''EAB'']],
      Element 5 ''pre'' [] [Element 6 ''code'' [] [Text ''certbot renew'']]]]]"

theorem copy_button_copies_its_code_witness:
  "label (run_all (copy_listener text_content (Element 5 ''pre'' [] [Element 6 ''code'' [] [Text ''certbot renew''], copy_node 8]))
     [Reset_Due] (run_all (copy_listener text_content (Element 5 ''pre'' [] [Element 6 ''code'' [] [Text ''certbot renew''], copy_node 8]))
        [Copy_Clicked True, Write_Done 0] fresh_copier)) = ''Copy''"
proof -
  let ?code = "Element 6 ''code'' [] [Text ''certbot renew'']"
  have page: "distinct (ids some_document)" "\<forall>i \<in> set (ids some_document). i < 7" "5 \<in> set (query_prose ''pre'' some_document)"
    "having 5 some_document = [Element 5 ''pre'' [] [?code]]" "first_inside ''code'' (Element 5 ''pre'' [] [?code]) = Some ?code"
    "\<forall>t \<in> snd ` set (tags ?code). t \<noteq> ''table'' \<and> t \<noteq> ''pre''"
    "having 5 (enhance 7 some_document) = [Element 5 ''pre'' [] [?code, copy_node 8]]"
    by code_simp+
  have run: "all_allowed copy_allowed (copy_listener text_content (Element 5 ''pre'' [] [?code, copy_node 8])) [Copy_Clicked True, Write_Done 0] fresh_copier"
    by (simp add: copy_listener_def copy_clicked_def fresh_copier_def)
  have "resets (run_all (copy_listener text_content (Element 5 ''pre'' [] [?code, copy_node 8])) [Copy_Clicked True, Write_Done 0] fresh_copier) = 1"
    by (simp add: copy_listener_def copy_clicked_def copy_done_def fresh_copier_def)
  with copy_button_copies_its_code [OF page run refl] show ?thesis by simp
qed

text \<open>Every table of the prose gets exactly one frame: after \<open>enhance\<close> each is the child of a \<open>kb-table\<close>, the tables and
  code blocks are those of before in the same order, the frames add no text, and enhancing again would frame nothing.\<close>

lemma every_table_is_framed_once:
  assumes "distinct (ids d)" "\<forall>i \<in> set (ids d). i < w"
  shows "(\<forall>k \<in> set (query_prose ''table'' d). ''kb-table'' \<in> set (parent_classes k (enhance w d)))
    \<and> query_prose ''table'' (enhance w d) = query_prose ''table'' d \<and> query_prose ''pre'' (enhance w d) = query_prose ''pre'' d
    \<and> text_content (snd (wrap_tables (query_prose ''table'' d) w d)) = text_content d
    \<and> wrap_tables (query_prose ''table'' (enhance w d)) v (enhance w d) = (v, enhance w d)"
proof -
  have "text_content (snd (wrap_tables (query_prose ''table'' d) w d)) = text_content d"
    using enhance_spec [OF assms] text_framed by (metis snd_conv)
  then show ?thesis
    using tables_framed [OF assms] query_enhance [OF assms] enhanced_again [OF assms] by simp
qed

lemma every_table_is_framed_once_witness: "''kb-table'' \<in> set (parent_classes 3 (enhance 7 some_document))"
proof -
  have "distinct (ids some_document)" "\<forall>i \<in> set (ids some_document). i < 7" "3 \<in> set (query_prose ''table'' some_document)"
    by code_simp+
  with every_table_is_framed_once [of some_document 7] show ?thesis by blast
qed

end
