(* ===== verification/Kb_Scenes.thy ===== *)
theory Kb_Scenes
  imports Scene_Lifecycle Kb_Machine
begin

section \<open>The knowledge base with its walkthroughs\<close>

text \<open>
  \<open>kb-app.js\<close> and \<open>scenes-engine.js\<close> together: \<open>render\<close> disposes of the view of the page it leaves and mounts
  the walkthrough of the page it shows.  The shell (\<open>Kb_Machine\<close>) and the stages (\<open>Scene_Lifecycle\<close>) are
  composed as the two scripts are on one page.  A disposed stage stays in \<open>retired\<close>, where the browser
  still runs what it had requested.
\<close>

record machine =
  dev :: device
  reduced :: bool
  three :: bool
  gl :: "js_error option"
  defs :: registry

record site =
  shell :: kb
  stage_now :: "stage option"
  retired :: "stage list"
  site_look :: look

text \<open>\<open>CertadilloScenes.mount\<close>, with the view it makes.\<close>

definition mount_stage :: "machine \<Rightarrow> look \<Rightarrow> string \<Rightarrow> rat \<Rightarrow> stage option" where
  "mount_stage m l x now =
     (if \<not> three m then None
      else case defs m x of
        None \<Rightarrow> None
      | Some sc \<Rightarrow>
          (case gl m of
             Some e \<Rightarrow> None
           | None \<Rightarrow> (case open_stage (dev m) l (reduced m) sc now of (None, s) \<Rightarrow> Some s | (Some e, s) \<Rightarrow> None)))"

text \<open>The shell sees only whether mounting makes a view.\<close>

definition can_mount :: "machine \<Rightarrow> string \<Rightarrow> bool" where
  "can_mount m x \<longleftrightarrow> three m \<and> gl m = None \<and> defs m x \<noteq> None"

definition site_env :: "surroundings \<Rightarrow> machine \<Rightarrow> surroundings" where
  "site_env env m = env\<lparr>mounts := can_mount m\<rparr>"

lemma site_env_mounts [simp]: "mounts (site_env env m) = can_mount m"
  by (simp add: site_env_def)

text \<open>The lines of \<open>render\<close> about scenes: dispose of the view, mount the one of the page now shown.\<close>

definition page_scene :: "page list \<Rightarrow> kb \<Rightarrow> string option" where
  "page_scene pages k = (case current k of Some t \<Rightarrow> scene_of (props_of pages t) | None \<Rightarrow> None)"

definition show_stage :: "page list \<Rightarrow> machine \<Rightarrow> rat \<Rightarrow> kb \<Rightarrow> site \<Rightarrow> site" where
  "show_stage pages m now k s =
     s\<lparr>shell := k,
       retired := retired s @ (case stage_now s of Some st \<Rightarrow> [close_stage st] | None \<Rightarrow> []),
       stage_now := (case page_scene pages k of Some x \<Rightarrow> mount_stage m (site_look s) x now | None \<Rightarrow> None)\<rparr>"

definition open_site :: "page list \<Rightarrow> surroundings \<Rightarrow> machine \<Rightarrow> string option \<Rightarrow> bool \<Rightarrow> string \<Rightarrow> look \<Rightarrow> rat \<Rightarrow> site" where
  "open_site pages env m l bl h lk now =
     show_stage pages m now (route pages (site_env env m) (kb_blank l bl h))
       \<lparr>shell = kb_blank l bl h, stage_now = None, retired = [], site_look = lk\<rparr>"

subsection \<open>Events\<close>

datatype site_event =
    Shell rat kb_event
  | Scene stage_event
  | Page_Frame bool rat
  | Page_Resized look
  | Page_Theme source look

text \<open>Whether an event changes the hash, and so renders a page.\<close>

fun target_hash :: "kb_event \<Rightarrow> kb \<Rightarrow> string option" where
  "target_hash (Hash_Changed h) k = Some h"
| "target_hash Key_Enter k = (case result_links k of [] \<Rightarrow> None | l # _ \<Rightarrow> Some l)"
| "target_hash _ k = None"

definition routed :: "kb_event \<Rightarrow> kb \<Rightarrow> bool" where
  "routed e k = (case target_hash e k of Some h \<Rightarrow> h \<noteq> hash k | None \<Rightarrow> False)"

definition shell_event :: "page list \<Rightarrow> surroundings \<Rightarrow> machine \<Rightarrow> rat \<Rightarrow> kb_event \<Rightarrow> site \<Rightarrow> site" where
  "shell_event pages env m now e s =
     (let k = kb_handle pages (site_env env m) e (shell s)
      in if routed e (shell s) then show_stage pages m now k s else s\<lparr>shell := k\<rparr>)"

definition stages :: "site \<Rightarrow> stage list" where
  "stages s = (case stage_now s of Some st \<Rightarrow> [st] | None \<Rightarrow> []) @ retired s"

text \<open>An event of the browser reaches every stage; each has its own callbacks, and one that throws stops no other.\<close>

definition first_error :: "js_error option list \<Rightarrow> js_error option" where
  "first_error es = (case filter (\<lambda>e. e \<noteq> None) es of [] \<Rightarrow> None | e # _ \<Rightarrow> e)"

definition each_stage :: "stage act \<Rightarrow> site act" where
  "each_stage a s = (first_error (map (fst \<circ> a) (stages s)),
     s\<lparr>stage_now := map_option (snd \<circ> a) (stage_now s), retired := map (snd \<circ> a) (retired s)\<rparr>)"

definition this_stage :: "stage act \<Rightarrow> site act" where
  "this_stage a s = (case stage_now s of None \<Rightarrow> (None, s) | Some st \<Rightarrow> (fst (a st), s\<lparr>stage_now := Some (snd (a st))\<rparr>))"

fun site_handle :: "page list \<Rightarrow> surroundings \<Rightarrow> machine \<Rightarrow> site_event \<Rightarrow> site act" where
  "site_handle pages env m (Shell now e) s = (None, shell_event pages env m now e s)"
| "site_handle pages env m (Scene e) s = this_stage (stage_handle (dev m) (reduced m) e) s"
| "site_handle pages env m (Page_Frame hidden now) s = each_stage (stage_handle (dev m) (reduced m) (Next_Frame hidden now)) s"
| "site_handle pages env m (Page_Resized l) s = each_stage (stage_handle (dev m) (reduced m) (Resized l)) (s\<lparr>site_look := l\<rparr>)"
| "site_handle pages env m (Page_Theme x l) s = each_stage (stage_handle (dev m) (reduced m) (Theme_Changed x l)) (s\<lparr>site_look := l\<rparr>)"

text \<open>Only the container of the current stage is in the document, and it is told what is its own.\<close>

fun site_allowed :: "site_event \<Rightarrow> site \<Rightarrow> bool" where
  "site_allowed (Scene (Control e)) s = (case stage_now s of Some st \<Rightarrow> stage_allowed (Control e) st | None \<Rightarrow> False)"
| "site_allowed (Scene (Seen b)) s = True"
| "site_allowed (Scene e) s = False"
| "site_allowed (Page_Theme x l) s = (x = Theme_Query \<or> x = Theme_Attribute)"
| "site_allowed e s = True"

subsection \<open>The invariant of the page\<close>

definition current_ok :: "machine \<Rightarrow> kb \<Rightarrow> stage option \<Rightarrow> bool" where
  "current_ok m k o' \<longleftrightarrow> (case o' of
     None \<Rightarrow> scene_view k = None
   | Some st \<Rightarrow> \<exists>x sc. scene_view k = Some x \<and> defs m x = Some sc \<and> stage_ok (dev m) sc st \<and> living (dev m) st)"

definition retired_ok :: "machine \<Rightarrow> stage \<Rightarrow> bool" where
  "retired_ok m st \<longleftrightarrow> (\<exists>sc. stage_ok (dev m) sc st) \<and> closed st"

definition site_ok :: "page list \<Rightarrow> surroundings \<Rightarrow> machine \<Rightarrow> site \<Rightarrow> bool" where
  "site_ok pages env m s \<longleftrightarrow> kb_ok pages (site_env env m) (shell s) \<and> current_ok m (shell s) (stage_now s)
     \<and> list_all (retired_ok m) (retired s)"

definition sound :: "machine \<Rightarrow> page list \<Rightarrow> bool" where
  "sound m pages \<longleftrightarrow> pages \<noteq> [] \<and> (\<forall>x sc. defs m x = Some sc \<longrightarrow> wf_scene sc)"

lemma mount_stage_ok:
  assumes "\<forall>x sc. defs m x = Some sc \<longrightarrow> wf_scene sc"
  shows "case mount_stage m l x now of
     None \<Rightarrow> \<not> can_mount m x
   | Some st \<Rightarrow> can_mount m x \<and> (\<exists>sc. defs m x = Some sc \<and> stage_ok (dev m) sc st \<and> living (dev m) st)"
proof (cases "can_mount m x")
  case True
  then obtain sc where sc: "three m" "gl m = None" "defs m x = Some sc" by (auto simp: can_mount_def)
  then obtain st where "open_stage (dev m) l (reduced m) sc now = (None, st)" "stage_ok (dev m) sc st" "living (dev m) st"
    using open_stage_ok [of sc "dev m" l "reduced m" now] assms by (auto simp: stage_ok_def)
  with sc True show ?thesis by (simp add: mount_stage_def)
next
  case False
  then show ?thesis by (auto simp: mount_stage_def can_mount_def split: option.splits)
qed

lemma kb_ok_scene:
  assumes "kb_ok pages env k"
  shows "scene_view k = (case page_scene pages k of Some x \<Rightarrow> if mounts env x then Some x else None | None \<Rightarrow> None)"
  using assms by (auto simp: kb_ok_def showing_page_def wanted_view_def page_scene_def)

lemma show_stage_ok:
  assumes "sound m pages" "kb_ok pages (site_env env m) k" "current_ok m (shell s) (stage_now s)" "list_all (retired_ok m) (retired s)"
  shows "site_ok pages env m (show_stage pages m now k s)"
proof -
  have wf: "\<forall>x sc. defs m x = Some sc \<longrightarrow> wf_scene sc" using assms(1) by (simp add: sound_def)
  have "list_all (retired_ok m) (case stage_now s of Some st \<Rightarrow> [close_stage st] | None \<Rightarrow> [])"
    using assms(3) close_stage_ok by (auto simp: current_ok_def retired_ok_def split: option.splits)
  moreover have "current_ok m k (case page_scene pages k of Some x \<Rightarrow> mount_stage m (site_look s) x now | None \<Rightarrow> None)"
  proof (cases "page_scene pages k")
    case (Some x)
    then show ?thesis
      using mount_stage_ok [OF wf, where l = "site_look s" and x = x and now = now] kb_ok_scene [OF assms(2)]
      by (auto simp: current_ok_def split: option.splits)
  qed (use kb_ok_scene [OF assms(2)] in \<open>simp add: current_ok_def\<close>)
  ultimately show ?thesis
    using assms(2,4) by (simp add: site_ok_def show_stage_def)
qed

lemma unrouted_view:
  assumes "\<not> routed e k"
  shows "view_part (kb_handle pages env e k) = view_part k"
proof (cases e)
  case (Hash_Changed h)
  then show ?thesis using assms by (simp add: routed_def go_hash_def)
next
  case (Query_Typed q)
  then show ?thesis by (simp add: search_view) (simp add: view_part_def)
next
  case (Anchor_Clicked j a)
  then show ?thesis by (simp add: anchor_view)
next
  case Key_Enter
  then show ?thesis
    using assms by (auto simp: routed_def enter_def go_hash_def view_part_def split: list.splits)
qed (simp_all add: view_part_def)

lemma shell_event_ok:
  assumes "sound m pages" "site_ok pages env m s"
  shows "site_ok pages env m (shell_event pages env m now e s)"
proof (cases "routed e (shell s)")
  case True
  have "kb_ok pages (site_env env m) (kb_handle pages (site_env env m) e (shell s))"
    using kb_handle_ok assms by (simp add: sound_def site_ok_def)
  then show ?thesis
    using show_stage_ok [OF assms(1)] assms(2) True by (simp add: shell_event_def site_ok_def Let_def)
next
  case False
  have v: "view_part (kb_handle pages (site_env env m) e (shell s)) = view_part (shell s)"
    by (rule unrouted_view [OF False])
  then have "scene_view (kb_handle pages (site_env env m) e (shell s)) = scene_view (shell s)"
    by (simp add: view_part_def)
  then show ?thesis
    using assms(2) False kb_ok_same [OF v]
    by (simp add: shell_event_def site_ok_def current_ok_def split: option.splits)
qed

text \<open>Events of the browser keep both kinds of stages, and throw nothing.\<close>

lemma current_stage_ok:
  assumes "current_ok m k (Some st)" "stage_allowed e st" "e \<noteq> Dispose"
  shows "fst (stage_handle (dev m) (reduced m) e st) = None \<and> current_ok m k (Some (snd (stage_handle (dev m) (reduced m) e st)))"
proof -
  obtain x sc where "scene_view k = Some x" "defs m x = Some sc" and st: "stage_ok (dev m) sc st" "living (dev m) st"
    using assms(1) by (auto simp: current_ok_def)
  then show ?thesis
    using stage_handle_ok [OF st(1) assms(2), of "reduced m"] living_stays [OF st assms(3), of "reduced m"] by (auto simp: current_ok_def)
qed

lemma retired_stage_ok:
  assumes "retired_ok m st" "stage_allowed e st"
  shows "fst (stage_handle (dev m) (reduced m) e st) = None \<and> retired_ok m (snd (stage_handle (dev m) (reduced m) e st))"
proof -
  obtain sc where st: "stage_ok (dev m) sc st" "closed st" using assms(1) by (auto simp: retired_ok_def)
  then show ?thesis
    using stage_handle_ok [OF st(1) assms(2), of "reduced m"] closed_stays [OF st, of "reduced m" e] by (auto simp: retired_ok_def)
qed

lemma first_error_none: "list_all (\<lambda>e. e = None) es \<Longrightarrow> first_error es = None"
  by (induction es) (simp_all add: first_error_def)

lemma each_stage_ok:
  assumes "site_ok pages env m s" "\<And>st. stage_allowed e st" "e \<noteq> Dispose"
  shows "fst (each_stage (stage_handle (dev m) (reduced m) e) s) = None
    \<and> site_ok pages env m (snd (each_stage (stage_handle (dev m) (reduced m) e) s))"
proof -
  let ?a = "stage_handle (dev m) (reduced m) e"
  have r: "list_all (\<lambda>st. fst (?a st) = None \<and> retired_ok m (snd (?a st))) (retired s)"
    using assms(1) retired_stage_ok [OF _ assms(2)] by (auto simp: site_ok_def list_all_iff)
  have c: "case stage_now s of None \<Rightarrow> True | Some st \<Rightarrow> fst (?a st) = None \<and> current_ok m (shell s) (Some (snd (?a st)))"
    using assms(1) current_stage_ok [OF _ assms(2,3)] by (auto simp: site_ok_def split: option.splits)
  have "list_all (\<lambda>e. e = None) (map (fst \<circ> ?a) (stages s))"
    using r c by (auto simp: stages_def list_all_iff split: option.splits)
  moreover have "site_ok pages env m (snd (each_stage ?a s))"
    using assms(1) r c by (auto simp: site_ok_def each_stage_def list_all_iff split: option.splits)
  ultimately show ?thesis by (simp add: each_stage_def first_error_none)
qed

lemma look_ok: "site_ok pages env m (s\<lparr>site_look := l\<rparr>) = site_ok pages env m s"
  by (simp add: site_ok_def)

lemma this_stage_ok:
  assumes "site_ok pages env m s" "case stage_now s of Some st \<Rightarrow> stage_allowed e st | None \<Rightarrow> True" "e \<noteq> Dispose"
  shows "fst (this_stage (stage_handle (dev m) (reduced m) e) s) = None
    \<and> site_ok pages env m (snd (this_stage (stage_handle (dev m) (reduced m) e) s))"
proof (cases "stage_now s")
  case (Some st)
  then show ?thesis
    using current_stage_ok [of m "shell s" st e] assms by (simp add: this_stage_def site_ok_def)
qed (use assms(1) in \<open>simp add: this_stage_def\<close>)

lemma site_handle_ok:
  assumes "sound m pages" "site_ok pages env m s" "site_allowed e s"
  shows "fst (site_handle pages env m e s) = None \<and> site_ok pages env m (snd (site_handle pages env m e s))"
proof (cases e)
  case (Shell now x)
  then show ?thesis using shell_event_ok [OF assms(1,2)] by simp
next
  case (Scene x)
  then have "case stage_now s of Some st \<Rightarrow> stage_allowed x st | None \<Rightarrow> True" "x \<noteq> Dispose"
    using assms(3) by (cases x; simp split: option.splits)+
  with this_stage_ok [OF assms(2)] Scene show ?thesis by simp
next
  case (Page_Frame hidden now)
  then show ?thesis using each_stage_ok [OF assms(2), of "Next_Frame hidden now"] by simp
next
  case (Page_Resized l)
  then show ?thesis using each_stage_ok [of pages env m "s\<lparr>site_look := l\<rparr>" "Resized l"] assms(2) by (simp add: look_ok)
next
  case (Page_Theme x l)
  then show ?thesis
    using each_stage_ok [of pages env m "s\<lparr>site_look := l\<rparr>" "Theme_Changed x l"] assms(2,3) by (simp add: look_ok)
qed

lemma open_site_ok: "sound m pages \<Longrightarrow> site_ok pages env m (open_site pages env m l bl h lk now)"
proof -
  assume s: "sound m pages"
  have "kb_ok pages (site_env env m) (route pages (site_env env m) (kb_blank l bl h))"
    using shell.start_inv [of pages "route pages (site_env env m) (kb_blank l bl h)" "site_env env m"] s
    unfolding sound_def by blast
  then show ?thesis
    unfolding open_site_def by (rule show_stage_ok [OF s]) (simp_all add: current_ok_def kb_blank_def)
qed

interpretation site: event_system "site_handle pages env m" "\<lambda>e s. site_allowed e s \<and> sound m pages" "site_ok pages env m"
    "\<lambda>s. sound m pages \<and> (\<exists>l bl h lk now. s = open_site pages env m l bl h lk now)" for pages env m
  by unfold_locales (auto simp: open_site_ok site_handle_ok)

end
