(* ===== verification/Site_Properties.thy ===== *)
theory Site_Properties
  imports Tours Duo Kb_Scenes Kb_Properties
begin

section \<open>Walkthroughs and knowledge base together\<close>

text \<open>
  The properties of a walkthrough as a part of its page (\<open>Scene_Lifecycle\<close>) and of the knowledge base that
  mounts and disposes of them (\<open>Kb_Scenes\<close>).
\<close>

definition some_device :: device where
  "some_device = \<lparr>has_media = True, has_mutations = True, has_intersections = True\<rparr>"

definition some_look :: look where
  "some_look = \<lparr>theme_attr = None, prefers_dark = False, stage_width = 800\<rparr>"

text \<open>C9: A walkthrough takes and gives back what it uses.  While it lives it listens once to each source the browser
  has, asks for one frame at a time and keeps its canvas between 300 and 560 pixels high; disposed of, it
  listens to nothing and after two frames nothing of it runs.  The frame already requested at that time
  still draws with the disposed renderer, when the view is visible.\<close>

theorem disposed_walkthrough_goes_quiet:
  assumes "wf_scene sc" "open_stage d l rd sc now = (None, s)" "all_allowed stage_allowed (stage_handle d rd) es s" "Dispose \<notin> set es"
    "t = run_all (stage_handle d rd) es s"
    "u = snd (browser_frame rd h2 n2 (snd (browser_frame rd h1 n1 (close_stage t))))"
  shows "thrown (stage_handle d rd) es s = [] \<and> heard t = sources d \<and> requested t = [True]
    \<and> 300 \<le> canvas_height t \<and> canvas_height t \<le> 560
    \<and> heard u = [] \<and> requested u = [] \<and> late_renders u = (if visible (sv t) \<and> \<not> h1 then 1 else 0)"
proof -
  have s: "stage_ok d sc s" "living d s"
    using open_stage_ok [OF assms(1), of d l rd now] assms(2) by (auto simp: stage_ok_def)
  have start: "wf_scene sc \<and> (\<exists>l now. open_stage d l rd sc now = (None, s))" using assms(1,2) by blast
  have t: "stage_ok d sc t" "living d t"
    unfolding assms(5) by (rule stages.started_keeps [OF start assms(3)], rule living_run [OF s assms(3,4)])
  moreover have "thrown (stage_handle d rd) es s = []"
    by (rule stages.started_quiet [OF start assms(3)])
  ultimately show ?thesis
    using closed_runs_out [OF t, of _ rd h1 n1 u h2 n2] assms(6) by (auto simp: living_def stage_ok_def size_ok_def)
qed

theorem disposed_walkthrough_goes_quiet_witness:
  "\<exists>s. open_stage some_device some_look True duo 0 = (None, s)
    \<and> requested (snd (browser_frame True False 32 (snd (browser_frame True False 16 (close_stage (snd (stage_handle some_device True (Next_Frame False 8) s))))))) = []"
proof -
  obtain s where s: "open_stage some_device some_look True duo 0 = (None, s)"
    using open_stage_ok [OF duo_wf] by blast
  have "all_allowed stage_allowed (stage_handle some_device True) [Next_Frame False 8] s" "Dispose \<notin> set [Next_Frame False 8]"
    by simp_all
  from disposed_walkthrough_goes_quiet [OF duo_wf s this refl refl] s show ?thesis by auto
qed

text \<open>C8: The knowledge base has at most one walkthrough running, the one of its current page.  After any events, none
  of which throws, every walkthrough it mounted before listens to nothing and has no renderer; one is there
  exactly when the page names a scene that can be mounted, and it plays that scene.\<close>

theorem page_runs_one_walkthrough:
  assumes "sound m pages" "s = open_site pages env m l bl h lk now"
    "all_allowed site_allowed (site_handle pages env m) es s" "t = run_all (site_handle pages env m) es s"
  shows "thrown (site_handle pages env m) es s = []
    \<and> list_all (\<lambda>st. heard st = [] \<and> \<not> renderer_live st \<and> late_renders st \<le> 1) (retired t)
    \<and> (case stage_now t of
         None \<Rightarrow> \<forall>x. page_scene pages (shell t) = Some x \<longrightarrow> \<not> can_mount m x
       | Some st \<Rightarrow> \<exists>x. page_scene pages (shell t) = Some x \<and> defs m x = Some (v_def (sv st)) \<and> heard st = sources (dev m))"
proof -
  have a: "all_allowed (\<lambda>e s. site_allowed e s \<and> sound m pages) (site_handle pages env m) es s"
    using assms(1,3) by (simp add: all_allowed_conj)
  have start: "sound m pages \<and> (\<exists>l bl h lk now. s = open_site pages env m l bl h lk now)" using assms(1,2) by blast
  have t: "site_ok pages env m t"
    unfolding assms(4) by (rule site.started_keeps [OF start a])
  have scene: "scene_view (shell t) = (case page_scene pages (shell t) of Some x \<Rightarrow> if can_mount m x then Some x else None | None \<Rightarrow> None)"
    using kb_ok_scene [of pages "site_env env m" "shell t"] t unfolding site_ok_def site_env_mounts by blast
  have "list_all (\<lambda>st. heard st = [] \<and> \<not> renderer_live st \<and> late_renders st \<le> 1) (retired t)"
    using t by (auto simp: site_ok_def retired_ok_def closed_def list_all_iff)
  moreover have "case stage_now t of
       None \<Rightarrow> \<forall>x. page_scene pages (shell t) = Some x \<longrightarrow> \<not> can_mount m x
     | Some st \<Rightarrow> \<exists>x. page_scene pages (shell t) = Some x \<and> defs m x = Some (v_def (sv st)) \<and> heard st = sources (dev m)"
  proof (cases "stage_now t")
    case None
    then show ?thesis using t scene by (auto simp: site_ok_def current_ok_def split: option.splits if_splits)
  next
    case (Some st)
    then obtain x sc where x: "scene_view (shell t) = Some x" "defs m x = Some sc" "stage_ok (dev m) sc st" "living (dev m) st"
      using t by (auto simp: site_ok_def current_ok_def)
    have "v_def (sv st) = sc" using x(3) view_static [of sc "sv st"] by (simp add: stage_ok_def static_ok_def)
    moreover have "page_scene pages (shell t) = Some x" using scene x(1) by (auto split: option.splits if_splits)
    ultimately show ?thesis using Some x(2,4) by (simp add: living_def)
  qed
  ultimately show ?thesis
    using site.started_quiet [OF start a] by blast
qed

definition some_machine :: machine where
  "some_machine = \<lparr>dev = some_device, reduced = False, three = True, gl = None, defs = shipped_defs\<rparr>"

theorem page_runs_one_walkthrough_witness:
  "list_all (\<lambda>st. heard st = [])
     (retired (run_all (site_handle some_pages some_env some_machine)
        [Shell 0 (Hash_Changed ''#est''), Page_Frame False 16, Shell 20 (Hash_Changed ''#acme'')]
        (open_site some_pages some_env some_machine None False [] some_look 0)))"
proof -
  let ?es = "[Shell 0 (Hash_Changed ''#est''), Page_Frame False 16, Shell 20 (Hash_Changed ''#acme'')]"
  let ?s = "open_site some_pages some_env some_machine None False [] some_look 0"
  have "sound some_machine some_pages"
    using shipped_found shipped_wf by (auto simp: sound_def some_machine_def some_pages_def)
  moreover have "all_allowed site_allowed (site_handle some_pages some_env some_machine) ?es ?s" by simp
  ultimately show ?thesis
    using page_runs_one_walkthrough [OF _ refl _ refl] by (fastforce simp: list_all_iff)
qed

end
