(* ===== verification/Spec2Isabelle.thy ===== *)
theory Spec2Isabelle
  imports Walkthrough_Properties Tour_Properties Stage_Properties Console_Properties Kb_Properties Enhance_Properties Site_Properties
begin

text \<open>
  Verification of the web pages of Certadillo, a certificate lifecycle server.

  The program.  The server side is Python; its pages are three JavaScript programs, and they are what
  is modelled here, function by function:

  \<^item> the console, \<open>src/certadillo/web/static/console.js\<close>: the single page through which operators use the
    API (tabs, onboarding wizard, tables, forms, the editor of policy rules);
  \<^item> the knowledge base, \<open>kb-src/kb-app.js\<close>: navigation, hash routing, search and pages of documentation;
  \<^item> the walkthroughs inside these pages, \<open>kb-src/scenes-engine.js\<close> (the player \<open>SceneView\<close>) and
    \<open>kb-src/scenes-data.js\<close> (fifteen scenes).  The copies under \<open>web/static/kb\<close> are identical.

  The three meet in two places: the knowledge base mounts a walkthrough into a page and disposes of it
  on the next one, and all three escape text with the same table (\<open>Markup\<close>).  In \<open>Kb_App\<close> the parameter
  \<open>mounts\<close> stands for \<open>CertadilloScenes.mount\<close>; \<open>Kb_Scenes\<close> puts the model of the player in its place and has the
  pages and their walkthroughs as one machine (\<open>site\<close>).

  How code is modelled.  A page is a record of its state, one field for each variable and for each
  part of the document it reads or writes (\<open>view\<close>, \<open>stage\<close>, \<open>console\<close>, \<open>kb\<close>).  A function that changes state is a
  function on that record; one that may throw is an action \<open>'s act\<close>, which returns the new state and
  the exception, so that what was changed before the exception stays changed (\<open>Js_Prelude\<close>).  A pure
  expression that may throw yields \<open>js_error + 'a\<close>.  JSON values are \<open>jsval\<close> (\<open>Js_Values\<close>): objects are
  lists of properties in their order, numbers are rationals, \<open>Safe s\<close> is a \<open>SafeHtml\<close>.  Asynchronous
  code is cut at each \<open>await\<close>: a handler sends requests (appended to \<open>sent\<close>), and the answer, a value or an
  exception, is a later event, so that answers come in any order and at any time.  Each page is then
  one function \<open>handle\<close> on its events, run over a list of events by \<open>run_all\<close> (\<open>Event_Machine\<close>).

  Interfaces.  \<open>event_keeper\<close>, \<open>event_machine\<close> and \<open>event_system\<close> (\<open>Event_Machine\<close>) state what an invariant of
  such a machine is and give its preservation over runs; the player interprets them for soundness, a
  stuck view and autoplay, its life in a page for \<open>stage_ok\<close> (\<open>Scene_Lifecycle\<close>), the console for its three
  invariants (\<open>Console_Invariants\<close>), the knowledge base for \<open>kb_ok\<close> (\<open>Kb_Machine\<close>), for \<open>site_ok\<close> with its
  walkthroughs (\<open>Kb_Scenes\<close>) and for a copy button (\<open>Kb_Enhance\<close>).  \<open>page_contract\<close> (\<open>Console_Machine\<close>) is what a console invariant has to
  survive; inside it every handler is shown to save the invariant.  \<open>escaper\<close> (\<open>Markup\<close>) is the
  contract of the three escaping functions.

  Theories, in the order of their imports:

  \<^item> \<open>Js_Prelude\<close>, \<open>Js_Values\<close>, \<open>Js_Numbers\<close>, \<open>Event_Machine\<close>: the parts of JavaScript the sources use and the
    machines driven by events.
  \<^item> \<open>Scene_Types\<close>, \<open>Scene_Engine\<close>, \<open>Scene_Player\<close>: the data, operations, listeners and animation frame of
    the player.  \<open>Scene_Invariants\<close>, \<open>Scene_Safety\<close>, \<open>Scene_Frames\<close>, \<open>Navigation\<close>, \<open>Playback\<close>, \<open>Stage\<close>,
    \<open>Playback_Progress\<close>, \<open>Duo\<close>: its invariants, its abstract playback and the progress of a step;
    \<open>Walkthrough_Properties\<close>: its properties.
  \<^item> \<open>Scene_Lifecycle\<close>: what a view has outside its own fields: listeners, requested frames, renderer, theme,
    size, the markup of its frame; constructor, loop and \<open>dispose\<close>.
  \<^item> \<open>Three_Graph\<close>, \<open>Actor_Models\<close>, \<open>Scene_Set\<close>: what is drawn, as trees of objects: materials, labels, the
    models of the actors, the set, envelopes and the curve they fly on, rings, sparks, the mascot, the camera;
    \<open>Stage_Properties\<close>: what a reader sees of it.
  \<^item> \<open>Tour_*\<close>, \<open>Tours\<close>: the fifteen scenes and their registry; \<open>Tour_Properties\<close>: what holds of them.
  \<^item> \<open>Markup\<close>: escaping, \<open>part\<close>, \<open>html\<close>, \<open>render\<close>; \<open>Html_Context\<close>: a scanner of markup and the notion of clean
    markup; \<open>Console_Html\<close>, \<open>Console_Overview\<close>, \<open>Console_Estate\<close>, \<open>Console_Governance\<close>: every template of the
    console, in the order of the source, each with the lemma that it is clean for all data.
  \<^item> \<open>Policy_Rules\<close>: reading, drawing and typing the rules form; \<open>Policy_Tree\<close>: the tree of folders.
  \<^item> \<open>Console_Api\<close>: requests, answers, URL encoding; \<open>Console_Page\<close>: state, tabs, connecting;
    \<open>Console_Wizard\<close>, \<open>Console_Loaders\<close>, \<open>Console_Forms\<close>: the handlers; \<open>Console_Machine\<close>: all of them as one
    machine; \<open>Console_Invariants\<close>, \<open>Console_Properties\<close>: what it keeps and guarantees.
  \<^item> \<open>Kb_App\<close>, \<open>Kb_Search\<close>, \<open>Kb_Machine\<close>, \<open>Kb_Properties\<close>: the knowledge base; \<open>Kb_Enhance\<close>,
    \<open>Enhance_Properties\<close>: the frames of its tables and its copy buttons; \<open>Kb_Scenes\<close>, \<open>Site_Properties\<close>: the
    knowledge base with its walkthroughs.

  What is shown.  The console never holds markup that came from data, shows one tab and one step of the
  wizard, opens the credentials step only for an active application, reads a drawn form back as it was,
  saves an unchanged folder as it was, keeps the shape of its request paths and reports what the
  server said about a failure.  The knowledge base shows the current page and only its scene view,
  lists the visible pages, returns to the page last read, ranks its results, copies the code of a block
  and runs at most one walkthrough, which goes quiet when it is left.  A well-formed walkthrough never throws,
  its envelopes fly from sender to receiver, a step entered by any way is the same, and all shipped scenes are well
  formed.  The same models show defects: a message that directly follows another is lost and autoplay
  stops there (so no shipped walkthrough plays to its end), its envelope stays on the stage, a list
  of validation errors is reported as \<open>[object Object]\<close>, a hash such as \<open>#constructor\<close> shows a page of
  \<open>undefined\<close>, a search lists a page without one of its words if the other occurs very often, of two rows of
  the rules editor with one key the first is dropped silently, an answer that comes late is shown for a choice
  it was not asked for, and a view that has been disposed of draws once more.

  Bounds.  Recursion over the policy tree carries the depth of the call stack as fuel
  (\<open>js_stack\<close>, \<open>tree_node\<close>): \<open>tree_recursion_ends\<close> shows that the number of folders is enough when their
  identifiers differ.  Every other function ends by a measure or by structure.  Frames of the player
  take rational durations; \<open>flowing_step_comes_to_rest\<close> gives the number of frames that is enough.

  Not modelled.
  \<^item> Numbers are exact rationals without \<open>NaN\<close> and infinities (a failed conversion is a value of its
    own); strings are lists of bytes, U+2026 is the constant \<open>ellipsis\<close>, case mapping is that of Latin-1.
  \<^item> Lookups by a key of the data are own properties, except where the code's use of an ordinary object
    as a map matters (\<open>find_page\<close>).
  \<^item> The browser: \<open>fetch\<close>, \<open>JSON.parse\<close>, \<open>JSON.stringify\<close>, the stack depth, \<open>DOMParser\<close> and
    \<open>getElementById\<close> are parameters (\<open>browser\<close>, \<open>surroundings\<close>); the texts of its own errors are not fixed by
    the language and are given in the words of one engine.
  \<^item> What three.js computes from the objects it is given: pixels, shadows, textures.  Of its curves \<open>QuadraticBezierCurve3\<close> is modelled from
    the vendored source.  \<open>Math.sin\<close>, \<open>Math.cos\<close> and \<open>Math.sqrt\<close>, whose values the language leaves open, are the
    parameter \<open>maths\<close>, the width of a text on a canvas is \<open>metrics\<close>, reduced motion is \<open>rd\<close>.
  \<^item> Of the console: scrolling.  Of the knowledge base: smooth scrolling; \<open>innerText\<close> is the parameter \<open>inner\<close>.
  \<^item> \<open>kb-content.js\<close> (generated), \<open>three.min.js\<close> (third party) and the Python server.
\<close>

end
